(* ===== verification/Prelude.thy ===== *)
theory Prelude
  imports Complex_Main "HOL-Library.Sublist"
begin

text \<open>
  Shared vocabulary of the development.

  \<^item> The types of identifiers, instants and results.  An instant is an \<open>int\<close>, in microseconds
    since the epoch (the resolution of Python's \<open>datetime\<close>); a UUID is the \<open>nat\<close> value of its
    128 bits; a Python \<open>str\<close> is a \<open>string\<close> with one \<open>char\<close> for each code point, so the
    repertoire is Latin-1 and \<open>length\<close> is Python's \<open>len\<close>.
  \<^item> The Python string operations the sources use (\<open>lower\<close>, \<open>strip\<close>, \<open>startswith\<close>,
    \<open>split\<close> with a limit, \<open>secrets.compare_digest\<close>).
  \<^item> The plumbing of exceptions through operations on a store, and the generic list lemmas on
    tables whose rows do not clash, which every component uses.
\<close>

section \<open>Collections of rewrite rules\<close>

named_theorems err_simps \<open>definitions of the error constructors\<close>
named_theorems model_simps \<open>definitions of table-level operations\<close>
named_theorems store_ok \<open>preservation of the schema's constraints\<close>

section \<open>Identifiers, instants, exceptions\<close>

type_synonym uuid = nat
type_synonym datetime = int
type_synonym bytes = "nat list"

abbreviation seconds :: "int \<Rightarrow> datetime" where
  "seconds n \<equiv> n * 1000000"

abbreviation minutes :: "int \<Rightarrow> datetime" where
  "minutes n \<equiv> seconds (n * 60)"

abbreviation hours :: "int \<Rightarrow> datetime" where
  "hours n \<equiv> seconds (n * 3600)"

abbreviation days :: "int \<Rightarrow> datetime" where
  "days n \<equiv> seconds (n * 86400)"

text \<open>
  The exceptions other than \<open>RainmakerError\<close> that the modelled code can meet: those of Python
  itself, those of the SQL layer (\<open>IntegrityError\<close> for a violated constraint, \<open>DataError\<close> for a
  value that does not fit its column, \<open>MultipleResultsFound\<close> of \<open>scalar_one_or_none\<close>) and those
  of PyJWT.
\<close>

datatype pyexc =
    IntegrityError
  | DataError
  | MultipleResultsFound
  | TypeError
  | ValueError
  | KeyError
  | AttributeError
  | OverflowError
  | OSError
  | ExpiredSignatureError
  | InvalidTokenError
  | CryptoError

section \<open>Python strings\<close>

definition code_point :: "char \<Rightarrow> nat" where
  "code_point c = of_char c"

definition is_ascii :: "string \<Rightarrow> bool" where
  "is_ascii s \<longleftrightarrow> (\<forall>c \<in> set s. code_point c < 128)"

text \<open>\<open>str.lower\<close> on one Latin-1 code point.\<close>

definition lower_char :: "char \<Rightarrow> char" where
  "lower_char c = (let n = code_point c in
     if 65 \<le> n \<and> n \<le> 90 \<or> 192 \<le> n \<and> n \<le> 222 \<and> n \<noteq> 215 then char_of (n + 32) else c)"

definition py_lower :: "string \<Rightarrow> string" where
  "py_lower s = map lower_char s"

text \<open>\<open>str.isspace\<close> on one Latin-1 code point, and \<open>str.strip()\<close>.\<close>

definition is_space :: "char \<Rightarrow> bool" where
  "is_space c = (let n = code_point c in
     9 \<le> n \<and> n \<le> 13 \<or> 28 \<le> n \<and> n \<le> 32 \<or> n = 133 \<or> n = 160)"

definition py_strip :: "string \<Rightarrow> string" where
  "py_strip s = rev (dropWhile is_space (rev (dropWhile is_space s)))"

definition startswith :: "string \<Rightarrow> string \<Rightarrow> bool" where
  "startswith s p \<longleftrightarrow> prefix p s"

text \<open>\<open>s.split(sep, maxsplit)\<close> for a separator of one character.\<close>

primrec py_split :: "char \<Rightarrow> nat \<Rightarrow> string \<Rightarrow> string list" where
  "py_split c 0 s = [s]"
| "py_split c (Suc n) s =
     (case dropWhile (\<lambda>x. x \<noteq> c) s of
        [] \<Rightarrow> [s]
      | _ # rest \<Rightarrow> takeWhile (\<lambda>x. x \<noteq> c) s # py_split c n rest)"

text \<open>\<open>s.split(sep)\<close>: at most one split for each character.\<close>

definition py_split_all :: "char \<Rightarrow> string \<Rightarrow> string list" where
  "py_split_all c s = py_split c (length s) s"

lemma startswith_append [simp]: "startswith (p @ s) p"
  by (simp add: startswith_def)

lemma startswith_iff: "startswith s p \<longleftrightarrow> (\<exists>r. s = p @ r)"
  by (simp add: startswith_def prefix_def)

lemma takeWhile_sep [simp]: "c \<notin> set s \<Longrightarrow> takeWhile (\<lambda>x. x \<noteq> c) (s @ c # r) = s"
  by (induction s) auto

lemma dropWhile_sep [simp]: "c \<notin> set s \<Longrightarrow> dropWhile (\<lambda>x. x \<noteq> c) (s @ c # r) = c # r"
  by (induction s) auto

lemma py_split_here [simp]:
  "c \<notin> set s \<Longrightarrow> py_split c (Suc n) (s @ c # r) = s # py_split c n r"
  by simp

lemma py_split_none [simp]: "c \<notin> set s \<Longrightarrow> py_split c n s = [s]"
proof (cases n)
  case (Suc m)
  assume "c \<notin> set s"
  then have "dropWhile (\<lambda>x. x \<noteq> c) s = []" by auto
  then show ?thesis unfolding Suc py_split.simps by (simp only: list.case)
qed simp

declare py_split.simps(2) [simp del]

text \<open>More splits than characters make no difference.\<close>

lemma py_split_fuel: "length s \<le> n \<Longrightarrow> length s \<le> m \<Longrightarrow> py_split c n s = py_split c m s"
proof (induction n arbitrary: m s)
  case (Suc n)
  show ?case
  proof (cases "dropWhile (\<lambda>x. x \<noteq> c) s")
    case Nil
    then have "c \<notin> set s" by auto
    then show ?thesis by simp
  next
    case (Cons x rest)
    then have "length (x # rest) \<le> length s" by (metis length_dropWhile_le)
    with Suc.prems obtain k where "m = Suc k" "length rest \<le> n" "length rest \<le> k" by (cases m) auto
    with Suc.IH [of rest k] Cons show ?thesis by (simp add: py_split.simps)
  qed
qed simp

lemma py_split_all_here: "c \<notin> set s \<Longrightarrow> py_split_all c (s @ c # r) = s # py_split_all c r"
  using py_split_fuel [of r "length s + length r" "length r" c] by (simp add: py_split_all_def)

text \<open>Joining the parts with the separator gives the string back.\<close>

fun join_with :: "char \<Rightarrow> string list \<Rightarrow> string" where
  "join_with c [] = []"
| "join_with c [s] = s"
| "join_with c (s # t # ss) = s @ c # join_with c (t # ss)"

lemma py_split_nonempty [simp]: "py_split c n s \<noteq> []"
  by (cases n) (simp_all add: py_split.simps split: list.splits)

lemma join_py_split: "join_with c (py_split c n s) = s"
proof (induction n arbitrary: s)
  case (Suc n)
  show ?case
  proof (cases "dropWhile (\<lambda>x. x \<noteq> c) s")
    case (Cons d rest)
    then have d: "d = c" using hd_dropWhile [of "\<lambda>x. x \<noteq> c" s] by simp
    obtain t ts where ts: "py_split c n rest = t # ts"
      by (cases "py_split c n rest") auto
    have "takeWhile (\<lambda>x. x \<noteq> c) s @ c # rest = s"
      using Cons d takeWhile_dropWhile_id [of "\<lambda>x. x \<noteq> c" s] by simp
    with Cons Suc.IH [of rest] ts show ?thesis
      by (simp add: py_split.simps)
  next
    case Nil
    then have "c \<notin> set s" by auto
    then show ?thesis by simp
  qed
qed simp

text \<open>
  \<open>secrets.compare_digest\<close> on two \<open>str\<close> arguments: equality, but a non-ASCII argument raises
  \<open>TypeError\<close>.
\<close>

definition compare_digest_str :: "string \<Rightarrow> string \<Rightarrow> pyexc + bool" where
  "compare_digest_str a b = (if is_ascii a \<and> is_ascii b then Inr (a = b) else Inl TypeError)"

lemma compare_digest_self [simp]: "is_ascii a \<Longrightarrow> compare_digest_str a a = Inr True"
  by (simp add: compare_digest_str_def)

lemma compare_digest_True: "compare_digest_str a b = Inr True \<Longrightarrow> a = b"
  by (simp add: compare_digest_str_def split: if_splits)

lemma map_sum_id_Inr: "map_sum id f x = Inr y \<longleftrightarrow> (\<exists>z. x = Inr z \<and> y = f z)"
  by (cases x) auto

end
