(* ===== verification/Json.thy ===== *)
theory Json
  imports Prelude "HOL-Library.AList"
begin

text \<open>
  The dynamically typed values that travel through the program: request bodies, MQTT payloads,
  JSON columns and JWT claim sets, all of them the result of \<open>json.loads\<close>.  A dict is an
  association list in insertion order; \<open>AList.update\<close> is Python's item assignment (it replaces in
  place or appends).  Python's truth value of each kind of value is \<open>truthy\<close>.
\<close>

datatype pyfloat = Fin rat | PosInf | NegInf | NaN

datatype json =
    JNull
  | JBool bool
  | JInt int
  | JFloat pyfloat
  | JStr string
  | JArr "json list"
  | JObj "(string \<times> json) list"

type_synonym dict = "(string \<times> json) list"

fun truthy :: "json \<Rightarrow> bool" where
  "truthy JNull = False"
| "truthy (JBool b) = b"
| "truthy (JInt i) = (i \<noteq> 0)"
| "truthy (JFloat f) = (f \<noteq> Fin 0)"
| "truthy (JStr s) = (s \<noteq> [])"
| "truthy (JArr xs) = (xs \<noteq> [])"
| "truthy (JObj d) = (d \<noteq> [])"

text \<open>\<open>v or {}\<close> and \<open>v or []\<close>.\<close>

definition or_empty :: "json \<Rightarrow> json" where
  "or_empty v = (if truthy v then v else JObj [])"

definition or_list :: "json \<Rightarrow> json" where
  "or_list v = (if truthy v then v else JArr [])"

text \<open>Iterating over \<open>v or []\<close>.\<close>

fun iterate :: "json \<Rightarrow> pyexc + json list" where
  "iterate (JArr xs) = Inr xs"
| "iterate (JStr s) = Inr (map (\<lambda>c. JStr [c]) s)"
| "iterate (JObj d) = Inr (map (\<lambda>p. JStr (fst p)) d)"
| "iterate v = (if truthy v then Inl TypeError else Inr [])"

text \<open>
  What a PostgreSQL \<open>JSON\<close> column accepts of what \<open>json.dumps\<close> writes: the tokens \<open>NaN\<close> and
  \<open>Infinity\<close> are not JSON.  What is stored is read as it was given: that \<open>jsonb\<close> orders the keys of an object, and may write a number in
  another way, is not modelled.
\<close>

fun storable :: "json \<Rightarrow> bool" where
  "storable JNull = True"
| "storable (JBool b) = True"
| "storable (JInt i) = True"
| "storable (JFloat f) = (case f of Fin x \<Rightarrow> True | _ \<Rightarrow> False)"
| "storable (JStr s) = True"
| "storable (JArr xs) = list_all storable xs"
| "storable (JObj d) = list_all (\<lambda>p. storable (snd p)) d"

text \<open>\<open>d.get(k)\<close>, \<open>d.get(k, default)\<close> and \<open>k in d\<close>.\<close>

definition get_or :: "json \<Rightarrow> dict \<Rightarrow> string \<Rightarrow> json" where
  "get_or dflt d k = (case map_of d k of None \<Rightarrow> dflt | Some v \<Rightarrow> v)"

abbreviation get :: "dict \<Rightarrow> string \<Rightarrow> json" where
  "get \<equiv> get_or JNull"

definition has_key :: "dict \<Rightarrow> string \<Rightarrow> bool" where
  "has_key d k \<longleftrightarrow> map_of d k \<noteq> None"

text \<open>\<open>d.update(e)\<close>, which is also the dict display \<open>{**d, **e}\<close>.\<close>

primrec dict_update :: "dict \<Rightarrow> dict \<Rightarrow> dict" where
  "dict_update d [] = d"
| "dict_update d (p # e) = dict_update (AList.update (fst p) (snd p) d) e"

definition dict_ok :: "dict \<Rightarrow> bool" where
  "dict_ok d \<longleftrightarrow> distinct (map fst d)"

lemma map_of_dict_update:
  "dict_ok e \<Longrightarrow> map_of (dict_update d e) k = (case map_of e k of None \<Rightarrow> map_of d k | Some v \<Rightarrow> Some v)"
proof (induction e arbitrary: d)
  case (Cons p e)
  then have ok: "dict_ok e" and none: "map_of e (fst p) = None"
    by (simp_all add: dict_ok_def map_of_eq_None_iff)
  from Cons.IH [OF ok, of "AList.update (fst p) (snd p) d"] none show ?case
    by (cases p; cases "k = fst p"; cases "map_of e k") (simp_all add: update_conv')
qed (simp add: dict_ok_def)

lemma dict_ok_update_item [simp]: "dict_ok d \<Longrightarrow> dict_ok (AList.update k v d)"
  by (simp add: dict_ok_def distinct_update)

lemma dict_ok_dict_update [simp]: "dict_ok d \<Longrightarrow> dict_ok (dict_update d e)"
  by (induction e arbitrary: d) auto

lemma get_or_update [simp]:
  "get_or x (AList.update k v d) k' = (if k' = k then v else get_or x d k')"
  by (simp add: get_or_def update_conv')

section \<open>Python's equality\<close>

text \<open>
  \<open>v == w\<close>: booleans and numbers are compared by their value, so that \<open>True == 1 == 1.0\<close>, and \<open>nan\<close> is equal to
  nothing; dicts are compared whatever the order of their keys.
\<close>

fun number_of :: "json \<Rightarrow> pyfloat option" where
  "number_of (JBool b) = Some (Fin (of_bool b))"
| "number_of (JInt i) = Some (Fin (of_int i))"
| "number_of (JFloat f) = (if f = NaN then None else Some f)"
| "number_of v = None"

lemma size_map_of: "Some v = map_of d k \<Longrightarrow> size v \<le> size_list (size_prod (\<lambda>_. 0) size) d"
  by (induction d) (auto split: if_split_asm)

function (sequential) py_eq :: "json \<Rightarrow> json \<Rightarrow> bool" where
  "py_eq (JArr xs) (JArr ys) = list_all2 py_eq xs ys"
| "py_eq (JObj d) (JObj e) =
     (list_all (\<lambda>p. has_key d (fst p)) e \<and>
      list_all (\<lambda>p. case (map_of d (fst p), map_of e (fst p)) of (Some v, Some w) \<Rightarrow> py_eq v w | _ \<Rightarrow> False) d)"
| "py_eq (JStr s) (JStr t) = (s = t)"
| "py_eq JNull JNull = True"
| "py_eq v w = (number_of v \<noteq> None \<and> number_of v = number_of w)"
  by pat_completeness auto

termination
  by (relation "measure (\<lambda>p. size (fst p))") (auto simp: size_map_of less_Suc_eq_le size_list_estimation')

text \<open>
  What a JSON column holds after \<open>row.column = new\<close> and the flush: SQLAlchemy emits an UPDATE of the columns whose
  new value is not \<open>==\<close> the loaded one.
\<close>

definition dict_eq :: "dict \<Rightarrow> dict \<Rightarrow> bool" where
  "dict_eq d e \<longleftrightarrow> py_eq (JObj d) (JObj e)"

definition assigned :: "json \<Rightarrow> json \<Rightarrow> json" where
  "assigned old new = (if py_eq new old then old else new)"

definition assigned_dict :: "dict \<Rightarrow> dict \<Rightarrow> dict" where
  "assigned_dict old new = (if dict_eq new old then old else new)"

lemma assigned_same [simp]: "assigned v v = v" "assigned_dict d d = d"
  by (simp_all add: assigned_def assigned_dict_def)

lemma map_of_key: "p \<in> set d \<Longrightarrow> \<exists>v. map_of d (fst p) = Some v"
  by (metis image_eqI map_of_eq_None_iff not_Some_eq)

lemma py_eq_refl: "storable v \<Longrightarrow> py_eq v v"
proof (induction v rule: json.induct)
  case (JArr xs)
  then show ?case by (auto simp: list_all_iff list_all2_same)
next
  case (JObj d)
  have "py_eq v v" if "map_of d k = Some v" for k v
    using JObj.IH [of "(k, v)" v] JObj.prems map_of_SomeD [OF that] by (auto simp: list_all_iff)
  then show ?case by (fastforce simp: list_all_iff has_key_def split: option.splits dest: map_of_key)
qed (auto split: pyfloat.splits)

lemma py_eq_JObj: "py_eq (JObj d) w \<Longrightarrow> \<exists>e. w = JObj e" "py_eq v (JObj e) \<Longrightarrow> \<exists>d. v = JObj d"
  by (cases w; simp) (cases v; simp split: if_split_asm)

lemma py_eq_map_of:
  assumes "py_eq (JObj d) (JObj e)"
  shows "rel_option py_eq (map_of d k) (map_of e k)"
proof (cases "map_of d k")
  case None
  have "map_of e k = None"
    using assms None by (cases "map_of e k") (force simp: list_all_iff has_key_def dest: map_of_SomeD)+
  with None show ?thesis by simp
next
  case (Some v)
  from assms map_of_SomeD [OF this] Some show ?thesis by (fastforce simp: list_all_iff split: option.splits)
qed

text \<open>The truth value of an optional string argument: \<open>None\<close> and the empty string are false.\<close>

definition str_truthy :: "string option \<Rightarrow> bool" where
  "str_truthy s \<longleftrightarrow> s \<noteq> None \<and> s \<noteq> Some []"

end
