(* ===== verification/Errors.thy ===== *)
theory Errors
  imports Json
begin

text \<open>
  \<open>app/core/errors.py\<close>: the one exception class the HTTP layer knows, its numeric codes and the
  helper constructors; and the handler of \<open>app/main.py\<close> that turns it into a response.  Any other
  exception leaves a handler as \<open>Uncaught\<close> (the framework answers 500); \<open>Validation\<close> is the
  framework's own rejection of a request whose body or query does not match the declared shape
  (422).
\<close>

record rainmaker_error =
  status_code :: int
  error_code :: int
  description :: string
  detail :: dict

definition RainmakerError :: "int \<Rightarrow> int \<Rightarrow> string \<Rightarrow> dict option \<Rightarrow> rainmaker_error" where
  "RainmakerError http_status code descr extra =
     (let body = [(''status'', JStr ''failure''), (''description'', JStr descr),
                  (''error_code'', JInt code)];
          body = (case extra of None \<Rightarrow> body | Some d \<Rightarrow> dict_update body d)
      in \<lparr>status_code = http_status, error_code = code, description = descr, detail = body\<rparr>)"

datatype err = Rainmaker rainmaker_error | Uncaught pyexc | Validation

type_synonym 'a result = "err + 'a"

definition INVALID_REQUEST :: int where [err_simps]: "INVALID_REQUEST = 100006"
definition NODE_ID_MISSING :: int where [err_simps]: "NODE_ID_MISSING = 100009"
definition NODES_DO_NOT_EXIST :: int where [err_simps]: "NODES_DO_NOT_EXIST = 100015"
definition USER_DOES_NOT_EXIST :: int where [err_simps]: "USER_DOES_NOT_EXIST = 100023"
definition NODE_NOT_MAPPED :: int where [err_simps]: "NODE_NOT_MAPPED = 100036"
definition INVALID_NODE_CERT :: int where [err_simps]: "INVALID_NODE_CERT = 100049"
definition USER_ALREADY_EXISTS :: int where [err_simps]: "USER_ALREADY_EXISTS = 100025"
definition INVALID_PASSWORD :: int where [err_simps]: "INVALID_PASSWORD = 100031"
definition INVALID_CREDENTIALS :: int where [err_simps]: "INVALID_CREDENTIALS = 100030"
definition TOKEN_EXPIRED :: int where [err_simps]: "TOKEN_EXPIRED = 100051"
definition INVALID_TOKEN :: int where [err_simps]: "INVALID_TOKEN = 100052"
definition PERMISSION_DENIED :: int where [err_simps]: "PERMISSION_DENIED = 100070"
definition OTA_IMAGE_NOT_FOUND :: int where [err_simps]: "OTA_IMAGE_NOT_FOUND = 104015"
definition OTA_JOB_NOT_FOUND :: int where [err_simps]: "OTA_JOB_NOT_FOUND = 105012"
definition NO_OTA_AVAILABLE :: int where [err_simps]: "NO_OTA_AVAILABLE = 105061"
definition INTERNAL_ERROR :: int where [err_simps]: "INTERNAL_ERROR = 100099"

definition rainmaker :: "int \<Rightarrow> int \<Rightarrow> string \<Rightarrow> err" where
  "rainmaker http_status code descr = Rainmaker (RainmakerError http_status code descr None)"

definition invalid_request :: "string \<Rightarrow> err" where
  "invalid_request descr = rainmaker 400 INVALID_REQUEST descr"

definition not_found :: "string \<Rightarrow> int \<Rightarrow> err" where
  "not_found descr code = rainmaker 404 code descr"

definition unauthorized :: "string \<Rightarrow> err" where
  "unauthorized descr = rainmaker 401 INVALID_TOKEN descr"

definition forbidden :: "string \<Rightarrow> err" where
  "forbidden descr = rainmaker 403 PERMISSION_DENIED descr"

definition conflict :: "string \<Rightarrow> int \<Rightarrow> err" where
  "conflict descr code = rainmaker 409 code descr"

text \<open>The status line and body the client sees for an exception that leaves a handler.\<close>

fun rainmaker_handler :: "err \<Rightarrow> int \<times> json option" where
  "rainmaker_handler (Rainmaker e) = (status_code e, Some (JObj (detail e)))"
| "rainmaker_handler (Uncaught x) = (500, None)"
| "rainmaker_handler Validation = (422, None)"

definition http_status_of :: "err \<Rightarrow> int" where
  "http_status_of e = fst (rainmaker_handler e)"

lemma http_status_of_simps [simp]:
  "http_status_of (Rainmaker e) = status_code e"
  "http_status_of (Uncaught x) = 500"
  "http_status_of Validation = 422"
  by (simp_all add: http_status_of_def)

lemma rainmaker_inject [simp]:
  "rainmaker a b s = rainmaker a' b' s' \<longleftrightarrow> a = a' \<and> b = b' \<and> s = s'"
  by (auto simp: rainmaker_def RainmakerError_def)

lemma rainmaker_not_Uncaught [simp]:
  "rainmaker a b s \<noteq> Uncaught x" "Uncaught x \<noteq> rainmaker a b s"
  by (auto simp: rainmaker_def)

lemma http_status_of_rainmaker [simp]: "http_status_of (rainmaker a b s) = a"
  by (simp add: rainmaker_def RainmakerError_def)

declare invalid_request_def [err_simps] not_found_def [err_simps] unauthorized_def [err_simps]
  forbidden_def [err_simps] conflict_def [err_simps]

text \<open>A code tells what went wrong.\<close>

lemma error_codes_distinct:
  "distinct [INVALID_REQUEST, NODE_ID_MISSING, NODES_DO_NOT_EXIST, USER_DOES_NOT_EXIST, NODE_NOT_MAPPED, INVALID_NODE_CERT,
     USER_ALREADY_EXISTS, INVALID_PASSWORD, INVALID_CREDENTIALS, TOKEN_EXPIRED, INVALID_TOKEN,
     PERMISSION_DENIED, OTA_IMAGE_NOT_FOUND, OTA_JOB_NOT_FOUND, NO_OTA_AVAILABLE, INTERNAL_ERROR]"
  by (simp add: err_simps)

section \<open>Exceptions and the store\<close>

text \<open>
  An operation takes the committed store and returns a result with the store that is committed
  when it ends.  \<open>attempt s r k\<close> is a statement that may raise while the last commit is \<open>s\<close>: the
  exception leaves the operation and the session is rolled back to \<open>s\<close>.  \<open>andthen\<close> calls an
  operation and goes on from the store it has committed.
\<close>

definition attempt :: "'s \<Rightarrow> 'a result \<Rightarrow> ('a \<Rightarrow> 'b result \<times> 's) \<Rightarrow> 'b result \<times> 's" where
  "attempt s r k = (case r of Inl e \<Rightarrow> (Inl e, s) | Inr x \<Rightarrow> k x)"

definition andthen ::
  "'a result \<times> 's \<Rightarrow> ('a \<Rightarrow> 's \<Rightarrow> 'b result \<times> 's) \<Rightarrow> 'b result \<times> 's" where
  "andthen m k = (case m of (Inl e, s) \<Rightarrow> (Inl e, s) | (Inr x, s) \<Rightarrow> k x s)"

definition lift_exc :: "pyexc + 'a \<Rightarrow> 'a result" where
  "lift_exc r = (case r of Inl x \<Rightarrow> Inl (Uncaught x) | Inr a \<Rightarrow> Inr a)"

lemma attempt_simps [simp]:
  "attempt s (Inl e) k = (Inl e, s)"
  "attempt s (Inr x) k = k x"
  by (simp_all add: attempt_def)

lemma andthen_simps [simp]:
  "andthen (Inl e, s) k = (Inl e, s)"
  "andthen (Inr x, s) k = k x s"
  by (simp_all add: andthen_def)

lemma lift_exc_simps [simp]:
  "lift_exc (Inl x) = Inl (Uncaught x)"
  "lift_exc (Inr a) = Inr a"
  by (simp_all add: lift_exc_def)

lemma attempt_split:
  "P (attempt s r k) \<longleftrightarrow> (\<forall>e. r = Inl e \<longrightarrow> P (Inl e, s)) \<and> (\<forall>x. r = Inr x \<longrightarrow> P (k x))"
  by (cases r) simp_all

lemma attempt_split_asm:
  "P (attempt s r k) \<longleftrightarrow>
     \<not> ((\<exists>e. r = Inl e \<and> \<not> P (Inl e, s)) \<or> (\<exists>x. r = Inr x \<and> \<not> P (k x)))"
  by (cases r) simp_all

lemmas attempt_splits = attempt_split attempt_split_asm

lemma attempt_Inr_conv:
  "attempt s r k = (Inr y, s') \<longleftrightarrow> (\<exists>x. r = Inr x \<and> k x = (Inr y, s'))"
  by (cases r) simp_all

lemma attempt_InrE:
  assumes "attempt s r k = (Inr y, s')"
  obtains x where "r = Inr x" "k x = (Inr y, s')"
  using assms by (cases r) simp_all

lemma lift_exc_eq_conv [simp]:
  "lift_exc r = Inr a \<longleftrightarrow> r = Inr a"
  "lift_exc r = Inl e \<longleftrightarrow> (\<exists>x. r = Inl x \<and> e = Uncaught x)"
  by (cases r; auto)+

text \<open>An invariant of the store through the two combinators.\<close>

lemma attempt_inv: "P s \<Longrightarrow> (\<And>x. r = Inr x \<Longrightarrow> P (snd (k x))) \<Longrightarrow> P (snd (attempt s r k))"
  by (cases r) simp_all

lemma andthen_inv: "P (snd m) \<Longrightarrow> (\<And>x s. P s \<Longrightarrow> P (snd (k x s))) \<Longrightarrow> P (snd (andthen m k))"
  by (cases m; cases "fst m") auto

lemma snd_andthen_unit [simp]: "snd (andthen m (\<lambda>_ d. (Inr (), d))) = snd m"
  by (cases m; cases "fst m") (auto simp: andthen_def)

end
