(* ===== verification/Models.thy ===== *)
theory Models
  imports Errors
begin

text \<open>
  \<open>app/models\<close>: one record for each ORM class, with the class's columns, and the template of a
  row whose unset columns have the declared defaults (the keyword constructor of the class sets
  the other columns).  Field names carry a prefix for their table.  Columns that no modelled code
  reads or writes are left out: \<open>updated_at\<close> everywhere, and \<open>created_at\<close> except in the two
  tables whose queries sort by it.
\<close>

section \<open>Users\<close>

record user =
  usr_id :: uuid
  usr_user_name :: string
  usr_email :: string
  usr_password_hash :: "string option"
  usr_phone_number :: "string option"
  usr_full_name :: "string option"
  usr_status :: string
  usr_is_super_admin :: bool
  usr_is_admin :: bool
  usr_mfa_enabled :: bool
  usr_custom_data :: dict
  usr_confirm_code :: "string option"
  usr_confirm_code_exp :: "datetime option"
  usr_reset_code :: "string option"
  usr_reset_code_exp :: "datetime option"
  usr_last_login_at :: "datetime option"

definition User :: "uuid \<Rightarrow> string \<Rightarrow> string \<Rightarrow> user" where
  "User i name email = \<lparr>
     usr_id = i, usr_user_name = name, usr_email = email, usr_password_hash = None,
     usr_phone_number = None, usr_full_name = None, usr_status = ''unconfirmed'',
     usr_is_super_admin = False, usr_is_admin = False, usr_mfa_enabled = False,
     usr_custom_data = [], usr_confirm_code = None, usr_confirm_code_exp = None,
     usr_reset_code = None, usr_reset_code_exp = None, usr_last_login_at = None\<rparr>"

record refresh_token =
  rt_id :: uuid
  rt_user_id :: uuid
  rt_jti :: string
  rt_expires_at :: datetime
  rt_revoked_at :: "datetime option"

definition RefreshToken :: "uuid \<Rightarrow> uuid \<Rightarrow> string \<Rightarrow> datetime \<Rightarrow> refresh_token" where
  "RefreshToken i uid jti expires = \<lparr>
     rt_id = i, rt_user_id = uid, rt_jti = jti, rt_expires_at = expires, rt_revoked_at = None\<rparr>"

section \<open>Nodes\<close>

record node =
  nd_node_id :: string
  nd_node_type :: "string option"
  nd_fw_version :: "string option"
  nd_model :: "string option"
  nd_last_seen_at :: "datetime option"
  nd_online :: bool
  nd_registration_ts :: "datetime option"
  nd_tags :: "string list"

definition Node :: "string \<Rightarrow> datetime \<Rightarrow> node" where
  "Node nid reg = \<lparr>
     nd_node_id = nid, nd_node_type = None, nd_fw_version = None, nd_model = None,
     nd_last_seen_at = None, nd_online = False, nd_registration_ts = Some reg, nd_tags = []\<rparr>"

record node_config =
  cfg_node_id :: string
  cfg_config_version :: "string option"
  cfg_payload :: dict

record node_params_shadow =
  shadow_node_id :: string
  shadow_payload :: dict

record node_certificate =
  cert_serial :: string
  cert_node_id :: string
  cert_pem :: string
  cert_cn :: string
  cert_not_before :: datetime
  cert_not_after :: datetime
  cert_revoked :: bool

section \<open>User--node mappings\<close>

record user_node_mapping =
  unm_id :: uuid
  unm_user_id :: uuid
  unm_node_id :: string
  unm_role :: string
  unm_primary :: bool

record mapping_challenge =
  mc_id :: uuid
  mc_request_id :: string
  mc_user_id :: uuid
  mc_node_id :: "string option"
  mc_secret_key :: "string option"
  mc_challenge :: "string option"
  mc_status :: string
  mc_operation :: string
  mc_expires_at :: datetime
  mc_completed_at :: "datetime option"

definition MappingChallenge :: "uuid \<Rightarrow> string \<Rightarrow> uuid \<Rightarrow> string \<Rightarrow> string \<Rightarrow> datetime \<Rightarrow> mapping_challenge"
where
  "MappingChallenge i rid uid nid oper expires = \<lparr>
     mc_id = i, mc_request_id = rid, mc_user_id = uid, mc_node_id = Some nid,
     mc_secret_key = None, mc_challenge = None, mc_status = ''pending'', mc_operation = oper,
     mc_expires_at = expires, mc_completed_at = None\<rparr>"

section \<open>Claiming\<close>

record device_provisioning =
  dp_mac_addr :: string
  dp_platform :: string
  dp_hmac_key :: bytes

record claim_challenge =
  cc_id :: uuid
  cc_auth_id :: "string option"
  cc_mac_addr :: string
  cc_platform :: string
  cc_node_id :: string
  cc_user_id :: "uuid option"
  cc_challenge :: "bytes option"
  cc_status :: string
  cc_mode :: string
  cc_attempts :: int
  cc_expires_at :: datetime
  cc_verified_at :: "datetime option"
  cc_created_at :: datetime

definition ClaimChallenge ::
  "uuid \<Rightarrow> string \<Rightarrow> string \<Rightarrow> string \<Rightarrow> string \<Rightarrow> datetime \<Rightarrow> datetime \<Rightarrow> claim_challenge" where
  "ClaimChallenge i mac plat nid md expires created = \<lparr>
     cc_id = i, cc_auth_id = None, cc_mac_addr = mac, cc_platform = plat, cc_node_id = nid,
     cc_user_id = None, cc_challenge = None, cc_status = ''pending'', cc_mode = md,
     cc_attempts = 0, cc_expires_at = expires, cc_verified_at = None, cc_created_at = created\<rparr>"

section \<open>Sharing and groups\<close>

record node_sharing_row =
  sh_id :: uuid
  sh_node_id :: string
  sh_from_user_id :: uuid
  sh_to_user_id :: uuid
  sh_role :: string

record node_sharing_request =
  sr_id :: uuid
  sr_node_id :: string
  sr_from_user_id :: uuid
  sr_to_user_name :: string
  sr_status :: string
  sr_expires_at :: datetime

record node_group =
  grp_id :: uuid
  grp_owner_id :: uuid
  grp_parent_id :: "uuid option"
  grp_name :: string
  grp_type :: "string option"
  grp_mutually_exclusive :: bool
  grp_metadata :: json

record node_group_node =
  gn_id :: uuid
  gn_group_id :: uuid
  gn_node_id :: string

section \<open>OTA\<close>

record ota_image =
  img_id :: uuid
  img_name :: string
  img_fw_version :: string
  img_model :: "string option"
  img_file_size :: int
  img_file_md5 :: "string option"
  img_file_sha256 :: "string option"
  img_storage_key :: string
  img_status :: string
  img_metadata :: json

record ota_job =
  job_id :: uuid
  job_image_id :: uuid
  job_name :: string
  job_status :: string
  job_rollout_policy :: json
  job_started_at :: "datetime option"
  job_created_by :: "uuid option"

record ota_job_node =
  jn_id :: uuid
  jn_job_id :: uuid
  jn_node_id :: string
  jn_status :: string
  jn_progress :: int
  jn_additional_info :: "string option"
  jn_last_update :: "datetime option"
  jn_created_at :: datetime

section \<open>Automations\<close>

record automation =
  au_id :: uuid
  au_user_id :: uuid
  au_name :: string
  au_enabled :: bool
  au_event_operator :: string
  au_events :: json
  au_actions :: json
  au_metadata :: json

section \<open>Time series\<close>

record tsdata_row =
  ts_ts :: datetime
  ts_node_id :: string
  ts_device_name :: string
  ts_param_name :: string
  ts_data_type :: string
  ts_value_int :: "int option"
  ts_value_float :: "pyfloat option"
  ts_value_bool :: "bool option"
  ts_value_str :: "string option"

section \<open>The database\<close>

record db =
  users :: "user list"
  refresh_tokens :: "refresh_token list"
  nodes :: "node list"
  node_configs :: "node_config list"
  node_params_shadows :: "node_params_shadow list"
  node_certificates :: "node_certificate list"
  user_node_mappings :: "user_node_mapping list"
  mapping_challenges :: "mapping_challenge list"
  device_provisionings :: "device_provisioning list"
  claim_challenges :: "claim_challenge list"
  node_sharings :: "node_sharing_row list"
  node_sharing_requests :: "node_sharing_request list"
  node_groups :: "node_group list"
  node_group_nodes :: "node_group_node list"
  ota_images :: "ota_image list"
  ota_jobs :: "ota_job list"
  ota_job_nodes :: "ota_job_node list"
  automations :: "automation list"
  tsdata :: "tsdata_row list"

definition empty_db :: db where
  "empty_db = \<lparr>
     users = [], refresh_tokens = [], nodes = [], node_configs = [], node_params_shadows = [],
     node_certificates = [], user_node_mappings = [], mapping_challenges = [],
     device_provisionings = [], claim_challenges = [], node_sharings = [],
     node_sharing_requests = [], node_groups = [], node_group_nodes = [], ota_images = [],
     ota_jobs = [], ota_job_nodes = [], automations = [], tsdata = []\<rparr>"

end
