(* ===== verification/Tables.thy ===== *)
theory Tables
  imports Errors
begin

text \<open>
  Tables and the statements the program runs on them.  A table is the list of its committed rows.
  The SQL statements are those SQLAlchemy issues for the code: \<open>select\<close> keeps the rows that match,
  \<open>scalar_one_or_none\<close> and \<open>first\<close> are the result accessors, \<open>update_where\<close> writes the changed
  attributes of the loaded rows back, \<open>delete_where\<close> removes rows.  A \<open>clash\<close> relation says when
  two rows cannot stand in one table (equal primary keys or a violated unique constraint), and
  \<open>insert_row\<close> raises \<open>IntegrityError\<close> on a clash or a missing foreign key and \<open>DataError\<close> on a
  value too long for its column.

  The locale \<open>unique_index\<close> is what a query by a unique key may rely on; every unique constraint
  of the schema is an interpretation of it.
\<close>

section \<open>Statements\<close>

definition select :: "('r \<Rightarrow> bool) \<Rightarrow> 'r list \<Rightarrow> 'r list" where
  [model_simps]: "select p rows = filter p rows"

fun scalar_one_or_none :: "'r list \<Rightarrow> 'r option result" where
  "scalar_one_or_none [] = Inr None"
| "scalar_one_or_none [r] = Inr (Some r)"
| "scalar_one_or_none (r # s # rows) = Inl (Uncaught MultipleResultsFound)"

fun first :: "'r list \<Rightarrow> 'r option" where
  "first [] = None"
| "first (r # rows) = Some r"

definition update_where :: "('r \<Rightarrow> bool) \<Rightarrow> ('r \<Rightarrow> 'r) \<Rightarrow> 'r list \<Rightarrow> 'r list" where
  "update_where p f rows = map (\<lambda>r. if p r then f r else r) rows"

definition delete_where :: "('r \<Rightarrow> bool) \<Rightarrow> 'r list \<Rightarrow> 'r list" where
  "delete_where p rows = filter (\<lambda>r. \<not> p r) rows"

definition insert_row ::
  "('r \<Rightarrow> 'r \<Rightarrow> bool) \<Rightarrow> bool \<Rightarrow> bool \<Rightarrow> 'r \<Rightarrow> 'r list \<Rightarrow> 'r list result" where
  "insert_row clash cols_ok refs_ok r rows =
     (if \<not> cols_ok then Inl (Uncaught DataError)
      else if (\<exists>s \<in> set rows. clash s r) \<or> \<not> refs_ok then Inl (Uncaught IntegrityError)
      else Inr (rows @ [r]))"

text \<open>\<open>ORDER BY created_at DESC\<close> and \<open>ASC\<close>: a stable insertion sort on the key.\<close>

definition order_by_asc :: "('r \<Rightarrow> datetime) \<Rightarrow> 'r list \<Rightarrow> 'r list" where
  "order_by_asc k rows = sort_key k rows"

definition order_by_desc :: "('r \<Rightarrow> datetime) \<Rightarrow> 'r list \<Rightarrow> 'r list" where
  "order_by_desc k rows = sort_key (\<lambda>r. - k r) rows"

text \<open>Column bounds: \<open>VARCHAR(n)\<close>, nullable or not, and 32-bit \<open>INTEGER\<close>.\<close>

definition fits :: "nat \<Rightarrow> string \<Rightarrow> bool" where
  "fits n s \<longleftrightarrow> length s \<le> n"

definition fits_opt :: "nat \<Rightarrow> string option \<Rightarrow> bool" where
  "fits_opt n s \<longleftrightarrow> (case s of None \<Rightarrow> True | Some t \<Rightarrow> fits n t)"

definition int4 :: "int \<Rightarrow> bool" where
  "int4 i \<longleftrightarrow> - (2 ^ 31) \<le> i \<and> i < 2 ^ 31"

lemma fits_opt_simps [simp]: "fits_opt n None" "fits_opt n (Some s) = fits n s"
  by (simp_all add: fits_opt_def)

text \<open>A JSON value bound to a nullable string column.\<close>

definition str_column :: "json \<Rightarrow> string option result" where
  "str_column v = (case v of JNull \<Rightarrow> Inr None | JStr s \<Rightarrow> Inr (Some s) | _ \<Rightarrow> Inl (Uncaught DataError))"

text \<open>
  A JSON value bound to a \<open>NOT NULL\<close> string column: \<open>None\<close> lets the column's Python default, if it
  has one, take its place in an \<open>INSERT\<close>.
\<close>

definition text_column :: "string option \<Rightarrow> json \<Rightarrow> string result" where
  "text_column dflt v =
     (case v of
        JStr s \<Rightarrow> Inr s
      | JNull \<Rightarrow> (case dflt of None \<Rightarrow> Inl (Uncaught IntegrityError) | Some s \<Rightarrow> Inr s)
      | _ \<Rightarrow> Inl (Uncaught DataError))"

primrec text_columns :: "json list \<Rightarrow> string list result" where
  "text_columns [] = Inr []"
| "text_columns (v # vs) =
     (case text_column None v of
        Inl e \<Rightarrow> Inl e
      | Inr s \<Rightarrow> map_sum id (\<lambda>ss. s # ss) (text_columns vs))"

lemma column_simps [simp]:
  "str_column JNull = Inr None" "str_column (JStr s) = Inr (Some s)"
  "text_column dflt (JStr s) = Inr s"
  by (simp_all add: str_column_def text_column_def)

lemma text_columns_JStr [simp]: "text_columns (map JStr ss) = Inr ss"
  by (induction ss) simp_all

lemma text_columns_Inr: "text_columns vs = Inr ss \<Longrightarrow> vs = map JStr ss"
  by (induction vs arbitrary: ss)
    (auto simp: text_column_def map_sum_id_Inr split: json.split_asm sum.split_asm)

section \<open>Clash-free tables\<close>

definition clash_free :: "('r \<Rightarrow> 'r \<Rightarrow> bool) \<Rightarrow> 'r list \<Rightarrow> bool" where
  "clash_free c rows \<longleftrightarrow> sorted_wrt (\<lambda>a b. \<not> c a b) rows"

definition present :: "('r \<Rightarrow> 'k) \<Rightarrow> 'r list \<Rightarrow> 'k \<Rightarrow> bool" where
  "present key rows k \<longleftrightarrow> k \<in> key ` set rows"

text \<open>A nullable foreign key.\<close>

definition present_opt :: "('r \<Rightarrow> 'k) \<Rightarrow> 'r list \<Rightarrow> 'k option \<Rightarrow> bool" where
  "present_opt key rows k \<longleftrightarrow> (case k of None \<Rightarrow> True | Some x \<Rightarrow> present key rows x)"

lemma present_opt_simps [simp]:
  "present_opt key rows None" "present_opt key rows (Some x) = present key rows x"
  by (simp_all add: present_opt_def)

lemma clash_free_Nil [simp]: "clash_free c []"
  by (simp add: clash_free_def)

lemma clash_free_snoc [simp]:
  "clash_free c (rows @ [r]) \<longleftrightarrow> clash_free c rows \<and> (\<forall>s \<in> set rows. \<not> c s r)"
  by (auto simp: clash_free_def sorted_wrt_append)

lemma clash_free_delete [simp]: "clash_free c rows \<Longrightarrow> clash_free c (delete_where p rows)"
  by (simp add: clash_free_def delete_where_def sorted_wrt_filter)

lemma clash_free_update [simp]:
  assumes "clash_free c rows"
    and "\<And>a b. c (f a) b = c a b" and "\<And>a b. c a (f b) = c a b"
  shows "clash_free c (update_where p f rows)"
proof -
  have "c (if p a then f a else a) (if p b then f b else b) = c a b" for a b
    by (simp add: assms(2,3))
  with assms(1) show ?thesis
    by (simp add: clash_free_def update_where_def sorted_wrt_map)
qed

lemma present_Nil [simp]: "\<not> present key [] k"
  by (simp add: present_def)

lemma present_snoc [simp]: "present key (rows @ [r]) k \<longleftrightarrow> present key rows k \<or> key r = k"
  by (auto simp: present_def)

lemma present_opt_snoc [simp]: "present_opt key rows k \<Longrightarrow> present_opt key (rows @ [r]) k"
  by (cases k) simp_all

lemma present_update [simp]:
  assumes "\<And>r. key (f r) = key r"
  shows "present key (update_where p f rows) k = present key rows k"
proof -
  have "map key (update_where p f rows) = map key rows"
    by (simp add: update_where_def assms)
  then show ?thesis
    by (metis present_def set_map)
qed

lemma present_delete:
  "present key (delete_where p rows) k \<longleftrightarrow> (\<exists>r \<in> set rows. key r = k \<and> \<not> p r)"
  by (auto simp: present_def delete_where_def)

lemma present_delete_key [simp]:
  "present key (delete_where (\<lambda>r. key r = x) rows) k \<longleftrightarrow> present key rows k \<and> k \<noteq> x"
  unfolding present_delete by (auto simp: present_def)

lemma presentI: "r \<in> set rows \<Longrightarrow> present key rows (key r)"
  by (simp add: present_def)

lemma set_update_where:
  "set (update_where p f rows) = (\<lambda>r. if p r then f r else r) ` set rows"
  by (simp add: update_where_def)

lemma set_delete_where [simp]: "set (delete_where p rows) = {r \<in> set rows. \<not> p r}"
  by (auto simp: delete_where_def)

lemma set_select [simp]: "set (select p rows) = {r \<in> set rows. p r}"
  by (auto simp: select_def)

lemma select_one: "select p rows = [r] \<Longrightarrow> r \<in> set rows \<and> p r"
  by (metis (mono_tags, lifting) list.set_intros(1) mem_Collect_eq set_select)

lemma ball_update_where:
  "(\<forall>r \<in> set (update_where p f rows). Q r) \<longleftrightarrow>
     (\<forall>r \<in> set rows. if p r then Q (f r) else Q r)"
  by (auto simp: set_update_where)

lemma insert_row_Inr:
  "insert_row c cok rok r rows = Inr rows' \<longleftrightarrow>
     cok \<and> rok \<and> (\<forall>s \<in> set rows. \<not> c s r) \<and> rows' = rows @ [r]"
  by (auto simp: insert_row_def)

lemma insert_row_Inl:
  "insert_row c cok rok r rows = Inl e \<Longrightarrow> e = Uncaught DataError \<or> e = Uncaught IntegrityError"
  by (auto simp: insert_row_def split: if_splits)

section \<open>Result accessors\<close>

lemma scalar_one_or_none_None [simp]: "scalar_one_or_none rows = Inr None \<longleftrightarrow> rows = []"
  by (cases rows rule: scalar_one_or_none.cases) auto

lemma scalar_one_or_none_Some [simp]:
  "scalar_one_or_none rows = Inr (Some r) \<longleftrightarrow> rows = [r]"
  by (cases rows rule: scalar_one_or_none.cases) auto

lemma scalar_one_or_none_Inl [simp]:
  "scalar_one_or_none rows = Inl e \<longleftrightarrow> e = Uncaught MultipleResultsFound \<and> 2 \<le> length rows"
  by (cases rows rule: scalar_one_or_none.cases) auto

lemma scalar_one_or_none_Inr:
  "scalar_one_or_none rows = Inr x \<Longrightarrow> x = first rows"
  by (cases rows rule: scalar_one_or_none.cases) auto

lemma first_None [simp]: "first rows = None \<longleftrightarrow> rows = []"
  by (cases rows) auto

lemma first_Some_in: "first rows = Some r \<Longrightarrow> r \<in> set rows"
  by (cases rows) auto

lemma set_order_by [simp]:
  "set (order_by_asc k rows) = set rows" "set (order_by_desc k rows) = set rows"
  by (simp_all add: order_by_asc_def order_by_desc_def)

lemma length_order_by [simp]:
  "length (order_by_asc k rows) = length rows" "length (order_by_desc k rows) = length rows"
  by (simp_all add: order_by_asc_def order_by_desc_def)

lemma first_order_by_asc:
  "first (order_by_asc k rows) = Some r \<Longrightarrow> r \<in> set rows \<and> (\<forall>s \<in> set rows. k r \<le> k s)"
proof -
  assume f: "first (order_by_asc k rows) = Some r"
  have srt: "sorted (map k (order_by_asc k rows))"
    by (simp add: order_by_asc_def)
  from f obtain rest where eq: "order_by_asc k rows = r # rest"
    by (cases "order_by_asc k rows") auto
  with srt have "\<forall>s \<in> set (r # rest). k r \<le> k s" by auto
  then show ?thesis by (metis eq list.set_intros(1) set_order_by(1))
qed

section \<open>Unique indexes\<close>

locale unique_index =
  fixes key :: "'r \<Rightarrow> 'k"
    and clash :: "'r \<Rightarrow> 'r \<Rightarrow> bool"
  assumes same_key_clash: "key a = key b \<Longrightarrow> clash a b"
begin

lemma row_unique:
  assumes "clash_free clash rows" "a \<in> set rows" "b \<in> set rows" "key a = key b"
  shows "a = b"
  using assms
proof (induction rows)
  case (Cons r rows)
  then show ?case
    by (auto simp: clash_free_def dest: same_key_clash same_key_clash [OF sym])
qed simp

lemma select_key:
  assumes "clash_free clash rows" "r \<in> set rows"
  shows "select (\<lambda>s. key s = key r) rows = [r]"
  using assms
proof (induction rows)
  case (Cons s rows)
  then show ?case
    by (auto simp: clash_free_def select_def filter_empty_conv dest: same_key_clash same_key_clash [OF sym])
qed simp

lemma select_refined:
  assumes ok: "clash_free clash rows" and r: "r \<in> set rows" "p r"
    and p: "\<And>s. p s \<Longrightarrow> key s = key r"
  shows "select p rows = [r]"
proof -
  have "select p rows = filter p (select (\<lambda>s. key s = key r) rows)"
    unfolding select_def filter_filter by (rule filter_cong) (auto dest: p)
  also have "\<dots> = [r]" using select_key [OF ok r(1)] r(2) by simp
  finally show ?thesis .
qed

lemma scalar_by_key:
  assumes ok: "clash_free clash rows" and p: "\<And>s t. p s \<Longrightarrow> p t \<Longrightarrow> key s = key t"
  shows "scalar_one_or_none (select p rows) = Inr (first (select p rows))"
proof (cases "select p rows")
  case (Cons r rest)
  then have "r \<in> set (select p rows)" by simp
  then have "r \<in> set rows" "p r" by simp_all
  from select_refined [of rows r p, OF ok this] p [OF _ \<open>p r\<close>]
  have "select p rows = [r]" by blast
  then show ?thesis by simp
qed simp

lemma found_iff:
  assumes "clash_free clash rows" "\<And>s t. p s \<Longrightarrow> p t \<Longrightarrow> key s = key t"
  shows "scalar_one_or_none (select p rows) = Inr (Some r) \<longleftrightarrow> r \<in> set rows \<and> p r"
proof
  assume "scalar_one_or_none (select p rows) = Inr (Some r)"
  then have "r \<in> set (select p rows)" by simp
  then show "r \<in> set rows \<and> p r" by simp
next
  assume "r \<in> set rows \<and> p r"
  then have r: "r \<in> set rows" "p r" by simp_all
  from select_refined [of rows r p, OF assms(1) r] assms(2) [OF _ r(2)]
  have "select p rows = [r]" by blast
  then show "scalar_one_or_none (select p rows) = Inr (Some r)" by simp
qed

lemma lookup_inserted:
  assumes "clash_free clash (rows @ [r])"
  shows "select (\<lambda>s. key s = key r) (rows @ [r]) = [r]"
  using select_key [OF assms] by simp

end

end
