(* ===== verification/Schema.thy ===== *)
theory Schema
  imports Models Tables
begin

text \<open>
  The schema of \<open>app/models\<close> and \<open>alembic/versions\<close>: for every table the relation of its unique
  constraints (\<open>_clash\<close>), the bounds of its columns (\<open>_cols\<close>), its foreign keys (\<open>_refs\<close>) and the
  checked \<open>INSERT\<close>; the \<open>ON DELETE CASCADE\<close> clauses as the two deletions the program performs on
  referenced rows; and the integrity invariant \<open>db_ok\<close> that all of them keep.
\<close>

section \<open>Unique constraints, column bounds, foreign keys\<close>

definition user_clash :: "user \<Rightarrow> user \<Rightarrow> bool" where
  "user_clash a b \<longleftrightarrow> usr_id a = usr_id b \<or> usr_user_name a = usr_user_name b"

definition user_cols :: "user \<Rightarrow> bool" where
  "user_cols r \<longleftrightarrow> fits 254 (usr_user_name r) \<and> fits 254 (usr_email r) \<and> fits_opt 255 (usr_password_hash r) \<and>
     fits 32 (usr_status r) \<and> fits_opt 16 (usr_confirm_code r) \<and> fits_opt 16 (usr_reset_code r)"

definition user_refs :: "db \<Rightarrow> user \<Rightarrow> bool" where
  "user_refs d r \<longleftrightarrow> True"

definition insert_user :: "user \<Rightarrow> db \<Rightarrow> db result" where
  "insert_user r d = map_sum id (\<lambda>rows. d\<lparr>users := rows\<rparr>)
     (insert_row user_clash (user_cols r) (user_refs d r) r (users d))"

definition refresh_token_clash :: "refresh_token \<Rightarrow> refresh_token \<Rightarrow> bool" where
  "refresh_token_clash a b \<longleftrightarrow> rt_id a = rt_id b \<or> rt_jti a = rt_jti b"

definition refresh_token_cols :: "refresh_token \<Rightarrow> bool" where
  "refresh_token_cols r \<longleftrightarrow> fits 64 (rt_jti r)"

definition refresh_token_refs :: "db \<Rightarrow> refresh_token \<Rightarrow> bool" where
  "refresh_token_refs d r \<longleftrightarrow> present usr_id (users d) (rt_user_id r)"

definition insert_refresh_token :: "refresh_token \<Rightarrow> db \<Rightarrow> db result" where
  "insert_refresh_token r d = map_sum id (\<lambda>rows. d\<lparr>refresh_tokens := rows\<rparr>)
     (insert_row refresh_token_clash (refresh_token_cols r) (refresh_token_refs d r) r (refresh_tokens d))"

definition node_clash :: "node \<Rightarrow> node \<Rightarrow> bool" where
  "node_clash a b \<longleftrightarrow> nd_node_id a = nd_node_id b"

definition node_cols :: "node \<Rightarrow> bool" where
  "node_cols r \<longleftrightarrow> fits 64 (nd_node_id r)"

definition node_refs :: "db \<Rightarrow> node \<Rightarrow> bool" where
  "node_refs d r \<longleftrightarrow> True"

definition insert_node :: "node \<Rightarrow> db \<Rightarrow> db result" where
  "insert_node r d = map_sum id (\<lambda>rows. d\<lparr>nodes := rows\<rparr>)
     (insert_row node_clash (node_cols r) (node_refs d r) r (nodes d))"

definition config_clash :: "node_config \<Rightarrow> node_config \<Rightarrow> bool" where
  "config_clash a b \<longleftrightarrow> cfg_node_id a = cfg_node_id b"

definition config_cols :: "node_config \<Rightarrow> bool" where
  "config_cols r \<longleftrightarrow> fits_opt 32 (cfg_config_version r) \<and> storable (JObj (cfg_payload r))"

definition config_refs :: "db \<Rightarrow> node_config \<Rightarrow> bool" where
  "config_refs d r \<longleftrightarrow> present nd_node_id (nodes d) (cfg_node_id r)"

definition insert_config :: "node_config \<Rightarrow> db \<Rightarrow> db result" where
  "insert_config r d = map_sum id (\<lambda>rows. d\<lparr>node_configs := rows\<rparr>)
     (insert_row config_clash (config_cols r) (config_refs d r) r (node_configs d))"

definition shadow_clash :: "node_params_shadow \<Rightarrow> node_params_shadow \<Rightarrow> bool" where
  "shadow_clash a b \<longleftrightarrow> shadow_node_id a = shadow_node_id b"

definition shadow_cols :: "node_params_shadow \<Rightarrow> bool" where
  "shadow_cols r \<longleftrightarrow> storable (JObj (shadow_payload r))"

definition shadow_refs :: "db \<Rightarrow> node_params_shadow \<Rightarrow> bool" where
  "shadow_refs d r \<longleftrightarrow> present nd_node_id (nodes d) (shadow_node_id r)"

definition insert_shadow :: "node_params_shadow \<Rightarrow> db \<Rightarrow> db result" where
  "insert_shadow r d = map_sum id (\<lambda>rows. d\<lparr>node_params_shadows := rows\<rparr>)
     (insert_row shadow_clash (shadow_cols r) (shadow_refs d r) r (node_params_shadows d))"

definition certificate_clash :: "node_certificate \<Rightarrow> node_certificate \<Rightarrow> bool" where
  "certificate_clash a b \<longleftrightarrow> cert_serial a = cert_serial b"

definition certificate_cols :: "node_certificate \<Rightarrow> bool" where
  "certificate_cols r \<longleftrightarrow> fits 64 (cert_serial r) \<and> fits 64 (cert_node_id r) \<and> fits 128 (cert_cn r)"

definition certificate_refs :: "db \<Rightarrow> node_certificate \<Rightarrow> bool" where
  "certificate_refs d r \<longleftrightarrow> True"

definition insert_certificate :: "node_certificate \<Rightarrow> db \<Rightarrow> db result" where
  "insert_certificate r d = map_sum id (\<lambda>rows. d\<lparr>node_certificates := rows\<rparr>)
     (insert_row certificate_clash (certificate_cols r) (certificate_refs d r) r (node_certificates d))"

definition mapping_clash :: "user_node_mapping \<Rightarrow> user_node_mapping \<Rightarrow> bool" where
  "mapping_clash a b \<longleftrightarrow> unm_id a = unm_id b \<or>
     unm_user_id a = unm_user_id b \<and> unm_node_id a = unm_node_id b"

definition mapping_cols :: "user_node_mapping \<Rightarrow> bool" where
  "mapping_cols r \<longleftrightarrow> fits 16 (unm_role r)"

definition mapping_refs :: "db \<Rightarrow> user_node_mapping \<Rightarrow> bool" where
  "mapping_refs d r \<longleftrightarrow> present usr_id (users d) (unm_user_id r) \<and> present nd_node_id (nodes d) (unm_node_id r)"

definition insert_mapping :: "user_node_mapping \<Rightarrow> db \<Rightarrow> db result" where
  "insert_mapping r d = map_sum id (\<lambda>rows. d\<lparr>user_node_mappings := rows\<rparr>)
     (insert_row mapping_clash (mapping_cols r) (mapping_refs d r) r (user_node_mappings d))"

definition challenge_clash :: "mapping_challenge \<Rightarrow> mapping_challenge \<Rightarrow> bool" where
  "challenge_clash a b \<longleftrightarrow> mc_id a = mc_id b \<or> mc_request_id a = mc_request_id b"

definition challenge_cols :: "mapping_challenge \<Rightarrow> bool" where
  "challenge_cols r \<longleftrightarrow> fits 64 (mc_request_id r) \<and> fits_opt 64 (mc_node_id r) \<and> fits_opt 128 (mc_secret_key r) \<and>
     fits_opt 256 (mc_challenge r) \<and> fits 16 (mc_operation r)"

definition challenge_refs :: "db \<Rightarrow> mapping_challenge \<Rightarrow> bool" where
  "challenge_refs d r \<longleftrightarrow> present usr_id (users d) (mc_user_id r)"

definition insert_challenge :: "mapping_challenge \<Rightarrow> db \<Rightarrow> db result" where
  "insert_challenge r d = map_sum id (\<lambda>rows. d\<lparr>mapping_challenges := rows\<rparr>)
     (insert_row challenge_clash (challenge_cols r) (challenge_refs d r) r (mapping_challenges d))"

definition provisioning_clash :: "device_provisioning \<Rightarrow> device_provisioning \<Rightarrow> bool" where
  "provisioning_clash a b \<longleftrightarrow> dp_mac_addr a = dp_mac_addr b"

definition provisioning_cols :: "device_provisioning \<Rightarrow> bool" where
  "provisioning_cols r \<longleftrightarrow> fits 32 (dp_mac_addr r) \<and> fits 32 (dp_platform r)"

definition provisioning_refs :: "db \<Rightarrow> device_provisioning \<Rightarrow> bool" where
  "provisioning_refs d r \<longleftrightarrow> True"

definition insert_provisioning :: "device_provisioning \<Rightarrow> db \<Rightarrow> db result" where
  "insert_provisioning r d = map_sum id (\<lambda>rows. d\<lparr>device_provisionings := rows\<rparr>)
     (insert_row provisioning_clash (provisioning_cols r) (provisioning_refs d r) r (device_provisionings d))"

definition claim_clash :: "claim_challenge \<Rightarrow> claim_challenge \<Rightarrow> bool" where
  "claim_clash a b \<longleftrightarrow> cc_id a = cc_id b \<or> cc_auth_id a \<noteq> None \<and> cc_auth_id a = cc_auth_id b"

definition claim_cols :: "claim_challenge \<Rightarrow> bool" where
  "claim_cols r \<longleftrightarrow> fits_opt 64 (cc_auth_id r) \<and> fits 32 (cc_mac_addr r) \<and> fits 32 (cc_platform r) \<and>
     fits 64 (cc_node_id r) \<and> fits 16 (cc_mode r)"

definition claim_refs :: "db \<Rightarrow> claim_challenge \<Rightarrow> bool" where
  "claim_refs d r \<longleftrightarrow> True"

definition insert_claim :: "claim_challenge \<Rightarrow> db \<Rightarrow> db result" where
  "insert_claim r d = map_sum id (\<lambda>rows. d\<lparr>claim_challenges := rows\<rparr>)
     (insert_row claim_clash (claim_cols r) (claim_refs d r) r (claim_challenges d))"

definition sharing_clash :: "node_sharing_row \<Rightarrow> node_sharing_row \<Rightarrow> bool" where
  "sharing_clash a b \<longleftrightarrow> sh_id a = sh_id b \<or>
     sh_node_id a = sh_node_id b \<and> sh_to_user_id a = sh_to_user_id b"

definition sharing_cols :: "node_sharing_row \<Rightarrow> bool" where
  "sharing_cols r \<longleftrightarrow> fits 16 (sh_role r)"

definition sharing_refs :: "db \<Rightarrow> node_sharing_row \<Rightarrow> bool" where
  "sharing_refs d r \<longleftrightarrow> present nd_node_id (nodes d) (sh_node_id r) \<and> present usr_id (users d) (sh_from_user_id r) \<and>
     present usr_id (users d) (sh_to_user_id r)"

definition insert_sharing :: "node_sharing_row \<Rightarrow> db \<Rightarrow> db result" where
  "insert_sharing r d = map_sum id (\<lambda>rows. d\<lparr>node_sharings := rows\<rparr>)
     (insert_row sharing_clash (sharing_cols r) (sharing_refs d r) r (node_sharings d))"

definition sharing_request_clash :: "node_sharing_request \<Rightarrow> node_sharing_request \<Rightarrow> bool" where
  "sharing_request_clash a b \<longleftrightarrow> sr_id a = sr_id b"

definition sharing_request_cols :: "node_sharing_request \<Rightarrow> bool" where
  "sharing_request_cols r \<longleftrightarrow> fits 254 (sr_to_user_name r) \<and> fits 32 (sr_status r)"

definition sharing_request_refs :: "db \<Rightarrow> node_sharing_request \<Rightarrow> bool" where
  "sharing_request_refs d r \<longleftrightarrow> present nd_node_id (nodes d) (sr_node_id r) \<and> present usr_id (users d) (sr_from_user_id r)"

definition insert_sharing_request :: "node_sharing_request \<Rightarrow> db \<Rightarrow> db result" where
  "insert_sharing_request r d = map_sum id (\<lambda>rows. d\<lparr>node_sharing_requests := rows\<rparr>)
     (insert_row sharing_request_clash (sharing_request_cols r) (sharing_request_refs d r) r (node_sharing_requests d))"

definition group_clash :: "node_group \<Rightarrow> node_group \<Rightarrow> bool" where
  "group_clash a b \<longleftrightarrow> grp_id a = grp_id b"

definition group_cols :: "node_group \<Rightarrow> bool" where
  "group_cols r \<longleftrightarrow> fits 128 (grp_name r) \<and> fits_opt 64 (grp_type r) \<and> storable (grp_metadata r)"

definition group_refs :: "db \<Rightarrow> node_group \<Rightarrow> bool" where
  "group_refs d r \<longleftrightarrow> present usr_id (users d) (grp_owner_id r) \<and>
     present_opt grp_id (node_groups d) (grp_parent_id r)"

definition insert_group :: "node_group \<Rightarrow> db \<Rightarrow> db result" where
  "insert_group r d = map_sum id (\<lambda>rows. d\<lparr>node_groups := rows\<rparr>)
     (insert_row group_clash (group_cols r) (group_refs d r) r (node_groups d))"

definition group_node_clash :: "node_group_node \<Rightarrow> node_group_node \<Rightarrow> bool" where
  "group_node_clash a b \<longleftrightarrow> gn_id a = gn_id b \<or>
     gn_group_id a = gn_group_id b \<and> gn_node_id a = gn_node_id b"

definition group_node_cols :: "node_group_node \<Rightarrow> bool" where
  "group_node_cols r \<longleftrightarrow> True"

definition group_node_refs :: "db \<Rightarrow> node_group_node \<Rightarrow> bool" where
  "group_node_refs d r \<longleftrightarrow> present grp_id (node_groups d) (gn_group_id r) \<and> present nd_node_id (nodes d) (gn_node_id r)"

definition insert_group_node :: "node_group_node \<Rightarrow> db \<Rightarrow> db result" where
  "insert_group_node r d = map_sum id (\<lambda>rows. d\<lparr>node_group_nodes := rows\<rparr>)
     (insert_row group_node_clash (group_node_cols r) (group_node_refs d r) r (node_group_nodes d))"

definition image_clash :: "ota_image \<Rightarrow> ota_image \<Rightarrow> bool" where
  "image_clash a b \<longleftrightarrow> img_id a = img_id b"

definition image_cols :: "ota_image \<Rightarrow> bool" where
  "image_cols r \<longleftrightarrow> fits 128 (img_name r) \<and> fits 64 (img_fw_version r) \<and> fits_opt 64 (img_model r) \<and>
     int4 (img_file_size r) \<and> fits_opt 64 (img_file_md5 r) \<and> fits_opt 128 (img_file_sha256 r) \<and>
     fits 512 (img_storage_key r) \<and> fits 32 (img_status r) \<and> storable (img_metadata r)"

definition image_refs :: "db \<Rightarrow> ota_image \<Rightarrow> bool" where
  "image_refs d r \<longleftrightarrow> True"

definition insert_image :: "ota_image \<Rightarrow> db \<Rightarrow> db result" where
  "insert_image r d = map_sum id (\<lambda>rows. d\<lparr>ota_images := rows\<rparr>)
     (insert_row image_clash (image_cols r) (image_refs d r) r (ota_images d))"

definition job_clash :: "ota_job \<Rightarrow> ota_job \<Rightarrow> bool" where
  "job_clash a b \<longleftrightarrow> job_id a = job_id b"

definition job_cols :: "ota_job \<Rightarrow> bool" where
  "job_cols r \<longleftrightarrow> fits 128 (job_name r) \<and> fits 32 (job_status r) \<and> storable (job_rollout_policy r)"

definition job_refs :: "db \<Rightarrow> ota_job \<Rightarrow> bool" where
  "job_refs d r \<longleftrightarrow> present img_id (ota_images d) (job_image_id r)"

definition insert_job :: "ota_job \<Rightarrow> db \<Rightarrow> db result" where
  "insert_job r d = map_sum id (\<lambda>rows. d\<lparr>ota_jobs := rows\<rparr>)
     (insert_row job_clash (job_cols r) (job_refs d r) r (ota_jobs d))"

definition job_node_clash :: "ota_job_node \<Rightarrow> ota_job_node \<Rightarrow> bool" where
  "job_node_clash a b \<longleftrightarrow> jn_id a = jn_id b \<or>
     jn_job_id a = jn_job_id b \<and> jn_node_id a = jn_node_id b"

definition job_node_cols :: "ota_job_node \<Rightarrow> bool" where
  "job_node_cols r \<longleftrightarrow> fits 32 (jn_status r) \<and> fits_opt 512 (jn_additional_info r)"

definition job_node_refs :: "db \<Rightarrow> ota_job_node \<Rightarrow> bool" where
  "job_node_refs d r \<longleftrightarrow> present job_id (ota_jobs d) (jn_job_id r) \<and> present nd_node_id (nodes d) (jn_node_id r)"

definition insert_job_node :: "ota_job_node \<Rightarrow> db \<Rightarrow> db result" where
  "insert_job_node r d = map_sum id (\<lambda>rows. d\<lparr>ota_job_nodes := rows\<rparr>)
     (insert_row job_node_clash (job_node_cols r) (job_node_refs d r) r (ota_job_nodes d))"

definition automation_clash :: "automation \<Rightarrow> automation \<Rightarrow> bool" where
  "automation_clash a b \<longleftrightarrow> au_id a = au_id b"

definition automation_cols :: "automation \<Rightarrow> bool" where
  "automation_cols r \<longleftrightarrow> fits 128 (au_name r) \<and> fits 8 (au_event_operator r) \<and>
     storable (au_events r) \<and> storable (au_actions r) \<and> storable (au_metadata r)"

definition automation_refs :: "db \<Rightarrow> automation \<Rightarrow> bool" where
  "automation_refs d r \<longleftrightarrow> present usr_id (users d) (au_user_id r)"

definition insert_automation :: "automation \<Rightarrow> db \<Rightarrow> db result" where
  "insert_automation r d = map_sum id (\<lambda>rows. d\<lparr>automations := rows\<rparr>)
     (insert_row automation_clash (automation_cols r) (automation_refs d r) r (automations d))"

lemmas clash_defs =
  user_clash_def refresh_token_clash_def node_clash_def config_clash_def shadow_clash_def certificate_clash_def mapping_clash_def challenge_clash_def provisioning_clash_def claim_clash_def sharing_clash_def sharing_request_clash_def group_clash_def group_node_clash_def image_clash_def job_clash_def job_node_clash_def automation_clash_def

lemmas refs_defs =
  user_refs_def refresh_token_refs_def node_refs_def config_refs_def shadow_refs_def certificate_refs_def mapping_refs_def challenge_refs_def provisioning_refs_def claim_refs_def sharing_refs_def sharing_request_refs_def group_refs_def group_node_refs_def image_refs_def job_refs_def job_node_refs_def automation_refs_def

lemmas cols_defs =
  user_cols_def refresh_token_cols_def node_cols_def config_cols_def shadow_cols_def certificate_cols_def mapping_cols_def challenge_cols_def provisioning_cols_def claim_cols_def sharing_cols_def sharing_request_cols_def group_cols_def group_node_cols_def image_cols_def job_cols_def job_node_cols_def automation_cols_def

lemmas insert_defs =
  insert_user_def insert_refresh_token_def insert_node_def insert_config_def insert_shadow_def insert_certificate_def insert_mapping_def insert_challenge_def insert_provisioning_def insert_claim_def insert_sharing_def insert_sharing_request_def insert_group_def insert_group_node_def insert_image_def insert_job_def insert_job_node_def insert_automation_def

lemma map_sum_id_Inl [simp]: "map_sum id f x = Inl e \<longleftrightarrow> x = Inl e"
  by (cases x) auto

section \<open>Integrity\<close>

definition keys_ok :: "db \<Rightarrow> bool" where
  "keys_ok d \<longleftrightarrow>
     clash_free user_clash (users d) \<and>
     clash_free refresh_token_clash (refresh_tokens d) \<and>
     clash_free node_clash (nodes d) \<and>
     clash_free config_clash (node_configs d) \<and>
     clash_free shadow_clash (node_params_shadows d) \<and>
     clash_free certificate_clash (node_certificates d) \<and>
     clash_free mapping_clash (user_node_mappings d) \<and>
     clash_free challenge_clash (mapping_challenges d) \<and>
     clash_free provisioning_clash (device_provisionings d) \<and>
     clash_free claim_clash (claim_challenges d) \<and>
     clash_free sharing_clash (node_sharings d) \<and>
     clash_free sharing_request_clash (node_sharing_requests d) \<and>
     clash_free group_clash (node_groups d) \<and>
     clash_free group_node_clash (node_group_nodes d) \<and>
     clash_free image_clash (ota_images d) \<and>
     clash_free job_clash (ota_jobs d) \<and>
     clash_free job_node_clash (ota_job_nodes d) \<and>
     clash_free automation_clash (automations d)"

definition foreign_ok :: "db \<Rightarrow> bool" where
  "foreign_ok d \<longleftrightarrow>
     (\<forall>r \<in> set (refresh_tokens d). refresh_token_refs d r) \<and>
     (\<forall>r \<in> set (node_configs d). config_refs d r) \<and>
     (\<forall>r \<in> set (node_params_shadows d). shadow_refs d r) \<and>
     (\<forall>r \<in> set (user_node_mappings d). mapping_refs d r) \<and>
     (\<forall>r \<in> set (mapping_challenges d). challenge_refs d r) \<and>
     (\<forall>r \<in> set (node_sharings d). sharing_refs d r) \<and>
     (\<forall>r \<in> set (node_sharing_requests d). sharing_request_refs d r) \<and>
     (\<forall>r \<in> set (node_groups d). group_refs d r) \<and>
     (\<forall>r \<in> set (node_group_nodes d). group_node_refs d r) \<and>
     (\<forall>r \<in> set (ota_jobs d). job_refs d r) \<and>
     (\<forall>r \<in> set (ota_job_nodes d). job_node_refs d r) \<and>
     (\<forall>r \<in> set (automations d). automation_refs d r)"

definition db_ok :: "db \<Rightarrow> bool" where
  "db_ok d \<longleftrightarrow> keys_ok d \<and> foreign_ok d"

lemma db_ok_empty: "db_ok empty_db"
  by (simp add: db_ok_def keys_ok_def foreign_ok_def empty_db_def)

text \<open>What the invariant says of each table.\<close>

lemma user_keys: "db_ok d \<Longrightarrow> clash_free user_clash (users d)"
  by (simp add: db_ok_def keys_ok_def)

lemma refresh_token_keys: "db_ok d \<Longrightarrow> clash_free refresh_token_clash (refresh_tokens d)"
  by (simp add: db_ok_def keys_ok_def)

lemma node_keys: "db_ok d \<Longrightarrow> clash_free node_clash (nodes d)"
  by (simp add: db_ok_def keys_ok_def)

lemma config_keys: "db_ok d \<Longrightarrow> clash_free config_clash (node_configs d)"
  by (simp add: db_ok_def keys_ok_def)

lemma shadow_keys: "db_ok d \<Longrightarrow> clash_free shadow_clash (node_params_shadows d)"
  by (simp add: db_ok_def keys_ok_def)

lemma certificate_keys: "db_ok d \<Longrightarrow> clash_free certificate_clash (node_certificates d)"
  by (simp add: db_ok_def keys_ok_def)

lemma mapping_keys: "db_ok d \<Longrightarrow> clash_free mapping_clash (user_node_mappings d)"
  by (simp add: db_ok_def keys_ok_def)

lemma challenge_keys: "db_ok d \<Longrightarrow> clash_free challenge_clash (mapping_challenges d)"
  by (simp add: db_ok_def keys_ok_def)

lemma provisioning_keys: "db_ok d \<Longrightarrow> clash_free provisioning_clash (device_provisionings d)"
  by (simp add: db_ok_def keys_ok_def)

lemma claim_keys: "db_ok d \<Longrightarrow> clash_free claim_clash (claim_challenges d)"
  by (simp add: db_ok_def keys_ok_def)

lemma sharing_keys: "db_ok d \<Longrightarrow> clash_free sharing_clash (node_sharings d)"
  by (simp add: db_ok_def keys_ok_def)

lemma sharing_request_keys: "db_ok d \<Longrightarrow> clash_free sharing_request_clash (node_sharing_requests d)"
  by (simp add: db_ok_def keys_ok_def)

lemma group_keys: "db_ok d \<Longrightarrow> clash_free group_clash (node_groups d)"
  by (simp add: db_ok_def keys_ok_def)

lemma group_node_keys: "db_ok d \<Longrightarrow> clash_free group_node_clash (node_group_nodes d)"
  by (simp add: db_ok_def keys_ok_def)

lemma image_keys: "db_ok d \<Longrightarrow> clash_free image_clash (ota_images d)"
  by (simp add: db_ok_def keys_ok_def)

lemma job_keys: "db_ok d \<Longrightarrow> clash_free job_clash (ota_jobs d)"
  by (simp add: db_ok_def keys_ok_def)

lemma job_node_keys: "db_ok d \<Longrightarrow> clash_free job_node_clash (ota_job_nodes d)"
  by (simp add: db_ok_def keys_ok_def)

lemma automation_keys: "db_ok d \<Longrightarrow> clash_free automation_clash (automations d)"
  by (simp add: db_ok_def keys_ok_def)

lemma refresh_token_foreign: "db_ok d \<Longrightarrow> r \<in> set (refresh_tokens d) \<Longrightarrow> refresh_token_refs d r"
  by (simp add: db_ok_def foreign_ok_def)

lemma config_foreign: "db_ok d \<Longrightarrow> r \<in> set (node_configs d) \<Longrightarrow> config_refs d r"
  by (simp add: db_ok_def foreign_ok_def)

lemma shadow_foreign: "db_ok d \<Longrightarrow> r \<in> set (node_params_shadows d) \<Longrightarrow> shadow_refs d r"
  by (simp add: db_ok_def foreign_ok_def)

lemma mapping_foreign: "db_ok d \<Longrightarrow> r \<in> set (user_node_mappings d) \<Longrightarrow> mapping_refs d r"
  by (simp add: db_ok_def foreign_ok_def)

lemma challenge_foreign: "db_ok d \<Longrightarrow> r \<in> set (mapping_challenges d) \<Longrightarrow> challenge_refs d r"
  by (simp add: db_ok_def foreign_ok_def)

lemma sharing_foreign: "db_ok d \<Longrightarrow> r \<in> set (node_sharings d) \<Longrightarrow> sharing_refs d r"
  by (simp add: db_ok_def foreign_ok_def)

lemma sharing_request_foreign: "db_ok d \<Longrightarrow> r \<in> set (node_sharing_requests d) \<Longrightarrow> sharing_request_refs d r"
  by (simp add: db_ok_def foreign_ok_def)

lemma group_foreign: "db_ok d \<Longrightarrow> r \<in> set (node_groups d) \<Longrightarrow> group_refs d r"
  by (simp add: db_ok_def foreign_ok_def)

lemma group_node_foreign: "db_ok d \<Longrightarrow> r \<in> set (node_group_nodes d) \<Longrightarrow> group_node_refs d r"
  by (simp add: db_ok_def foreign_ok_def)

lemma job_foreign: "db_ok d \<Longrightarrow> r \<in> set (ota_jobs d) \<Longrightarrow> job_refs d r"
  by (simp add: db_ok_def foreign_ok_def)

lemma job_node_foreign: "db_ok d \<Longrightarrow> r \<in> set (ota_job_nodes d) \<Longrightarrow> job_node_refs d r"
  by (simp add: db_ok_def foreign_ok_def)

lemma automation_foreign: "db_ok d \<Longrightarrow> r \<in> set (automations d) \<Longrightarrow> automation_refs d r"
  by (simp add: db_ok_def foreign_ok_def)

text \<open>A checked insertion appends the row and keeps the invariant.\<close>

lemma insert_user_Inr:
  "insert_user r d = Inr d' \<longleftrightarrow>
     user_cols r \<and> user_refs d r \<and> (\<forall>s \<in> set (users d). \<not> user_clash s r) \<and>
     d' = d\<lparr>users := users d @ [r]\<rparr>"
  by (auto simp: insert_user_def map_sum_id_Inr insert_row_Inr)

lemma insert_user_ok [store_ok]:
  assumes "db_ok d" "insert_user r d = Inr d'"
  shows "db_ok d'"
  using assms
  by (auto simp: db_ok_def keys_ok_def foreign_ok_def insert_user_Inr refs_defs split: option.splits)

lemma insert_refresh_token_Inr:
  "insert_refresh_token r d = Inr d' \<longleftrightarrow>
     refresh_token_cols r \<and> refresh_token_refs d r \<and> (\<forall>s \<in> set (refresh_tokens d). \<not> refresh_token_clash s r) \<and>
     d' = d\<lparr>refresh_tokens := refresh_tokens d @ [r]\<rparr>"
  by (auto simp: insert_refresh_token_def map_sum_id_Inr insert_row_Inr)

lemma insert_refresh_token_ok [store_ok]:
  assumes "db_ok d" "insert_refresh_token r d = Inr d'"
  shows "db_ok d'"
  using assms
  by (auto simp: db_ok_def keys_ok_def foreign_ok_def insert_refresh_token_Inr refs_defs split: option.splits)

lemma insert_node_Inr:
  "insert_node r d = Inr d' \<longleftrightarrow>
     node_cols r \<and> node_refs d r \<and> (\<forall>s \<in> set (nodes d). \<not> node_clash s r) \<and>
     d' = d\<lparr>nodes := nodes d @ [r]\<rparr>"
  by (auto simp: insert_node_def map_sum_id_Inr insert_row_Inr)

lemma insert_node_ok [store_ok]:
  assumes "db_ok d" "insert_node r d = Inr d'"
  shows "db_ok d'"
  using assms
  by (auto simp: db_ok_def keys_ok_def foreign_ok_def insert_node_Inr refs_defs split: option.splits)

lemma insert_config_Inr:
  "insert_config r d = Inr d' \<longleftrightarrow>
     config_cols r \<and> config_refs d r \<and> (\<forall>s \<in> set (node_configs d). \<not> config_clash s r) \<and>
     d' = d\<lparr>node_configs := node_configs d @ [r]\<rparr>"
  by (auto simp: insert_config_def map_sum_id_Inr insert_row_Inr)

lemma insert_config_ok [store_ok]:
  assumes "db_ok d" "insert_config r d = Inr d'"
  shows "db_ok d'"
  using assms
  by (auto simp: db_ok_def keys_ok_def foreign_ok_def insert_config_Inr refs_defs split: option.splits)

lemma insert_shadow_Inr:
  "insert_shadow r d = Inr d' \<longleftrightarrow>
     shadow_cols r \<and> shadow_refs d r \<and> (\<forall>s \<in> set (node_params_shadows d). \<not> shadow_clash s r) \<and>
     d' = d\<lparr>node_params_shadows := node_params_shadows d @ [r]\<rparr>"
  by (auto simp: insert_shadow_def map_sum_id_Inr insert_row_Inr)

lemma insert_shadow_ok [store_ok]:
  assumes "db_ok d" "insert_shadow r d = Inr d'"
  shows "db_ok d'"
  using assms
  by (auto simp: db_ok_def keys_ok_def foreign_ok_def insert_shadow_Inr refs_defs split: option.splits)

lemma insert_certificate_Inr:
  "insert_certificate r d = Inr d' \<longleftrightarrow>
     certificate_cols r \<and> certificate_refs d r \<and> (\<forall>s \<in> set (node_certificates d). \<not> certificate_clash s r) \<and>
     d' = d\<lparr>node_certificates := node_certificates d @ [r]\<rparr>"
  by (auto simp: insert_certificate_def map_sum_id_Inr insert_row_Inr)

lemma insert_certificate_ok [store_ok]:
  assumes "db_ok d" "insert_certificate r d = Inr d'"
  shows "db_ok d'"
  using assms
  by (auto simp: db_ok_def keys_ok_def foreign_ok_def insert_certificate_Inr refs_defs split: option.splits)

lemma insert_mapping_Inr:
  "insert_mapping r d = Inr d' \<longleftrightarrow>
     mapping_cols r \<and> mapping_refs d r \<and> (\<forall>s \<in> set (user_node_mappings d). \<not> mapping_clash s r) \<and>
     d' = d\<lparr>user_node_mappings := user_node_mappings d @ [r]\<rparr>"
  by (auto simp: insert_mapping_def map_sum_id_Inr insert_row_Inr)

lemma insert_mapping_ok [store_ok]:
  assumes "db_ok d" "insert_mapping r d = Inr d'"
  shows "db_ok d'"
  using assms
  by (auto simp: db_ok_def keys_ok_def foreign_ok_def insert_mapping_Inr refs_defs split: option.splits)

lemma insert_challenge_Inr:
  "insert_challenge r d = Inr d' \<longleftrightarrow>
     challenge_cols r \<and> challenge_refs d r \<and> (\<forall>s \<in> set (mapping_challenges d). \<not> challenge_clash s r) \<and>
     d' = d\<lparr>mapping_challenges := mapping_challenges d @ [r]\<rparr>"
  by (auto simp: insert_challenge_def map_sum_id_Inr insert_row_Inr)

lemma insert_challenge_ok [store_ok]:
  assumes "db_ok d" "insert_challenge r d = Inr d'"
  shows "db_ok d'"
  using assms
  by (auto simp: db_ok_def keys_ok_def foreign_ok_def insert_challenge_Inr refs_defs split: option.splits)

lemma insert_provisioning_Inr:
  "insert_provisioning r d = Inr d' \<longleftrightarrow>
     provisioning_cols r \<and> provisioning_refs d r \<and> (\<forall>s \<in> set (device_provisionings d). \<not> provisioning_clash s r) \<and>
     d' = d\<lparr>device_provisionings := device_provisionings d @ [r]\<rparr>"
  by (auto simp: insert_provisioning_def map_sum_id_Inr insert_row_Inr)

lemma insert_provisioning_ok [store_ok]:
  assumes "db_ok d" "insert_provisioning r d = Inr d'"
  shows "db_ok d'"
  using assms
  by (auto simp: db_ok_def keys_ok_def foreign_ok_def insert_provisioning_Inr refs_defs split: option.splits)

lemma insert_claim_Inr:
  "insert_claim r d = Inr d' \<longleftrightarrow>
     claim_cols r \<and> claim_refs d r \<and> (\<forall>s \<in> set (claim_challenges d). \<not> claim_clash s r) \<and>
     d' = d\<lparr>claim_challenges := claim_challenges d @ [r]\<rparr>"
  by (auto simp: insert_claim_def map_sum_id_Inr insert_row_Inr)

lemma insert_claim_ok [store_ok]:
  assumes "db_ok d" "insert_claim r d = Inr d'"
  shows "db_ok d'"
  using assms
  by (auto simp: db_ok_def keys_ok_def foreign_ok_def insert_claim_Inr refs_defs split: option.splits)

lemma insert_sharing_Inr:
  "insert_sharing r d = Inr d' \<longleftrightarrow>
     sharing_cols r \<and> sharing_refs d r \<and> (\<forall>s \<in> set (node_sharings d). \<not> sharing_clash s r) \<and>
     d' = d\<lparr>node_sharings := node_sharings d @ [r]\<rparr>"
  by (auto simp: insert_sharing_def map_sum_id_Inr insert_row_Inr)

lemma insert_sharing_ok [store_ok]:
  assumes "db_ok d" "insert_sharing r d = Inr d'"
  shows "db_ok d'"
  using assms
  by (auto simp: db_ok_def keys_ok_def foreign_ok_def insert_sharing_Inr refs_defs split: option.splits)

lemma insert_sharing_request_Inr:
  "insert_sharing_request r d = Inr d' \<longleftrightarrow>
     sharing_request_cols r \<and> sharing_request_refs d r \<and> (\<forall>s \<in> set (node_sharing_requests d). \<not> sharing_request_clash s r) \<and>
     d' = d\<lparr>node_sharing_requests := node_sharing_requests d @ [r]\<rparr>"
  by (auto simp: insert_sharing_request_def map_sum_id_Inr insert_row_Inr)

lemma insert_sharing_request_ok [store_ok]:
  assumes "db_ok d" "insert_sharing_request r d = Inr d'"
  shows "db_ok d'"
  using assms
  by (auto simp: db_ok_def keys_ok_def foreign_ok_def insert_sharing_request_Inr refs_defs split: option.splits)

lemma insert_group_Inr:
  "insert_group r d = Inr d' \<longleftrightarrow>
     group_cols r \<and> group_refs d r \<and> (\<forall>s \<in> set (node_groups d). \<not> group_clash s r) \<and>
     d' = d\<lparr>node_groups := node_groups d @ [r]\<rparr>"
  by (auto simp: insert_group_def map_sum_id_Inr insert_row_Inr)

lemma insert_group_ok [store_ok]:
  assumes "db_ok d" "insert_group r d = Inr d'"
  shows "db_ok d'"
  using assms
  by (auto simp: db_ok_def keys_ok_def foreign_ok_def insert_group_Inr refs_defs split: option.splits)

lemma insert_group_node_Inr:
  "insert_group_node r d = Inr d' \<longleftrightarrow>
     group_node_cols r \<and> group_node_refs d r \<and> (\<forall>s \<in> set (node_group_nodes d). \<not> group_node_clash s r) \<and>
     d' = d\<lparr>node_group_nodes := node_group_nodes d @ [r]\<rparr>"
  by (auto simp: insert_group_node_def map_sum_id_Inr insert_row_Inr)

lemma insert_group_node_ok [store_ok]:
  assumes "db_ok d" "insert_group_node r d = Inr d'"
  shows "db_ok d'"
  using assms
  by (auto simp: db_ok_def keys_ok_def foreign_ok_def insert_group_node_Inr refs_defs split: option.splits)

lemma insert_image_Inr:
  "insert_image r d = Inr d' \<longleftrightarrow>
     image_cols r \<and> image_refs d r \<and> (\<forall>s \<in> set (ota_images d). \<not> image_clash s r) \<and>
     d' = d\<lparr>ota_images := ota_images d @ [r]\<rparr>"
  by (auto simp: insert_image_def map_sum_id_Inr insert_row_Inr)

lemma insert_image_ok [store_ok]:
  assumes "db_ok d" "insert_image r d = Inr d'"
  shows "db_ok d'"
  using assms
  by (auto simp: db_ok_def keys_ok_def foreign_ok_def insert_image_Inr refs_defs split: option.splits)

lemma insert_job_Inr:
  "insert_job r d = Inr d' \<longleftrightarrow>
     job_cols r \<and> job_refs d r \<and> (\<forall>s \<in> set (ota_jobs d). \<not> job_clash s r) \<and>
     d' = d\<lparr>ota_jobs := ota_jobs d @ [r]\<rparr>"
  by (auto simp: insert_job_def map_sum_id_Inr insert_row_Inr)

lemma insert_job_ok [store_ok]:
  assumes "db_ok d" "insert_job r d = Inr d'"
  shows "db_ok d'"
  using assms
  by (auto simp: db_ok_def keys_ok_def foreign_ok_def insert_job_Inr refs_defs split: option.splits)

lemma insert_job_node_Inr:
  "insert_job_node r d = Inr d' \<longleftrightarrow>
     job_node_cols r \<and> job_node_refs d r \<and> (\<forall>s \<in> set (ota_job_nodes d). \<not> job_node_clash s r) \<and>
     d' = d\<lparr>ota_job_nodes := ota_job_nodes d @ [r]\<rparr>"
  by (auto simp: insert_job_node_def map_sum_id_Inr insert_row_Inr)

lemma insert_job_node_ok [store_ok]:
  assumes "db_ok d" "insert_job_node r d = Inr d'"
  shows "db_ok d'"
  using assms
  by (auto simp: db_ok_def keys_ok_def foreign_ok_def insert_job_node_Inr refs_defs split: option.splits)

lemma insert_automation_Inr:
  "insert_automation r d = Inr d' \<longleftrightarrow>
     automation_cols r \<and> automation_refs d r \<and> (\<forall>s \<in> set (automations d). \<not> automation_clash s r) \<and>
     d' = d\<lparr>automations := automations d @ [r]\<rparr>"
  by (auto simp: insert_automation_def map_sum_id_Inr insert_row_Inr)

lemma insert_automation_ok [store_ok]:
  assumes "db_ok d" "insert_automation r d = Inr d'"
  shows "db_ok d'"
  using assms
  by (auto simp: db_ok_def keys_ok_def foreign_ok_def insert_automation_Inr refs_defs split: option.splits)

lemmas insert_Inr =
  insert_user_Inr insert_refresh_token_Inr insert_node_Inr insert_config_Inr insert_shadow_Inr insert_certificate_Inr insert_mapping_Inr insert_challenge_Inr insert_provisioning_Inr insert_claim_Inr insert_sharing_Inr insert_sharing_request_Inr insert_group_Inr insert_group_node_Inr insert_image_Inr insert_job_Inr insert_job_node_Inr insert_automation_Inr

lemmas insert_ok =
  insert_user_ok insert_refresh_token_ok insert_node_ok insert_config_ok insert_shadow_ok insert_certificate_ok insert_mapping_ok insert_challenge_ok insert_provisioning_ok insert_claim_ok insert_sharing_ok insert_sharing_request_ok insert_group_ok insert_group_node_ok insert_image_ok insert_job_ok insert_job_node_ok insert_automation_ok

text \<open>Every failed insertion is an exception of the SQL layer.\<close>

lemma insert_Inl_uncaught:
  "insert_user r0 d = Inl e \<Longrightarrow> e = Uncaught DataError \<or> e = Uncaught IntegrityError"
  "insert_refresh_token r1 d = Inl e \<Longrightarrow> e = Uncaught DataError \<or> e = Uncaught IntegrityError"
  "insert_node r2 d = Inl e \<Longrightarrow> e = Uncaught DataError \<or> e = Uncaught IntegrityError"
  "insert_config r3 d = Inl e \<Longrightarrow> e = Uncaught DataError \<or> e = Uncaught IntegrityError"
  "insert_shadow r4 d = Inl e \<Longrightarrow> e = Uncaught DataError \<or> e = Uncaught IntegrityError"
  "insert_certificate r5 d = Inl e \<Longrightarrow> e = Uncaught DataError \<or> e = Uncaught IntegrityError"
  "insert_mapping r6 d = Inl e \<Longrightarrow> e = Uncaught DataError \<or> e = Uncaught IntegrityError"
  "insert_challenge r7 d = Inl e \<Longrightarrow> e = Uncaught DataError \<or> e = Uncaught IntegrityError"
  "insert_provisioning r8 d = Inl e \<Longrightarrow> e = Uncaught DataError \<or> e = Uncaught IntegrityError"
  "insert_claim r9 d = Inl e \<Longrightarrow> e = Uncaught DataError \<or> e = Uncaught IntegrityError"
  "insert_sharing r10 d = Inl e \<Longrightarrow> e = Uncaught DataError \<or> e = Uncaught IntegrityError"
  "insert_sharing_request r11 d = Inl e \<Longrightarrow> e = Uncaught DataError \<or> e = Uncaught IntegrityError"
  "insert_group r12 d = Inl e \<Longrightarrow> e = Uncaught DataError \<or> e = Uncaught IntegrityError"
  "insert_group_node r13 d = Inl e \<Longrightarrow> e = Uncaught DataError \<or> e = Uncaught IntegrityError"
  "insert_image r14 d = Inl e \<Longrightarrow> e = Uncaught DataError \<or> e = Uncaught IntegrityError"
  "insert_job r15 d = Inl e \<Longrightarrow> e = Uncaught DataError \<or> e = Uncaught IntegrityError"
  "insert_job_node r16 d = Inl e \<Longrightarrow> e = Uncaught DataError \<or> e = Uncaught IntegrityError"
  "insert_automation r17 d = Inl e \<Longrightarrow> e = Uncaught DataError \<or> e = Uncaught IntegrityError"
  by (auto simp: insert_defs dest: insert_row_Inl)

section \<open>Updates\<close>

text \<open>Writing columns that are in no unique or foreign key keeps the invariant.\<close>

lemma update_user_ok [store_ok]:
  assumes "db_ok d"
    and [simp]: "\<And>r. usr_id (f r) = usr_id r" "\<And>r. usr_user_name (f r) = usr_user_name r"
  shows "db_ok (d\<lparr>users := update_where p f (users d)\<rparr>)"
proof -
  have "clash_free user_clash (update_where p f (users d))"
    by (rule clash_free_update [OF user_keys [OF assms(1)]]) (simp_all add: user_clash_def)
  with assms(1) show ?thesis
    by (simp add: db_ok_def keys_ok_def foreign_ok_def refs_defs ball_update_where)
qed

lemma update_refresh_token_ok [store_ok]:
  assumes "db_ok d"
    and [simp]: "\<And>r. rt_id (f r) = rt_id r" "\<And>r. rt_jti (f r) = rt_jti r" "\<And>r. rt_user_id (f r) = rt_user_id r"
  shows "db_ok (d\<lparr>refresh_tokens := update_where p f (refresh_tokens d)\<rparr>)"
proof -
  have "clash_free refresh_token_clash (update_where p f (refresh_tokens d))"
    by (rule clash_free_update [OF refresh_token_keys [OF assms(1)]]) (simp_all add: refresh_token_clash_def)
  with assms(1) show ?thesis
    by (simp add: db_ok_def keys_ok_def foreign_ok_def refs_defs ball_update_where)
qed

lemma update_node_ok [store_ok]:
  assumes "db_ok d"
    and [simp]: "\<And>r. nd_node_id (f r) = nd_node_id r"
  shows "db_ok (d\<lparr>nodes := update_where p f (nodes d)\<rparr>)"
proof -
  have "clash_free node_clash (update_where p f (nodes d))"
    by (rule clash_free_update [OF node_keys [OF assms(1)]]) (simp_all add: node_clash_def)
  with assms(1) show ?thesis
    by (simp add: db_ok_def keys_ok_def foreign_ok_def refs_defs ball_update_where)
qed

lemma update_config_ok [store_ok]:
  assumes "db_ok d"
    and [simp]: "\<And>r. cfg_node_id (f r) = cfg_node_id r"
  shows "db_ok (d\<lparr>node_configs := update_where p f (node_configs d)\<rparr>)"
proof -
  have "clash_free config_clash (update_where p f (node_configs d))"
    by (rule clash_free_update [OF config_keys [OF assms(1)]]) (simp_all add: config_clash_def)
  with assms(1) show ?thesis
    by (simp add: db_ok_def keys_ok_def foreign_ok_def refs_defs ball_update_where)
qed

lemma update_shadow_ok [store_ok]:
  assumes "db_ok d"
    and [simp]: "\<And>r. shadow_node_id (f r) = shadow_node_id r"
  shows "db_ok (d\<lparr>node_params_shadows := update_where p f (node_params_shadows d)\<rparr>)"
proof -
  have "clash_free shadow_clash (update_where p f (node_params_shadows d))"
    by (rule clash_free_update [OF shadow_keys [OF assms(1)]]) (simp_all add: shadow_clash_def)
  with assms(1) show ?thesis
    by (simp add: db_ok_def keys_ok_def foreign_ok_def refs_defs ball_update_where)
qed

lemma update_challenge_ok [store_ok]:
  assumes "db_ok d"
    and [simp]: "\<And>r. mc_id (f r) = mc_id r" "\<And>r. mc_request_id (f r) = mc_request_id r" "\<And>r. mc_user_id (f r) = mc_user_id r"
  shows "db_ok (d\<lparr>mapping_challenges := update_where p f (mapping_challenges d)\<rparr>)"
proof -
  have "clash_free challenge_clash (update_where p f (mapping_challenges d))"
    by (rule clash_free_update [OF challenge_keys [OF assms(1)]]) (simp_all add: challenge_clash_def)
  with assms(1) show ?thesis
    by (simp add: db_ok_def keys_ok_def foreign_ok_def refs_defs ball_update_where)
qed

lemma update_provisioning_ok [store_ok]:
  assumes "db_ok d"
    and [simp]: "\<And>r. dp_mac_addr (f r) = dp_mac_addr r"
  shows "db_ok (d\<lparr>device_provisionings := update_where p f (device_provisionings d)\<rparr>)"
proof -
  have "clash_free provisioning_clash (update_where p f (device_provisionings d))"
    by (rule clash_free_update [OF provisioning_keys [OF assms(1)]]) (simp_all add: provisioning_clash_def)
  with assms(1) show ?thesis
    by (simp add: db_ok_def keys_ok_def foreign_ok_def refs_defs)
qed

lemma update_claim_ok [store_ok]:
  assumes "db_ok d"
    and [simp]: "\<And>r. cc_id (f r) = cc_id r" "\<And>r. cc_auth_id (f r) = cc_auth_id r"
  shows "db_ok (d\<lparr>claim_challenges := update_where p f (claim_challenges d)\<rparr>)"
proof -
  have "clash_free claim_clash (update_where p f (claim_challenges d))"
    by (rule clash_free_update [OF claim_keys [OF assms(1)]]) (simp_all add: claim_clash_def)
  with assms(1) show ?thesis
    by (simp add: db_ok_def keys_ok_def foreign_ok_def refs_defs ball_update_where)
qed

lemma update_sharing_request_ok [store_ok]:
  assumes "db_ok d"
    and [simp]: "\<And>r. sr_id (f r) = sr_id r" "\<And>r. sr_node_id (f r) = sr_node_id r" "\<And>r. sr_from_user_id (f r) = sr_from_user_id r"
  shows "db_ok (d\<lparr>node_sharing_requests := update_where p f (node_sharing_requests d)\<rparr>)"
proof -
  have "clash_free sharing_request_clash (update_where p f (node_sharing_requests d))"
    by (rule clash_free_update [OF sharing_request_keys [OF assms(1)]]) (simp_all add: sharing_request_clash_def)
  with assms(1) show ?thesis
    by (simp add: db_ok_def keys_ok_def foreign_ok_def refs_defs ball_update_where)
qed

lemma update_image_ok [store_ok]:
  assumes "db_ok d"
    and [simp]: "\<And>r. img_id (f r) = img_id r"
  shows "db_ok (d\<lparr>ota_images := update_where p f (ota_images d)\<rparr>)"
proof -
  have "clash_free image_clash (update_where p f (ota_images d))"
    by (rule clash_free_update [OF image_keys [OF assms(1)]]) (simp_all add: image_clash_def)
  with assms(1) show ?thesis
    by (simp add: db_ok_def keys_ok_def foreign_ok_def refs_defs ball_update_where)
qed

lemma update_job_node_ok [store_ok]:
  assumes "db_ok d"
    and [simp]: "\<And>r. jn_id (f r) = jn_id r" "\<And>r. jn_job_id (f r) = jn_job_id r" "\<And>r. jn_node_id (f r) = jn_node_id r"
  shows "db_ok (d\<lparr>ota_job_nodes := update_where p f (ota_job_nodes d)\<rparr>)"
proof -
  have "clash_free job_node_clash (update_where p f (ota_job_nodes d))"
    by (rule clash_free_update [OF job_node_keys [OF assms(1)]]) (simp_all add: job_node_clash_def)
  with assms(1) show ?thesis
    by (simp add: db_ok_def keys_ok_def foreign_ok_def refs_defs ball_update_where)
qed

lemma update_automation_ok [store_ok]:
  assumes "db_ok d"
    and [simp]: "\<And>r. au_id (f r) = au_id r" "\<And>r. au_user_id (f r) = au_user_id r"
  shows "db_ok (d\<lparr>automations := update_where p f (automations d)\<rparr>)"
proof -
  have "clash_free automation_clash (update_where p f (automations d))"
    by (rule clash_free_update [OF automation_keys [OF assms(1)]]) (simp_all add: automation_clash_def)
  with assms(1) show ?thesis
    by (simp add: db_ok_def keys_ok_def foreign_ok_def refs_defs ball_update_where)
qed

section \<open>Deletions\<close>

text \<open>Rows that nothing references are simply removed.\<close>

lemma delete_refresh_token_ok [store_ok]:
  "db_ok d \<Longrightarrow> db_ok (d\<lparr>refresh_tokens := delete_where p (refresh_tokens d)\<rparr>)"
  by (simp add: db_ok_def keys_ok_def foreign_ok_def refs_defs)

lemma delete_mapping_ok [store_ok]:
  "db_ok d \<Longrightarrow> db_ok (d\<lparr>user_node_mappings := delete_where p (user_node_mappings d)\<rparr>)"
  by (simp add: db_ok_def keys_ok_def foreign_ok_def refs_defs)

lemma delete_sharing_ok [store_ok]:
  "db_ok d \<Longrightarrow> db_ok (d\<lparr>node_sharings := delete_where p (node_sharings d)\<rparr>)"
  by (simp add: db_ok_def keys_ok_def foreign_ok_def refs_defs)

lemma delete_automation_ok [store_ok]:
  "db_ok d \<Longrightarrow> db_ok (d\<lparr>automations := delete_where p (automations d)\<rparr>)"
  by (simp add: db_ok_def keys_ok_def foreign_ok_def refs_defs)

text \<open>
  \<open>node_groups.parent_id\<close> references its own table with \<open>ON DELETE CASCADE\<close>, so deleting groups
  deletes everything below them: one round adds the children of the groups found so far, and as
  many rounds as the table has rows reach every descendant.
\<close>

definition child_groups :: "node_group list \<Rightarrow> uuid list \<Rightarrow> uuid list" where
  "child_groups gs ids =
     map grp_id (filter (\<lambda>g. (\<exists>p \<in> set ids. grp_parent_id g = Some p) \<and> grp_id g \<notin> set ids) gs)"

primrec groups_below :: "nat \<Rightarrow> node_group list \<Rightarrow> uuid list \<Rightarrow> uuid list" where
  "groups_below 0 gs ids = ids"
| "groups_below (Suc n) gs ids = groups_below n gs (ids @ child_groups gs ids)"

definition closed_below :: "node_group list \<Rightarrow> uuid list \<Rightarrow> bool" where
  "closed_below gs ids \<longleftrightarrow>
     (\<forall>g \<in> set gs. \<forall>p. grp_parent_id g = Some p \<longrightarrow> p \<in> set ids \<longrightarrow> grp_id g \<in> set ids)"

definition doomed_groups :: "db \<Rightarrow> uuid list \<Rightarrow> uuid list" where
  "doomed_groups d ids = groups_below (length (node_groups d)) (node_groups d) ids"

definition cascade_groups :: "uuid list \<Rightarrow> db \<Rightarrow> db" where
  "cascade_groups ids d =
     d\<lparr>node_groups := delete_where (\<lambda>g. grp_id g \<in> set (doomed_groups d ids)) (node_groups d),
       node_group_nodes :=
         delete_where (\<lambda>m. gn_group_id m \<in> set (doomed_groups d ids)) (node_group_nodes d)\<rparr>"

lemma child_groups_Nil: "child_groups gs ids = [] \<longleftrightarrow> closed_below gs ids"
  by (auto simp: child_groups_def closed_below_def filter_empty_conv)

lemma groups_below_superset: "set ids \<subseteq> set (groups_below n gs ids)"
  by (induction n arbitrary: ids) force+

lemma groups_below_stable: "closed_below gs ids \<Longrightarrow> groups_below n gs ids = ids"
  by (induction n) (simp_all add: child_groups_Nil [symmetric])

text \<open>Each round that is not the last finds a new group, so the table's length is enough fuel.\<close>

lemma groups_below_closed:
  "card (grp_id ` set gs - set ids) \<le> n \<Longrightarrow> closed_below gs (groups_below n gs ids)"
proof (induction n arbitrary: ids)
  case 0
  then have "grp_id ` set gs \<subseteq> set ids" by simp
  then show ?case by (auto simp: closed_below_def)
next
  case (Suc n)
  show ?case
  proof (cases "child_groups gs ids")
    case Nil
    then have "closed_below gs ids" by (simp add: child_groups_Nil)
    then show ?thesis by (metis groups_below_stable)
  next
    case (Cons c cs)
    then have "c \<in> set (child_groups gs ids)" by simp
    then have c: "c \<in> grp_id ` set gs - set ids"
      by (auto simp: child_groups_def)
    let ?ids = "ids @ child_groups gs ids"
    have "grp_id ` set gs - set ?ids \<subset> grp_id ` set gs - set ids"
      using c Cons by auto
    then have "card (grp_id ` set gs - set ?ids) < card (grp_id ` set gs - set ids)"
      by (intro psubset_card_mono) auto
    with Suc.prems have "card (grp_id ` set gs - set ?ids) \<le> n" by simp
    then show ?thesis using Suc.IH [of ?ids] by simp
  qed
qed

lemma doomed_groups_closed: "closed_below (node_groups d) (doomed_groups d ids)"
proof -
  have "card (grp_id ` set (node_groups d) - set ids) \<le> card (grp_id ` set (node_groups d))"
    by (intro card_mono) auto
  also have "\<dots> \<le> length (node_groups d)"
    using card_image_le [of "set (node_groups d)" grp_id] card_length [of "node_groups d"] by simp
  finally show ?thesis unfolding doomed_groups_def by (rule groups_below_closed)
qed

lemma doomed_groups_superset: "set ids \<subseteq> set (doomed_groups d ids)"
  unfolding doomed_groups_def by (rule groups_below_superset)

lemma cascade_groups_fields [simp]:
  "users (cascade_groups ids d) = users d"
  "refresh_tokens (cascade_groups ids d) = refresh_tokens d"
  "nodes (cascade_groups ids d) = nodes d"
  "node_certificates (cascade_groups ids d) = node_certificates d"
  "user_node_mappings (cascade_groups ids d) = user_node_mappings d"
  "mapping_challenges (cascade_groups ids d) = mapping_challenges d"
  "claim_challenges (cascade_groups ids d) = claim_challenges d"
  "node_sharings (cascade_groups ids d) = node_sharings d"
  "node_sharing_requests (cascade_groups ids d) = node_sharing_requests d"
  "automations (cascade_groups ids d) = automations d"
  by (simp_all add: cascade_groups_def)

lemma cascade_groups_ok [store_ok]:
  assumes ok: "db_ok d"
  shows "db_ok (cascade_groups ids d)"
proof -
  let ?D = "doomed_groups d ids"
  have cl: "grp_id g \<in> set ?D"
    if "g \<in> set (node_groups d)" "grp_parent_id g = Some p" "p \<in> set ?D" for g p
    using doomed_groups_closed [of d ids] that by (auto simp: closed_below_def)
  have parents: "group_refs (cascade_groups ids d) g"
    if g: "g \<in> set (node_groups d)" "grp_id g \<notin> set ?D" for g
    using group_foreign [OF ok g(1)] cl [OF g(1)] g(2)
    by (cases "grp_parent_id g") (auto simp: group_refs_def cascade_groups_def present_def)
  show ?thesis
    using ok parents
    by (auto simp: db_ok_def keys_ok_def foreign_ok_def refs_defs cascade_groups_def present_def)
qed

lemma set_cascade_groups:
  "g \<in> set (node_groups (cascade_groups ids d)) \<Longrightarrow> g \<in> set (node_groups d) \<and> grp_id g \<notin> set ids"
  using doomed_groups_superset [of ids d] by (auto simp: cascade_groups_def)

text \<open>
  Deleting a user: the ORM deletes the mappings (\<open>cascade="all, delete-orphan"\<close>) and the foreign
  keys to \<open>users.id\<close> delete the rest.  \<open>claim_challenges.user_id\<close> has no foreign key.
\<close>

definition purge_user :: "uuid \<Rightarrow> db \<Rightarrow> db" where
  "purge_user uid d =
     d\<lparr>users := delete_where (\<lambda>u. usr_id u = uid) (users d),
       refresh_tokens := delete_where (\<lambda>r. rt_user_id r = uid) (refresh_tokens d),
       user_node_mappings := delete_where (\<lambda>m. unm_user_id m = uid) (user_node_mappings d),
       mapping_challenges := delete_where (\<lambda>c. mc_user_id c = uid) (mapping_challenges d),
       node_sharings :=
         delete_where (\<lambda>s. sh_from_user_id s = uid \<or> sh_to_user_id s = uid) (node_sharings d),
       node_sharing_requests :=
         delete_where (\<lambda>r. sr_from_user_id r = uid) (node_sharing_requests d),
       automations := delete_where (\<lambda>a. au_user_id a = uid) (automations d)\<rparr>"

definition delete_user :: "uuid \<Rightarrow> db \<Rightarrow> db" where
  "delete_user uid d =
     purge_user uid
       (cascade_groups (map grp_id (filter (\<lambda>g. grp_owner_id g = uid) (node_groups d))) d)"

lemma purge_user_ok:
  assumes "db_ok d" and "\<forall>g \<in> set (node_groups d). grp_owner_id g \<noteq> uid"
  shows "db_ok (purge_user uid d)"
  using assms by (simp add: db_ok_def keys_ok_def foreign_ok_def refs_defs purge_user_def)

lemma delete_user_ok [store_ok]:
  assumes ok: "db_ok d"
  shows "db_ok (delete_user uid d)"
  unfolding delete_user_def
proof (rule purge_user_ok)
  let ?d = "cascade_groups (map grp_id (filter (\<lambda>g. grp_owner_id g = uid) (node_groups d))) d"
  show "db_ok ?d" using ok by (rule cascade_groups_ok)
  show "\<forall>g \<in> set (node_groups ?d). grp_owner_id g \<noteq> uid"
    by (auto dest: set_cascade_groups)
qed

section \<open>The unique indexes of the schema\<close>

text \<open>Each unique constraint meets the contract of \<open>unique_index\<close>.\<close>

interpretation users_by_id: unique_index usr_id user_clash
  by unfold_locales (simp add: user_clash_def)

interpretation users_by_name: unique_index usr_user_name user_clash
  by unfold_locales (simp add: user_clash_def)

interpretation tokens_by_jti: unique_index rt_jti refresh_token_clash
  by unfold_locales (simp add: refresh_token_clash_def)

interpretation nodes_by_id: unique_index nd_node_id node_clash
  by unfold_locales (simp add: node_clash_def)

interpretation configs_by_node: unique_index cfg_node_id config_clash
  by unfold_locales (simp add: config_clash_def)

interpretation shadows_by_node: unique_index shadow_node_id shadow_clash
  by unfold_locales (simp add: shadow_clash_def)

interpretation mappings_by_pair: unique_index "\<lambda>m. (unm_user_id m, unm_node_id m)" mapping_clash
  by unfold_locales (simp add: mapping_clash_def)

interpretation mappings_by_id: unique_index unm_id mapping_clash
  by unfold_locales (simp add: mapping_clash_def)

interpretation challenges_by_request: unique_index mc_request_id challenge_clash
  by unfold_locales (simp add: challenge_clash_def)

interpretation challenges_by_id: unique_index mc_id challenge_clash
  by unfold_locales (simp add: challenge_clash_def)

interpretation provisionings_by_mac: unique_index dp_mac_addr provisioning_clash
  by unfold_locales (simp add: provisioning_clash_def)

interpretation claims_by_id: unique_index cc_id claim_clash
  by unfold_locales (simp add: claim_clash_def)

interpretation sharings_by_pair: unique_index "\<lambda>s. (sh_node_id s, sh_to_user_id s)" sharing_clash
  by unfold_locales (simp add: sharing_clash_def)

interpretation sharings_by_id: unique_index sh_id sharing_clash
  by unfold_locales (simp add: sharing_clash_def)

interpretation requests_by_id: unique_index sr_id sharing_request_clash
  by unfold_locales (simp add: sharing_request_clash_def)

interpretation groups_by_id: unique_index grp_id group_clash
  by unfold_locales (simp add: group_clash_def)

interpretation images_by_id: unique_index img_id image_clash
  by unfold_locales (simp add: image_clash_def)

interpretation jobs_by_id: unique_index job_id job_clash
  by unfold_locales (simp add: job_clash_def)

interpretation job_nodes_by_pair: unique_index "\<lambda>j. (jn_job_id j, jn_node_id j)" job_node_clash
  by unfold_locales (simp add: job_node_clash_def)

interpretation job_nodes_by_id: unique_index jn_id job_node_clash
  by unfold_locales (simp add: job_node_clash_def)

interpretation automations_by_id: unique_index au_id automation_clash
  by unfold_locales (simp add: automation_clash_def)

end
