(* ===== verification/PyUuid.thy ===== *)
theory PyUuid
  imports Prelude
begin

text \<open>
  Python's \<open>uuid.UUID(text)\<close> and \<open>str(uuid)\<close>, which carry every identifier through request bodies,
  tokens and responses.  The parser is the module's: it drops \<open>urn:\<close> and \<open>uuid:\<close>, strips braces,
  drops dashes, wants 32 characters and hands them to \<open>int(text, 16)\<close>, with that function's sign,
  \<open>0x\<close> prefix, surrounding white space and single underscores.
\<close>

section \<open>Decimal numerals\<close>

definition digit_char :: "nat \<Rightarrow> char" where
  "digit_char d = char_of (48 + d)"

fun nat_str :: "nat \<Rightarrow> string" where
  "nat_str n = (if n < 10 then [digit_char n] else nat_str (n div 10) @ [digit_char (n mod 10)])"

declare nat_str.simps [simp del]

definition int_str :: "int \<Rightarrow> string" where
  "int_str i = (if i < 0 then CHR ''-'' # nat_str (nat (- i)) else nat_str (nat i))"

lemma nat_str_length: "n < 10 ^ Suc k \<Longrightarrow> length (nat_str n) \<le> Suc k"
proof (induction k arbitrary: n)
  case 0
  then show ?case by (simp add: nat_str.simps)
next
  case (Suc k)
  show ?case
  proof (cases "n < 10")
    case True
    then show ?thesis by (simp add: nat_str.simps)
  next
    case False
    from Suc.prems have "n div 10 < 10 ^ Suc k"
      by (simp add: less_mult_imp_div_less mult.commute)
    with Suc.IH [of "n div 10"] False show ?thesis
      by (subst nat_str.simps) simp
  qed
qed

section \<open>Hexadecimal numerals\<close>

definition hex_char :: "nat \<Rightarrow> char" where
  "hex_char d = (if d < 10 then char_of (48 + d) else char_of (87 + d))"

definition hex_digit :: "char \<Rightarrow> nat option" where
  "hex_digit c = (let n = code_point c in
     if 48 \<le> n \<and> n \<le> 57 then Some (n - 48)
     else if 97 \<le> n \<and> n \<le> 102 then Some (n - 87)
     else if 65 \<le> n \<and> n \<le> 70 then Some (n - 55) else None)"

primrec hex_val :: "nat \<Rightarrow> bool \<Rightarrow> string \<Rightarrow> nat option" where
  "hex_val acc us [] = (if us then None else Some acc)"
| "hex_val acc us (c # s) =
     (if c = CHR ''_'' then (if us then None else hex_val acc True s)
      else case hex_digit c of
             None \<Rightarrow> None
           | Some d \<Rightarrow> hex_val (16 * acc + d) False s)"

definition hex_body :: "string \<Rightarrow> nat option" where
  "hex_body s = (if s = [] \<or> hd s = CHR ''_'' then None else hex_val 0 False s)"

definition hex_unsigned :: "string \<Rightarrow> nat option" where
  "hex_unsigned s =
     (if startswith s ''0x'' \<or> startswith s ''0X''
      then (let t = drop 2 s in hex_body (if startswith t ''_'' then drop 1 t else t))
      else hex_body s)"

text \<open>\<open>int(text, 16)\<close>.\<close>

definition int_16 :: "string \<Rightarrow> pyexc + int" where
  "int_16 s =
     (let t = py_strip s;
          neg = startswith t ''-'';
          u = (if neg \<or> startswith t ''+'' then drop 1 t else t)
      in case hex_unsigned u of
           None \<Rightarrow> Inl ValueError
         | Some n \<Rightarrow> Inr (if neg then - int n else int n))"

section \<open>UUIDs\<close>

text \<open>\<open>s.replace(pat, "")\<close>.\<close>

function py_remove :: "string \<Rightarrow> string \<Rightarrow> string" where
  "py_remove pat [] = []"
| "py_remove pat (c # s) =
     (if pat \<noteq> [] \<and> prefix pat (c # s) then py_remove pat (drop (length pat) (c # s))
      else c # py_remove pat s)"
  by pat_completeness auto
termination
  by (relation "measure (\<lambda>(pat, s). length s)") auto

definition strip_braces :: "string \<Rightarrow> string" where
  "strip_braces s =
     (let b = (\<lambda>c. c = CHR ''{'' \<or> c = CHR ''}'') in rev (dropWhile b (rev (dropWhile b s))))"

definition parse_uuid :: "string \<Rightarrow> pyexc + uuid" where
  "parse_uuid s =
     (let h = py_remove ''uuid:'' (py_remove ''urn:'' s);
          h = py_remove ''-'' (strip_braces h)
      in if length h \<noteq> 32 then Inl ValueError
         else case int_16 h of
                Inl e \<Rightarrow> Inl e
              | Inr i \<Rightarrow> if 0 \<le> i \<and> i < 2 ^ 128 then Inr (nat i) else Inl ValueError)"

primrec hex_fixed :: "nat \<Rightarrow> nat \<Rightarrow> string" where
  "hex_fixed 0 n = []"
| "hex_fixed (Suc k) n = hex_fixed k (n div 16) @ [hex_char (n mod 16)]"

definition str_uuid :: "uuid \<Rightarrow> string" where
  "str_uuid u =
     (let h = hex_fixed 32 u in
      take 8 h @ ''-'' @ take 4 (drop 8 h) @ ''-'' @ take 4 (drop 12 h) @ ''-'' @
      take 4 (drop 16 h) @ ''-'' @ drop 20 h)"

section \<open>Printing, then parsing\<close>

definition hex_chars :: "char set" where
  "hex_chars = hex_char ` {0..<16}"

lemma hex_chars_eq: "hex_chars = set ''0123456789abcdef''"
  unfolding hex_chars_def by code_simp

lemma hex_digit_char [simp]: "d < 16 \<Longrightarrow> hex_digit (hex_char d) = Some d"
  by (simp add: hex_digit_def hex_char_def code_point_def Let_def)

lemma hex_fixed_chars: "set (hex_fixed k n) \<subseteq> hex_chars"
  by (induction k arbitrary: n) (auto simp: hex_chars_def)

lemma length_hex_fixed [simp]: "length (hex_fixed k n) = k"
  by (induction k arbitrary: n) auto

lemma hex_val_append:
  "set s \<subseteq> hex_chars \<Longrightarrow>
   hex_val acc False (s @ t) = (case hex_val acc False s of None \<Rightarrow> None | Some m \<Rightarrow> hex_val m False t)"
proof (induction s arbitrary: acc)
  case (Cons c s)
  then have "c \<in> hex_chars" by simp
  then obtain e where "c = hex_char e" "e < 16" by (auto simp: hex_chars_def)
  moreover have "c \<noteq> CHR ''_''" using \<open>c \<in> hex_chars\<close> by (auto simp: hex_chars_eq)
  ultimately show ?case using Cons by simp
qed simp

lemma hex_val_fixed: "hex_val acc False (hex_fixed k n) = Some (acc * 16 ^ k + n mod 16 ^ k)"
proof (induction k arbitrary: n)
  case (Suc k)
  have "hex_char (n mod 16) \<noteq> CHR ''_''"
  proof -
    have "hex_char (n mod 16) \<in> hex_chars" by (simp add: hex_chars_def)
    then show ?thesis by (auto simp: hex_chars_eq)
  qed
  moreover have "n mod 16 ^ Suc k = 16 * (n div 16 mod 16 ^ k) + n mod 16"
    by (simp add: mod_mult2_eq)
  ultimately show ?case
    using Suc by (simp add: hex_val_append [OF hex_fixed_chars] algebra_simps)
qed simp

lemma py_remove_absent: "c \<in> set pat \<Longrightarrow> c \<notin> set s \<Longrightarrow> py_remove pat s = s"
proof (induction s)
  case (Cons x s)
  then have "\<not> prefix pat (x # s)" by (meson set_mono_prefix subsetD)
  with Cons show ?case by simp
qed simp

lemma py_remove_char: "py_remove [c] s = filter (\<lambda>x. x \<noteq> c) s"
  by (induction s) auto

lemma dropWhile_none: "\<forall>x \<in> set s. \<not> p x \<Longrightarrow> dropWhile p s = s"
  by (cases s) auto

lemma strip_braces_none: "CHR ''{'' \<notin> set s \<Longrightarrow> CHR ''}'' \<notin> set s \<Longrightarrow> strip_braces s = s"
proof -
  assume "CHR ''{'' \<notin> set s" "CHR ''}'' \<notin> set s"
  then have "\<forall>c \<in> set s. \<not> (c = CHR ''{'' \<or> c = CHR ''}'')" by auto
  then show ?thesis by (simp add: strip_braces_def Let_def dropWhile_none)
qed

lemma py_strip_none: "\<forall>x \<in> set s. \<not> is_space x \<Longrightarrow> py_strip s = s"
  by (simp add: py_strip_def dropWhile_none)

lemma hex_not_space: "c \<in> hex_chars \<Longrightarrow> \<not> is_space c"
  by (auto simp: hex_chars_eq is_space_def code_point_def)

lemma startswith_hex:
  "set s \<subseteq> hex_chars \<Longrightarrow> c \<in> set p \<Longrightarrow> c \<notin> hex_chars \<Longrightarrow> \<not> startswith s p"
  unfolding startswith_def by (meson set_mono_prefix subsetD)

lemma int_16_hex:
  assumes s: "set s \<subseteq> hex_chars" "s \<noteq> []" and v: "hex_val 0 False s = Some n"
  shows "int_16 s = Inr (int n)"
proof -
  have x: "CHR ''x'' \<notin> hex_chars" "CHR ''X'' \<notin> hex_chars" "CHR ''-'' \<notin> hex_chars"
    "CHR ''+'' \<notin> hex_chars" "CHR ''_'' \<notin> hex_chars" by (simp_all add: hex_chars_eq)
  have "py_strip s = s" using s(1) by (intro py_strip_none) (auto dest: hex_not_space)
  moreover have "hd s \<noteq> CHR ''_''" using s(1) x(5) hd_in_set [OF s(2)] by (metis subsetD)
  moreover have "\<not> startswith s ''0x''" "\<not> startswith s ''0X''" "\<not> startswith s ''-''"
    "\<not> startswith s ''+''"
    using startswith_hex [OF s(1) _ x(1), of "''0x''"] startswith_hex [OF s(1) _ x(2), of "''0X''"]
      startswith_hex [OF s(1) _ x(3), of "''-''"] startswith_hex [OF s(1) _ x(4), of "''+''"] by simp_all
  ultimately show ?thesis
    using s(2) v by (simp add: int_16_def hex_unsigned_def hex_body_def)
qed

lemma filter_hex_id: "set s \<subseteq> hex_chars \<Longrightarrow> filter (\<lambda>x. x \<noteq> CHR ''-'') s = s"
  by (rule filter_True) (auto simp: hex_chars_eq)

lemma set_str_uuid: "set (str_uuid u) \<subseteq> insert (CHR ''-'') hex_chars"
proof -
  have "set (take n (drop m (hex_fixed 32 u))) \<subseteq> hex_chars" for n m
    using hex_fixed_chars [of 32 u] set_take_subset set_drop_subset by fast
  moreover have "set (take 8 (hex_fixed 32 u)) \<subseteq> hex_chars" "set (drop 20 (hex_fixed 32 u)) \<subseteq> hex_chars"
    using hex_fixed_chars [of 32 u] set_take_subset set_drop_subset by fast+
  ultimately show ?thesis by (simp add: str_uuid_def Let_def subset_insertI2)
qed

lemma filter_str_uuid: "filter (\<lambda>x. x \<noteq> CHR ''-'') (str_uuid u) = hex_fixed 32 u"
proof -
  let ?h = "hex_fixed 32 u"
  have f: "filter (\<lambda>x. x \<noteq> CHR ''-'') (take n (drop m ?h)) = take n (drop m ?h)" for n m
    using hex_fixed_chars [of 32 u] by (intro filter_hex_id) (metis order_trans set_drop_subset set_take_subset)
  have "filter (\<lambda>x. x \<noteq> CHR ''-'') (str_uuid u) =
      take 8 ?h @ take 4 (drop 8 ?h) @ take 4 (drop 12 ?h) @ take 4 (drop 16 ?h) @ drop 20 ?h"
    using f [of 8 0] f [of 4 8] f [of 4 12] f [of 4 16] f [of 12 20]
    by (simp add: str_uuid_def Let_def)
  also have "\<dots> = ?h"
    using append_take_drop_id [of 8 ?h] append_take_drop_id [of 4 "drop 8 ?h"]
      append_take_drop_id [of 4 "drop 12 ?h"] append_take_drop_id [of 4 "drop 16 ?h"] by simp
  finally show ?thesis .
qed

theorem parse_str_uuid: "u < 2 ^ 128 \<Longrightarrow> parse_uuid (str_uuid u) = Inr u"
proof -
  assume u: "u < 2 ^ 128"
  have no: "c \<notin> set (str_uuid u)" if "c \<noteq> CHR ''-''" "c \<notin> hex_chars" for c
    using set_str_uuid [of u] that by auto
  have "py_remove ''urn:'' (str_uuid u) = str_uuid u"
    by (rule py_remove_absent [of "CHR '':''"]) (simp_all add: no hex_chars_eq)
  moreover have "py_remove ''uuid:'' (str_uuid u) = str_uuid u"
    by (rule py_remove_absent [of "CHR '':''"]) (simp_all add: no hex_chars_eq)
  moreover have "strip_braces (str_uuid u) = str_uuid u"
    by (rule strip_braces_none) (simp_all add: no hex_chars_eq)
  moreover have "int_16 (hex_fixed 32 u) = Inr (int u)"
  proof (rule int_16_hex)
    show "hex_val 0 False (hex_fixed 32 u) = Some u" using u by (simp add: hex_val_fixed)
    show "hex_fixed 32 u \<noteq> []" using length_hex_fixed [of 32 u] by force
  qed (rule hex_fixed_chars)
  moreover have "int u < 2 ^ 128" using u by (metis of_nat_less_numeral_power_cancel_iff)
  ultimately show ?thesis
    by (simp add: parse_uuid_def Let_def py_remove_char filter_str_uuid)
qed

end
