(* ===== verification/Security.thy ===== *)
theory Security
  imports Schema Config PyUuid
begin

text \<open>
  \<open>app/core/security.py\<close>: password hashing and the three kinds of JWT.  passlib's bcrypt and PyJWT
  are not part of the repository; their functions are the fields of \<open>libs\<close>, an argument of every
  definition that uses them.  PyJWT reads the clock to check \<open>exp\<close>, so its decoder has the time as
  an argument.  \<open>jwt_accepts\<close> is the one documented fact the theorems use: a token decodes to the
  claims it was made from while it is valid.
\<close>

record libs =
  bcrypt_hash :: "string \<Rightarrow> string \<Rightarrow> pyexc + string"
  bcrypt_verify :: "string \<Rightarrow> string \<Rightarrow> pyexc + bool"
  jwt_encode :: "dict \<Rightarrow> string \<Rightarrow> string \<Rightarrow> string"
  jwt_decode :: "string \<Rightarrow> string \<Rightarrow> string \<Rightarrow> datetime \<Rightarrow> pyexc + dict"

definition jwt_accepts :: "libs \<Rightarrow> settings \<Rightarrow> dict \<Rightarrow> datetime \<Rightarrow> bool" where
  "jwt_accepts L S claims t \<longleftrightarrow>
     jwt_decode L (jwt_encode L claims (secret_key S) (jwt_algorithm S)) (secret_key S)
       (jwt_algorithm S) t = Inr claims"

datatype token_kind = Access | Id | Refresh

fun kind_str :: "token_kind \<Rightarrow> string" where
  "kind_str Access = ''access''"
| "kind_str Id = ''id''"
| "kind_str Refresh = ''refresh''"

definition hash_password :: "libs \<Rightarrow> string \<Rightarrow> string \<Rightarrow> pyexc + string" where
  "hash_password L salt plain = bcrypt_hash L salt plain"

definition verify_password :: "libs \<Rightarrow> string \<Rightarrow> string \<Rightarrow> pyexc + bool" where
  "verify_password L plain hashed = bcrypt_verify L plain hashed"

fun ttl_for :: "settings \<Rightarrow> token_kind \<Rightarrow> int" where
  "ttl_for S Access = access_token_ttl_seconds S"
| "ttl_for S Id = id_token_ttl_seconds S"
| "ttl_for S Refresh = refresh_token_ttl_seconds S"

text \<open>\<open>int(t.timestamp())\<close>: whole seconds since the epoch.\<close>

definition timestamp :: "datetime \<Rightarrow> int" where
  "timestamp t = t div 1000000"

definition token_claims :: "string \<Rightarrow> token_kind \<Rightarrow> datetime \<Rightarrow> datetime \<Rightarrow> string \<Rightarrow> dict \<Rightarrow> dict" where
  "token_claims subject kind now expires jti extra =
     dict_update
       [(''sub'', JStr subject), (''iat'', JInt (timestamp now)), (''exp'', JInt (timestamp expires)),
        (''token_use'', JStr (kind_str kind)), (''jti'', JStr jti)]
       extra"

definition mint_token ::
  "libs \<Rightarrow> settings \<Rightarrow> string \<Rightarrow> token_kind \<Rightarrow> dict \<Rightarrow> int option \<Rightarrow> datetime \<Rightarrow> string \<Rightarrow> string \<times> datetime"
where
  "mint_token L S subject kind extra_claims ttl_seconds now jti =
     (let ttl = (case ttl_seconds of Some n \<Rightarrow> n | None \<Rightarrow> ttl_for S kind);
          expires = now + seconds ttl
      in (jwt_encode L (token_claims subject kind now expires jti extra_claims) (secret_key S)
            (jwt_algorithm S), expires))"

definition decode_token ::
  "libs \<Rightarrow> settings \<Rightarrow> string \<Rightarrow> token_kind option \<Rightarrow> datetime \<Rightarrow> pyexc + dict" where
  "decode_token L S token expected_kind t =
     (case jwt_decode L token (secret_key S) (jwt_algorithm S) t of
        Inl e \<Rightarrow> Inl e
      | Inr payload \<Rightarrow>
          (case expected_kind of
             None \<Rightarrow> Inr payload
           | Some k \<Rightarrow>
               if get payload ''token_use'' \<noteq> JStr (kind_str k) then Inl InvalidTokenError
               else Inr payload))"

lemma kind_str_inject [simp]: "kind_str a = kind_str b \<longleftrightarrow> a = b"
  by (cases a; cases b) auto

text \<open>Claims that extra claims do not shadow.\<close>

lemma get_token_claims:
  assumes "dict_ok extra"
  shows "map_of extra ''token_use'' = None \<Longrightarrow>
           get (token_claims s k n e j extra) ''token_use'' = JStr (kind_str k)"
    and "map_of extra ''sub'' = None \<Longrightarrow> get (token_claims s k n e j extra) ''sub'' = JStr s"
    and "map_of extra ''jti'' = None \<Longrightarrow> map_of (token_claims s k n e j extra) ''jti'' = Some (JStr j)"
    and "map_of extra ''exp'' = None \<Longrightarrow> get (token_claims s k n e j extra) ''exp'' = JInt (timestamp e)"
  using assms by (simp_all add: token_claims_def get_or_def map_of_dict_update)

text \<open>A minted token decodes to its own claims as the kind it was minted for and as no other.\<close>

lemma decode_minted:
  assumes "dict_ok extra" "map_of extra ''token_use'' = None"
    and tok: "mint_token L S sub k extra ttl now jti = (tok, expires)"
    and acc: "jwt_accepts L S (token_claims sub k now expires jti extra) t"
  shows "decode_token L S tok (Some k') t =
           (if k = k' then Inr (token_claims sub k now expires jti extra) else Inl InvalidTokenError)"
proof -
  from tok have "tok = jwt_encode L (token_claims sub k now expires jti extra) (secret_key S) (jwt_algorithm S)"
    by (auto simp: mint_token_def Let_def)
  with acc show ?thesis
    by (simp add: decode_token_def jwt_accepts_def get_token_claims(1) [OF assms(1,2)])
qed

text \<open>
  Concrete stand-ins for the two libraries, which the witnesses run with: a "hash" that is the
  password with a prefix, and one token, which decodes to the given claims.
\<close>

definition sample_libs :: "dict \<Rightarrow> libs" where
  "sample_libs claims = \<lparr>
     bcrypt_hash = (\<lambda>salt p. Inr (''h:'' @ p)),
     bcrypt_verify = (\<lambda>p h. Inr (h = ''h:'' @ p)),
     jwt_encode = (\<lambda>c k a. ''jwt''),
     jwt_decode = (\<lambda>t k a now. Inr claims)\<rparr>"

end
