(* ===== verification/Auth.thy ===== *)
theory Auth
  imports Security
begin

text \<open>
  \<open>app/services/auth.py\<close>: the life of an account (signup, confirmation, login, refresh, logout,
  password change and reset).  What an operation draws from outside is an argument: \<open>clk i\<close> is the
  \<open>i\<close>-th reading of the clock during the call (by the service or by PyJWT), \<open>jti i\<close> the \<open>i\<close>-th
  token identifier of \<open>secrets.token_urlsafe\<close>, \<open>salt\<close> bcrypt's salt, \<open>n\<close> the draw of
  \<open>secrets.randbelow(1_000_000)\<close>, and \<open>uid\<close> the \<open>uuid4\<close> of a new row.
\<close>

section \<open>Operations\<close>

text \<open>\<open>f"{n:06d}"\<close>\<close>

definition generate_code :: "nat \<Rightarrow> string" where
  "generate_code n = (let s = nat_str n in replicate (6 - length s) (CHR ''0'') @ s)"

definition find_user_by_name :: "string \<Rightarrow> db \<Rightarrow> user option result" where
  "find_user_by_name name d = scalar_one_or_none (select (\<lambda>u. usr_user_name u = name) (users d))"

definition write_user :: "user \<Rightarrow> (user \<Rightarrow> user) \<Rightarrow> db \<Rightarrow> db" where
  "write_user u f d = d\<lparr>users := update_where (\<lambda>v. usr_id v = usr_id u) f (users d)\<rparr>"

definition signup ::
  "libs \<Rightarrow> (nat \<Rightarrow> datetime) \<Rightarrow> string \<Rightarrow> nat \<Rightarrow> uuid \<Rightarrow> string \<Rightarrow> string \<Rightarrow> db \<Rightarrow> (user \<times> string) result \<times> db"
where
  "signup L clk salt n uid user_name password d =
     attempt d (find_user_by_name user_name d) (\<lambda>existing.
       if existing \<noteq> None then (Inl (conflict ''User already exists'' USER_ALREADY_EXISTS), d)
       else
         let code = generate_code n in
         attempt d (lift_exc (hash_password L salt password)) (\<lambda>h.
           let user = (User uid user_name user_name)
                 \<lparr>usr_password_hash := Some h, usr_status := ''unconfirmed'',
                  usr_confirm_code := Some code, usr_confirm_code_exp := Some (clk 0 + hours 24)\<rparr>
           in attempt d (insert_user user d) (\<lambda>d'. (Inr (user, code), d'))))"

definition confirm_signup ::
  "(nat \<Rightarrow> datetime) \<Rightarrow> string \<Rightarrow> string \<Rightarrow> db \<Rightarrow> user result \<times> db" where
  "confirm_signup clk user_name verification_code d =
     attempt d (find_user_by_name user_name d) (\<lambda>found.
       case found of
         None \<Rightarrow> (Inl (rainmaker 404 USER_DOES_NOT_EXIST ''User does not exist''), d)
       | Some user \<Rightarrow>
           (case (usr_confirm_code user, usr_confirm_code_exp user) of
              (Some code, Some expires) \<Rightarrow>
                if expires < clk 0
                then (Inl (rainmaker 400 INVALID_REQUEST ''Confirmation code expired''), d)
                else attempt d (lift_exc (compare_digest_str code verification_code)) (\<lambda>same.
                  if \<not> same
                  then (Inl (rainmaker 400 INVALID_REQUEST ''Invalid verification code''), d)
                  else
                    let f = (\<lambda>u. u\<lparr>usr_status := ''confirmed'', usr_confirm_code := None,
                                   usr_confirm_code_exp := None\<rparr>)
                    in (Inr (f user), write_user user f d))
            | _ \<Rightarrow> (Inl (rainmaker 400 INVALID_REQUEST ''No pending confirmation''), d)))"

definition role_of :: "user \<Rightarrow> string" where
  "role_of u =
     (if usr_is_super_admin u then ''super_admin''
      else if usr_is_admin u then ''admin'' else ''user'')"

type_synonym login = "string \<times> string \<times> string \<times> int"

definition access_claims :: "user \<Rightarrow> dict" where
  "access_claims u = [(''role'', JStr (role_of u))]"

definition id_claims :: "user \<Rightarrow> dict" where
  "id_claims u = [(''user_name'', JStr (usr_user_name u)), (''email'', JStr (usr_email u))]"

text \<open>\<open>_mint_token_triple\<close>; the clock is read from index \<open>i\<close> on.\<close>

definition mint_token_triple ::
  "libs \<Rightarrow> settings \<Rightarrow> (nat \<Rightarrow> datetime) \<Rightarrow> nat \<Rightarrow> (nat \<Rightarrow> string) \<Rightarrow> uuid \<Rightarrow> user \<Rightarrow> db \<Rightarrow> login result \<times> db"
where
  "mint_token_triple L S clk i jti rid user d =
     (let sub = str_uuid (usr_id user);
          acc = fst (mint_token L S sub Access (access_claims user) None (clk i) (jti 0));
          idt = fst (mint_token L S sub Id (id_claims user) None (clk (i + 1)) (jti 1));
          (refresh, refresh_exp) = mint_token L S sub Refresh [] None (clk (i + 2)) (jti 2)
      in attempt d (lift_exc (decode_token L S refresh (Some Refresh) (clk (i + 3)))) (\<lambda>payload.
           case map_of payload ''jti'' of
             Some (JStr j) \<Rightarrow>
               attempt d (insert_refresh_token (RefreshToken rid (usr_id user) j refresh_exp) d) (\<lambda>d'.
                 (Inr (acc, idt, refresh, access_token_ttl_seconds S), d'))
           | Some _ \<Rightarrow> (Inl (Uncaught DataError), d)
           | None \<Rightarrow> (Inl (Uncaught KeyError), d)))"

definition login_password ::
  "libs \<Rightarrow> settings \<Rightarrow> (nat \<Rightarrow> datetime) \<Rightarrow> (nat \<Rightarrow> string) \<Rightarrow> uuid \<Rightarrow> string \<Rightarrow> string \<Rightarrow> db \<Rightarrow> login result \<times> db"
where
  "login_password L S clk jti rid user_name password d =
     attempt d (find_user_by_name user_name d) (\<lambda>found.
       case found of
         None \<Rightarrow> (Inl (unauthorized ''Invalid credentials''), d)
       | Some user \<Rightarrow>
           (case usr_password_hash user of
              None \<Rightarrow> (Inl (unauthorized ''Invalid credentials''), d)
            | Some h \<Rightarrow>
                attempt d (lift_exc (verify_password L password h)) (\<lambda>good.
                  if \<not> good then (Inl (unauthorized ''Invalid credentials''), d)
                  else if usr_status user \<noteq> ''confirmed''
                  then (Inl (rainmaker 401 INVALID_CREDENTIALS ''User not confirmed''), d)
                  else
                    let f = (\<lambda>u. u\<lparr>usr_last_login_at := Some (clk 0)\<rparr>)
                    in mint_token_triple L S clk 1 jti rid (f user) (write_user user f d))))"

definition login_refresh ::
  "libs \<Rightarrow> settings \<Rightarrow> (nat \<Rightarrow> datetime) \<Rightarrow> (nat \<Rightarrow> string) \<Rightarrow> string \<Rightarrow> db \<Rightarrow> login result \<times> db"
where
  "login_refresh L S clk jti refreshtoken d =
     (case decode_token L S refreshtoken (Some Refresh) (clk 0) of
        Inl _ \<Rightarrow> (Inl (unauthorized ''Invalid refresh token''), d)
      | Inr payload \<Rightarrow>
          if \<not> truthy (get payload ''jti'') \<or> \<not> truthy (get payload ''sub'')
          then (Inl (unauthorized ''Invalid refresh token''), d)
          else case get payload ''jti'' of
            JStr j \<Rightarrow>
              attempt d (scalar_one_or_none (select (\<lambda>r. rt_jti r = j) (refresh_tokens d))) (\<lambda>found.
                case found of
                  None \<Rightarrow> (Inl (unauthorized ''Invalid refresh token''), d)
                | Some row \<Rightarrow>
                    if rt_revoked_at row \<noteq> None \<or> rt_expires_at row < clk 1
                    then (Inl (unauthorized ''Invalid refresh token''), d)
                    else case get payload ''sub'' of
                      JStr s \<Rightarrow>
                        attempt d (lift_exc (parse_uuid s)) (\<lambda>uid.
                        attempt d (scalar_one_or_none (select (\<lambda>u. usr_id u = uid) (users d))) (\<lambda>who.
                          case who of
                            None \<Rightarrow> (Inl (unauthorized ''Invalid refresh token''), d)
                          | Some user \<Rightarrow>
                              if usr_status user \<noteq> ''confirmed''
                              then (Inl (unauthorized ''Invalid refresh token''), d)
                              else
                                let sub = str_uuid (usr_id user);
                                    acc = fst (mint_token L S sub Access (access_claims user) None (clk 2) (jti 0));
                                    idt = fst (mint_token L S sub Id (id_claims user) None (clk 3) (jti 1))
                                in (Inr (acc, idt, refreshtoken, access_token_ttl_seconds S), d)))
                    | _ \<Rightarrow> (Inl (Uncaught AttributeError), d))
          | _ \<Rightarrow> (Inl (Uncaught DataError), d))"

definition logout :: "(nat \<Rightarrow> datetime) \<Rightarrow> uuid \<Rightarrow> db \<Rightarrow> unit result \<times> db" where
  "logout clk user_id d =
     (Inr (), d\<lparr>refresh_tokens :=
        update_where (\<lambda>r. rt_user_id r = user_id \<and> rt_revoked_at r = None)
          (\<lambda>r. r\<lparr>rt_revoked_at := Some (clk 0)\<rparr>) (refresh_tokens d)\<rparr>)"

definition change_password ::
  "libs \<Rightarrow> string \<Rightarrow> user \<Rightarrow> string \<Rightarrow> string \<Rightarrow> db \<Rightarrow> unit result \<times> db" where
  "change_password L salt user current new d =
     (case usr_password_hash user of
        None \<Rightarrow> (Inl (unauthorized ''Invalid credentials''), d)
      | Some h \<Rightarrow>
          attempt d (lift_exc (verify_password L current h)) (\<lambda>good.
            if \<not> good then (Inl (unauthorized ''Invalid credentials''), d)
            else attempt d (lift_exc (hash_password L salt new)) (\<lambda>h'.
              (Inr (), write_user user (\<lambda>u. u\<lparr>usr_password_hash := Some h'\<rparr>) d))))"

definition request_password_reset ::
  "(nat \<Rightarrow> datetime) \<Rightarrow> nat \<Rightarrow> string \<Rightarrow> db \<Rightarrow> string option result \<times> db" where
  "request_password_reset clk n user_name d =
     attempt d (find_user_by_name user_name d) (\<lambda>found.
       case found of
         None \<Rightarrow> (Inr None, d)
       | Some user \<Rightarrow>
           let code = generate_code n in
           (Inr (Some code),
            write_user user
              (\<lambda>u. u\<lparr>usr_reset_code := Some code, usr_reset_code_exp := Some (clk 0 + hours 1)\<rparr>) d))"

definition confirm_password_reset ::
  "libs \<Rightarrow> (nat \<Rightarrow> datetime) \<Rightarrow> string \<Rightarrow> string \<Rightarrow> string \<Rightarrow> string \<Rightarrow> db \<Rightarrow> unit result \<times> db"
where
  "confirm_password_reset L clk salt user_name verification_code password d =
     attempt d (find_user_by_name user_name d) (\<lambda>found.
       let bad = (Inl (rainmaker 400 INVALID_REQUEST ''Invalid or expired code''), d) in
       case found of
         None \<Rightarrow> bad
       | Some user \<Rightarrow>
           (case (usr_reset_code user, usr_reset_code_exp user) of
              (Some code, Some expires) \<Rightarrow>
                if expires < clk 0 then bad
                else attempt d (lift_exc (compare_digest_str code verification_code)) (\<lambda>same.
                  if \<not> same then bad
                  else attempt d (lift_exc (hash_password L salt password)) (\<lambda>h.
                    (Inr (), write_user user
                       (\<lambda>u. u\<lparr>usr_password_hash := Some h, usr_reset_code := None,
                             usr_reset_code_exp := None\<rparr>) d)))
            | _ \<Rightarrow> bad))"

lemmas auth_defs =
  signup_def confirm_signup_def mint_token_triple_def login_password_def login_refresh_def
  logout_def change_password_def request_password_reset_def confirm_password_reset_def

section \<open>Looking users up and writing them\<close>

lemma find_user_total: "db_ok d \<Longrightarrow> \<exists>x. find_user_by_name n d = Inr x"
  unfolding find_user_by_name_def
  by (subst users_by_name.scalar_by_key [OF user_keys]) auto

lemma find_user_Some:
  "db_ok d \<Longrightarrow> find_user_by_name n d = Inr (Some u) \<longleftrightarrow> u \<in> set (users d) \<and> usr_user_name u = n"
  unfolding find_user_by_name_def
  by (subst users_by_name.found_iff [OF user_keys]) auto

lemma find_user_None:
  "find_user_by_name n d = Inr None \<longleftrightarrow> (\<forall>u \<in> set (users d). usr_user_name u \<noteq> n)"
  by (auto simp: find_user_by_name_def select_def filter_empty_conv)

lemma find_user_found:
  "find_user_by_name n d = Inr (Some u) \<Longrightarrow> u \<in> set (users d) \<and> usr_user_name u = n"
proof -
  assume "find_user_by_name n d = Inr (Some u)"
  then have "u \<in> set (select (\<lambda>u. usr_user_name u = n) (users d))"
    by (simp add: find_user_by_name_def)
  then show ?thesis by simp
qed

lemma write_user_ok [store_ok]:
  "db_ok d \<Longrightarrow> (\<And>u. usr_id (f u) = usr_id u) \<Longrightarrow>
   (\<And>u. usr_user_name (f u) = usr_user_name u) \<Longrightarrow> db_ok (write_user v f d)"
  unfolding write_user_def by (rule update_user_ok)

lemma write_user_in:
  "u \<in> set (users d) \<Longrightarrow> f u \<in> set (users (write_user u f d))"
  by (force simp: write_user_def set_update_where)

lemma write_user_other:
  "v \<in> set (users d) \<Longrightarrow> usr_id v \<noteq> usr_id u \<Longrightarrow> v \<in> set (users (write_user u f d))"
  by (force simp: write_user_def set_update_where)

lemma write_user_fields [simp]:
  "refresh_tokens (write_user u f d) = refresh_tokens d"
  "user_node_mappings (write_user u f d) = user_node_mappings d"
  "node_sharings (write_user u f d) = node_sharings d"
  by (simp_all add: write_user_def)

text \<open>A user that was looked up is found again, as rewritten.\<close>

lemma find_after_write:
  assumes "db_ok d" "u \<in> set (users d)"
    and "\<And>u. usr_id (f u) = usr_id u" "\<And>u. usr_user_name (f u) = usr_user_name u"
  shows "find_user_by_name (usr_user_name u) (write_user u f d) = Inr (Some (f u))"
  by (subst find_user_Some) (auto intro: write_user_ok write_user_in assms)

section \<open>Integrity\<close>

lemma signup_ok [store_ok]: "db_ok d \<Longrightarrow> db_ok (snd (signup L clk salt n uid nm pw d))"
  by (auto simp: signup_def Let_def intro: insert_user_ok split: attempt_splits)

lemma confirm_signup_ok [store_ok]: "db_ok d \<Longrightarrow> db_ok (snd (confirm_signup clk nm code d))"
  by (auto simp: confirm_signup_def Let_def intro!: write_user_ok split: attempt_splits option.splits)

lemma mint_token_triple_ok [store_ok]:
  "db_ok d \<Longrightarrow> db_ok (snd (mint_token_triple L S clk i jti rid u d))"
  by (auto simp: mint_token_triple_def Let_def intro: insert_refresh_token_ok
      split: attempt_splits option.splits prod.splits json.splits)

lemma login_password_ok [store_ok]:
  "db_ok d \<Longrightarrow> db_ok (snd (login_password L S clk jti rid nm pw d))"
  by (auto simp: login_password_def Let_def intro!: mint_token_triple_ok write_user_ok
      split: attempt_splits option.splits)

lemma login_refresh_pure [simp]: "snd (login_refresh L S clk jti tok d) = d"
  by (simp add: login_refresh_def Let_def attempt_def split: sum.splits option.splits json.splits)

lemma logout_ok [store_ok]: "db_ok d \<Longrightarrow> db_ok (snd (logout clk uid d))"
  by (auto simp: logout_def intro: update_refresh_token_ok)

lemma change_password_ok [store_ok]: "db_ok d \<Longrightarrow> db_ok (snd (change_password L salt u pw new d))"
  by (auto simp: change_password_def intro!: write_user_ok split: attempt_splits option.splits)

lemma request_password_reset_ok [store_ok]:
  "db_ok d \<Longrightarrow> db_ok (snd (request_password_reset clk n nm d))"
  by (auto simp: request_password_reset_def Let_def intro!: write_user_ok
      split: attempt_splits option.splits)

lemma confirm_password_reset_ok [store_ok]:
  "db_ok d \<Longrightarrow> db_ok (snd (confirm_password_reset L clk salt nm code pw d))"
  by (auto simp: confirm_password_reset_def Let_def intro!: write_user_ok
      split: attempt_splits option.splits)

section \<open>Verification codes\<close>

definition is_digit :: "char \<Rightarrow> bool" where
  "is_digit c \<longleftrightarrow> 48 \<le> code_point c \<and> code_point c \<le> 57"

definition dec_val :: "string \<Rightarrow> nat" where
  "dec_val s = foldl (\<lambda>a c. 10 * a + (code_point c - 48)) 0 s"

lemma code_point_digit: "d < 10 \<Longrightarrow> code_point (digit_char d) = 48 + d"
  by (simp add: code_point_def digit_char_def)

lemma nat_str_digits: "\<forall>c \<in> set (nat_str n). is_digit c"
proof (induction n rule: nat_str.induct)
  case (1 n)
  then show ?case
    by (subst nat_str.simps) (auto simp: is_digit_def code_point_digit)
qed

lemma dec_val_nat_str: "dec_val (nat_str n) = n"
proof (induction n rule: nat_str.induct)
  case (1 n)
  then show ?case
    by (subst nat_str.simps) (auto simp: dec_val_def code_point_digit)
qed

lemma dec_val_zeros: "dec_val (replicate k (CHR ''0'') @ s) = dec_val s"
  by (induction k) (simp_all add: dec_val_def code_point_def)

lemma generate_code_length: "n < 1000000 \<Longrightarrow> length (generate_code n) = 6"
  using nat_str_length [of n 5] by (auto simp: generate_code_def Let_def)

text \<open>
  Every draw of \<open>secrets.randbelow(1_000_000)\<close> becomes a code of exactly six decimal digits, and
  the code determines the draw, so the million codes are all distinct.
\<close>

theorem generate_code_shape:
  "n < 1000000 \<Longrightarrow>
     length (generate_code n) = 6 \<and> list_all is_digit (generate_code n) \<and>
     dec_val (generate_code n) = n"
  using nat_str_length [of n 5] nat_str_digits [of n]
  by (auto simp: generate_code_def Let_def dec_val_zeros dec_val_nat_str is_digit_def code_point_def
      list_all_iff)

theorem generate_code_shape_witness:
  "length (generate_code 42) = 6 \<and> list_all is_digit (generate_code 42) \<and>
   dec_val (generate_code 42) = 42"
  by (rule generate_code_shape) simp

lemma generate_code_ascii: "is_ascii (generate_code n)"
  using nat_str_digits [of n]
  by (auto simp: generate_code_def Let_def is_ascii_def is_digit_def code_point_def)

section \<open>Signup and confirmation\<close>

lemma signup_fresh:
  assumes "db_ok d" and new: "\<forall>u \<in> set (users d). usr_user_name u \<noteq> nm \<and> usr_id u \<noteq> uid"
    and h: "hash_password L salt pw = Inr h" and fit: "fits 254 nm" "fits 255 h" "n < 1000000"
  shows "\<exists>u d'. signup L clk salt n uid nm pw d = (Inr (u, generate_code n), d') \<and>
     d' = d\<lparr>users := users d @ [u]\<rparr> \<and> usr_id u = uid \<and> usr_user_name u = nm \<and>
     usr_password_hash u = Some h \<and> usr_status u = ''unconfirmed'' \<and>
     usr_confirm_code u = Some (generate_code n) \<and>
     usr_confirm_code_exp u = Some (clk 0 + hours 24)"
proof -
  let ?u = "(User uid nm nm)\<lparr>usr_password_hash := Some h, usr_status := ''unconfirmed'',
     usr_confirm_code := Some (generate_code n), usr_confirm_code_exp := Some (clk 0 + hours 24)\<rparr>"
  have "find_user_by_name nm d = Inr None" using new by (simp add: find_user_None)
  moreover have "insert_user ?u d = Inr (d\<lparr>users := users d @ [?u]\<rparr>)"
    using new fit generate_code_length [of n]
    by (auto simp: insert_user_Inr user_cols_def user_refs_def user_clash_def User_def fits_def)
  ultimately show ?thesis
    using h by (simp add: signup_def Let_def User_def)
qed

text \<open>
  Signing up under a name that is taken answers 409 (\<open>USER_ALREADY_EXISTS\<close>) and changes nothing.
\<close>

theorem signup_taken:
  assumes "db_ok d" and "u \<in> set (users d)"
  shows "signup L clk salt n uid (usr_user_name u) pw d =
           (Inl (conflict ''User already exists'' USER_ALREADY_EXISTS), d)"
  using find_user_Some [OF assms(1), of "usr_user_name u" u] assms(2) by (simp add: signup_def)


text \<open>A store with one confirmed account, for the witnesses.\<close>

definition sample_user :: user where
  "sample_user = (User 7 ''ann@example.org'' ''ann@example.org'')
     \<lparr>usr_password_hash := Some ''h:secret-pw'', usr_status := ''confirmed''\<rparr>"

definition sample_db :: db where
  "sample_db = empty_db\<lparr>users := [sample_user]\<rparr>"

lemma sample_db_ok: "db_ok sample_db"
  by (simp add: sample_db_def db_ok_def keys_ok_def foreign_ok_def empty_db_def clash_free_def)

theorem signup_taken_witness:
  "signup (sample_libs []) (\<lambda>_. 0) ''s'' 1 8 ''ann@example.org'' ''other-pw'' sample_db =
     (Inl (conflict ''User already exists'' USER_ALREADY_EXISTS), sample_db)"
  using signup_taken [OF sample_db_ok, of sample_user "sample_libs []" "\<lambda>_. 0" "''s''" 1 8 "''other-pw''"]
  by (simp add: sample_db_def sample_user_def User_def)

lemma confirm_signup_pending:
  assumes "db_ok d" "u \<in> set (users d)" "usr_confirm_code u = Some code"
    and "usr_confirm_code_exp u = Some expires" "clk 0 \<le> expires" "is_ascii code"
  shows "\<exists>u' d'. confirm_signup clk (usr_user_name u) code d = (Inr u', d') \<and>
     u' = u\<lparr>usr_status := ''confirmed'', usr_confirm_code := None, usr_confirm_code_exp := None\<rparr> \<and>
     u' \<in> set (users d') \<and> db_ok d' \<and> refresh_tokens d' = refresh_tokens d"
proof -
  let ?f = "\<lambda>u::user. u\<lparr>usr_status := ''confirmed'', usr_confirm_code := None, usr_confirm_code_exp := None\<rparr>"
  have "find_user_by_name (usr_user_name u) d = Inr (Some u)"
    using assms(1,2) by (simp add: find_user_Some)
  then have "confirm_signup clk (usr_user_name u) code d = (Inr (?f u), write_user u ?f d)"
    using assms by (simp add: confirm_signup_def Let_def)
  moreover have "db_ok (write_user u ?f d)" using assms(1) by (rule write_user_ok) simp_all
  ultimately show ?thesis using write_user_in [OF assms(2), of ?f] by simp
qed

text \<open>What a successful confirmation says of the account before and after it.\<close>

lemma confirm_signup_Inr:
  assumes "confirm_signup clk nm code d = (Inr u', d')"
  shows "\<exists>u expires. u \<in> set (users d) \<and> usr_user_name u = nm \<and> usr_confirm_code u = Some code \<and>
     usr_confirm_code_exp u = Some expires \<and> clk 0 \<le> expires \<and>
     u' = u\<lparr>usr_status := ''confirmed'', usr_confirm_code := None, usr_confirm_code_exp := None\<rparr> \<and>
     d' = write_user u (\<lambda>u. u\<lparr>usr_status := ''confirmed'', usr_confirm_code := None,
                              usr_confirm_code_exp := None\<rparr>) d"
  using assms
  by (auto simp: confirm_signup_def Let_def split: attempt_splits option.splits if_splits
      dest!: find_user_found compare_digest_True)

text \<open>
  A confirmation code works once.  After a successful confirmation every further attempt for
  that name, with any code and at any time, answers 400 "No pending confirmation".
\<close>

theorem confirm_single_use:
  assumes "db_ok d" and "confirm_signup clk nm code d = (Inr u, d')"
  shows "confirm_signup clk' nm code' d' =
           (Inl (rainmaker 400 INVALID_REQUEST ''No pending confirmation''), d')"
proof -
  obtain v where v: "v \<in> set (users d)" "usr_user_name v = nm"
    and d': "d' = write_user v (\<lambda>u. u\<lparr>usr_status := ''confirmed'', usr_confirm_code := None,
                              usr_confirm_code_exp := None\<rparr>) d"
    using confirm_signup_Inr [OF assms(2)] by blast
  from find_after_write [OF assms(1) v(1)] v(2) d' show ?thesis
    by (simp add: confirm_signup_def)
qed

definition pending_db :: db where
  "pending_db = empty_db\<lparr>users := [(User 7 ''ann@example.org'' ''ann@example.org'')
     \<lparr>usr_confirm_code := Some ''000042'', usr_confirm_code_exp := Some 100\<rparr>]\<rparr>"

theorem confirm_single_use_witness:
  "confirm_signup (\<lambda>_. 60) ''ann@example.org'' ''000042'' (snd (confirm_signup (\<lambda>_. 50) ''ann@example.org'' ''000042'' pending_db)) =
     (Inl (rainmaker 400 INVALID_REQUEST ''No pending confirmation''),
      snd (confirm_signup (\<lambda>_. 50) ''ann@example.org'' ''000042'' pending_db))"
proof (rule confirm_single_use)
  show "db_ok pending_db"
    by (simp add: pending_db_def db_ok_def keys_ok_def foreign_ok_def empty_db_def clash_free_def)
  show "confirm_signup (\<lambda>_. 50) ''ann@example.org'' ''000042'' pending_db =
      (Inr ((User 7 ''ann@example.org'' ''ann@example.org'')\<lparr>usr_status := ''confirmed''\<rparr>),
       snd (confirm_signup (\<lambda>_. 50) ''ann@example.org'' ''000042'' pending_db))"
    by (simp add: pending_db_def confirm_signup_def find_user_by_name_def select_def User_def
        compare_digest_str_def is_ascii_def code_point_def Let_def)
qed

section \<open>Login\<close>

lemma mint_token_triple_success:
  assumes acc: "jwt_accepts L S (token_claims (str_uuid (usr_id u)) Refresh (clk (i + 2))
                  (clk (i + 2) + seconds (refresh_token_ttl_seconds S)) (jti 2) []) (clk (i + 3))"
    and u: "present usr_id (users d) (usr_id u)" and j: "fits 64 (jti 2)"
    and fresh: "\<forall>r \<in> set (refresh_tokens d). rt_jti r \<noteq> jti 2 \<and> rt_id r \<noteq> rid"
  shows "\<exists>acc idt refresh. mint_token_triple L S clk i jti rid u d =
     (Inr (acc, idt, refresh, access_token_ttl_seconds S),
      d\<lparr>refresh_tokens := refresh_tokens d @
        [RefreshToken rid (usr_id u) (jti 2) (clk (i + 2) + seconds (refresh_token_ttl_seconds S))]\<rparr>) \<and>
     acc = fst (mint_token L S (str_uuid (usr_id u)) Access (access_claims u) None (clk i) (jti 0)) \<and>
     refresh = fst (mint_token L S (str_uuid (usr_id u)) Refresh [] None (clk (i + 2)) (jti 2))"
proof -
  let ?exp = "clk (i + 2) + seconds (refresh_token_ttl_seconds S)"
  let ?c = "token_claims (str_uuid (usr_id u)) Refresh (clk (i + 2)) ?exp (jti 2) []"
  let ?t = "jwt_encode L ?c (secret_key S) (jwt_algorithm S)"
  have m: "mint_token L S (str_uuid (usr_id u)) Refresh [] None (clk (i + 2)) (jti 2) = (?t, ?exp)"
    by (simp add: mint_token_def Let_def)
  have "decode_token L S ?t (Some Refresh) (clk (i + 3)) = Inr ?c"
    using decode_minted [OF _ _ m acc] by (simp add: dict_ok_def)
  moreover have "map_of ?c ''jti'' = Some (JStr (jti 2))"
    by (rule get_token_claims(3)) (simp_all add: dict_ok_def)
  moreover have "insert_refresh_token (RefreshToken rid (usr_id u) (jti 2) ?exp) d =
      Inr (d\<lparr>refresh_tokens := refresh_tokens d @ [RefreshToken rid (usr_id u) (jti 2) ?exp]\<rparr>)"
    using u j fresh
    by (auto simp: insert_refresh_token_Inr refresh_token_cols_def refresh_token_refs_def
        refresh_token_clash_def RefreshToken_def)
  ultimately show ?thesis
    unfolding mint_token_triple_def Let_def m prod.case by simp
qed

text \<open>
  C31: whatever the clock, the draws and the libraries do, a password login yields tokens only for an
  existing account of that name that is confirmed and whose stored hash verifies the password.
\<close>

theorem login_password_sound:
  assumes "login_password L S clk jti rid nm pw d = (Inr toks, d')"
  shows "\<exists>u h. u \<in> set (users d) \<and> usr_user_name u = nm \<and> usr_status u = ''confirmed'' \<and>
     usr_password_hash u = Some h \<and> verify_password L pw h = Inr True"
  using assms
  by (auto simp: login_password_def Let_def split: attempt_splits option.splits if_splits
      dest!: find_user_found)

definition ann_claims :: dict where
  "ann_claims = token_claims (str_uuid 7) Refresh 1000000 (1000000 + seconds (60 * 60 * 24 * 30)) ''jti-c'' []"

definition sample_jti :: "nat \<Rightarrow> string" where
  "sample_jti i = (if i = 0 then ''jti-a'' else if i = 1 then ''jti-b'' else ''jti-c'')"

lemma ann_accepted: "jwt_accepts (sample_libs ann_claims) default_settings ann_claims t"
  by (simp add: jwt_accepts_def sample_libs_def)

lemma login_password_success:
  assumes ok: "db_ok d" and u: "u \<in> set (users d)" "usr_status u = ''confirmed''"
    and pw: "usr_password_hash u = Some h" "verify_password L pw h = Inr True"
    and acc: "jwt_accepts L S (token_claims (str_uuid (usr_id u)) Refresh (clk 3)
                (clk 3 + seconds (refresh_token_ttl_seconds S)) (jti 2) []) (clk 4)"
    and j: "fits 64 (jti 2)"
    and fresh: "\<forall>r \<in> set (refresh_tokens d). rt_jti r \<noteq> jti 2 \<and> rt_id r \<noteq> rid"
  shows "\<exists>acc idt refresh d'. login_password L S clk jti rid (usr_user_name u) pw d =
      (Inr (acc, idt, refresh, access_token_ttl_seconds S), d') \<and>
     u\<lparr>usr_last_login_at := Some (clk 0)\<rparr> \<in> set (users d') \<and>
     refresh = jwt_encode L (token_claims (str_uuid (usr_id u)) Refresh (clk 3)
                (clk 3 + seconds (refresh_token_ttl_seconds S)) (jti 2) []) (secret_key S) (jwt_algorithm S) \<and>
     refresh_tokens d' = refresh_tokens d @
       [RefreshToken rid (usr_id u) (jti 2) (clk 3 + seconds (refresh_token_ttl_seconds S))]"
proof -
  let ?f = "\<lambda>u::user. u\<lparr>usr_last_login_at := Some (clk 0)\<rparr>"
  let ?d = "write_user u ?f d"
  have "find_user_by_name (usr_user_name u) d = Inr (Some u)"
    using ok u(1) by (simp add: find_user_Some)
  then have eq: "login_password L S clk jti rid (usr_user_name u) pw d =
      mint_token_triple L S clk 1 jti rid (?f u) ?d"
    using u(2) pw by (simp add: login_password_def Let_def)
  have "present usr_id (users ?d) (usr_id (?f u))"
    using presentI [OF write_user_in [OF u(1), of ?f], of usr_id] by simp
  from mint_token_triple_success [of L S "?f u" clk 1 jti ?d rid, OF _ this j] acc fresh
  show ?thesis unfolding eq using write_user_in [OF u(1), of ?f]
    by (auto simp: mint_token_def Let_def numeral_eq_Suc)
qed

text \<open>The access token of a login, and the users after it.\<close>

lemma login_password_tokens:
  assumes "db_ok d" "u \<in> set (users d)" "login_password L S clk jti rid (usr_user_name u) pw d = (Inr (acc, idt, refresh, ttl), d')"
  shows "acc = fst (mint_token L S (str_uuid (usr_id u)) Access (access_claims u) None (clk 1) (jti 0)) \<and>
    users d' = users (write_user u (\<lambda>u. u\<lparr>usr_last_login_at := Some (clk 0)\<rparr>) d)"
proof -
  have "find_user_by_name (usr_user_name u) d = Inr (Some u)" using assms(1,2) by (simp add: find_user_Some)
  with assms(3) show ?thesis
    by (auto simp: login_password_def mint_token_triple_def Let_def split_beta access_claims_def role_of_def insert_refresh_token_def
        insert_row_def split: attempt_splits option.splits if_splits json.splits)
qed

theorem login_password_sound_witness:
  "\<exists>u h. u \<in> set (users sample_db) \<and> usr_user_name u = ''ann@example.org'' \<and>
     usr_status u = ''confirmed'' \<and> usr_password_hash u = Some h \<and>
     verify_password (sample_libs ann_claims) ''secret-pw'' h = Inr True"
proof -
  have "\<exists>acc idt refresh d'. login_password (sample_libs ann_claims) default_settings (\<lambda>_. 1000000) sample_jti 9
      (usr_user_name sample_user) ''secret-pw'' sample_db =
        (Inr (acc, idt, refresh, access_token_ttl_seconds default_settings), d') \<and>
      sample_user\<lparr>usr_last_login_at := Some 1000000\<rparr> \<in> set (users d') \<and>
      refresh = jwt_encode (sample_libs ann_claims) ann_claims (secret_key default_settings) (jwt_algorithm default_settings) \<and>
      refresh_tokens d' = refresh_tokens sample_db @
       [RefreshToken 9 7 ''jti-c'' (1000000 + seconds (60 * 60 * 24 * 30))]"
    using login_password_success [OF sample_db_ok, of sample_user "''h:secret-pw''" "sample_libs ann_claims" "''secret-pw''"
        default_settings "\<lambda>_. 1000000" sample_jti 9] ann_accepted [of 1000000]
    by (simp add: sample_db_def sample_user_def User_def verify_password_def sample_libs_def empty_db_def
        ann_claims_def default_settings_def sample_jti_def fits_def)
  then obtain toks d' where "login_password (sample_libs ann_claims) default_settings (\<lambda>_. 1000000) sample_jti 9
      (usr_user_name sample_user) ''secret-pw'' sample_db = (Inr toks, d')" by blast
  from login_password_sound [OF this] show ?thesis by (simp add: sample_user_def User_def)
qed

section \<open>Refresh and logout\<close>

lemma login_refresh_row:
  assumes ok: "db_ok d" and dec: "decode_token L S tok (Some Refresh) (clk 0) = Inr payload"
    and p: "get payload ''jti'' = JStr j" and r: "r \<in> set (refresh_tokens d)" "rt_jti r = j"
    and dead: "rt_revoked_at r \<noteq> None \<or> rt_expires_at r < clk 1"
  shows "login_refresh L S clk jti tok d = (Inl (unauthorized ''Invalid refresh token''), d)"
proof -
  have "select (\<lambda>r. rt_jti r = j) (refresh_tokens d) = [r]"
    using tokens_by_jti.select_key [OF refresh_token_keys [OF ok] r(1)] r(2) by simp
  with dec p dead show ?thesis by (simp add: login_refresh_def)
qed

text \<open>
  C32: logging out revokes every refresh token of the user: a token recorded for that user, however
  valid its signature and expiry, is refused from then on with 401 and changes nothing.
\<close>

theorem logout_revokes:
  assumes ok: "db_ok d" and out: "logout clk uid d = (Inr (), d')"
    and dec: "decode_token L S tok (Some Refresh) (clk' 0) = Inr payload"
    and p: "get payload ''jti'' = JStr j" and r: "r \<in> set (refresh_tokens d)" "rt_jti r = j" "rt_user_id r = uid"
  shows "login_refresh L S clk' jti tok d' = (Inl (unauthorized ''Invalid refresh token''), d')"
proof -
  let ?f = "\<lambda>r. if rt_user_id r = uid \<and> rt_revoked_at r = None then r\<lparr>rt_revoked_at := Some (clk 0)\<rparr> else r"
  have "refresh_tokens d' = map ?f (refresh_tokens d)"
    using out by (auto simp: logout_def update_where_def)
  then have "?f r \<in> set (refresh_tokens d')" using r(1) by simp
  moreover have "db_ok d'" using logout_ok [OF ok, of clk uid] out by simp
  moreover have "rt_revoked_at (?f r) \<noteq> None" "rt_jti (?f r) = j" using r by auto
  ultimately show ?thesis by (intro login_refresh_row [where clk = clk', OF _ dec p]) auto
qed

definition session_db :: db where
  "session_db = sample_db\<lparr>refresh_tokens := [RefreshToken 9 7 ''jti-c'' 5000000]\<rparr>"

lemma session_db_ok: "db_ok session_db"
  by (simp add: session_db_def sample_db_def sample_user_def User_def db_ok_def keys_ok_def
      foreign_ok_def empty_db_def clash_free_def refresh_token_refs_def present_def RefreshToken_def)

lemma ann_decodes:
  "decode_token (sample_libs ann_claims) default_settings ''jwt'' (Some Refresh) t = Inr ann_claims"
  by (simp add: decode_token_def sample_libs_def ann_claims_def token_claims_def get_or_def)

lemma ann_jti: "get ann_claims ''jti'' = JStr ''jti-c''"
  by (simp add: ann_claims_def token_claims_def get_or_def)

theorem logout_revokes_witness:
  "login_refresh (sample_libs ann_claims) default_settings (\<lambda>_. 0) sample_jti ''jwt'' (snd (logout (\<lambda>_. 0) 7 session_db)) =
     (Inl (unauthorized ''Invalid refresh token''), snd (logout (\<lambda>_. 0) 7 session_db))"
  by (rule logout_revokes [OF session_db_ok, where j = "''jti-c''" and uid = 7 and clk = "\<lambda>_. 0" and
        payload = ann_claims and r = "RefreshToken 9 7 ''jti-c'' 5000000"])
    (simp_all add: logout_def session_db_def RefreshToken_def ann_decodes ann_jti)

lemma login_refresh_live:
  assumes ok: "db_ok d" and dec: "decode_token L S tok (Some Refresh) (clk 0) = Inr payload"
    and p: "get payload ''jti'' = JStr j" "j \<noteq> []" "get payload ''sub'' = JStr (str_uuid (usr_id u))"
    and r: "r \<in> set (refresh_tokens d)" "rt_jti r = j" "rt_revoked_at r = None" "clk 1 \<le> rt_expires_at r"
    and u: "u \<in> set (users d)" "usr_status u = ''confirmed''" "usr_id u < 2 ^ 128"
  shows "\<exists>acc idt. login_refresh L S clk jti tok d = (Inr (acc, idt, tok, access_token_ttl_seconds S), d)"
proof -
  have "select (\<lambda>r. rt_jti r = j) (refresh_tokens d) = [r]"
    using tokens_by_jti.select_key [OF refresh_token_keys [OF ok] r(1)] r(2) by simp
  moreover have "select (\<lambda>v. usr_id v = usr_id u) (users d) = [u]"
    by (rule users_by_id.select_key [OF user_keys [OF ok] u(1)])
  moreover have "str_uuid (usr_id u) \<noteq> []" by (simp add: str_uuid_def Let_def)
  ultimately show ?thesis
    using dec p r u by (simp add: login_refresh_def parse_str_uuid Let_def)
qed

text \<open>
  The refresh token a login returns is good for its whole life: while PyJWT still accepts it and
  the recorded expiry has not passed, \<open>login_refresh\<close> returns fresh access and id tokens with the same
  refresh token, and writes nothing.
\<close>

theorem refresh_after_login:
  assumes ok: "db_ok d" and u: "u \<in> set (users d)" "usr_status u = ''confirmed''" "usr_id u < 2 ^ 128"
    and pw: "usr_password_hash u = Some h" "verify_password L pw h = Inr True"
    and claims: "c = token_claims (str_uuid (usr_id u)) Refresh (clk 3)
                       (clk 3 + seconds (refresh_token_ttl_seconds S)) (jti 2) []"
    and acc: "jwt_accepts L S c (clk 4)" "jwt_accepts L S c (clk' 0)"
    and live: "clk' 1 \<le> clk 3 + seconds (refresh_token_ttl_seconds S)"
    and j: "fits 64 (jti 2)" "jti 2 \<noteq> []"
    and fresh: "\<forall>r \<in> set (refresh_tokens d). rt_jti r \<noteq> jti 2 \<and> rt_id r \<noteq> rid"
  shows "\<exists>acc idt refresh d' acc' idt'.
      login_password L S clk jti rid (usr_user_name u) pw d =
        (Inr (acc, idt, refresh, access_token_ttl_seconds S), d') \<and>
      login_refresh L S clk' jti' refresh d' =
        (Inr (acc', idt', refresh, access_token_ttl_seconds S), d')"
proof -
  obtain acc idt refresh d' where l: "login_password L S clk jti rid (usr_user_name u) pw d =
        (Inr (acc, idt, refresh, access_token_ttl_seconds S), d')"
    and u': "u\<lparr>usr_last_login_at := Some (clk 0)\<rparr> \<in> set (users d')"
    and ref: "refresh = jwt_encode L c (secret_key S) (jwt_algorithm S)"
    and rows: "refresh_tokens d' = refresh_tokens d @
       [RefreshToken rid (usr_id u) (jti 2) (clk 3 + seconds (refresh_token_ttl_seconds S))]"
    using login_password_success [where clk = clk and jti = jti, OF ok u(1,2) pw acc(1) [unfolded claims] j(1) fresh] claims by blast
  have ok': "db_ok d'" using login_password_ok [OF ok] l by (metis snd_conv)
  have none: "dict_ok []" "map_of [] x = None" for x :: string by (simp_all add: dict_ok_def)
  note g = get_token_claims [OF none(1), of "str_uuid (usr_id u)" Refresh "clk 3"
       "clk 3 + seconds (refresh_token_ttl_seconds S)" "jti 2", folded claims]
  have "decode_token L S refresh (Some Refresh) (clk' 0) = Inr c"
    using acc(2) ref g(1) none by (simp add: decode_token_def jwt_accepts_def)
  moreover have "get c ''jti'' = JStr (jti 2)" using g(3) none by (simp add: get_or_def)
  moreover have "get c ''sub'' = JStr (str_uuid (usr_id (u\<lparr>usr_last_login_at := Some (clk 0)\<rparr>)))"
    using g(2) none by simp
  ultimately have "\<exists>acc' idt'. login_refresh L S clk' jti' refresh d' =
      (Inr (acc', idt', refresh, access_token_ttl_seconds S), d')"
    by (rule login_refresh_live [OF ok' _ _ j(2), where u = "u\<lparr>usr_last_login_at := Some (clk 0)\<rparr>" and
          r = "RefreshToken rid (usr_id u) (jti 2) (clk 3 + seconds (refresh_token_ttl_seconds S))"])
      (use u' u(2,3) live rows in \<open>simp_all add: RefreshToken_def\<close>)
  with l show ?thesis by blast
qed

theorem refresh_after_login_witness:
  "\<exists>acc idt refresh d' acc' idt'.
      login_password (sample_libs ann_claims) default_settings (\<lambda>_. 1000000) sample_jti 9 (usr_user_name sample_user) ''secret-pw'' sample_db =
        (Inr (acc, idt, refresh, access_token_ttl_seconds default_settings), d') \<and>
      login_refresh (sample_libs ann_claims) default_settings (\<lambda>_. 2000000) sample_jti refresh d' =
        (Inr (acc', idt', refresh, access_token_ttl_seconds default_settings), d')"
  by (rule refresh_after_login [OF sample_db_ok, where h = "''h:secret-pw''" and c = ann_claims])
    (use ann_accepted in \<open>simp_all add: sample_db_def sample_user_def User_def verify_password_def
      sample_libs_def fits_def ann_claims_def default_settings_def sample_jti_def empty_db_def\<close>)

section \<open>Password reset\<close>

lemma confirm_password_reset_Inr:
  assumes "confirm_password_reset L clk salt nm code pw d = (Inr (), d')"
  shows "\<exists>u expires h. u \<in> set (users d) \<and> usr_user_name u = nm \<and> usr_reset_code u = Some code \<and>
     usr_reset_code_exp u = Some expires \<and> clk 0 \<le> expires \<and> hash_password L salt pw = Inr h \<and>
     d' = write_user u (\<lambda>u. u\<lparr>usr_password_hash := Some h, usr_reset_code := None,
                              usr_reset_code_exp := None\<rparr>) d"
  using assms
  by (auto simp: confirm_password_reset_def Let_def split: attempt_splits option.splits if_splits
      dest!: find_user_found compare_digest_True)

text \<open>
  A password reset stores the hash of the new password for the named account and consumes the
  code: every further reset attempt for that name is refused with 400 until a new code is requested.
\<close>

theorem reset_single_use:
  assumes ok: "db_ok d" and reset: "confirm_password_reset L clk salt nm code pw d = (Inr (), d')"
  shows "confirm_password_reset L clk' salt' nm code' pw' d' =
           (Inl (rainmaker 400 INVALID_REQUEST ''Invalid or expired code''), d') \<and>
         (\<exists>u h. u \<in> set (users d') \<and> usr_user_name u = nm \<and> hash_password L salt pw = Inr h \<and>
            usr_password_hash u = Some h)"
proof -
  obtain v h where v: "v \<in> set (users d)" "usr_user_name v = nm" and h: "hash_password L salt pw = Inr h"
    and d': "d' = write_user v (\<lambda>u. u\<lparr>usr_password_hash := Some h, usr_reset_code := None,
                              usr_reset_code_exp := None\<rparr>) d"
    using confirm_password_reset_Inr [OF reset] by blast
  note found = find_after_write [OF ok v(1), of "\<lambda>u. u\<lparr>usr_password_hash := Some h,
      usr_reset_code := None, usr_reset_code_exp := None\<rparr>"]
  have "confirm_password_reset L clk' salt' nm code' pw' d' =
           (Inl (rainmaker 400 INVALID_REQUEST ''Invalid or expired code''), d')"
    using found v(2) d' by (simp add: confirm_password_reset_def)
  moreover have "v\<lparr>usr_password_hash := Some h, usr_reset_code := None, usr_reset_code_exp := None\<rparr>
      \<in> set (users d')"
    using d' by (simp add: write_user_in [OF v(1), of "\<lambda>u. u\<lparr>usr_password_hash := Some h,
      usr_reset_code := None, usr_reset_code_exp := None\<rparr>"])
  ultimately show ?thesis using v(2) h by force
qed

definition reset_db :: db where
  "reset_db = empty_db\<lparr>users := [sample_user\<lparr>usr_reset_code := Some ''123456'', usr_reset_code_exp := Some 100\<rparr>]\<rparr>"

theorem reset_single_use_witness:
  "confirm_password_reset (sample_libs []) (\<lambda>_. 60) ''s'' ''ann@example.org'' ''123456'' ''pw3''
     (snd (confirm_password_reset (sample_libs []) (\<lambda>_. 50) ''s'' ''ann@example.org'' ''123456'' ''pw2'' reset_db)) =
     (Inl (rainmaker 400 INVALID_REQUEST ''Invalid or expired code''),
      snd (confirm_password_reset (sample_libs []) (\<lambda>_. 50) ''s'' ''ann@example.org'' ''123456'' ''pw2'' reset_db)) \<and>
   (\<exists>u h. u \<in> set (users (snd (confirm_password_reset (sample_libs []) (\<lambda>_. 50) ''s'' ''ann@example.org'' ''123456'' ''pw2'' reset_db))) \<and>
      usr_user_name u = ''ann@example.org'' \<and> hash_password (sample_libs []) ''s'' ''pw2'' = Inr h \<and> usr_password_hash u = Some h)"
proof (rule reset_single_use)
  show "db_ok reset_db"
    by (simp add: reset_db_def db_ok_def keys_ok_def foreign_ok_def empty_db_def clash_free_def)
  show "confirm_password_reset (sample_libs []) (\<lambda>_. 50) ''s'' ''ann@example.org'' ''123456'' ''pw2'' reset_db =
      (Inr (), snd (confirm_password_reset (sample_libs []) (\<lambda>_. 50) ''s'' ''ann@example.org'' ''123456'' ''pw2'' reset_db))"
    by (simp add: reset_db_def confirm_password_reset_def find_user_by_name_def select_def User_def sample_user_def
        compare_digest_str_def is_ascii_def code_point_def Let_def hash_password_def sample_libs_def)
qed

end
