(* ===== verification/PyNum.thy ===== *)
theory PyNum
  imports Json PyUuid
begin

text \<open>
  The conversions \<open>int\<close>, \<open>float\<close>, \<open>bool\<close>, \<open>str\<close> of Python on dynamically typed values, and
  \<open>datetime.fromtimestamp\<close>.  Rounding to binary64 and the textual forms of floats, containers and
  library exceptions are the fields of \<open>pyrt\<close>, a parameter.
\<close>

record pyrt =
  float_of_int :: "int \<Rightarrow> pyexc + pyfloat"
  float_of_str :: "string \<Rightarrow> pyexc + pyfloat"
  repr_json :: "json \<Rightarrow> string"
  year_error :: "int \<Rightarrow> string"
  digits_error :: "string \<Rightarrow> string"

text \<open>A stand-in for the witnesses.\<close>

definition sample_rt :: pyrt where
  "sample_rt = \<lparr>float_of_int = (\<lambda>i. Inr (Fin (of_int i))), float_of_str = (\<lambda>s. Inl ValueError),
     repr_json = (\<lambda>v. ''?''), year_error = (\<lambda>n. ''year is out of range''),
     digits_error = (\<lambda>s. ''too many digits'')\<rparr>"

section \<open>\<open>int\<close>\<close>

definition dec_digit :: "char \<Rightarrow> nat option" where
  "dec_digit c = (let n = code_point c in if 48 \<le> n \<and> n \<le> 57 then Some (n - 48) else None)"

primrec dec_scan :: "nat \<Rightarrow> bool \<Rightarrow> string \<Rightarrow> nat option" where
  "dec_scan acc us [] = (if us then None else Some acc)"
| "dec_scan acc us (c # s) =
     (if c = CHR ''_'' then (if us then None else dec_scan acc True s)
      else case dec_digit c of
             None \<Rightarrow> None
           | Some d \<Rightarrow> dec_scan (10 * acc + d) False s)"

text \<open>\<open>int(text)\<close>: at most 4300 digits since Python 3.11.\<close>

definition too_many_digits :: "string \<Rightarrow> bool" where
  "too_many_digits s \<longleftrightarrow> 4300 < length (filter (\<lambda>c. dec_digit c \<noteq> None) s)"

definition int_10 :: "string \<Rightarrow> pyexc + int" where
  "int_10 s =
     (let t = py_strip s;
          neg = startswith t ''-'';
          u = (if neg \<or> startswith t ''+'' then drop 1 t else t)
      in if u = [] \<or> hd u = CHR ''_'' \<or> too_many_digits u then Inl ValueError
         else case dec_scan 0 False u of
                None \<Rightarrow> Inl ValueError
              | Some n \<Rightarrow> Inr (if neg then - int n else int n))"

definition trunc_rat :: "rat \<Rightarrow> int" where
  "trunc_rat x = (if 0 \<le> x then \<lfloor>x\<rfloor> else \<lceil>x\<rceil>)"

fun py_int :: "json \<Rightarrow> pyexc + int" where
  "py_int JNull = Inl TypeError"
| "py_int (JBool b) = Inr (if b then 1 else 0)"
| "py_int (JInt i) = Inr i"
| "py_int (JFloat (Fin x)) = Inr (trunc_rat x)"
| "py_int (JFloat NaN) = Inl ValueError"
| "py_int (JFloat PosInf) = Inl OverflowError"
| "py_int (JFloat NegInf) = Inl OverflowError"
| "py_int (JStr s) = int_10 s"
| "py_int (JArr xs) = Inl TypeError"
| "py_int (JObj d) = Inl TypeError"

section \<open>\<open>float\<close> and \<open>str\<close>\<close>

fun py_float :: "pyrt \<Rightarrow> json \<Rightarrow> pyexc + pyfloat" where
  "py_float R JNull = Inl TypeError"
| "py_float R (JBool b) = Inr (Fin (if b then 1 else 0))"
| "py_float R (JInt i) = float_of_int R i"
| "py_float R (JFloat f) = Inr f"
| "py_float R (JStr s) = float_of_str R s"
| "py_float R (JArr xs) = Inl TypeError"
| "py_float R (JObj d) = Inl TypeError"

fun py_str :: "pyrt \<Rightarrow> json \<Rightarrow> string" where
  "py_str R JNull = ''None''"
| "py_str R (JBool b) = (if b then ''True'' else ''False'')"
| "py_str R (JInt i) = int_str i"
| "py_str R (JStr s) = s"
| "py_str R v = repr_json R v"

text \<open>\<open>uuid.UUID(v)\<close> on a value that need not be a string.\<close>

definition uuid_of_json :: "json \<Rightarrow> pyexc + uuid" where
  "uuid_of_json v = (case v of JStr s \<Rightarrow> parse_uuid s | JNull \<Rightarrow> Inl TypeError | _ \<Rightarrow> Inl AttributeError)"

lemma uuid_of_json_JStr [simp]: "uuid_of_json (JStr s) = parse_uuid s"
  by (simp add: uuid_of_json_def)

section \<open>\<open>datetime.fromtimestamp(n, tz=UTC)\<close>\<close>

text \<open>
  Years 1 to 9999 give a \<open>datetime\<close>, other instants whose year the C library can express a
  \<open>ValueError\<close>, instants beyond that an \<open>OSError\<close>, and integers that do not fit a 64-bit
  \<open>time_t\<close> an \<open>OverflowError\<close>.
\<close>

definition fromtimestamp :: "int \<Rightarrow> pyexc + datetime" where
  "fromtimestamp n =
     (if n < - (2 ^ 63) \<or> 2 ^ 63 \<le> n then Inl OverflowError
      else if n < - 67768040609740800 \<or> 67768036191676799 < n then Inl OSError
      else if n < - 62135596800 \<or> 253402300799 < n then Inl ValueError
      else Inr (seconds n))"

lemma fromtimestamp_Inr:
  "fromtimestamp n = Inr t \<longleftrightarrow> - 62135596800 \<le> n \<and> n \<le> 253402300799 \<and> t = seconds n"
  by (auto simp: fromtimestamp_def)

lemma digit_char_dec: "d < 10 \<Longrightarrow> dec_digit (digit_char d) = Some d"
  by (simp add: dec_digit_def digit_char_def code_point_def)

lemma digit_char_plain: "d < 10 \<Longrightarrow> digit_char d \<noteq> CHR ''_''"
  using digit_char_dec [of d] by (auto simp: dec_digit_def code_point_def)

lemma dec_scan_append:
  "list_all (\<lambda>c. dec_digit c \<noteq> None) s \<Longrightarrow> d < 10 \<Longrightarrow>
     dec_scan acc False (s @ [digit_char d]) = map_option (\<lambda>n. 10 * n + d) (dec_scan acc False s)"
proof (induction s arbitrary: acc)
  case Nil
  then show ?case by (simp add: digit_char_dec digit_char_plain)
next
  case (Cons c s)
  have "c \<noteq> CHR ''_''" using Cons.prems by (auto simp: dec_digit_def code_point_def)
  with Cons show ?case by (auto split: option.splits)
qed

lemma nat_str_dec: "list_all (\<lambda>c. dec_digit c \<noteq> None) (nat_str n)"
proof (induction n rule: nat_str.induct)
  case (1 n)
  then show ?case by (subst nat_str.simps) (simp add: digit_char_dec)
qed

lemma dec_scan_nat_str: "dec_scan 0 False (nat_str n) = Some n"
proof (induction n rule: nat_str.induct)
  case (1 n)
  show ?case
  proof (cases "n < 10")
    case True
    then show ?thesis by (simp add: nat_str.simps digit_char_dec digit_char_plain)
  next
    case False
    then show ?thesis using "1.IH" dec_scan_append [OF nat_str_dec, of "n mod 10" 0 "n div 10"]
      by (subst nat_str.simps) simp
  qed
qed

end
