(* ===== verification/Deps.thy ===== *)
theory Deps
  imports Auth PyNum
begin

text \<open>
  \<open>app/api/v1/deps\<close>: who is calling.  \<open>get_current_user\<close> authenticates the raw access token of the
  \<open>Authorization\<close> header, \<open>require_admin\<close> asks for a role, \<open>get_node_from_mtls\<close> identifies a node
  by the common name of its verified certificate.
\<close>

section \<open>Users\<close>

definition extract_token :: "string option \<Rightarrow> string result" where
  "extract_token header =
     (if \<not> str_truthy header then Inl (unauthorized ''Authorization header missing'')
      else if startswith (py_lower (the header)) ''bearer ''
      then Inl (unauthorized ''Bearer-prefixed tokens are not supported'')
      else Inr (py_strip (the header)))"

definition find_user_by_id :: "uuid \<Rightarrow> db \<Rightarrow> user option result" where
  "find_user_by_id uid d = scalar_one_or_none (select (\<lambda>u. usr_id u = uid) (users d))"

definition get_current_user :: "libs \<Rightarrow> settings \<Rightarrow> datetime \<Rightarrow> string option \<Rightarrow> db \<Rightarrow> user result" where
  "get_current_user L S now header d =
     (case extract_token header of
        Inl e \<Rightarrow> Inl e
      | Inr token \<Rightarrow>
          (case decode_token L S token (Some Access) now of
             Inl ExpiredSignatureError \<Rightarrow> Inl (unauthorized ''Token expired'')
           | Inl InvalidTokenError \<Rightarrow> Inl (unauthorized ''Invalid token'')
           | Inl e \<Rightarrow> Inl (Uncaught e)
           | Inr payload \<Rightarrow>
               if \<not> truthy (get payload ''sub'') then Inl (unauthorized ''Invalid token'')
               else (case uuid_of_json (get payload ''sub'') of
                 Inl ValueError \<Rightarrow> Inl (unauthorized ''Invalid token'')
               | Inl e \<Rightarrow> Inl (Uncaught e)
               | Inr user_id \<Rightarrow>
                   (case find_user_by_id user_id d of
                      Inl e \<Rightarrow> Inl e
                    | Inr None \<Rightarrow> Inl (unauthorized ''User not found'')
                    | Inr (Some user) \<Rightarrow>
                        if usr_status user \<noteq> ''confirmed'' then Inl (unauthorized ''User not found'')
                        else Inr user))))"

definition require_admin :: "libs \<Rightarrow> settings \<Rightarrow> datetime \<Rightarrow> string option \<Rightarrow> db \<Rightarrow> user result" where
  "require_admin L S now header d =
     (case get_current_user L S now header d of
        Inl e \<Rightarrow> Inl e
      | Inr user \<Rightarrow>
          if \<not> (usr_is_admin user \<or> usr_is_super_admin user) then Inl (forbidden ''Admin role required'')
          else Inr user)"

section \<open>Nodes\<close>

definition get_node_from_mtls :: "string option \<Rightarrow> db \<Rightarrow> node result" where
  "get_node_from_mtls cn d =
     (if \<not> str_truthy cn then Inl (unauthorized ''Client certificate required'')
      else case first (select (\<lambda>c. Some (cert_cn c) = cn \<and> \<not> cert_revoked c) (node_certificates d)) of
        None \<Rightarrow> Inl (unauthorized ''Unknown or revoked client certificate'')
      | Some cert \<Rightarrow>
          (case scalar_one_or_none (select (\<lambda>n. nd_node_id n = cert_node_id cert) (nodes d)) of
             Inl e \<Rightarrow> Inl e
           | Inr None \<Rightarrow> Inl (unauthorized ''Node not registered'')
           | Inr (Some node) \<Rightarrow> Inr node))"

section \<open>Lemmas\<close>

lemma get_current_user_Inr:
  assumes "get_current_user L S now header d = Inr u"
  obtains h tok payload where "header = Some h" "tok = py_strip h" "\<not> startswith (py_lower h) ''bearer ''"
    "decode_token L S tok (Some Access) now = Inr payload"
    "uuid_of_json (get payload ''sub'') = Inr (usr_id u)" "u \<in> set (users d)" "usr_status u = ''confirmed''"
proof -
  from assms obtain tok payload i where tok: "extract_token header = Inr tok"
    and p: "decode_token L S tok (Some Access) now = Inr payload"
    and i: "uuid_of_json (get payload ''sub'') = Inr i"
    and f: "find_user_by_id i d = Inr (Some u)" and st: "usr_status u = ''confirmed''"
    by (auto simp: get_current_user_def split: sum.split_asm option.split_asm pyexc.split_asm if_split_asm)
  from f have "select (\<lambda>u. usr_id u = i) (users d) = [u]" by (simp add: find_user_by_id_def)
  then have "u \<in> set (users d)" "usr_id u = i" using select_one by fastforce+
  with tok p i st show thesis
    by (intro that [of "the header" tok payload])
      (auto simp: extract_token_def str_truthy_def split: if_split_asm)
qed

lemma get_current_user_in: "get_current_user L S now header d = Inr u \<Longrightarrow> u \<in> set (users d)"
  by (erule get_current_user_Inr)

lemma require_admin_Inr:
  "require_admin L S now header d = Inr u \<Longrightarrow>
     get_current_user L S now header d = Inr u \<and> (usr_is_admin u \<or> usr_is_super_admin u)"
  by (auto simp: require_admin_def split: sum.split_asm if_split_asm)

lemma find_user_by_id_known:
  "db_ok d \<Longrightarrow> u \<in> set (users d) \<Longrightarrow> find_user_by_id (usr_id u) d = Inr (Some u)"
  by (simp add: find_user_by_id_def users_by_id.select_key [OF user_keys])

lemma get_node_from_mtls_Inr:
  assumes "get_node_from_mtls cn d = Inr n"
  obtains c where "c \<in> set (node_certificates d)" "Some (cert_cn c) = cn" "\<not> cert_revoked c"
    "n \<in> set (nodes d)" "nd_node_id n = cert_node_id c"
proof -
  from assms obtain c where c: "first (select (\<lambda>c. Some (cert_cn c) = cn \<and> \<not> cert_revoked c) (node_certificates d)) = Some c"
    and n: "select (\<lambda>n. nd_node_id n = cert_node_id c) (nodes d) = [n]"
    by (auto simp: get_node_from_mtls_def split: if_split_asm option.split_asm sum.split_asm)
  from first_Some_in [OF c] select_one [OF n] show thesis using that [of c] by auto
qed

lemma str_uuid_nonempty: "i < 2 ^ 128 \<Longrightarrow> str_uuid i \<noteq> []"
  using parse_str_uuid [of i] by (auto simp: parse_uuid_def strip_braces_def)

lemma extract_raw:
  "tok \<noteq> [] \<Longrightarrow> py_strip tok = tok \<Longrightarrow> \<not> startswith (py_lower tok) ''bearer '' \<Longrightarrow> extract_token (Some tok) = Inr tok"
  by (simp add: extract_token_def str_truthy_def)

lemma payload_user:
  assumes "db_ok d" "u \<in> set (users d)" "usr_status u = ''confirmed''" "usr_id u < 2 ^ 128"
    and "extract_token header = Inr tok" "decode_token L S tok (Some Access) t = Inr payload"
    and "get payload ''sub'' = JStr (str_uuid (usr_id u))"
  shows "get_current_user L S t header d = Inr u"
  using assms parse_str_uuid [OF assms(4)] str_uuid_nonempty [OF assms(4)] find_user_by_id_known [OF assms(1,2)]
  by (simp add: get_current_user_def uuid_of_json_def)

lemma payload_unconfirmed:
  assumes "db_ok d" "u \<in> set (users d)" "usr_status u \<noteq> ''confirmed''" "usr_id u < 2 ^ 128"
    and "extract_token header = Inr tok" "decode_token L S tok (Some Access) t = Inr payload"
    and "get payload ''sub'' = JStr (str_uuid (usr_id u))"
  shows "get_current_user L S t header d = Inl (unauthorized ''User not found'')"
  using assms parse_str_uuid [OF assms(4)] str_uuid_nonempty [OF assms(4)] find_user_by_id_known [OF assms(1,2)]
  by (simp add: get_current_user_def uuid_of_json_def)

lemma decode_token_access:
  "decode_token L S tok (Some Access) t = Inr payload \<Longrightarrow>
     jwt_decode L tok (secret_key S) (jwt_algorithm S) t = Inr payload \<and> get payload ''token_use'' = JStr ''access''"
  by (auto simp: decode_token_def split: sum.split_asm if_split_asm)

text \<open>Whatever the header is: the user it authenticates.\<close>

definition bearer_of :: "libs \<Rightarrow> settings \<Rightarrow> datetime \<Rightarrow> string option \<Rightarrow> user \<Rightarrow> bool" where
  "bearer_of L S t header u \<longleftrightarrow>
     (\<exists>h payload. header = Some h \<and> \<not> startswith (py_lower h) ''bearer '' \<and>
        jwt_decode L (py_strip h) (secret_key S) (jwt_algorithm S) t = Inr payload \<and>
        get payload ''token_use'' = JStr ''access'' \<and> uuid_of_json (get payload ''sub'') = Inr (usr_id u))"

section \<open>Properties\<close>

text \<open>
  C33: only access tokens of confirmed users open the API.  A token that the server minted for a user, sent
  raw in the \<open>Authorization\<close> header while it is valid, authenticates exactly that user when it is
  of the access kind and the account is confirmed; it is a 401 when it is an id or a refresh token, and when the account is not
  confirmed.  And whatever the header holds, minted or not: a user that it authenticates is a confirmed one of the store, whose identifier
  is the subject of claims of the access kind that PyJWT has verified with the server's key.
\<close>

theorem only_access_tokens:
  assumes ok: "db_ok d" and u: "u \<in> set (users d)" "usr_id u < 2 ^ 128"
    and extra: "dict_ok extra" "map_of extra ''token_use'' = None" "map_of extra ''sub'' = None"
    and tok: "mint_token L S (str_uuid (usr_id u)) k extra ttl now jti = (tok, expires)"
    and valid: "jwt_accepts L S (token_claims (str_uuid (usr_id u)) k now expires jti extra) t"
    and shape: "tok \<noteq> []" "py_strip tok = tok" "\<not> startswith (py_lower tok) ''bearer ''"
  shows "get_current_user L S t (Some tok) d =
    (if k \<noteq> Access then Inl (unauthorized ''Invalid token'')
     else if usr_status u \<noteq> ''confirmed'' then Inl (unauthorized ''User not found'') else Inr u) \<and>
    (\<forall>header w. get_current_user L S t header d = Inr w \<longrightarrow>
       w \<in> set (users d) \<and> usr_status w = ''confirmed'' \<and> bearer_of L S t header w)"
proof (intro conjI allI impI)
  have ext: "extract_token (Some tok) = Inr tok"
    by (rule extract_raw [OF shape])
  have dec: "decode_token L S tok (Some Access) t =
      (if k = Access then Inr (token_claims (str_uuid (usr_id u)) k now expires jti extra) else Inl InvalidTokenError)"
    by (rule decode_minted [OF extra(1,2) tok valid])
  have sub: "get (token_claims (str_uuid (usr_id u)) k now expires jti extra) ''sub'' = JStr (str_uuid (usr_id u))"
    by (rule get_token_claims(2) [OF extra(1,3)])
  show "get_current_user L S t (Some tok) d =
    (if k \<noteq> Access then Inl (unauthorized ''Invalid token'')
     else if usr_status u \<noteq> ''confirmed'' then Inl (unauthorized ''User not found'') else Inr u)"
  proof (cases "k = Access")
    case True
    then show ?thesis
      using payload_user [OF ok u(1) _ u(2) ext _ sub] payload_unconfirmed [OF ok u(1) _ u(2) ext _ sub] dec by simp
  next
    case False
    then show ?thesis using dec by (simp add: get_current_user_def ext)
  qed
next
  fix header w
  assume w: "get_current_user L S t header d = Inr w"
  show "w \<in> set (users d)" by (rule get_current_user_in [OF w])
  show "usr_status w = ''confirmed''" using w by (rule get_current_user_Inr)
  show "bearer_of L S t header w"
    by (rule get_current_user_Inr [OF w]) (auto simp: bearer_of_def dest: decode_token_access)
qed

definition member :: user where
  "member = (User 1 ''ann'' ''ann'')\<lparr>usr_password_hash := Some ''h:ann'', usr_status := ''confirmed''\<rparr>"

definition member_db :: db where
  "member_db = empty_db\<lparr>users := [member]\<rparr>"

lemma member_db_ok [simp]: "db_ok member_db"
  by (simp add: db_ok_def keys_ok_def foreign_ok_def member_db_def empty_db_def clash_free_def)

definition guest :: user where
  "guest = User 2 ''gus'' ''gus''"

definition guest_db :: db where
  "guest_db = empty_db\<lparr>users := [member, guest]\<rparr>"

lemma guest_db_ok: "db_ok guest_db"
  by (simp add: db_ok_def keys_ok_def foreign_ok_def guest_db_def member_def guest_def User_def empty_db_def clash_free_def
      clash_defs)

definition member_claims :: "token_kind \<Rightarrow> dict" where
  "member_claims k = token_claims (str_uuid 1) k 0 (seconds (ttl_for default_settings k)) ''j'' []"

definition claims_for :: "uuid \<Rightarrow> token_kind \<Rightarrow> dict" where
  "claims_for i k = token_claims (str_uuid i) k 0 (seconds (ttl_for default_settings k)) ''j'' []"

theorem only_access_tokens_witness:
  "get_current_user (sample_libs (claims_for 1 Access)) default_settings 5 (Some ''jwt'') guest_db = Inr member \<and>
   bearer_of (sample_libs (claims_for 1 Access)) default_settings 5 (Some ''jwt'') member \<and>
   get_current_user (sample_libs (claims_for 1 Refresh)) default_settings 5 (Some ''jwt'') guest_db =
     Inl (unauthorized ''Invalid token'') \<and>
   get_current_user (sample_libs (claims_for 2 Access)) default_settings 5 (Some ''jwt'') guest_db =
     Inl (unauthorized ''User not found'')"
proof -
  have shape: "py_strip ''jwt'' = ''jwt''" "\<not> startswith (py_lower ''jwt'') ''bearer ''"
    by (simp_all add: py_strip_def is_space_def code_point_def py_lower_def lower_char_def startswith_def)
  note checked = only_access_tokens [OF guest_db_ok, where extra = "[]" and ttl = None and now = 0 and jti = "''j''" and
      tok = "''jwt''" and S = default_settings and t = 5]
  have one: "get_current_user (sample_libs (claims_for 1 k)) default_settings 5 (Some ''jwt'') guest_db =
      (if k \<noteq> Access then Inl (unauthorized ''Invalid token'') else Inr member) \<and>
      (\<forall>header w. get_current_user (sample_libs (claims_for 1 k)) default_settings 5 header guest_db = Inr w \<longrightarrow>
         bearer_of (sample_libs (claims_for 1 k)) default_settings 5 header w)" for k
    using checked [of member "sample_libs (claims_for 1 k)" k "seconds (ttl_for default_settings k)"]
    by (simp add: guest_db_def member_def User_def dict_ok_def mint_token_def sample_libs_def
        jwt_accepts_def claims_for_def shape)
  moreover have "get_current_user (sample_libs (claims_for 2 Access)) default_settings 5 (Some ''jwt'') guest_db =
      Inl (unauthorized ''User not found'')"
    using checked [of guest "sample_libs (claims_for 2 Access)" Access "seconds (ttl_for default_settings Access)"]
    by (simp add: guest_db_def guest_def User_def dict_ok_def mint_token_def sample_libs_def
        jwt_accepts_def claims_for_def shape)
  ultimately show ?thesis using one [of Access] one [of Refresh] by simp
qed

text \<open>
  A node is whoever holds an unrevoked certificate.  \<open>get_node_from_mtls\<close> succeeds only for a
  common name that some unrevoked certificate carries, and yields the registered node that
  certificate was issued for.
\<close>

theorem mtls_needs_certificate:
  assumes "get_node_from_mtls cn d = Inr n"
  shows "\<exists>c. c \<in> set (node_certificates d) \<and> Some (cert_cn c) = cn \<and> \<not> cert_revoked c \<and>
    n \<in> set (nodes d) \<and> nd_node_id n = cert_node_id c"
  using get_node_from_mtls_Inr [OF assms] by metis

definition certified_db :: db where
  "certified_db = empty_db\<lparr>nodes := [Node ''n1'' 0], node_certificates :=
     [\<lparr>cert_serial = ''5'', cert_node_id = ''n1'', cert_pem = [], cert_cn = ''n1'', cert_not_before = 0,
       cert_not_after = 9, cert_revoked = False\<rparr>]\<rparr>"

theorem mtls_needs_certificate_witness:
  "\<exists>c. c \<in> set (node_certificates certified_db) \<and> Some (cert_cn c) = Some ''n1'' \<and> \<not> cert_revoked c \<and>
    Node ''n1'' 0 \<in> set (nodes certified_db) \<and> nd_node_id (Node ''n1'' 0) = cert_node_id c"
  by (rule mtls_needs_certificate)
    (simp add: get_node_from_mtls_def certified_db_def empty_db_def str_truthy_def select_def Node_def)

end
