(* ===== verification/Pki.thy ===== *)
theory Pki
  imports Config PyUuid
begin

text \<open>
  \<open>app/pki/ca.py\<close>: the certificate authority of the backend, which is either read from the mounted
  files or generated in memory, and the certificates it signs for devices.  The \<open>cryptography\<close>
  package and the file system are a parameter, \<open>x509_lib\<close>: reading files, parsing a CSR (whether
  its signature is valid, its public key), a certificate or a private key (whether it is an elliptic
  curve key), writing a private key, and building and signing a certificate from what the code hands to
  \<open>CertificateBuilder\<close>.  \<open>cached_chain\<close> is what the first call of \<open>_ephemeral_chain\<close> left in its
  \<open>lru_cache\<close>.  An exception is the text the caller formats, on the left.
\<close>

type_synonym x509_name = "(string \<times> string) list"

record cert_template =
  ct_subject :: x509_name
  ct_issuer :: x509_name
  ct_public_key :: string
  ct_serial :: nat
  ct_not_before :: datetime
  ct_not_after :: datetime
  ct_ca :: bool
  ct_path_length :: "nat option"
  ct_key_usage :: "string list"
  ct_ext_key_usage :: "string list"
  ct_alt_names :: "(string \<times> string) list"
  ct_subject_key_id :: "string option"
  ct_authority_key_id :: "string option"

record certificate =
  crt_template :: cert_template
  crt_signed_by :: string
  crt_pem :: string

record x509_lib =
  load_csr :: "string \<Rightarrow> string + bool \<times> string"
  read_file :: "string \<Rightarrow> string + string"
  load_cert :: "string \<Rightarrow> string + certificate"
  load_key :: "string \<Rightarrow> string + bool \<times> string"
  public_key :: "string \<Rightarrow> string"
  private_pem :: "string \<Rightarrow> string"
  sign_cert :: "cert_template \<Rightarrow> string \<Rightarrow> string + certificate"
  cached_chain :: "string + certificate \<times> string \<times> certificate"

section \<open>The authority\<close>

definition distinguished_name :: "string \<Rightarrow> string \<Rightarrow> string \<Rightarrow> x509_name" where
  "distinguished_name country org cn = [(''C'', country), (''O'', org), (''CN'', cn)]"

definition ca_template ::
  "x509_name \<Rightarrow> x509_name \<Rightarrow> string \<Rightarrow> nat \<Rightarrow> datetime \<Rightarrow> int \<Rightarrow> nat \<Rightarrow> cert_template" where
  "ca_template subject issuer key serial now ndays plen = \<lparr>
     ct_subject = subject, ct_issuer = issuer, ct_public_key = key, ct_serial = serial,
     ct_not_before = now - minutes 1, ct_not_after = now + days ndays,
     ct_ca = True, ct_path_length = Some plen,
     ct_key_usage = [''digital_signature'', ''key_cert_sign'', ''crl_sign''],
     ct_ext_key_usage = [], ct_alt_names = [], ct_subject_key_id = None, ct_authority_key_id = None\<rparr>"

text \<open>The two keys and the two serial numbers are drawn by the library.\<close>

definition ephemeral_chain ::
  "x509_lib \<Rightarrow> settings \<Rightarrow> datetime \<Rightarrow> string \<Rightarrow> string \<Rightarrow> nat \<Rightarrow> nat \<Rightarrow> string + certificate \<times> string \<times> certificate"
where
  "ephemeral_chain X S now root_key inter_key root_serial inter_serial =
     (let root_subject = distinguished_name (pki_country S) (pki_org S) (pki_ca_cn S);
          inter_subject = distinguished_name (pki_country S) (pki_org S) (pki_ca_intermediate_cn S)
      in case sign_cert X (ca_template root_subject root_subject (public_key X root_key) root_serial now (365 * 20) 1)
                root_key of
           Inl e \<Rightarrow> Inl e
         | Inr root_cert \<Rightarrow>
             (case sign_cert X (ca_template inter_subject root_subject (public_key X inter_key) inter_serial now
                      (365 * 10) 0) root_key of
                Inl e \<Rightarrow> Inl e
              | Inr inter_cert \<Rightarrow> Inr (inter_cert, inter_key, root_cert)))"

definition read_cert :: "x509_lib \<Rightarrow> string \<Rightarrow> string + certificate" where
  "read_cert X path = (case read_file X path of Inl e \<Rightarrow> Inl e | Inr bytes \<Rightarrow> load_cert X bytes)"

definition load_intermediate_ca :: "x509_lib \<Rightarrow> settings \<Rightarrow> string + certificate \<times> string" where
  "load_intermediate_ca X S =
     (case (pki_ca_cert_path S, pki_ca_key_path S) of
        (Some cert_path, Some key_path) \<Rightarrow>
          (case read_cert X cert_path of
             Inl e \<Rightarrow> Inl e
           | Inr cert \<Rightarrow>
               (case read_file X key_path of
                  Inl e \<Rightarrow> Inl e
                | Inr key_bytes \<Rightarrow>
                    (case load_key X key_bytes of
                       Inl e \<Rightarrow> Inl e
                     | Inr (elliptic, key) \<Rightarrow>
                         if \<not> elliptic then Inl ''Only EC P-256 intermediate keys are supported for now''
                         else Inr (cert, key))))
      | _ \<Rightarrow> map_sum id (\<lambda>(inter_cert, inter_key, _). (inter_cert, inter_key)) (cached_chain X))"

definition load_root_cert :: "x509_lib \<Rightarrow> settings \<Rightarrow> string + certificate" where
  "load_root_cert X S =
     (case pki_ca_root_cert_path S of
        Some path \<Rightarrow> read_cert X path
      | None \<Rightarrow> map_sum id (\<lambda>(_, _, root_cert). root_cert) (cached_chain X))"

section \<open>Device certificates\<close>

text \<open>\<open>f"{n:x}"\<close>\<close>

fun hex_str :: "nat \<Rightarrow> string" where
  "hex_str n = (if n < 16 then [hex_char n] else hex_str (n div 16) @ [hex_char (n mod 16)])"

declare hex_str.simps [simp del]

definition device_template ::
  "certificate \<Rightarrow> string \<Rightarrow> nat \<Rightarrow> datetime \<Rightarrow> int \<Rightarrow> string \<Rightarrow> cert_template" where
  "device_template icert key serial now ndays node_id = \<lparr>
     ct_subject = [(''CN'', node_id)], ct_issuer = ct_subject (crt_template icert), ct_public_key = key,
     ct_serial = serial, ct_not_before = now - minutes 1, ct_not_after = now + days ndays,
     ct_ca = False, ct_path_length = None, ct_key_usage = [''digital_signature'', ''key_agreement''],
     ct_ext_key_usage = [''client_auth''], ct_alt_names = [(''DNS'', node_id)],
     ct_subject_key_id = Some key, ct_authority_key_id = Some (ct_public_key (crt_template icert))\<rparr>"

text \<open>\<open>bits\<close> is the draw of \<open>secrets.randbits(128)\<close>; the serial is \<open>bits | 1\<close>.\<close>

definition odd_serial :: "nat \<Rightarrow> nat" where
  "odd_serial bits = (if even bits then bits + 1 else bits)"

definition sign_device_csr ::
  "x509_lib \<Rightarrow> settings \<Rightarrow> datetime \<Rightarrow> nat \<Rightarrow> string \<Rightarrow> string \<Rightarrow> int option \<Rightarrow>
     string + string \<times> string \<times> datetime \<times> datetime"
where
  "sign_device_csr X S now bits csr_pem node_id validity_days =
     (case load_csr X csr_pem of
        Inl e \<Rightarrow> Inl e
      | Inr (valid, key) \<Rightarrow>
          if \<not> valid then Inl ''CSR signature invalid''
          else case load_intermediate_ca X S of
            Inl e \<Rightarrow> Inl e
          | Inr (inter_cert, inter_key) \<Rightarrow>
              let serial = odd_serial bits;
                  ndays = (case validity_days of Some n \<Rightarrow> n | None \<Rightarrow> cert_validity_days S)
              in case sign_cert X (device_template inter_cert key serial now ndays node_id) inter_key of
                   Inl e \<Rightarrow> Inl e
                 | Inr cert \<Rightarrow>
                     Inr (crt_pem cert @ crt_pem inter_cert, hex_str serial,
                          ct_not_before (crt_template cert), ct_not_after (crt_template cert)))"

lemma hex_str_length: "n < 16 ^ Suc k \<Longrightarrow> length (hex_str n) \<le> Suc k"
proof (induction k arbitrary: n)
  case 0
  then show ?case by (simp add: hex_str.simps)
next
  case (Suc k)
  show ?case
  proof (cases "n < 16")
    case True
    then show ?thesis by (simp add: hex_str.simps)
  next
    case False
    from Suc.prems have "n div 16 < 16 ^ Suc k"
      by (simp add: less_mult_imp_div_less mult.commute)
    with Suc.IH [of "n div 16"] False show ?thesis
      by (subst hex_str.simps) simp
  qed
qed

lemma odd_serial_bound: "bits < 2 ^ 128 \<Longrightarrow> odd_serial bits < 2 ^ 128 \<and> odd_serial bits \<noteq> 0"
proof -
  assume b: "bits < 2 ^ 128"
  have "even (2 ^ 128 :: nat)" by simp
  with b have "bits + 1 < 2 ^ 128" if "even bits"
    using that by (metis Suc_eq_plus1 Suc_lessI even_Suc)
  with b show ?thesis by (auto simp: odd_serial_def intro: Nat.gr0I)
qed

text \<open>A serial has at most 32 hexadecimal digits, so it fits its column.\<close>

lemma serial_fits: "bits < 2 ^ 128 \<Longrightarrow> length (hex_str (odd_serial bits)) \<le> 32"
  using odd_serial_bound [of bits] hex_str_length [of "odd_serial bits" 31] by simp

text \<open>What a signed certificate says.\<close>

lemma sign_device_csr_Inr:
  assumes "sign_device_csr X S now bits csr nid vd = Inr (chain, serial, nb, na)"
  obtains key icert inter_key cert where "load_csr X csr = Inr (True, key)"
    "load_intermediate_ca X S = Inr (icert, inter_key)" "serial = hex_str (odd_serial bits)"
    "chain = crt_pem cert @ crt_pem icert"
    "sign_cert X (device_template icert key (odd_serial bits) now
       (case vd of Some n \<Rightarrow> n | None \<Rightarrow> cert_validity_days S) nid) inter_key = Inr cert"
    "nb = ct_not_before (crt_template cert)" "na = ct_not_after (crt_template cert)"
  using assms
  by (auto simp: sign_device_csr_def Let_def split: sum.split_asm prod.split_asm if_split_asm)

section \<open>Certification paths\<close>

text \<open>
  What the library documents of a signed certificate: it says what the builder was given, with
  instants cut to whole seconds, and its signature is that of the given key.
\<close>

definition whole_second :: "datetime \<Rightarrow> datetime" where
  "whole_second t = t - t mod 1000000"

definition x509_faithful :: "x509_lib \<Rightarrow> bool" where
  "x509_faithful X \<longleftrightarrow> (\<forall>t k c. sign_cert X t k = Inr c \<longrightarrow> crt_signed_by c = public_key X k \<and>
     crt_template c = t\<lparr>ct_not_before := whole_second (ct_not_before t), ct_not_after := whole_second (ct_not_after t)\<rparr>)"

text \<open>
  \<open>certifies p c\<close>: \<open>p\<close> is an authority that may issue \<open>c\<close>, and issued it.  \<open>path_ok i cs\<close>: each
  certificate of the path, the leaf first, is certified by the next, the last by itself, and the
  path lengths allow the authorities below them, of which there are \<open>i\<close>.
\<close>

definition certifies :: "certificate \<Rightarrow> certificate \<Rightarrow> bool" where
  "certifies p c \<longleftrightarrow> ct_ca (crt_template p) \<and> ''key_cert_sign'' \<in> set (ct_key_usage (crt_template p)) \<and>
     ct_issuer (crt_template c) = ct_subject (crt_template p) \<and> crt_signed_by c = ct_public_key (crt_template p)"

definition room_below :: "nat \<Rightarrow> certificate \<Rightarrow> bool" where
  "room_below i p \<longleftrightarrow> (case ct_path_length (crt_template p) of None \<Rightarrow> True | Some n \<Rightarrow> i \<le> n)"

fun path_ok :: "nat \<Rightarrow> certificate list \<Rightarrow> bool" where
  "path_ok i [] = False"
| "path_ok i [c] = certifies c c"
| "path_ok i (c # p # cs) = (certifies p c \<and> room_below i p \<and> path_ok (i + 1) (p # cs))"

definition lives_inside :: "certificate \<Rightarrow> certificate \<Rightarrow> bool" where
  "lives_inside c p \<longleftrightarrow> ct_not_before (crt_template p) \<le> ct_not_before (crt_template c) \<and>
     ct_not_after (crt_template c) \<le> ct_not_after (crt_template p)"

lemma whole_second_mono: "a \<le> b \<Longrightarrow> whole_second a \<le> whole_second b"
  by (simp add: whole_second_def minus_mod_eq_mult_div zdiv_mono1)

lemma whole_second_add: "whole_second (t + seconds n) = whole_second t + seconds n"
  by (simp add: whole_second_def)

lemma faithful_cert:
  assumes "x509_faithful X" "sign_cert X t k = Inr c"
  shows "crt_signed_by c = public_key X k" "ct_subject (crt_template c) = ct_subject t"
    "ct_issuer (crt_template c) = ct_issuer t" "ct_public_key (crt_template c) = ct_public_key t"
    "ct_not_before (crt_template c) = whole_second (ct_not_before t)"
    "ct_not_after (crt_template c) = whole_second (ct_not_after t)"
    "ct_ca (crt_template c) = ct_ca t" "ct_path_length (crt_template c) = ct_path_length t"
    "ct_key_usage (crt_template c) = ct_key_usage t"
  using assms by (auto simp: x509_faithful_def)

lemma ephemeral_chain_Inr:
  assumes "ephemeral_chain X S now rk ik rs is = Inr (icert, key, rcert)"
  shows "sign_cert X (ca_template (distinguished_name (pki_country S) (pki_org S) (pki_ca_cn S))
        (distinguished_name (pki_country S) (pki_org S) (pki_ca_cn S)) (public_key X rk) rs now (365 * 20) 1) rk = Inr rcert \<and>
    sign_cert X (ca_template (distinguished_name (pki_country S) (pki_org S) (pki_ca_intermediate_cn S))
        (distinguished_name (pki_country S) (pki_org S) (pki_ca_cn S)) (public_key X ik) is now (365 * 10) 0) rk = Inr icert \<and>
    key = ik"
  using assms by (auto simp: ephemeral_chain_def Let_def split: sum.split_asm)

text \<open>A root and an intermediate as both generators make them, and a leaf that the intermediate signs.\<close>

lemma authority_path:
  assumes X: "x509_faithful X"
    and rcert: "sign_cert X (ca_template rn rn (public_key X rk) rs t0 rd 1) rk = Inr rcert"
    and icert: "sign_cert X (ca_template iname rn (public_key X ik) is t0 idays 0) rk = Inr icert"
    and leaf: "sign_cert X t ik = Inr cert" "ct_issuer t = iname"
  shows "path_ok 0 [cert, icert, rcert]"
  using faithful_cert [OF X rcert] faithful_cert [OF X icert] faithful_cert [OF X leaf(1)] leaf(2)
  by (simp add: certifies_def room_below_def ca_template_def)

text \<open>What such an authority signs for a device.\<close>

lemma device_certified:
  assumes X: "x509_faithful X" and ca: "load_intermediate_ca X S = Inr (icert, ik)"
    and rcert: "sign_cert X (ca_template rn rn (public_key X rk) rs t0 rd 1) rk = Inr rcert"
    and icert: "sign_cert X (ca_template iname rn (public_key X ik) is t0 idays 0) rk = Inr icert"
    and sign: "sign_device_csr X S now bits csr nid vd = Inr (pem, serial, nb, na)"
    and time: "t0 \<le> now" "now + days (case vd of Some n \<Rightarrow> n | None \<Rightarrow> cert_validity_days S) \<le> t0 + days idays"
      "idays \<le> rd"
  shows "\<exists>cert. pem = crt_pem cert @ crt_pem icert \<and> path_ok 0 [cert, icert, rcert] \<and> lives_inside cert icert \<and>
    lives_inside icert rcert \<and> ct_subject (crt_template cert) = [(''CN'', nid)] \<and> \<not> ct_ca (crt_template cert)"
proof -
  obtain key cert where pem: "pem = crt_pem cert @ crt_pem icert"
    and c: "sign_cert X (device_template icert key (odd_serial bits) now
       (case vd of Some n \<Rightarrow> n | None \<Rightarrow> cert_validity_days S) nid) ik = Inr cert"
    by (rule sign_device_csr_Inr [OF sign]) (use ca in auto)
  note f = faithful_cert [OF X rcert] faithful_cert [OF X icert] faithful_cert [OF X c]
  have "path_ok 0 [cert, icert, rcert]"
    by (rule authority_path [OF X rcert icert c]) (simp add: device_template_def f(11) ca_template_def)
  moreover have "lives_inside cert icert" "lives_inside icert rcert"
    using time by (auto simp: lives_inside_def f ca_template_def device_template_def intro!: whole_second_mono)
  ultimately show ?thesis
    using pem f by (auto simp: device_template_def)
qed

definition sample_sign_cert :: "cert_template \<Rightarrow> string \<Rightarrow> string + certificate" where
  "sample_sign_cert t k = Inr \<lparr>crt_template = t\<lparr>ct_not_before := whole_second (ct_not_before t),
     ct_not_after := whole_second (ct_not_after t)\<rparr>, crt_signed_by = ''pub-'' @ k,
     crt_pem = ''CERT:'' @ snd (last (ct_subject t)) @ '';''\<rparr>"

definition plain_x509 :: x509_lib where
  "plain_x509 = \<lparr>
     load_csr = (\<lambda>csr. if csr = ''CSR'' then Inr (True, ''key'') else Inl ''Unable to load PEM file''),
     read_file = (\<lambda>path. Inl (''No such file: '' @ path)),
     load_cert = (\<lambda>bytes. Inl ''Unable to load PEM file''), load_key = (\<lambda>bytes. Inl ''Unable to load PEM file''),
     public_key = (\<lambda>k. ''pub-'' @ k), private_pem = (\<lambda>k. ''KEY:'' @ k), sign_cert = sample_sign_cert, cached_chain = Inl ''none''\<rparr>"

text \<open>A library, with the chain that \<open>_ephemeral_chain\<close> made with it at the epoch.\<close>

definition sample_x509 :: x509_lib where
  "sample_x509 = plain_x509\<lparr>cached_chain := ephemeral_chain plain_x509 default_settings 0 ''root'' ''inter'' 1 3\<rparr>"

lemma sample_x509_faithful [simp]: "x509_faithful sample_x509"
  by (simp add: x509_faithful_def sample_x509_def plain_x509_def sample_sign_cert_def)

section \<open>Properties\<close>

text \<open>
  Device certificates chain back to the root.  With the in-memory authority that the code
  generates at time \<open>t0\<close>, every certificate \<open>sign_device_csr\<close> returns is followed by the
  intermediate in the PEM, the path of certificate, intermediate and root is a valid certification
  path, and the certificate stays within the validity of the intermediate whenever it is signed
  after \<open>t0\<close> and at least its validity period before the ten years of the intermediate are over.
\<close>

theorem device_path:
  assumes X: "x509_faithful X" and mem: "pki_ca_cert_path S = None"
    and chain: "cached_chain X = Inr (icert, ik, rcert)" "ephemeral_chain X S t0 rk ik rs is = Inr (icert, ik, rcert)"
    and sign: "sign_device_csr X S now bits csr nid vd = Inr (pem, serial, nb, na)"
    and time: "t0 \<le> now" "now + days (case vd of Some n \<Rightarrow> n | None \<Rightarrow> cert_validity_days S) \<le> t0 + days 3650"
  shows "\<exists>cert. pem = crt_pem cert @ crt_pem icert \<and> path_ok 0 [cert, icert, rcert] \<and> lives_inside cert icert \<and>
    lives_inside icert rcert \<and> ct_subject (crt_template cert) = [(''CN'', nid)] \<and> \<not> ct_ca (crt_template cert)"
proof -
  have ca: "load_intermediate_ca X S = Inr (icert, ik)" using mem chain(1) by (simp add: load_intermediate_ca_def)
  show ?thesis
    by (rule device_certified [OF X ca ephemeral_chain_Inr [OF chain(2), THEN conjunct1]
          ephemeral_chain_Inr [OF chain(2), THEN conjunct2, THEN conjunct1] sign time(1)]) (use time in simp_all)
qed

lemma sample_sign:
  "sign_device_csr sample_x509 default_settings t 5 ''CSR'' nid None =
     Inr (''CERT:'' @ nid @ '';CERT:ESP RainMaker Intermediate CA;'', ''5'', whole_second (t - minutes 1),
       whole_second (t + days 1825))"
  by (simp add: sign_device_csr_def sample_x509_def plain_x509_def load_intermediate_ca_def ephemeral_chain_def
      sample_sign_cert_def ca_template_def distinguished_name_def device_template_def default_settings_def Let_def
      odd_serial_def hex_str.simps hex_char_def char_of_eq_iff)

lemma ephemeral_chain_cached: "ephemeral_chain (X\<lparr>cached_chain := c\<rparr>) S = ephemeral_chain X S"
  by (simp add: ephemeral_chain_def Let_def fun_eq_iff cong: sum.case_cong)

theorem device_path_witness:
  "\<exists>cert icert rcert. cached_chain sample_x509 = Inr (icert, ''inter'', rcert) \<and>
    ''CERT:n1;CERT:ESP RainMaker Intermediate CA;'' = crt_pem cert @ crt_pem icert \<and>
    path_ok 0 [cert, icert, rcert] \<and> lives_inside cert icert \<and> lives_inside icert rcert \<and>
    ct_subject (crt_template cert) = [(''CN'', ''n1'')] \<and> \<not> ct_ca (crt_template cert)"
proof -
  obtain icert rcert where c: "cached_chain sample_x509 = Inr (icert, ''inter'', rcert)"
    by (simp add: sample_x509_def plain_x509_def ephemeral_chain_def sample_sign_cert_def Let_def)
  moreover have "ephemeral_chain sample_x509 default_settings 0 ''root'' ''inter'' 1 3 = cached_chain sample_x509"
    by (simp add: sample_x509_def ephemeral_chain_cached)
  ultimately show ?thesis
    using device_path [OF sample_x509_faithful _ c _ sample_sign [of 9 "''n1''"], of 0 "''root''" 1 3]
    by (simp add: default_settings_def [THEN arg_cong, of pki_ca_cert_path]
        default_settings_def [THEN arg_cong, of cert_validity_days])
qed

end
