(* ===== verification/PyBase64.thy ===== *)
theory PyBase64
  imports Prelude
begin

text \<open>
  Python's \<open>base64.b64encode\<close> and \<open>base64.b64decode\<close>, which the self-claim exchange uses.  The
  decoder is the lenient state machine of \<open>binascii.a2b_base64\<close>: characters outside the alphabet
  are skipped, a pad that completes a quad ends the input, and an incomplete quad is an error.  Its
  state is the position in the quad, the bits left over and the number of pads seen.
\<close>

definition b64_char :: "nat \<Rightarrow> char" where
  "b64_char n = char_of (if n < 26 then n + 65 else if n < 52 then n + 71
     else if n < 62 then n - 4 else if n = 62 then 43 else 47)"

definition b64_val :: "char \<Rightarrow> nat option" where
  "b64_val c = (let n = code_point c in
     if 65 \<le> n \<and> n \<le> 90 then Some (n - 65)
     else if 97 \<le> n \<and> n \<le> 122 then Some (n - 71)
     else if 48 \<le> n \<and> n \<le> 57 then Some (n + 4)
     else if n = 43 then Some 62 else if n = 47 then Some 63 else None)"

fun b64encode :: "bytes \<Rightarrow> string" where
  "b64encode [] = []"
| "b64encode [a] = [b64_char (a div 4), b64_char (a mod 4 * 16), CHR ''='', CHR ''='']"
| "b64encode [a, b] =
     [b64_char (a div 4), b64_char (a mod 4 * 16 + b div 16), b64_char (b mod 16 * 4), CHR ''='']"
| "b64encode (a # b # c # bs) =
     b64_char (a div 4) # b64_char (a mod 4 * 16 + b div 16) # b64_char (b mod 16 * 4 + c div 64)
       # b64_char (c mod 64) # b64encode bs"

text \<open>\<open>quad_pos\<close>, \<open>leftchar\<close>, \<open>pads\<close> of the C loop; the bytes are produced from the left.\<close>

fun a2b_base64 :: "nat \<Rightarrow> nat \<Rightarrow> nat \<Rightarrow> string \<Rightarrow> pyexc + bytes" where
  "a2b_base64 q left pads [] = (if q = 0 then Inr [] else Inl ValueError)"
| "a2b_base64 q left pads (c # cs) =
     (if c = CHR ''='' then
        if 2 \<le> q \<and> 4 \<le> q + (pads + 1) then Inr []
        else a2b_base64 q left (if 2 \<le> q then pads + 1 else pads) cs
      else case b64_val c of
        None \<Rightarrow> a2b_base64 q left pads cs
      | Some v \<Rightarrow>
          if q = 0 then a2b_base64 1 v 0 cs
          else if q = 1 then map_sum id (\<lambda>r. (left * 4 + v div 16) # r) (a2b_base64 2 (v mod 16) 0 cs)
          else if q = 2 then map_sum id (\<lambda>r. (left * 16 + v div 4) # r) (a2b_base64 3 (v mod 4) 0 cs)
          else map_sum id (\<lambda>r. (left * 64 + v) # r) (a2b_base64 0 0 0 cs))"

text \<open>\<open>b64decode\<close> of a \<open>str\<close> encodes it to ASCII first.\<close>

definition b64decode :: "string \<Rightarrow> pyexc + bytes" where
  "b64decode s = (if is_ascii s then a2b_base64 0 0 0 s else Inl ValueError)"

definition is_bytes :: "bytes \<Rightarrow> bool" where
  "is_bytes bs \<longleftrightarrow> list_all (\<lambda>b. b < 256) bs"

lemma b64_val_char [simp]: "n < 64 \<Longrightarrow> b64_val (b64_char n) = Some n"
  by (auto simp: b64_val_def b64_char_def code_point_def Let_def)

lemma b64_char_not_pad [simp]: "n < 64 \<Longrightarrow> b64_char n \<noteq> CHR ''=''"
proof -
  assume "n < 64"
  then have "b64_val (b64_char n) \<noteq> b64_val (CHR ''='')"
    by (simp add: b64_val_def [of "CHR ''=''"] code_point_def)
  then show ?thesis by metis
qed

lemma b64_char_ascii [simp]: "n < 64 \<Longrightarrow> code_point (b64_char n) < 128"
  by (auto simp: b64_char_def code_point_def)

lemma join_digits:
  fixes x y n :: nat
  assumes "y < n"
  shows "(x * n + y) div n = x" "(x * n + y) mod n = y"
  using assms by simp_all

lemma sextets:
  fixes a b c :: nat
  assumes "a < 256" "b < 256" "c < 256"
  shows "a div 4 < 64" "a mod 4 * 16 < 64" "a mod 4 * 16 + b div 16 < 64"
    "b mod 16 * 4 < 64" "b mod 16 * 4 + c div 64 < 64" "c mod 64 < 64"
proof -
  have "a mod 4 < 4" "b mod 16 < 16" "c mod 64 < 64" by simp_all
  moreover from assms have "a div 4 < 64" "b div 16 < 16" "c div 64 < 4" by simp_all
  ultimately show "a div 4 < 64" "a mod 4 * 16 < 64" "a mod 4 * 16 + b div 16 < 64"
    "b mod 16 * 4 < 64" "b mod 16 * 4 + c div 64 < 64" "c mod 64 < 64" by linarith+
qed

lemma regroup:
  fixes a b c :: nat
  assumes "a < 256" "b < 256" "c < 256"
  shows "a div 4 * 4 + (a mod 4 * 16 + b div 16) div 16 = a"
    "(a mod 4 * 16 + b div 16) mod 16 * 16 + (b mod 16 * 4 + c div 64) div 4 = b"
    "(b mod 16 * 4 + c div 64) mod 4 * 64 + c mod 64 = c"
    "a div 4 * 4 + a mod 4 * 16 div 16 = a"
    "(a mod 4 * 16 + b div 16) mod 16 * 16 + b mod 16 * 4 div 4 = b"
proof -
  from assms have d: "b div 16 < 16" "c div 64 < 4" by simp_all
  show "a div 4 * 4 + (a mod 4 * 16 + b div 16) div 16 = a"
    "(a mod 4 * 16 + b div 16) mod 16 * 16 + (b mod 16 * 4 + c div 64) div 4 = b"
    "(b mod 16 * 4 + c div 64) mod 4 * 64 + c mod 64 = c"
    "a div 4 * 4 + a mod 4 * 16 div 16 = a"
    "(a mod 4 * 16 + b div 16) mod 16 * 16 + b mod 16 * 4 div 4 = b"
    by (simp_all only: join_digits [OF d(1)] join_digits [OF d(2)] div_mult_mod_eq
        nonzero_mult_div_cancel_right numeral_neq_zero not_False_eq_True)
qed

lemma b64encode_ascii: "is_bytes bs \<Longrightarrow> is_ascii (b64encode bs)"
proof (induction bs rule: b64encode.induct)
  case (2 a)
  then show ?case using sextets [of a 0 0]
    by (simp add: is_bytes_def is_ascii_def code_point_def [of "CHR ''=''"])
next
  case (3 a b)
  then show ?case using sextets [of a b 0]
    by (simp add: is_bytes_def is_ascii_def code_point_def [of "CHR ''=''"])
next
  case (4 a b c bs)
  then show ?case using sextets [of a b c]
    by (simp add: is_bytes_def is_ascii_def)
qed (simp add: is_ascii_def)

lemma a2b_b64encode: "is_bytes bs \<Longrightarrow> a2b_base64 0 0 0 (b64encode bs) = Inr bs"
proof (induction bs rule: b64encode.induct)
  case (2 a)
  then show ?case using sextets [of a 0 0] regroup [of a 0 0] by (simp add: is_bytes_def)
next
  case (3 a b)
  then show ?case using sextets [of a b 0] regroup [of a b 0] by (simp add: is_bytes_def)
next
  case (4 a b c bs)
  then show ?case using sextets [of a b c] regroup [of a b c] by (simp add: is_bytes_def)
qed simp

lemma b64decode_encode: "is_bytes bs \<Longrightarrow> b64decode (b64encode bs) = Inr bs"
  by (simp add: b64decode_def b64encode_ascii a2b_b64encode)

end
