(* ===== verification/Claim.thy ===== *)
theory Claim
  imports Schema Pki PyBase64
begin

text \<open>
  \<open>app/services/claim.py\<close>: how a device gets its certificate.  In the self-claim flow it proves
  possession of its provisioned HMAC key, in the assisted flow a logged-in user vouches for it.
  HMAC-SHA256 (OpenSSL's) and the X.509 library are parameters; the theorems hold for every HMAC
  function.  \<open>chal\<close> is the draw of \<open>secrets.token_bytes(32)\<close>, \<open>auth\<close> that of
  \<open>secrets.token_urlsafe(16)\<close>, \<open>cid\<close> the \<open>uuid4\<close> of the row, \<open>now\<close> its \<open>created_at\<close>.
\<close>

record claim_libs =
  hmac_sha256 :: "bytes \<Rightarrow> bytes \<Rightarrow> bytes"
  x509 :: x509_lib

section \<open>Operations\<close>

definition generate_node_id :: "string \<Rightarrow> string" where
  "generate_node_id mac_addr = py_lower mac_addr"

definition find_provisioning :: "string \<Rightarrow> db \<Rightarrow> device_provisioning option result" where
  "find_provisioning mac d =
     scalar_one_or_none (select (\<lambda>p. dp_mac_addr p = mac) (device_provisionings d))"

definition initiate_self_claim ::
  "settings \<Rightarrow> (nat \<Rightarrow> datetime) \<Rightarrow> uuid \<Rightarrow> datetime \<Rightarrow> bytes \<Rightarrow> string \<Rightarrow> string \<Rightarrow> json \<Rightarrow> db \<Rightarrow> dict result \<times> db"
where
  "initiate_self_claim S clk cid now chal auth mac_addr platform d =
     attempt d (find_provisioning mac_addr d) (\<lambda>prov.
       if prov = None
       then (Inl (rainmaker 400 INVALID_REQUEST ''Device not registered for self-claim''), d)
       else attempt d (text_column None platform) (\<lambda>plat.
         let node_id = generate_node_id mac_addr;
             row = (ClaimChallenge cid mac_addr plat node_id ''self''
                      (clk 0 + seconds (claim_challenge_ttl_seconds S)) now)
                   \<lparr>cc_auth_id := Some auth, cc_challenge := Some chal\<rparr>
         in attempt d (insert_claim row d) (\<lambda>d'.
              (Inr [(''auth_id'', JStr auth), (''challenge'', JStr (b64encode chal))], d'))))"

definition write_claim :: "claim_challenge \<Rightarrow> (claim_challenge \<Rightarrow> claim_challenge) \<Rightarrow> db \<Rightarrow> db" where
  "write_claim c f d =
     d\<lparr>claim_challenges := update_where (\<lambda>x. cc_id x = cc_id c) f (claim_challenges d)\<rparr>"

definition broker_host :: "settings \<Rightarrow> string" where
  "broker_host S = mqtt_broker_host S @ '':'' @ int_str (mqtt_broker_port S)"

definition issue_certificate ::
  "claim_libs \<Rightarrow> settings \<Rightarrow> (nat \<Rightarrow> datetime) \<Rightarrow> nat \<Rightarrow> nat \<Rightarrow> string \<Rightarrow> string \<Rightarrow> db \<Rightarrow> dict result \<times> db"
where
  "issue_certificate C S clk i bits node_id csr_pem d =
     (case sign_device_csr (x509 C) S (clk i) bits csr_pem node_id None of
        Inl e \<Rightarrow> (Inl (invalid_request (''CSR signing failed: '' @ e)), d)
      | Inr (chain_pem, serial, not_before, not_after) \<Rightarrow>
          attempt d (scalar_one_or_none (select (\<lambda>n. nd_node_id n = node_id) (nodes d))) (\<lambda>node.
          attempt d (if node = None then insert_node (Node node_id (clk (i + 1))) d else Inr d) (\<lambda>d1.
          attempt d (insert_certificate
            \<lparr>cert_serial = serial, cert_node_id = node_id, cert_pem = chain_pem, cert_cn = node_id,
             cert_not_before = not_before, cert_not_after = not_after, cert_revoked = False\<rparr> d1) (\<lambda>d2.
            (Inr [(''certificate'', JStr chain_pem), (''mqtt_host'', JStr (broker_host S)),
                  (''mqtt_cred_host'', JStr (broker_host S))], d2)))))"

definition mark_verified :: "datetime \<Rightarrow> claim_challenge \<Rightarrow> claim_challenge" where
  "mark_verified now c = c\<lparr>cc_status := ''verified'', cc_verified_at := Some now\<rparr>"

text \<open>
  \<open>hmac.new(key, None)\<close> is the HMAC of the empty message; the counter of attempts is a 32-bit
  column.
\<close>

definition message_of :: "claim_challenge \<Rightarrow> bytes" where
  "message_of row = (case cc_challenge row of None \<Rightarrow> [] | Some b \<Rightarrow> b)"

text \<open>\<open>base64.b64decode\<close> of a value from the request body.\<close>

definition b64decode_json :: "json \<Rightarrow> pyexc + bytes" where
  "b64decode_json v = (case v of JStr s \<Rightarrow> b64decode s | _ \<Rightarrow> Inl TypeError)"

lemma b64decode_json_JStr [simp]: "b64decode_json (JStr s) = b64decode s"
  by (simp add: b64decode_json_def)

definition verify_self_claim ::
  "claim_libs \<Rightarrow> settings \<Rightarrow> (nat \<Rightarrow> datetime) \<Rightarrow> nat \<Rightarrow> string \<Rightarrow> json \<Rightarrow> string \<Rightarrow> db \<Rightarrow> dict result \<times> db"
where
  "verify_self_claim C S clk bits auth_id challenge_response csr_pem d =
     attempt d (scalar_one_or_none (select (\<lambda>c. cc_auth_id c = Some auth_id) (claim_challenges d)))
     (\<lambda>found. case found of
        None \<Rightarrow> (Inl (invalid_request ''Unknown auth_id''), d)
      | Some row \<Rightarrow>
          if cc_mode row \<noteq> ''self'' then (Inl (invalid_request ''Unknown auth_id''), d)
          else if cc_status row \<noteq> ''pending'' then (Inl (invalid_request ''Challenge already used''), d)
          else if cc_expires_at row < clk 0 then (Inl (invalid_request ''Challenge expired''), d)
          else attempt d (find_provisioning (cc_mac_addr row) d) (\<lambda>prov. case prov of
            None \<Rightarrow> (Inl (invalid_request ''Device provisioning missing''), d)
          | Some p \<Rightarrow>
              let expected = hmac_sha256 C (dp_hmac_key p) (message_of row)
              in case b64decode_json challenge_response of
                Inl _ \<Rightarrow> (Inl (invalid_request ''Invalid challenge_response encoding''), d)
              | Inr got \<Rightarrow>
                  if expected \<noteq> got
                  then if int4 (cc_attempts row + 1)
                       then (Inl (invalid_request ''Invalid challenge_response''),
                             write_claim row (\<lambda>c. c\<lparr>cc_attempts := cc_attempts row + 1\<rparr>) d)
                       else (Inl (Uncaught DataError), d)
                  else issue_certificate C S clk 2 bits (cc_node_id row) csr_pem
                         (write_claim row (mark_verified (clk 1)) d)))"

definition initiate_assisted_claim ::
  "settings \<Rightarrow> (nat \<Rightarrow> datetime) \<Rightarrow> uuid \<Rightarrow> datetime \<Rightarrow> uuid \<Rightarrow> string \<Rightarrow> json \<Rightarrow> db \<Rightarrow> dict result \<times> db"
where
  "initiate_assisted_claim S clk cid now user_id mac_addr platform d =
     attempt d (text_column None platform) (\<lambda>plat.
      let node_id = generate_node_id mac_addr;
          row = (ClaimChallenge cid mac_addr plat node_id ''assisted''
                   (clk 0 + seconds (claim_challenge_ttl_seconds S)) now)\<lparr>cc_user_id := Some user_id\<rparr>
      in attempt d (insert_claim row d) (\<lambda>d'. (Inr [(''node_id'', JStr node_id)], d')))"

definition pending_assisted :: "uuid \<Rightarrow> db \<Rightarrow> claim_challenge list" where
  "pending_assisted user_id d = select (\<lambda>c. cc_user_id c = Some user_id \<and> cc_mode c = ''assisted'' \<and>
     cc_status c = ''pending'') (claim_challenges d)"

definition verify_assisted_claim ::
  "claim_libs \<Rightarrow> settings \<Rightarrow> (nat \<Rightarrow> datetime) \<Rightarrow> nat \<Rightarrow> uuid \<Rightarrow> string \<Rightarrow> db \<Rightarrow> dict result \<times> db"
where
  "verify_assisted_claim C S clk bits user_id csr_pem d =
     attempt d (scalar_one_or_none (order_by_desc cc_created_at (pending_assisted user_id d))) (\<lambda>found.
       case found of
         None \<Rightarrow> (Inl (invalid_request ''No pending claim for this user''), d)
       | Some row \<Rightarrow>
           if cc_expires_at row < clk 0 then (Inl (invalid_request ''Claim expired''), d)
           else issue_certificate C S clk 2 bits (cc_node_id row) csr_pem
                  (write_claim row (mark_verified (clk 1)) d))"

section \<open>Integrity\<close>

text \<open>An \<open>auth_id\<close> is unique where it is not null.\<close>

definition auth_key :: "claim_challenge \<Rightarrow> string + uuid" where
  "auth_key c = (case cc_auth_id c of Some a \<Rightarrow> Inl a | None \<Rightarrow> Inr (cc_id c))"

interpretation claims_by_auth: unique_index auth_key claim_clash
  by unfold_locales (auto simp: auth_key_def claim_clash_def split: option.splits)

lemma write_claim_ok [store_ok]:
  "db_ok d \<Longrightarrow> (\<And>c. cc_id (f c) = cc_id c) \<Longrightarrow> (\<And>c. cc_auth_id (f c) = cc_auth_id c) \<Longrightarrow>
     db_ok (write_claim c f d)"
  unfolding write_claim_def by (rule update_claim_ok)

lemma mark_verified_fields [simp]:
  "cc_id (mark_verified t c) = cc_id c" "cc_auth_id (mark_verified t c) = cc_auth_id c"
  "cc_status (mark_verified t c) = ''verified''" "cc_mode (mark_verified t c) = cc_mode c"
  "cc_node_id (mark_verified t c) = cc_node_id c"
  by (simp_all add: mark_verified_def)

lemma initiate_self_claim_ok [store_ok]:
  "db_ok d \<Longrightarrow> db_ok (snd (initiate_self_claim S clk cid now chal auth mac plat d))"
  by (auto simp: initiate_self_claim_def Let_def intro: insert_claim_ok split: attempt_splits)

lemma issue_certificate_ok [store_ok]:
  "db_ok d \<Longrightarrow> db_ok (snd (issue_certificate C S clk i bits nid csr d))"
  by (auto simp: issue_certificate_def intro: insert_certificate_ok insert_node_ok
      split: attempt_splits sum.splits prod.splits if_splits)

lemma verify_self_claim_ok [store_ok]:
  "db_ok d \<Longrightarrow> db_ok (snd (verify_self_claim C S clk bits auth resp csr d))"
  by (auto simp: verify_self_claim_def Let_def intro!: issue_certificate_ok write_claim_ok
      split: attempt_splits option.splits sum.splits)

lemma initiate_assisted_claim_ok [store_ok]:
  "db_ok d \<Longrightarrow> db_ok (snd (initiate_assisted_claim S clk cid now uid mac plat d))"
  by (auto simp: initiate_assisted_claim_def Let_def intro: insert_claim_ok split: attempt_splits)

lemma verify_assisted_claim_ok [store_ok]:
  "db_ok d \<Longrightarrow> db_ok (snd (verify_assisted_claim C S clk bits uid csr d))"
  by (auto simp: verify_assisted_claim_def intro!: issue_certificate_ok write_claim_ok
      split: attempt_splits option.splits)

section \<open>Issuing\<close>

text \<open>
  An issued certificate is a new row named after the node, both as its node and as its common
  name, and the node exists afterwards; nothing but these two tables changes.
\<close>

lemma issue_certificate_Inr:
  assumes "issue_certificate C S clk i bits nid csr d = (Inr out, d')"
  obtains cert extra where "cert_node_id cert = nid" "cert_cn cert = nid" "\<not> cert_revoked cert"
    "cert_serial cert = hex_str (odd_serial bits)" "get out ''certificate'' = JStr (cert_pem cert)"
    "d' = d\<lparr>nodes := nodes d @ extra, node_certificates := node_certificates d @ [cert]\<rparr>"
    "present nd_node_id (nodes d') nid" "set (map nd_node_id extra) \<subseteq> {nid}"
proof (cases "sign_device_csr (x509 C) S (clk i) bits csr nid None")
  case (Inl e)
  with assms show thesis by (simp add: issue_certificate_def)
next
  case (Inr quad)
  obtain chain serial nb na where quad: "quad = (chain, serial, nb, na)" by (cases quad)
  let ?cert = "\<lparr>cert_serial = serial, cert_node_id = nid, cert_pem = chain, cert_cn = nid,
    cert_not_before = nb, cert_not_after = na, cert_revoked = False\<rparr>"
  have serial: "serial = hex_str (odd_serial bits)"
    by (rule sign_device_csr_Inr [OF Inr [unfolded quad]])
  from assms Inr quad obtain x d1 where
      x: "scalar_one_or_none (select (\<lambda>n. nd_node_id n = nid) (nodes d)) = Inr x"
    and d1: "(if x = None then insert_node (Node nid (clk (i + 1))) d else Inr d) = Inr d1"
    and d2: "insert_certificate ?cert d1 = Inr d'" and out: "get out ''certificate'' = JStr chain"
    by (auto simp: issue_certificate_def get_or_def elim!: attempt_InrE)
  let ?extra = "if x = None then [Node nid (clk (i + 1))] else []"
  have rows: "d1 = d\<lparr>nodes := nodes d @ ?extra\<rparr>"
    using d1 by (auto simp: insert_node_Inr split: if_split_asm)
  have "present nd_node_id (nodes d1) nid"
  proof (cases x)
    case (Some n)
    with x have "n \<in> set (select (\<lambda>n. nd_node_id n = nid) (nodes d))" by simp
    with Some rows show ?thesis by (auto simp: present_def)
  qed (simp add: rows present_def Node_def)
  with rows d2 out serial show thesis
    by (intro that [of ?cert ?extra]) (auto simp: insert_certificate_Inr Node_def)
qed

lemma issue_certificate_total:
  assumes ok: "db_ok d" and sign: "sign_device_csr (x509 C) S (clk i) bits csr nid None = Inr (chain, serial, nb, na)"
    and fit: "fits 64 nid" "bits < 2 ^ 128"
    and fresh: "\<forall>c \<in> set (node_certificates d). cert_serial c \<noteq> hex_str (odd_serial bits)"
  shows "\<exists>out d'. issue_certificate C S clk i bits nid csr d = (Inr out, d')"
proof -
  have serial: "serial = hex_str (odd_serial bits)" by (rule sign_device_csr_Inr [OF sign])
  let ?x = "first (select (\<lambda>n. nd_node_id n = nid) (nodes d))"
  have x: "scalar_one_or_none (select (\<lambda>n. nd_node_id n = nid) (nodes d)) = Inr ?x"
    by (rule nodes_by_id.scalar_by_key [OF node_keys [OF ok]]) simp
  let ?d1 = "if ?x = None then d\<lparr>nodes := nodes d @ [Node nid (clk (i + 1))]\<rparr> else d"
  have d1: "(if ?x = None then insert_node (Node nid (clk (i + 1))) d else Inr d) = Inr ?d1"
    using fit(1)
    by (auto simp: insert_node_Inr node_cols_def node_refs_def node_clash_def Node_def select_def filter_empty_conv)
  have "\<exists>d'. insert_certificate \<lparr>cert_serial = serial, cert_node_id = nid, cert_pem = chain,
      cert_cn = nid, cert_not_before = nb, cert_not_after = na, cert_revoked = False\<rparr> ?d1 = Inr d'"
    using fresh fit serial_fits [OF fit(2)] serial
    by (auto simp: insert_certificate_Inr certificate_cols_def certificate_refs_def certificate_clash_def fits_def)
  then obtain d' where d2: "insert_certificate \<lparr>cert_serial = serial, cert_node_id = nid, cert_pem = chain,
      cert_cn = nid, cert_not_before = nb, cert_not_after = na, cert_revoked = False\<rparr> ?d1 = Inr d'" ..
  show ?thesis
    unfolding issue_certificate_def sign x sum.case prod.case attempt_simps d1 d2 by blast
qed

section \<open>Looking challenges up\<close>

lemma select_auth:
  assumes "db_ok d" "c \<in> set (claim_challenges d)" "cc_auth_id c = Some a"
  shows "select (\<lambda>x. cc_auth_id x = Some a) (claim_challenges d) = [c]"
  by (rule claims_by_auth.select_refined [OF claim_keys [OF assms(1)] assms(2)])
    (simp_all add: assms auth_key_def)

lemma find_provisioning_known:
  "db_ok d \<Longrightarrow> p \<in> set (device_provisionings d) \<Longrightarrow> find_provisioning (dp_mac_addr p) d = Inr (Some p)"
  by (simp add: find_provisioning_def provisionings_by_mac.select_key [OF provisioning_keys])

lemma write_claim_fields [simp]:
  "nodes (write_claim c f d) = nodes d" "node_certificates (write_claim c f d) = node_certificates d"
  "device_provisionings (write_claim c f d) = device_provisionings d"
  "user_node_mappings (write_claim c f d) = user_node_mappings d"
  by (simp_all add: write_claim_def)

lemma write_claim_in:
  "c \<in> set (claim_challenges d) \<Longrightarrow> f c \<in> set (claim_challenges (write_claim c f d))"
  by (force simp: write_claim_def set_update_where)

text \<open>A verification that succeeds, taken apart.\<close>

lemma verify_self_claim_Inr:
  assumes "verify_self_claim C S clk bits auth resp csr d = (Inr out, d')"
  obtains row p got where "row \<in> set (claim_challenges d)" "cc_auth_id row = Some auth"
    "cc_mode row = ''self''" "cc_status row = ''pending''" "clk 0 \<le> cc_expires_at row"
    "p \<in> set (device_provisionings d)" "dp_mac_addr p = cc_mac_addr row"
    "b64decode_json resp = Inr (hmac_sha256 C (dp_hmac_key p) (message_of row))"
    "issue_certificate C S clk 2 bits (cc_node_id row) csr (write_claim row (mark_verified (clk 1)) d) =
       (Inr out, d')"
proof -
  from assms obtain row p where row: "select (\<lambda>c. cc_auth_id c = Some auth) (claim_challenges d) = [row]"
    and rest: "cc_mode row = ''self''" "cc_status row = ''pending''" "clk 0 \<le> cc_expires_at row"
    and p: "select (\<lambda>p. dp_mac_addr p = cc_mac_addr row) (device_provisionings d) = [p]"
    and dec: "b64decode_json resp = Inr (hmac_sha256 C (dp_hmac_key p) (message_of row))"
    and iss: "issue_certificate C S clk 2 bits (cc_node_id row) csr
       (write_claim row (mark_verified (clk 1)) d) = (Inr out, d')"
    by (auto simp: verify_self_claim_def Let_def find_provisioning_def elim!: attempt_InrE
        split: option.split_asm if_split_asm sum.split_asm)
  from row have "row \<in> set (select (\<lambda>c. cc_auth_id c = Some auth) (claim_challenges d))" by simp
  moreover from p have "p \<in> set (select (\<lambda>p. dp_mac_addr p = cc_mac_addr row) (device_provisionings d))" by simp
  ultimately show thesis using that [of row p] rest dec iss by simp
qed

lemma pending_assisted_snoc:
  "claim_challenges d' = claim_challenges d @ [c] \<Longrightarrow>
     pending_assisted uid d' = pending_assisted uid d @
       (if cc_user_id c = Some uid \<and> cc_mode c = ''assisted'' \<and> cc_status c = ''pending'' then [c] else [])"
  by (simp add: pending_assisted_def select_def)

lemma order_by_desc_one [simp]: "order_by_desc k [c] = [c]"
  by (simp add: order_by_desc_def)

lemma generate_node_id_fits: "fits 32 mac \<Longrightarrow> fits 64 (generate_node_id mac)"
  by (simp add: generate_node_id_def py_lower_def fits_def)

text \<open>The row an assisted claim leaves.\<close>

lemma initiate_assisted_claim_Inr:
  assumes "initiate_assisted_claim S clk cid now uid mac plat d = (Inr out, d')"
  shows "out = [(''node_id'', JStr (py_lower mac))] \<and>
    (\<exists>c. cc_id c = cid \<and> cc_node_id c = py_lower mac \<and> cc_expires_at c = clk 0 + seconds (claim_challenge_ttl_seconds S) \<and>
       d' = d\<lparr>claim_challenges := claim_challenges d @ [c]\<rparr> \<and>
       pending_assisted uid d' = pending_assisted uid d @ [c])"
  using assms
  by (auto simp: initiate_assisted_claim_def Let_def insert_claim_Inr generate_node_id_def
      ClaimChallenge_def pending_assisted_def select_def elim!: attempt_InrE)

lemma initiate_assisted_claim_total:
  assumes "fits 32 mac" "fits 32 plat" "\<forall>c \<in> set (claim_challenges d). cc_id c \<noteq> cid"
  shows "\<exists>out d'. initiate_assisted_claim S clk cid now uid mac (JStr plat) d = (Inr out, d')"
  using assms generate_node_id_fits [OF assms(1)]
  by (auto simp: initiate_assisted_claim_def Let_def attempt_def insert_claim_def insert_row_def
      claim_cols_def claim_refs_def claim_clash_def ClaimChallenge_def fits_def)

section \<open>Properties\<close>

text \<open>
  The self-claim flow end to end.  A provisioned device that answers the challenge of
  \<open>initiate_self_claim\<close> within its time to live with the base64 of the HMAC under its provisioned
  key, and whose CSR the CA signs, receives a certificate whose common name is its lowercased MAC,
  and the node exists afterwards.
\<close>

lemma self_claim_flow:
  assumes ok: "db_ok d" and p: "p \<in> set (device_provisionings d)"
    and fresh: "\<forall>c \<in> set (claim_challenges d). cc_id c \<noteq> cid \<and> cc_auth_id c \<noteq> Some auth"
      "\<forall>c \<in> set (node_certificates d). cert_serial c \<noteq> hex_str (odd_serial bits)"
    and fit: "fits 64 auth" "fits 32 (dp_mac_addr p)" "fits 32 plat" "bits < 2 ^ 128"
      "is_bytes (hmac_sha256 C (dp_hmac_key p) chal)"
    and time: "clk' 0 \<le> clk 0 + seconds (claim_challenge_ttl_seconds S)"
    and sign: "sign_device_csr (x509 C) S (clk' 2) bits csr (py_lower (dp_mac_addr p)) None =
      Inr (chain, serial, nb, na)"
  shows "\<exists>d1 d2 out cert.
    initiate_self_claim S clk cid now chal auth (dp_mac_addr p) (JStr plat) d =
      (Inr [(''auth_id'', JStr auth), (''challenge'', JStr (b64encode chal))], d1) \<and>
    verify_self_claim C S clk' bits auth (JStr (b64encode (hmac_sha256 C (dp_hmac_key p) chal))) csr d1 = (Inr out, d2) \<and>
    node_certificates d2 = node_certificates d @ [cert] \<and> cert_cn cert = py_lower (dp_mac_addr p) \<and>
    cert_node_id cert = py_lower (dp_mac_addr p) \<and> \<not> cert_revoked cert \<and>
    get out ''certificate'' = JStr (cert_pem cert) \<and>
    present nd_node_id (nodes d2) (py_lower (dp_mac_addr p)) \<and> db_ok d2"
proof -
  let ?c = "(ClaimChallenge cid (dp_mac_addr p) plat (generate_node_id (dp_mac_addr p)) ''self''
    (clk 0 + seconds (claim_challenge_ttl_seconds S)) now)\<lparr>cc_auth_id := Some auth, cc_challenge := Some chal\<rparr>"
  let ?d1 = "d\<lparr>claim_challenges := claim_challenges d @ [?c]\<rparr>"
  have ins: "insert_claim ?c d = Inr ?d1"
    using fresh(1) fit generate_node_id_fits [OF fit(2)]
    by (auto simp: insert_claim_Inr claim_cols_def claim_refs_def claim_clash_def ClaimChallenge_def fits_def)
  have ok1: "db_ok ?d1" by (rule insert_claim_ok [OF ok ins])
  have init: "initiate_self_claim S clk cid now chal auth (dp_mac_addr p) (JStr plat) d =
      (Inr [(''auth_id'', JStr auth), (''challenge'', JStr (b64encode chal))], ?d1)"
    unfolding initiate_self_claim_def find_provisioning_known [OF ok p] using ins by simp
  have sel: "select (\<lambda>x. cc_auth_id x = Some auth) (claim_challenges ?d1) = [?c]"
    by (rule select_auth [OF ok1]) (simp_all add: ClaimChallenge_def)
  have prov: "find_provisioning (dp_mac_addr p) ?d1 = Inr (Some p)"
    by (rule find_provisioning_known [OF ok1]) (use p in simp)
  let ?w = "write_claim ?c (mark_verified (clk' 1)) ?d1"
  have okw: "db_ok ?w" by (rule write_claim_ok [OF ok1]) simp_all
  obtain out d2 where iss: "issue_certificate C S clk' 2 bits (py_lower (dp_mac_addr p)) csr ?w = (Inr out, d2)"
    using issue_certificate_total [OF okw, where clk = clk' and i = 2, OF sign _ fit(4)] generate_node_id_fits [OF fit(2)] fresh(2)
    by (auto simp: generate_node_id_def)
  have "verify_self_claim C S clk' bits auth (JStr (b64encode (hmac_sha256 C (dp_hmac_key p) chal))) csr ?d1 = (Inr out, d2)"
    unfolding verify_self_claim_def sel
    using prov time iss b64decode_encode [OF fit(5)]
    by (simp add: ClaimChallenge_def message_of_def generate_node_id_def)
  moreover have "db_ok d2" using issue_certificate_ok [OF okw] iss by (metis snd_conv)
  ultimately show ?thesis using init
    by (rule_tac issue_certificate_Inr [OF iss]) auto
qed

definition claim_db :: db where
  "claim_db = empty_db\<lparr>device_provisionings :=
     [\<lparr>dp_mac_addr = ''AB12'', dp_platform = ''esp32'', dp_hmac_key = [7]\<rparr>]\<rparr>"

lemma claim_db_ok [simp]: "db_ok claim_db"
  by (simp add: db_ok_def keys_ok_def foreign_ok_def claim_db_def empty_db_def clash_free_def)

definition sample_claim_libs :: claim_libs where
  "sample_claim_libs = \<lparr>hmac_sha256 = (\<lambda>key msg. key @ msg), x509 = sample_x509\<rparr>"

lemma sample_lower: "py_lower ''AB12'' = ''ab12''" "py_lower ''N1'' = ''n1''"
  by (simp_all add: py_lower_def lower_char_def code_point_def char_of_eq_iff)

text \<open>
  C20: a self-claim certificate is only issued against a proof.  If \<open>verify_self_claim\<close> succeeds,
  the challenge was a pending, unexpired self-claim challenge, the response decodes to the HMAC of
  it under the key provisioned for its MAC, exactly one certificate was added and it is named after
  the challenge's node; and the challenge is spent: verifying it again is a 400 that changes
  nothing, whatever the response.
\<close>

theorem verify_self_claim_sound:
  assumes ok: "db_ok d" and step: "verify_self_claim C S clk bits auth resp csr d = (Inr out, d')"
  shows "\<exists>row p cert. row \<in> set (claim_challenges d) \<and> cc_auth_id row = Some auth \<and>
    cc_mode row = ''self'' \<and> cc_status row = ''pending'' \<and> clk 0 \<le> cc_expires_at row \<and>
    p \<in> set (device_provisionings d) \<and> dp_mac_addr p = cc_mac_addr row \<and>
    b64decode_json resp = Inr (hmac_sha256 C (dp_hmac_key p) (message_of row)) \<and>
    node_certificates d' = node_certificates d @ [cert] \<and> cert_cn cert = cc_node_id row \<and>
    (\<forall>C' S' clk' bits' resp' csr'. verify_self_claim C' S' clk' bits' auth resp' csr' d' =
       (Inl (invalid_request ''Challenge already used''), d'))"
proof (rule verify_self_claim_Inr [OF step])
  fix row p
  assume row: "row \<in> set (claim_challenges d)" "cc_auth_id row = Some auth" "cc_mode row = ''self''"
      "cc_status row = ''pending''" "clk 0 \<le> cc_expires_at row"
    and p: "p \<in> set (device_provisionings d)" "dp_mac_addr p = cc_mac_addr row"
    and dec: "b64decode_json resp = Inr (hmac_sha256 C (dp_hmac_key p) (message_of row))"
    and iss: "issue_certificate C S clk 2 bits (cc_node_id row) csr
      (write_claim row (mark_verified (clk 1)) d) = (Inr out, d')"
  let ?w = "write_claim row (mark_verified (clk 1)) d"
  have okw: "db_ok ?w" by (rule write_claim_ok [OF ok]) simp_all
  show ?thesis
  proof (rule issue_certificate_Inr [OF iss])
    fix cert extra
    assume cert: "cert_cn cert = cc_node_id row"
      and d': "d' = ?w\<lparr>nodes := nodes ?w @ extra, node_certificates := node_certificates ?w @ [cert]\<rparr>"
    have "select (\<lambda>x. cc_auth_id x = Some auth) (claim_challenges d') = [mark_verified (clk 1) row]"
      using select_auth [OF okw write_claim_in [OF row(1)]] row(2) by (simp add: d')
    then have "verify_self_claim C' S' clk' bits' auth resp' csr' d' =
        (Inl (invalid_request ''Challenge already used''), d')" for C' S' clk' bits' resp' csr'
      using row(3) by (simp add: verify_self_claim_def)
    with row p dec cert show ?thesis
      by (intro exI [of _ row] exI [of _ p] exI [of _ cert]) (simp add: d')
  qed
qed

definition claim_row :: claim_challenge where
  "claim_row = (ClaimChallenge 1 ''AB12'' ''esp32'' ''ab12'' ''self'' 600 0)
     \<lparr>cc_auth_id := Some ''a1'', cc_challenge := Some [1, 2]\<rparr>"

definition challenged_db :: db where
  "challenged_db = claim_db\<lparr>claim_challenges := [claim_row]\<rparr>"

lemma challenged_db_ok [simp]: "db_ok challenged_db"
  by (simp add: db_ok_def keys_ok_def foreign_ok_def challenged_db_def claim_db_def empty_db_def clash_free_def)

definition claimed_db :: db where
  "claimed_db = snd (verify_self_claim sample_claim_libs default_settings (\<lambda>i. 9) 5 ''a1'' (JStr ''BwEC'') ''CSR'' challenged_db)"

lemma b64decode_sample: "b64decode ''BwEC'' = Inr [7, 1, 2]"
  by (simp add: b64decode_def is_ascii_def code_point_def b64_val_def)

lemma claimed_db_step:
  "verify_self_claim sample_claim_libs default_settings (\<lambda>i. 9) 5 ''a1'' (JStr ''BwEC'') ''CSR'' challenged_db =
     (Inr [(''certificate'', JStr ''CERT:ab12;CERT:ESP RainMaker Intermediate CA;''), (''mqtt_host'', JStr (broker_host default_settings)),
        (''mqtt_cred_host'', JStr (broker_host default_settings))], claimed_db)"
  by (simp add: claimed_db_def verify_self_claim_def challenged_db_def claim_db_def empty_db_def select_def
      claim_row_def ClaimChallenge_def find_provisioning_def message_of_def sample_claim_libs_def
      b64decode_sample issue_certificate_def sample_sign insert_node_def insert_certificate_def
      insert_row_def node_cols_def node_refs_def certificate_cols_def certificate_refs_def fits_def
      Node_def write_claim_def)

theorem verify_self_claim_sound_witness:
  "\<exists>row p cert. row \<in> set (claim_challenges challenged_db) \<and> cc_auth_id row = Some ''a1'' \<and>
    cc_mode row = ''self'' \<and> cc_status row = ''pending'' \<and> 9 \<le> cc_expires_at row \<and>
    p \<in> set (device_provisionings challenged_db) \<and> dp_mac_addr p = cc_mac_addr row \<and>
    b64decode_json (JStr ''BwEC'') = Inr (hmac_sha256 sample_claim_libs (dp_hmac_key p) (message_of row)) \<and>
    node_certificates claimed_db = node_certificates challenged_db @ [cert] \<and> cert_cn cert = cc_node_id row \<and>
    (\<forall>C' S' clk' bits' resp' csr'. verify_self_claim C' S' clk' bits' ''a1'' resp' csr' claimed_db =
       (Inl (invalid_request ''Challenge already used''), claimed_db))"
  using verify_self_claim_sound [OF challenged_db_ok claimed_db_step] .

text \<open>
  A wrong proof gains nothing.  A decodable response that is not the expected HMAC is a 400;
  the only effect is the challenge's counter of attempts, which grows by one, and the challenge
  stays pending.
\<close>

theorem wrong_response_counts:
  assumes ok: "db_ok d" and row: "row \<in> set (claim_challenges d)" "cc_auth_id row = Some auth"
      "cc_mode row = ''self''" "cc_status row = ''pending''" "clk 0 \<le> cc_expires_at row"
    and p: "p \<in> set (device_provisionings d)" "dp_mac_addr p = cc_mac_addr row"
    and bad: "b64decode_json resp = Inr got" "got \<noteq> hmac_sha256 C (dp_hmac_key p) (message_of row)"
    and few: "int4 (cc_attempts row + 1)"
  shows "verify_self_claim C S clk bits auth resp csr d = (Inl (invalid_request ''Invalid challenge_response''),
    d\<lparr>claim_challenges := update_where (\<lambda>c. cc_id c = cc_id row)
        (\<lambda>c. c\<lparr>cc_attempts := cc_attempts row + 1\<rparr>) (claim_challenges d)\<rparr>)"
  using find_provisioning_known [OF ok p(1)] p(2) bad row few
  by (auto simp: verify_self_claim_def select_auth [OF ok row(1,2)] write_claim_def)

theorem wrong_response_counts_witness:
  "verify_self_claim sample_claim_libs default_settings (\<lambda>i. 9) 5 ''a1'' (JStr []) ''CSR'' challenged_db =
    (Inl (invalid_request ''Invalid challenge_response''),
     challenged_db\<lparr>claim_challenges := update_where (\<lambda>c. cc_id c = cc_id claim_row)
        (\<lambda>c. c\<lparr>cc_attempts := cc_attempts claim_row + 1\<rparr>) (claim_challenges challenged_db)\<rparr>)"
  by (rule wrong_response_counts [OF challenged_db_ok, where got = "[]" and
      p = "\<lparr>dp_mac_addr = ''AB12'', dp_platform = ''esp32'', dp_hmac_key = [7]\<rparr>"])
    (simp_all add: challenged_db_def claim_db_def empty_db_def claim_row_def ClaimChallenge_def
      b64decode_def is_ascii_def sample_claim_libs_def int4_def)

text \<open>
  C39: the assisted flow certifies whatever MAC the user names.  A user with no pending assisted
  claim who initiates one for any MAC address and verifies it in time with a CSR that the CA signs
  receives a certificate whose common name is the lowercased MAC, also when a node of that name
  exists already and is mapped to somebody else; no mapping changes.
\<close>

theorem assisted_claim_flow:
  assumes ok: "db_ok d" and idle: "pending_assisted uid d = []"
    and fresh: "\<forall>c \<in> set (claim_challenges d). cc_id c \<noteq> cid"
      "\<forall>c \<in> set (node_certificates d). cert_serial c \<noteq> hex_str (odd_serial bits)"
    and fit: "fits 32 mac" "fits 32 plat" "bits < 2 ^ 128"
    and time: "clk' 0 \<le> clk 0 + seconds (claim_challenge_ttl_seconds S)"
    and sign: "sign_device_csr (x509 C) S (clk' 2) bits csr (py_lower mac) None = Inr (chain, serial, nb, na)"
  shows "\<exists>d1 d2 out cert.
    initiate_assisted_claim S clk cid now uid mac (JStr plat) d = (Inr [(''node_id'', JStr (py_lower mac))], d1) \<and>
    verify_assisted_claim C S clk' bits uid csr d1 = (Inr out, d2) \<and>
    cert \<in> set (node_certificates d2) \<and> cert_cn cert = py_lower mac \<and>
    get out ''certificate'' = JStr (cert_pem cert) \<and>
    user_node_mappings d2 = user_node_mappings d"
proof -
  obtain o1 d1 where init: "initiate_assisted_claim S clk cid now uid mac (JStr plat) d = (Inr o1, d1)"
    using initiate_assisted_claim_total [OF fit(1,2) fresh(1)] by blast
  then obtain c where o1: "o1 = [(''node_id'', JStr (py_lower mac))]" and c: "cc_node_id c = py_lower mac"
      "cc_expires_at c = clk 0 + seconds (claim_challenge_ttl_seconds S)"
    and d1: "d1 = d\<lparr>claim_challenges := claim_challenges d @ [c]\<rparr>" and pend: "pending_assisted uid d1 = [c]"
    using initiate_assisted_claim_Inr [OF init] idle by auto
  have ok1: "db_ok d1" using initiate_assisted_claim_ok [OF ok] init by (metis snd_conv)
  let ?w = "write_claim c (mark_verified (clk' 1)) d1"
  have okw: "db_ok ?w" by (rule write_claim_ok [OF ok1]) simp_all
  obtain out d2 where iss: "issue_certificate C S clk' 2 bits (py_lower mac) csr ?w = (Inr out, d2)"
    using issue_certificate_total [OF okw, where clk = clk' and i = 2, OF sign _ fit(3)] generate_node_id_fits [OF fit(1)] fresh(2)
    by (auto simp: generate_node_id_def d1)
  have "verify_assisted_claim C S clk' bits uid csr d1 = (Inr out, d2)"
    using time iss c by (simp add: verify_assisted_claim_def pend)
  with init o1 show ?thesis
    by (rule_tac issue_certificate_Inr [OF iss]) (auto simp: d1)
qed

theorem assisted_claim_flow_witness:
  "\<exists>d1 d2 out cert.
    initiate_assisted_claim default_settings (\<lambda>i. 0) 8 0 2 ''N1'' (JStr ''esp32'') claim_db =
      (Inr [(''node_id'', JStr ''n1'')], d1) \<and>
    verify_assisted_claim sample_claim_libs default_settings (\<lambda>i. 9) 5 2 ''CSR'' d1 = (Inr out, d2) \<and>
    cert \<in> set (node_certificates d2) \<and> cert_cn cert = ''n1'' \<and>
    get out ''certificate'' = JStr (cert_pem cert) \<and>
    user_node_mappings d2 = user_node_mappings claim_db"
  using assisted_claim_flow [OF claim_db_ok, where uid = 2 and cid = 8 and bits = 5 and mac = "''N1''"
      and plat = "''esp32''" and clk' = "\<lambda>i. 9" and clk = "\<lambda>i. 0" and S = default_settings
      and C = sample_claim_libs and csr = "''CSR''" and now = 0] sample_sign [of 9 "''n1''"]
  by (simp add: sample_claim_libs_def sample_lower fits_def pending_assisted_def select_def
      default_settings_def [THEN arg_cong, of claim_challenge_ttl_seconds]
      claim_db_def [THEN arg_cong, of claim_challenges] claim_db_def [THEN arg_cong, of node_certificates]
      empty_db_def)

text \<open>
  A second assisted claim before the first is verified (an expired first claim included, since
  nothing takes it out of \<open>pending\<close>) blocks the user: every later verification ends in an uncaught
  \<open>MultipleResultsFound\<close>, answered 500, although the query asks for the newest row first.
\<close>

theorem assisted_claim_twice:
  assumes "initiate_assisted_claim S clk cid now uid mac plat d = (Inr o1, d1)"
    and "initiate_assisted_claim S' clk' cid' now' uid mac' plat' d1 = (Inr o2, d2)"
  shows "verify_assisted_claim C S'' clk'' bits uid csr d2 = (Inl (Uncaught MultipleResultsFound), d2)"
proof -
  from initiate_assisted_claim_Inr [OF assms(1)] obtain c where
    "pending_assisted uid d1 = pending_assisted uid d @ [c]" by blast
  moreover from initiate_assisted_claim_Inr [OF assms(2)] obtain c' where
    "pending_assisted uid d2 = pending_assisted uid d1 @ [c']" by blast
  ultimately have "2 \<le> length (order_by_desc cc_created_at (pending_assisted uid d2))" by simp
  then have "scalar_one_or_none (order_by_desc cc_created_at (pending_assisted uid d2)) =
      Inl (Uncaught MultipleResultsFound)" by simp
  then show ?thesis unfolding verify_assisted_claim_def by (simp only: attempt_simps)
qed

theorem assisted_claim_twice_witness:
  "\<exists>d1 d2 o1 o2. initiate_assisted_claim default_settings (\<lambda>i. 0) 8 0 2 ''N1'' (JStr ''esp32'') claim_db = (Inr o1, d1) \<and>
    initiate_assisted_claim default_settings (\<lambda>i. hours 5) 9 0 2 ''N1'' (JStr ''esp32'') d1 = (Inr o2, d2) \<and>
    verify_assisted_claim sample_claim_libs default_settings (\<lambda>i. hours 5) 5 2 ''CSR'' d2 =
      (Inl (Uncaught MultipleResultsFound), d2)"
proof -
  obtain o1 d1 where 1: "initiate_assisted_claim default_settings (\<lambda>i. 0) 8 0 2 ''N1'' (JStr ''esp32'') claim_db = (Inr o1, d1)"
    using initiate_assisted_claim_total [of "''N1''" "''esp32''" claim_db 8 default_settings "\<lambda>i. 0" 0 2]
    by (auto simp: fits_def claim_db_def empty_db_def)
  have "\<forall>c \<in> set (claim_challenges d1). cc_id c \<noteq> 9"
    using initiate_assisted_claim_Inr [OF 1] by (auto simp: claim_db_def empty_db_def)
  then obtain o2 d2 where 2: "initiate_assisted_claim default_settings (\<lambda>i. hours 5) 9 0 2 ''N1'' (JStr ''esp32'') d1 = (Inr o2, d2)"
    using initiate_assisted_claim_total [of "''N1''" "''esp32''" d1 9 default_settings "\<lambda>i. hours 5" 0 2]
    by (auto simp: fits_def)
  show ?thesis using 1 2 assisted_claim_twice [OF 1 2] by blast
qed

end
