(* ===== verification/Ota.thy ===== *)
theory Ota
  imports Schema Config PyNum
begin

text \<open>
  \<open>app/services/ota.py\<close> and \<open>app/services/storage.py\<close>: firmware images, rollout jobs and what a
  node is told to install.  An object store is a record of its three operations; the in-process
  stub and the S3 backend are two values of it, and the MinIO client library is the parameter of
  the second.  \<open>tok\<close> is the draw of \<open>secrets.token_urlsafe(8)\<close>, \<open>now\<close> the \<open>created_at\<close> that the
  database gives to the rows of one transaction.
\<close>

section \<open>Object storage\<close>

record object_storage =
  ensure_bucket :: "string \<Rightarrow> unit result"
  signed_upload_url :: "string \<Rightarrow> string \<Rightarrow> string \<Rightarrow> string result"
  signed_download_url :: "string \<Rightarrow> string \<Rightarrow> string \<Rightarrow> string result"

definition LocalStubStorage :: object_storage where
  "LocalStubStorage = \<lparr>
     ensure_bucket = (\<lambda>bucket. Inr ()),
     signed_upload_url = (\<lambda>bucket key tok.
       Inr (''http://stub-storage/'' @ bucket @ ''/'' @ key @ ''?upload='' @ tok)),
     signed_download_url = (\<lambda>bucket key tok.
       Inr (''http://stub-storage/'' @ bucket @ ''/'' @ key @ ''?download='' @ tok))\<rparr>"

record minio_client =
  bucket_exists :: "string \<Rightarrow> pyexc + bool"
  make_bucket :: "string \<Rightarrow> pyexc + unit"
  presigned_put_object :: "string \<Rightarrow> string \<Rightarrow> datetime \<Rightarrow> pyexc + string"
  presigned_get_object :: "string \<Rightarrow> string \<Rightarrow> datetime \<Rightarrow> pyexc + string"

text \<open>
  \<open>Minio(endpoint, access_key, secret_key, secure, region)\<close> of the client library, a parameter.
\<close>

type_synonym minio_library = "string \<Rightarrow> string \<Rightarrow> string \<Rightarrow> bool \<Rightarrow> string \<Rightarrow> minio_client"

text \<open>One client for the administration, one that signs for the public host.\<close>

definition MinioS3Storage ::
  "minio_library \<Rightarrow> string \<Rightarrow> string \<Rightarrow> string \<Rightarrow> bool \<Rightarrow> string \<Rightarrow> string option \<Rightarrow> bool option \<Rightarrow> object_storage"
where
  "MinioS3Storage Minio endpoint access secret secure region public_endpoint public_secure =
     (let internal = Minio endpoint access secret secure region;
          pub_ep = (if str_truthy public_endpoint then the public_endpoint else endpoint);
          pub_secure = (case public_secure of Some b \<Rightarrow> b | None \<Rightarrow> secure);
          public = Minio pub_ep access secret pub_secure region
      in \<lparr>
        ensure_bucket = (\<lambda>bucket. case bucket_exists internal bucket of
            Inl e \<Rightarrow> Inl (Uncaught e)
          | Inr there \<Rightarrow> if \<not> there then lift_exc (make_bucket internal bucket) else Inr ()),
        signed_upload_url = (\<lambda>bucket key tok. lift_exc (presigned_put_object public bucket key (seconds 600))),
        signed_download_url = (\<lambda>bucket key tok. lift_exc (presigned_get_object public bucket key (seconds 600)))\<rparr>)"

text \<open>\<open>E\<close> is the process environment.\<close>

definition real_storage_requested :: "(string \<rightharpoonup> string) \<Rightarrow> settings \<Rightarrow> bool" where
  "real_storage_requested E S \<longleftrightarrow>
     py_lower (case E ''RM_FEATURE_S3_REAL'' of None \<Rightarrow> ''false'' | Some f \<Rightarrow> f) = ''true'' \<and>
     py_strip (minio_endpoint S) \<noteq> []"

definition get_storage :: "minio_library \<Rightarrow> (string \<rightharpoonup> string) \<Rightarrow> settings \<Rightarrow> object_storage" where
  "get_storage Minio E S =
     (if \<not> real_storage_requested E S then LocalStubStorage
      else
        let public_endpoint = (case E ''RM_MINIO_PUBLIC_ENDPOINT'' of None \<Rightarrow> minio_endpoint S | Some p \<Rightarrow> p);
            public_secure = map_option (\<lambda>v. py_lower v = ''true'') (E ''RM_MINIO_PUBLIC_SECURE'')
        in MinioS3Storage Minio (minio_endpoint S) (minio_access_key S) (minio_secret_key S)
             (minio_secure S) (minio_region S) (Some public_endpoint) public_secure)"

section \<open>Images\<close>

definition image_key :: "uuid \<Rightarrow> string \<Rightarrow> string" where
  "image_key image_id name = ''images/'' @ str_uuid image_id @ ''/'' @ name @ ''.bin''"

definition create_image_upload ::
  "pyrt \<Rightarrow> settings \<Rightarrow> object_storage \<Rightarrow> uuid \<Rightarrow> string \<Rightarrow> json \<Rightarrow> json \<Rightarrow> int \<Rightarrow> json \<Rightarrow> json \<Rightarrow> db \<Rightarrow>
     dict result \<times> db"
where
  "create_image_upload R S ST image_id tok name fw_version file_size model metadata d =
     (let storage_key = image_key image_id (py_str R name) in
      attempt d (ensure_bucket ST (minio_bucket_ota S)) (\<lambda>_.
      attempt d (signed_upload_url ST (minio_bucket_ota S) storage_key tok) (\<lambda>upload_url.
      attempt d (text_column None name) (\<lambda>name.
      attempt d (text_column None fw_version) (\<lambda>fw_version.
      attempt d (str_column model) (\<lambda>model.
      attempt d (insert_image
        \<lparr>img_id = image_id, img_name = name, img_fw_version = fw_version, img_model = model,
         img_file_size = file_size, img_file_md5 = None, img_file_sha256 = None,
         img_storage_key = storage_key, img_status = ''staged'', img_metadata = or_empty metadata\<rparr> d) (\<lambda>d'.
        (Inr [(''ota_image_id'', JStr (str_uuid image_id)), (''upload_url'', JStr upload_url),
              (''storage_key'', JStr storage_key)], d'))))))))"

definition find_image :: "uuid \<Rightarrow> db \<Rightarrow> ota_image option result" where
  "find_image i d = scalar_one_or_none (select (\<lambda>x. img_id x = i) (ota_images d))"

definition confirm_image_upload :: "uuid \<Rightarrow> json \<Rightarrow> json \<Rightarrow> db \<Rightarrow> ota_image result \<times> db" where
  "confirm_image_upload ota_image_id file_md5 file_sha256 d =
     attempt d (find_image ota_image_id d) (\<lambda>found. case found of
       None \<Rightarrow> (Inl (invalid_request ''Unknown ota_image_id''), d)
     | Some img \<Rightarrow>
         attempt d (str_column file_md5) (\<lambda>md5.
         attempt d (str_column file_sha256) (\<lambda>sha.
           let f = (\<lambda>x. x\<lparr>img_file_md5 := md5, img_file_sha256 := sha, img_status := ''ready''\<rparr>)
           in if \<not> image_cols (f img) then (Inl (Uncaught DataError), d)
              else (Inr (f img),
                d\<lparr>ota_images := update_where (\<lambda>x. img_id x = img_id img) f (ota_images d)\<rparr>))))"

section \<open>Jobs\<close>

primrec add_job_nodes ::
  "(nat \<Rightarrow> uuid) \<Rightarrow> nat \<Rightarrow> datetime \<Rightarrow> uuid \<Rightarrow> string list \<Rightarrow> db \<Rightarrow> db result" where
  "add_job_nodes jids i now jid [] d = Inr d"
| "add_job_nodes jids i now jid (nid # nids) d =
     (case insert_job_node \<lparr>jn_id = jids i, jn_job_id = jid, jn_node_id = nid, jn_status = ''pending'',
             jn_progress = 0, jn_additional_info = None, jn_last_update = None, jn_created_at = now\<rparr> d of
        Inl e \<Rightarrow> Inl e
      | Inr d' \<Rightarrow> add_job_nodes jids (Suc i) now jid nids d')"

definition create_job ::
  "(nat \<Rightarrow> datetime) \<Rightarrow> uuid \<Rightarrow> (nat \<Rightarrow> uuid) \<Rightarrow> datetime \<Rightarrow> json \<Rightarrow> uuid \<Rightarrow> json list \<Rightarrow> json \<Rightarrow> uuid option \<Rightarrow>
     db \<Rightarrow> ota_job result \<times> db"
where
  "create_job clk jid jids now name ota_image_id node_ids rollout_policy created_by d =
     attempt d (find_image ota_image_id d) (\<lambda>found.
       case found of
         None \<Rightarrow> (Inl (invalid_request ''Image not ready''), d)
       | Some img \<Rightarrow>
           if img_status img \<noteq> ''ready'' then (Inl (invalid_request ''Image not ready''), d)
           else
             attempt d (text_column None name) (\<lambda>nm.
             let job = \<lparr>job_id = jid, job_image_id = ota_image_id, job_name = nm, job_status = ''active'',
                        job_rollout_policy = or_empty rollout_policy, job_started_at = Some (clk 0),
                        job_created_by = created_by\<rparr>
             in attempt d (insert_job job d) (\<lambda>d1.
                attempt d (text_columns node_ids) (\<lambda>nids.
                attempt d (add_job_nodes jids 0 now jid nids d1) (\<lambda>d2. (Inr job, d2))))))"

text \<open>The join of a node's open assignments with their active jobs and images.\<close>

definition open_assignments :: "string \<Rightarrow> db \<Rightarrow> (ota_job_node \<times> ota_job \<times> ota_image) list" where
  "open_assignments node_id d =
     concat (map (\<lambda>jn. concat (map (\<lambda>j. map (\<lambda>i. (jn, j, i))
         (filter (\<lambda>i. img_id i = job_image_id j) (ota_images d)))
       (filter (\<lambda>j. job_id j = jn_job_id jn \<and> job_status j = ''active'') (ota_jobs d))))
     (filter (\<lambda>jn. jn_node_id jn = node_id \<and> (jn_status jn = ''pending'' \<or> jn_status jn = ''in-progress''))
       (ota_job_nodes d)))"

definition opt_str :: "string option \<Rightarrow> json" where
  "opt_str s = (case s of None \<Rightarrow> JNull | Some t \<Rightarrow> JStr t)"

lemma opt_str_simps [simp]: "opt_str None = JNull" "opt_str (Some s) = JStr s" "str_column (opt_str x) = Inr x"
  by (cases x; simp add: opt_str_def)+

definition wait_form :: dict where
  "wait_form = [(''ota_available'', JBool False), (''action'', JStr ''wait''), (''min_wait'', JInt 60),
     (''max_wait'', JInt 600)]"

definition job_form :: "ota_job_node \<Rightarrow> ota_image \<Rightarrow> string \<Rightarrow> dict" where
  "job_form jn img url = [(''ota_available'', JBool True), (''ota_job_id'', JStr (str_uuid (jn_job_id jn))),
     (''url'', JStr url), (''file_size'', JInt (img_file_size img)), (''file_md5'', opt_str (img_file_md5 img)),
     (''file_sha256'', opt_str (img_file_sha256 img)), (''fw_version'', JStr (img_fw_version img)),
     (''metadata'', or_empty (img_metadata img))]"

definition fetch_pending_for_node ::
  "settings \<Rightarrow> object_storage \<Rightarrow> string \<Rightarrow> string \<Rightarrow> db \<Rightarrow> dict result" where
  "fetch_pending_for_node S ST tok node_id d =
     (case first (order_by_asc (\<lambda>t. jn_created_at (fst t)) (open_assignments node_id d)) of
        None \<Rightarrow> Inr wait_form
      | Some (jn, job, img) \<Rightarrow>
          map_sum id (\<lambda>url. job_form jn img url)
            (signed_download_url ST (minio_bucket_ota S) (img_storage_key img) tok))"

definition update_status ::
  "(nat \<Rightarrow> datetime) \<Rightarrow> string \<Rightarrow> json \<Rightarrow> json \<Rightarrow> json \<Rightarrow> db \<Rightarrow> ota_job_node result \<times> db" where
  "update_status clk node_id ota_job_id status additional_info d =
     (case uuid_of_json ota_job_id of
        Inl e \<Rightarrow> (if e = TypeError \<or> e = ValueError then (Inl (invalid_request ''Invalid ota_job_id''), d)
                  else (Inl (Uncaught e), d))
      | Inr job_uuid \<Rightarrow>
          attempt d (scalar_one_or_none (select (\<lambda>j. jn_job_id j = job_uuid \<and> jn_node_id j = node_id)
            (ota_job_nodes d))) (\<lambda>found. case found of
              None \<Rightarrow> (Inl (rainmaker 404 105012 ''OTA job not found for node''), d)
            | Some jn \<Rightarrow>
                attempt d (text_column None status) (\<lambda>st.
                attempt d (str_column additional_info) (\<lambda>ai.
                  let f = (\<lambda>j. j\<lparr>jn_status := st, jn_additional_info := ai, jn_last_update := Some (clk 0)\<rparr>)
                  in if \<not> job_node_cols (f jn) then (Inl (Uncaught DataError), d)
                     else (Inr (f jn),
                       d\<lparr>ota_job_nodes := update_where (\<lambda>j. jn_id j = jn_id jn) f (ota_job_nodes d)\<rparr>)))))"

definition get_status_for_node :: "string \<Rightarrow> db \<Rightarrow> dict result" where
  "get_status_for_node node_id d =
     (case scalar_one_or_none (order_by_desc jn_created_at
             (select (\<lambda>j. jn_node_id j = node_id) (ota_job_nodes d))) of
        Inl e \<Rightarrow> Inl e
      | Inr None \<Rightarrow> Inr [(''node_id'', JStr node_id), (''status'', JStr ''none'')]
      | Inr (Some row) \<Rightarrow> Inr [(''node_id'', JStr node_id), (''ota_job_id'', JStr (str_uuid (jn_job_id row))),
          (''status'', JStr (jn_status row)), (''progress'', JInt (jn_progress row)),
          (''additional_info'', opt_str (jn_additional_info row))])"

section \<open>Integrity\<close>

lemma create_image_upload_ok [store_ok]:
  "db_ok d \<Longrightarrow> db_ok (snd (create_image_upload R S ST i tok nm fw sz md meta d))"
  by (auto simp: create_image_upload_def Let_def intro: insert_image_ok split: attempt_splits)

lemma confirm_image_upload_ok [store_ok]: "db_ok d \<Longrightarrow> db_ok (snd (confirm_image_upload i m s d))"
  by (auto simp: confirm_image_upload_def Let_def intro: update_image_ok split: attempt_splits option.splits)

lemma add_job_nodes_ok [store_ok]:
  "db_ok d \<Longrightarrow> add_job_nodes jids i now jid nids d = Inr d' \<Longrightarrow> db_ok d'"
  by (induction nids arbitrary: i d) (auto intro: insert_job_node_ok split: sum.splits)

lemma create_job_ok [store_ok]:
  "db_ok d \<Longrightarrow> db_ok (snd (create_job clk jid jids now nm img nids rp cb d))"
  by (auto simp: create_job_def Let_def intro: insert_job_ok add_job_nodes_ok split: attempt_splits option.splits)

lemma update_status_ok [store_ok]: "db_ok d \<Longrightarrow> db_ok (snd (update_status clk nid oj st ai d))"
  by (auto simp: update_status_def Let_def intro: update_job_node_ok split: attempt_splits option.splits sum.splits)

section \<open>What a node is offered\<close>

definition is_open :: "string \<Rightarrow> db \<Rightarrow> ota_job_node \<Rightarrow> bool" where
  "is_open nid d jn \<longleftrightarrow> jn \<in> set (ota_job_nodes d) \<and> jn_node_id jn = nid \<and>
     (jn_status jn = ''pending'' \<or> jn_status jn = ''in-progress'') \<and>
     (\<exists>j \<in> set (ota_jobs d). job_id j = jn_job_id jn \<and> job_status j = ''active'')"

lemma in_open_assignments:
  "(jn, j, i) \<in> set (open_assignments nid d) \<longleftrightarrow> jn \<in> set (ota_job_nodes d) \<and> jn_node_id jn = nid \<and>
     (jn_status jn = ''pending'' \<or> jn_status jn = ''in-progress'') \<and> j \<in> set (ota_jobs d) \<and>
     job_id j = jn_job_id jn \<and> job_status j = ''active'' \<and> i \<in> set (ota_images d) \<and> img_id i = job_image_id j"
  by (auto simp: open_assignments_def)

text \<open>The foreign key from a job to its image makes the join lose nothing.\<close>

lemma open_assignments_complete:
  assumes ok: "db_ok d" and op: "is_open nid d jn"
  shows "\<exists>j i. (jn, j, i) \<in> set (open_assignments nid d)"
proof -
  from op obtain j where j: "j \<in> set (ota_jobs d)" "job_id j = jn_job_id jn" "job_status j = ''active''"
    by (auto simp: is_open_def)
  then obtain i where "i \<in> set (ota_images d)" "img_id i = job_image_id j"
    using job_foreign [OF ok j(1)] by (auto simp: job_refs_def present_def)
  with j op show ?thesis by (auto simp: in_open_assignments is_open_def)
qed

lemma open_assignments_sound: "(jn, j, i) \<in> set (open_assignments nid d) \<Longrightarrow> is_open nid d jn"
  by (auto simp: in_open_assignments is_open_def)

lemma fetch_form:
  assumes "fetch_pending_for_node S ST tok nid d = Inr out" "out \<noteq> wait_form"
  obtains jn j i url where "(jn, j, i) \<in> set (open_assignments nid d)" "out = job_form jn i url"
    "\<And>t. t \<in> set (open_assignments nid d) \<Longrightarrow> jn_created_at jn \<le> jn_created_at (fst t)"
proof -
  let ?k = "\<lambda>t :: ota_job_node \<times> ota_job \<times> ota_image. jn_created_at (fst t)"
  from assms obtain jn j i url where f: "first (order_by_asc ?k (open_assignments nid d)) = Some (jn, j, i)"
    and out: "out = job_form jn i url"
    by (auto simp: fetch_pending_for_node_def map_sum_id_Inr split: option.split_asm)
  from first_order_by_asc [OF f] out show thesis using that [of jn j i url] by auto
qed

lemma job_form_not_wait [simp]: "job_form jn i url \<noteq> wait_form" "wait_form \<noteq> job_form jn i url"
  by (simp_all add: job_form_def wait_form_def)

lemma fetch_wait:
  assumes "open_assignments nid d = []"
  shows "fetch_pending_for_node S ST tok nid d = Inr wait_form"
  by (simp add: fetch_pending_for_node_def assms order_by_asc_def)

lemma no_open_assignments: "\<not> (\<exists>jn. is_open nid d jn) \<Longrightarrow> open_assignments nid d = []"
  using open_assignments_sound by (metis list.set_intros(1) neq_Nil_conv prod_cases3)

lemma fetch_not_wait:
  assumes "open_assignments nid d \<noteq> []"
  shows "fetch_pending_for_node S ST tok nid d \<noteq> Inr wait_form"
proof -
  let ?o = "order_by_asc (\<lambda>t. jn_created_at (fst t)) (open_assignments nid d)"
  from assms have "?o \<noteq> []" using length_order_by(1) [of _ "open_assignments nid d"] by (metis length_0_conv)
  then obtain jn j i where "first ?o = Some (jn, j, i)" by (cases ?o) auto
  then show ?thesis by (auto simp: fetch_pending_for_node_def map_sum_id_Inr)
qed

lemma add_job_nodes_count:
  "add_job_nodes jids i now jid nids d = Inr d' \<Longrightarrow>
     length (select (\<lambda>j. jn_node_id j = n) (ota_job_nodes d')) =
       length (select (\<lambda>j. jn_node_id j = n) (ota_job_nodes d)) + length (filter (\<lambda>x. x = n) nids)"
  by (induction nids arbitrary: i d)
    (auto simp: insert_job_node_Inr select_def split: sum.split_asm)

lemma create_job_count:
  assumes "create_job clk jid jids now nm img nids rp cb d = (Inr job, d')"
  shows "length (select (\<lambda>j. jn_node_id j = n) (ota_job_nodes d')) =
    length (select (\<lambda>j. jn_node_id j = n) (ota_job_nodes d)) + length (filter (\<lambda>v. v = JStr n) nids)"
proof -
  from assms obtain d1 ss where "insert_job job d = Inr d1" "nids = map JStr ss"
      "add_job_nodes jids 0 now jid ss d1 = Inr d'"
    by (auto simp: create_job_def Let_def dest!: text_columns_Inr elim!: attempt_InrE
        split: option.split_asm if_split_asm)
  with add_job_nodes_count [of jids 0 now jid ss d1 d' n] show ?thesis
    by (simp add: insert_job_Inr filter_map comp_def)
qed

lemma fetch_total:
  assumes "\<And>key. \<exists>url. signed_download_url ST (minio_bucket_ota S) key tok = Inr url"
  shows "\<exists>out. fetch_pending_for_node S ST tok nid d = Inr out"
proof (cases "first (order_by_asc (\<lambda>t. jn_created_at (fst t)) (open_assignments nid d))")
  case (Some t)
  obtain jn j i where t: "t = (jn, j, i)" by (cases t)
  obtain url where "signed_download_url ST (minio_bucket_ota S) (img_storage_key i) tok = Inr url" using assms by blast
  then show ?thesis by (simp add: fetch_pending_for_node_def Some t)
qed (simp add: fetch_pending_for_node_def)

lemma stub_fetch_total: "\<exists>out. fetch_pending_for_node S LocalStubStorage tok nid d = Inr out"
  by (rule fetch_total) (simp add: LocalStubStorage_def)

text \<open>A node with one open assignment is given it.\<close>

lemma stub_fetch_single:
  assumes ok: "db_ok d" and op: "is_open nid d jn" and only: "\<And>x. is_open nid d x \<Longrightarrow> x = jn"
    and j: "j \<in> set (ota_jobs d)" "job_id j = jn_job_id jn"
    and img: "img \<in> set (ota_images d)" "img_id img = job_image_id j"
  shows "\<exists>url. fetch_pending_for_node S LocalStubStorage tok nid d = Inr (job_form jn img url)"
proof -
  have "open_assignments nid d \<noteq> []" using open_assignments_complete [OF ok op] by force
  moreover obtain out where out: "fetch_pending_for_node S LocalStubStorage tok nid d = Inr out"
    using stub_fetch_total by blast
  ultimately have "out \<noteq> wait_form" using fetch_not_wait by metis
  with out show ?thesis
  proof (rule fetch_form)
    fix jn' j' i' url
    assume t: "(jn', j', i') \<in> set (open_assignments nid d)" and o: "out = job_form jn' i' url"
    have jn: "jn' = jn" by (rule only [OF open_assignments_sound [OF t]])
    from t have t': "j' \<in> set (ota_jobs d)" "job_id j' = jn_job_id jn'" "i' \<in> set (ota_images d)"
        "img_id i' = job_image_id j'" by (simp_all add: in_open_assignments)
    have "j' = j" using jobs_by_id.row_unique [OF job_keys [OF ok] t'(1) j(1)] t'(2) j(2) jn by simp
    then have "i' = img" using images_by_id.row_unique [OF image_keys [OF ok] t'(3) img(1)] t'(4) img(2) by simp
    with jn o out show ?thesis by blast
  qed
qed

lemma create_job_single:
  assumes ok: "db_ok d" and img: "img \<in> set (ota_images d)" "img_status img = ''ready''"
    and node: "present nd_node_id (nodes d) nid"
    and fresh: "\<forall>j \<in> set (ota_jobs d). job_id j \<noteq> jid" "\<forall>j \<in> set (ota_job_nodes d). jn_id j \<noteq> jids 0"
    and fit: "fits 128 name" "storable (or_empty rp)"
  obtains job d1 where "create_job clk jid jids now (JStr name) (img_id img) [JStr nid] rp cb d = (Inr job, d1)"
    "d1 = d\<lparr>ota_jobs := ota_jobs d @ [job], ota_job_nodes := ota_job_nodes d @ [\<lparr>jn_id = jids 0,
       jn_job_id = jid, jn_node_id = nid, jn_status = ''pending'', jn_progress = 0,
       jn_additional_info = None, jn_last_update = None, jn_created_at = now\<rparr>]\<rparr>"
    "job_id job = jid" "job_image_id job = img_id img" "job_status job = ''active''"
proof -
  let ?job = "\<lparr>job_id = jid, job_image_id = img_id img, job_name = name, job_status = ''active'',
    job_rollout_policy = or_empty rp, job_started_at = Some (clk 0), job_created_by = cb\<rparr>"
  let ?jn = "\<lparr>jn_id = jids 0, jn_job_id = jid, jn_node_id = nid, jn_status = ''pending'', jn_progress = 0,
    jn_additional_info = None, jn_last_update = None, jn_created_at = now\<rparr>"
  let ?d1 = "d\<lparr>ota_jobs := ota_jobs d @ [?job], ota_job_nodes := ota_job_nodes d @ [?jn]\<rparr>"
  have nojob: "jn_job_id j \<noteq> jid" if "j \<in> set (ota_job_nodes d)" for j
    using job_node_foreign [OF ok that] fresh(1) by (auto simp: job_node_refs_def present_def)
  have find: "find_image (img_id img) d = Inr (Some img)"
    by (simp add: find_image_def images_by_id.select_key [OF image_keys [OF ok] img(1)])
  have j1: "insert_job ?job d = Inr (d\<lparr>ota_jobs := ota_jobs d @ [?job]\<rparr>)"
    using fresh(1) fit presentI [OF img(1), of img_id]
    by (auto simp: insert_job_Inr job_cols_def job_refs_def job_clash_def fits_def)
  have j2: "insert_job_node ?jn (d\<lparr>ota_jobs := ota_jobs d @ [?job]\<rparr>) = Inr ?d1"
    using fresh(2) nojob node
    by (auto simp: insert_job_node_Inr job_node_cols_def job_node_refs_def job_node_clash_def fits_def)
  show thesis
    by (rule that [of ?job ?d1]) (simp_all add: create_job_def find img(2) Let_def j1 j2)
qed

section \<open>Properties\<close>

text \<open>
  A node that asks for firmware is told to wait exactly when it has no pending or in-progress
  assignment in an active job; otherwise it is given an assignment of that kind than which none is
  older, with the image of its job.  No assignment is lost in the join.
\<close>

theorem ota_fetch_oldest:
  assumes ok: "db_ok d"
  shows "(fetch_pending_for_node S ST tok nid d = Inr wait_form) = (\<not> (\<exists>jn. is_open nid d jn)) \<and>
    (\<forall>out. fetch_pending_for_node S ST tok nid d = Inr out \<and> out \<noteq> wait_form \<longrightarrow>
       (\<exists>jn j img url. is_open nid d jn \<and> j \<in> set (ota_jobs d) \<and> job_id j = jn_job_id jn \<and>
          img \<in> set (ota_images d) \<and> img_id img = job_image_id j \<and> out = job_form jn img url \<and>
          (\<forall>jn'. is_open nid d jn' \<longrightarrow> jn_created_at jn \<le> jn_created_at jn')))"
proof (intro conjI allI impI)
  show "(fetch_pending_for_node S ST tok nid d = Inr wait_form) = (\<not> (\<exists>jn. is_open nid d jn))"
    using fetch_wait [OF no_open_assignments] fetch_not_wait [of nid d S ST tok]
      open_assignments_complete [OF ok, of nid] by (metis empty_iff empty_set)
  fix out
  assume "fetch_pending_for_node S ST tok nid d = Inr out \<and> out \<noteq> wait_form"
  then have f: "fetch_pending_for_node S ST tok nid d = Inr out" "out \<noteq> wait_form" by simp_all
  show "\<exists>jn j img url. is_open nid d jn \<and> j \<in> set (ota_jobs d) \<and> job_id j = jn_job_id jn \<and>
      img \<in> set (ota_images d) \<and> img_id img = job_image_id j \<and> out = job_form jn img url \<and>
      (\<forall>jn'. is_open nid d jn' \<longrightarrow> jn_created_at jn \<le> jn_created_at jn')"
  proof (rule fetch_form [OF f])
    fix jn j i url
    assume t: "(jn, j, i) \<in> set (open_assignments nid d)" and out: "out = job_form jn i url"
      and old: "\<And>t. t \<in> set (open_assignments nid d) \<Longrightarrow> jn_created_at jn \<le> jn_created_at (fst t)"
    have "jn_created_at jn \<le> jn_created_at jn'" if "is_open nid d jn'" for jn'
      using open_assignments_complete [OF ok that] old by fastforce
    with t out open_assignments_sound [OF t] show ?thesis
      by (intro exI [of _ jn] exI [of _ j] exI [of _ i] exI [of _ url]) (auto simp: in_open_assignments)
  qed
qed

definition ready_image :: ota_image where
  "ready_image = \<lparr>img_id = 7, img_name = ''fw'', img_fw_version = ''2.0'', img_model = None,
     img_file_size = 10, img_file_md5 = None, img_file_sha256 = None, img_storage_key = ''k'',
     img_status = ''ready'', img_metadata = JObj []\<rparr>"

definition ota_db :: db where
  "ota_db = empty_db\<lparr>nodes := [Node ''n1'' 0], ota_images := [ready_image]\<rparr>"

lemma ota_db_ok [simp]: "db_ok ota_db"
  by (simp add: db_ok_def keys_ok_def foreign_ok_def ota_db_def empty_db_def clash_free_def)

theorem ota_fetch_oldest_witness:
  "fetch_pending_for_node default_settings LocalStubStorage ''t'' ''n1'' ota_db = Inr wait_form"
  using ota_fetch_oldest [OF ota_db_ok, of default_settings LocalStubStorage "''t''" "''n1''"]
  by (simp add: is_open_def ota_db_def empty_db_def)

text \<open>
  A rollout, end to end.  A job for a ready image and an idle node makes the node's next fetch
  return that job and that image; when the node reports any status other than pending or
  in-progress for the job under the identifier it was given, its next fetch is told to wait.
\<close>

theorem ota_rollout:
  assumes ok: "db_ok d" and img: "img \<in> set (ota_images d)" "img_status img = ''ready''"
    and node: "present nd_node_id (nodes d) nid" and idle: "\<not> (\<exists>jn. is_open nid d jn)"
    and fresh: "\<forall>j \<in> set (ota_jobs d). job_id j \<noteq> jid" "\<forall>j \<in> set (ota_job_nodes d). jn_id j \<noteq> jids 0"
    and fit: "fits 128 name" "storable (or_empty rp)" "jid < 2 ^ 128" "fits 32 st" "fits_opt 512 ai"
    and st: "st \<noteq> ''pending''" "st \<noteq> ''in-progress''"
  shows "\<exists>job d1 jn url row d2. create_job clk jid jids now (JStr name) (img_id img) [JStr nid] rp cb d = (Inr job, d1) \<and>
    fetch_pending_for_node S LocalStubStorage tok nid d1 = Inr (job_form jn img url) \<and> jn_job_id jn = jid \<and>
    update_status clk' nid (JStr (str_uuid jid)) (JStr st) (opt_str ai) d1 = (Inr row, d2) \<and>
    fetch_pending_for_node S LocalStubStorage tok' nid d2 = Inr wait_form"
proof -
  let ?jn = "\<lparr>jn_id = jids 0, jn_job_id = jid, jn_node_id = nid, jn_status = ''pending'', jn_progress = 0,
    jn_additional_info = None, jn_last_update = None, jn_created_at = now\<rparr>"
  obtain job d1 where create: "create_job clk jid jids now (JStr name) (img_id img) [JStr nid] rp cb d = (Inr job, d1)"
    and d1: "d1 = d\<lparr>ota_jobs := ota_jobs d @ [job], ota_job_nodes := ota_job_nodes d @ [?jn]\<rparr>"
    and job: "job_id job = jid" "job_image_id job = img_id img" "job_status job = ''active''"
    by (rule create_job_single [where jids = jids, OF ok img node fresh fit(1,2)])
  have nojob: "jn_job_id j \<noteq> jid" if "j \<in> set (ota_job_nodes d)" for j
    using job_node_foreign [OF ok that] fresh(1) by (auto simp: job_node_refs_def present_def)
  have ok1: "db_ok d1" using create_job_ok [OF ok] create by (metis snd_conv)
  have only: "jn = ?jn" if "is_open nid d1 jn" for jn
  proof (rule ccontr)
    assume "jn \<noteq> ?jn"
    with that have "jn \<in> set (ota_job_nodes d)" by (auto simp: is_open_def d1)
    with that nojob [OF this] job idle show False by (auto simp: is_open_def d1)
  qed
  have op: "is_open nid d1 ?jn" using job by (simp add: is_open_def d1)
  obtain url where fetch: "fetch_pending_for_node S LocalStubStorage tok nid d1 = Inr (job_form ?jn img url)"
    using stub_fetch_single [OF ok1 op only, of job img] img(1) job by (auto simp: d1)
  let ?f = "\<lambda>j. j\<lparr>jn_status := st, jn_additional_info := ai, jn_last_update := Some (clk' 0)\<rparr>"
  let ?d2 = "d1\<lparr>ota_job_nodes := update_where (\<lambda>j. jn_id j = jids 0) ?f (ota_job_nodes d1)\<rparr>"
  have "select (\<lambda>j. jn_job_id j = jid \<and> jn_node_id j = nid) (ota_job_nodes d1) = [?jn]"
    using nojob by (auto simp: select_def filter_empty_conv d1)
  then have upd: "update_status clk' nid (JStr (str_uuid jid)) (JStr st) (opt_str ai) d1 = (Inr (?f ?jn), ?d2)"
    using fit by (simp add: update_status_def parse_str_uuid job_node_cols_def)
  have "\<not> is_open nid ?d2 jn" for jn
  proof
    assume op: "is_open nid ?d2 jn"
    then obtain x where x: "x \<in> set (ota_job_nodes d1)" "jn = (if jn_id x = jids 0 then ?f x else x)"
      by (auto simp: is_open_def set_update_where)
    with op st have "is_open nid d1 x" "jn_id x \<noteq> jids 0" by (auto simp: is_open_def split: if_splits)
    with only show False by force
  qed
  then have "fetch_pending_for_node S LocalStubStorage tok' nid ?d2 = Inr wait_form"
    using fetch_wait [OF no_open_assignments] by blast
  with create fetch upd show ?thesis by fastforce
qed

theorem ota_rollout_witness:
  "\<exists>job d1 jn url row d2. create_job (\<lambda>i. 0) 100 (\<lambda>i. 200 + i) 0 (JStr ''job'') 7 [JStr ''n1''] JNull None ota_db = (Inr job, d1) \<and>
    fetch_pending_for_node default_settings LocalStubStorage ''t'' ''n1'' d1 = Inr (job_form jn ready_image url) \<and>
    jn_job_id jn = 100 \<and>
    update_status (\<lambda>i. 9) ''n1'' (JStr (str_uuid 100)) (JStr ''success'') JNull d1 = (Inr row, d2) \<and>
    fetch_pending_for_node default_settings LocalStubStorage ''t2'' ''n1'' d2 = Inr wait_form"
  using ota_rollout [OF ota_db_ok, of ready_image "''n1''" 100 "\<lambda>i. 200 + i" "''job''" JNull "''success''" None
      "\<lambda>i. 0" 0 None default_settings "''t''" "\<lambda>i. 9" "''t2''"]
  by (simp add: ota_db_def empty_db_def is_open_def ready_image_def present_def Node_def fits_def or_empty_def)

text \<open>
  A node that fetches and reports \<open>st\<close> under the identifier it was given, again and again, until it
  is told to wait.  \<open>None\<close> is a node that is still busy when the fuel is spent, or whose fetch failed.
\<close>

primrec update_loop ::
  "nat \<Rightarrow> settings \<Rightarrow> object_storage \<Rightarrow> (nat \<Rightarrow> datetime) \<Rightarrow> string \<Rightarrow> string \<Rightarrow> string \<Rightarrow> db \<Rightarrow> db option" where
  "update_loop 0 S ST clk tok nid st d = None"
| "update_loop (Suc k) S ST clk tok nid st d =
     (case fetch_pending_for_node S ST tok nid d of
        Inl e \<Rightarrow> None
      | Inr out \<Rightarrow>
          if out = wait_form then Some d
          else update_loop k S ST clk tok nid st
            (snd (update_status clk nid (get out ''ota_job_id'') (JStr st) JNull d)))"

lemma get_job_form: "get (job_form jn img url) ''ota_job_id'' = JStr (str_uuid (jn_job_id jn))"
  by (simp add: job_form_def get_or_def)

lemma update_round:
  assumes ok: "db_ok d" and ids: "\<forall>j \<in> set (ota_jobs d). job_id j < 2 ^ 128"
    and op: "is_open nid d jn" and st: "fits 32 st" "st \<noteq> ''pending''" "st \<noteq> ''in-progress''"
    and d': "d' = snd (update_status clk nid (JStr (str_uuid (jn_job_id jn))) (JStr st) JNull d)"
  shows "ota_jobs d' = ota_jobs d" "Collect (is_open nid d') = Collect (is_open nid d) - {jn}"
    "select (\<lambda>j. jn_node_id j \<noteq> nid) (ota_job_nodes d') = select (\<lambda>j. jn_node_id j \<noteq> nid) (ota_job_nodes d)"
proof -
  let ?f = "\<lambda>j. j\<lparr>jn_status := st, jn_additional_info := None, jn_last_update := Some (clk 0)\<rparr>"
  from op have jn: "jn \<in> set (ota_job_nodes d)" "jn_node_id jn = nid" "jn_job_id jn < 2 ^ 128"
    using ids by (auto simp: is_open_def)
  have "select (\<lambda>j. jn_job_id j = jn_job_id jn \<and> jn_node_id j = nid) (ota_job_nodes d) = [jn]"
    by (rule job_nodes_by_pair.select_refined [OF job_node_keys [OF ok] jn(1)]) (use jn(2) in auto)
  then have d'_eq: "d' = d\<lparr>ota_job_nodes := update_where (\<lambda>j. jn_id j = jn_id jn) ?f (ota_job_nodes d)\<rparr>"
    using st jn(3) by (simp add: d' update_status_def parse_str_uuid job_node_cols_def)
  have same: "x = jn" if "x \<in> set (ota_job_nodes d)" "jn_id x = jn_id jn" for x
    using job_nodes_by_id.row_unique [OF job_node_keys [OF ok] that(1) jn(1)] that(2) by simp
  show "ota_jobs d' = ota_jobs d" by (simp add: d'_eq)
  have "(if jn_id x = jn_id jn then ?f x else x) = (if x = jn then ?f jn else x)" if "x \<in> set (ota_job_nodes d)" for x
    using same [OF that] by auto
  then have "set (ota_job_nodes d') = (\<lambda>x. if x = jn then ?f jn else x) ` set (ota_job_nodes d)"
    by (simp add: d'_eq set_update_where cong: image_cong)
  then have rows: "set (ota_job_nodes d') = insert (?f jn) (set (ota_job_nodes d) - {jn})" using jn(1) by auto
  have "jn_status (?f jn) \<noteq> jn_status jn" using op st(2,3) by (auto simp: is_open_def)
  then have changed: "?f jn \<noteq> jn" by metis
  have "is_open nid d' x \<longleftrightarrow> is_open nid d x \<and> x \<noteq> jn" for x
    unfolding is_open_def rows using st(2,3) changed by (auto simp: d'_eq)
  then show "Collect (is_open nid d') = Collect (is_open nid d) - {jn}" by blast
  have "select (\<lambda>j. jn_node_id j \<noteq> nid) (map (\<lambda>j. if jn_id j = jn_id jn then ?f j else j) xs) =
      select (\<lambda>j. jn_node_id j \<noteq> nid) xs" if "set xs \<subseteq> set (ota_job_nodes d)" for xs
    using that same jn(2) by (induction xs) (auto simp: select_def)
  then show "select (\<lambda>j. jn_node_id j \<noteq> nid) (ota_job_nodes d') = select (\<lambda>j. jn_node_id j \<noteq> nid) (ota_job_nodes d)"
    by (simp add: d'_eq update_where_def)
qed

lemma finite_open: "finite (Collect (is_open nid d))"
  by (rule finite_subset [of _ "set (ota_job_nodes d)"]) (auto simp: is_open_def)

lemma update_loop_ends:
  assumes "db_ok d" "\<forall>j \<in> set (ota_jobs d). job_id j < 2 ^ 128" "card (Collect (is_open nid d)) \<le> k"
    and up: "\<And>key. \<exists>url. signed_download_url ST (minio_bucket_ota S) key tok = Inr url"
    and st: "fits 32 st" "st \<noteq> ''pending''" "st \<noteq> ''in-progress''"
  shows "\<exists>d'. update_loop (Suc k) S ST clk tok nid st d = Some d' \<and> Collect (is_open nid d') = {} \<and>
    select (\<lambda>j. jn_node_id j \<noteq> nid) (ota_job_nodes d') = select (\<lambda>j. jn_node_id j \<noteq> nid) (ota_job_nodes d)"
  using assms(1-3)
proof (induction k arbitrary: d)
  case 0
  then have "Collect (is_open nid d) = {}" using finite_open by simp
  then show ?case using fetch_wait [OF no_open_assignments, of nid d S ST tok] by auto
next
  case (Suc k)
  show ?case
  proof (cases "open_assignments nid d = []")
    case True
    have "Collect (is_open nid d) = {}" using open_assignments_complete [OF Suc.prems(1)] True by fastforce
    then show ?thesis using fetch_wait [OF True, of S ST tok] by simp
  next
    case False
    obtain out where out: "fetch_pending_for_node S ST tok nid d = Inr out"
      using fetch_total [where nid = nid and d = d, OF up] by blast
    have busy: "out \<noteq> wait_form" using fetch_not_wait [OF False] out by metis
    from fetch_form [OF out this] obtain jn i url where op: "is_open nid d jn" and form: "out = job_form jn i url"
      using open_assignments_sound by metis
    let ?d = "snd (update_status clk nid (JStr (str_uuid (jn_job_id jn))) (JStr st) JNull d)"
    note r = update_round [OF Suc.prems(1,2) op st refl, of clk]
    have "card (Collect (is_open nid ?d)) \<le> k"
      using Suc.prems(3) op finite_open [of nid d] by (simp add: r(2))
    from Suc.IH [OF update_status_ok [OF Suc.prems(1)] _ this] Suc.prems(2) obtain d' where
      "update_loop (Suc k) S ST clk tok nid st ?d = Some d'" "Collect (is_open nid d') = {}"
      "select (\<lambda>j. jn_node_id j \<noteq> nid) (ota_job_nodes d') = select (\<lambda>j. jn_node_id j \<noteq> nid) (ota_job_nodes d)"
      unfolding r by blast
    then show ?thesis
      unfolding update_loop.simps(2) [of "Suc k"] out by (simp add: busy form get_job_form del: update_loop.simps)
  qed
qed

text \<open>
  C25: updates come to an end.  A node that keeps fetching firmware and reporting a final status under
  the identifier it was given is told to wait after at most as many rounds as it has open
  assignments, provided the storage signs its URLs.  Then it has no open assignment left, and those
  of the other nodes are as they were.
\<close>

theorem updates_end:
  assumes "db_ok d" "\<forall>j \<in> set (ota_jobs d). job_id j < 2 ^ 128"
    and "\<And>key. \<exists>url. signed_download_url ST (minio_bucket_ota S) key tok = Inr url"
    and "fits 32 st" "st \<noteq> ''pending''" "st \<noteq> ''in-progress''"
  shows "\<exists>d'. update_loop (Suc (card (Collect (is_open nid d)))) S ST clk tok nid st d = Some d' \<and>
    fetch_pending_for_node S ST tok nid d' = Inr wait_form \<and>
    select (\<lambda>j. jn_node_id j \<noteq> nid) (ota_job_nodes d') = select (\<lambda>j. jn_node_id j \<noteq> nid) (ota_job_nodes d)"
proof -
  obtain d' where d': "update_loop (Suc (card (Collect (is_open nid d)))) S ST clk tok nid st d = Some d'"
      "Collect (is_open nid d') = {}"
      "select (\<lambda>j. jn_node_id j \<noteq> nid) (ota_job_nodes d') = select (\<lambda>j. jn_node_id j \<noteq> nid) (ota_job_nodes d)"
    using update_loop_ends [OF assms(1,2) order_refl assms(3-6)] by blast
  then have "fetch_pending_for_node S ST tok nid d' = Inr wait_form"
    by (intro fetch_wait no_open_assignments) auto
  with d' show ?thesis by blast
qed

text \<open>
  The user-side status of a node that is in two jobs is an uncaught \<open>MultipleResultsFound\<close>
  (500), although the query asks for the newest assignment first.
\<close>

theorem ota_status_two_jobs:
  assumes "create_job clk jid jids now nm img nids rp cb d = (Inr j1, d1)" "JStr n \<in> set nids"
    and "create_job clk' jid' jids' now' nm' img' nids' rp' cb' d1 = (Inr j2, d2)" "JStr n \<in> set nids'"
  shows "get_status_for_node n d2 = Inl (Uncaught MultipleResultsFound)"
proof -
  have "1 \<le> length (filter (\<lambda>v. v = JStr n) vs)" if "JStr n \<in> set vs" for vs
    using that by (induction vs) auto
  from this [OF assms(2)] this [OF assms(4)] create_job_count [OF assms(1), of n] create_job_count [OF assms(3), of n]
  have "2 \<le> length (order_by_desc jn_created_at (select (\<lambda>j. jn_node_id j = n) (ota_job_nodes d2)))"
    by simp
  then have "scalar_one_or_none (order_by_desc jn_created_at (select (\<lambda>j. jn_node_id j = n) (ota_job_nodes d2))) =
      Inl (Uncaught MultipleResultsFound)" by simp
  then show ?thesis by (simp only: get_status_for_node_def sum.case)
qed

definition ota_db1 :: db where
  "ota_db1 = snd (create_job (\<lambda>i. 0) 100 (\<lambda>i. 200 + i) 0 (JStr ''job'') 7 [JStr ''n1''] JNull None ota_db)"

definition ota_db2 :: db where
  "ota_db2 = snd (create_job (\<lambda>i. 5) 101 (\<lambda>i. 300 + i) 5 (JStr ''job'') 7 [JStr ''n1''] JNull None ota_db1)"

lemmas ota_db_defs =
  create_job_def Let_def find_image_def select_def ota_db_def empty_db_def ready_image_def insert_job_def
  insert_row_def job_cols_def job_refs_def job_clash_def insert_job_node_def job_node_cols_def
  job_node_refs_def job_node_clash_def fits_def present_def Node_def or_empty_def

lemma ota_db1_step:
  "\<exists>job. create_job (\<lambda>i. 0) 100 (\<lambda>i. 200 + i) 0 (JStr ''job'') 7 [JStr ''n1''] JNull None ota_db = (Inr job, ota_db1)"
  by (simp add: ota_db1_def ota_db_defs)

lemma ota_db2_step:
  "\<exists>job. create_job (\<lambda>i. 5) 101 (\<lambda>i. 300 + i) 5 (JStr ''job'') 7 [JStr ''n1''] JNull None ota_db1 = (Inr job, ota_db2)"
  by (simp add: ota_db1_def ota_db2_def ota_db_defs)

lemma ota_db2_ok: "db_ok ota_db2"
  by (simp add: ota_db2_def ota_db1_def create_job_ok)

theorem updates_end_witness:
  "\<exists>d'. update_loop (Suc (card (Collect (is_open ''n1'' ota_db2)))) default_settings LocalStubStorage (\<lambda>i. 9) ''t'' ''n1''
       ''success'' ota_db2 = Some d' \<and>
     fetch_pending_for_node default_settings LocalStubStorage ''t'' ''n1'' d' = Inr wait_form \<and>
     select (\<lambda>j. jn_node_id j \<noteq> ''n1'') (ota_job_nodes d') = select (\<lambda>j. jn_node_id j \<noteq> ''n1'') (ota_job_nodes ota_db2)"
  by (rule updates_end [OF ota_db2_ok])
    (simp_all add: ota_db2_def ota_db1_def ota_db_defs LocalStubStorage_def)

theorem ota_status_two_jobs_witness:
  "get_status_for_node ''n1'' ota_db2 = Inl (Uncaught MultipleResultsFound)"
proof -
  obtain a where a: "create_job (\<lambda>i. 0) 100 (\<lambda>i. 200 + i) 0 (JStr ''job'') 7 [JStr ''n1''] JNull None ota_db = (Inr a, ota_db1)"
    using ota_db1_step by blast
  obtain b where b: "create_job (\<lambda>i. 5) 101 (\<lambda>i. 300 + i) 5 (JStr ''job'') 7 [JStr ''n1''] JNull None ota_db1 = (Inr b, ota_db2)"
    using ota_db2_step by blast
  show ?thesis by (rule ota_status_two_jobs [OF a _ b]) simp_all
qed

end
