(* ===== verification/Tsdata.thy ===== *)
theory Tsdata
  imports Schema PyNum
begin

text \<open>
  \<open>app/services/tsdata.py\<close>: ingestion and query of time series.  The four typed value columns and
  the discriminator are those of the table; the bucketed aggregation of TimescaleDB is a parameter,
  \<open>time_bucket\<close>, which gets the aggregate, the value column, the width, the matching rows and the
  limit.  A \<open>ValueError\<close> of the service carries its text, since the route puts it into the response.
\<close>

datatype raised = RValue string | ROther pyexc

type_synonym bucket_query =
  "string \<Rightarrow> string \<Rightarrow> datetime \<Rightarrow> tsdata_row list \<Rightarrow> int \<Rightarrow> pyexc + (datetime \<times> json) list"

section \<open>Intervals\<close>

definition unit_of :: "char \<Rightarrow> int option" where
  "unit_of c = (if c = CHR ''s'' then Some (seconds 1) else if c = CHR ''m'' then Some (minutes 1)
     else if c = CHR ''h'' then Some (hours 1) else if c = CHR ''d'' then Some (days 1) else None)"

text \<open>
  \<open>_parse_interval\<close>: the pattern \<open>^(\d+)([smhd])$\<close> on the stripped text.  The four \<open>timedelta\<close>s of
  the dict are all built, so the limit of \<open>timedelta(days=n)\<close>, 999999999, applies to every unit.
\<close>

definition parse_interval :: "pyrt \<Rightarrow> string \<Rightarrow> raised + datetime" where
  "parse_interval R spec =
     (let t = py_strip spec;
          digits = butlast t
      in if t = [] \<or> unit_of (last t) = None \<or> digits = [] \<or> \<not> list_all (\<lambda>c. dec_digit c \<noteq> None) digits
         then Inl (RValue (''Invalid interval: '' @ repr_json R (JStr spec)))
         else if too_many_digits digits then Inl (RValue (digits_error R digits))
         else case dec_scan 0 False digits of
           None \<Rightarrow> Inl (ROther ValueError)
         | Some n \<Rightarrow>
             if 999999999 < n then Inl (ROther OverflowError)
             else Inr (int n * the (unit_of (last t))))"

section \<open>Insertion\<close>

definition coerce ::
  "pyrt \<Rightarrow> json \<Rightarrow> json \<Rightarrow> pyexc + int option \<times> pyfloat option \<times> bool option \<times> string option" where
  "coerce R dt v =
     (if dt = JStr ''int'' then map_sum id (\<lambda>i. (Some i, None, None, None)) (py_int v)
      else case dt of
        JArr xs \<Rightarrow> Inl TypeError
      | JObj d \<Rightarrow> Inl TypeError
      | _ \<Rightarrow>
        if dt = JStr ''float'' \<or> dt = JStr ''number''
        then map_sum id (\<lambda>f. (None, Some f, None, None)) (py_float R v)
        else if dt = JStr ''bool'' then Inr (None, None, Some (truthy v), None)
        else Inr (None, None, None, Some (py_str R v)))"

definition value_column :: "string \<Rightarrow> string" where
  "value_column dt =
     (if dt = ''int'' then ''value_int'' else if dt = ''float'' \<or> dt = ''number'' then ''value_float''
      else if dt = ''bool'' then ''value_bool'' else ''value_str'')"

primrec coerce_all ::
  "pyrt \<Rightarrow> json \<Rightarrow> (datetime \<times> json) list \<Rightarrow>
     pyexc + (datetime \<times> int option \<times> pyfloat option \<times> bool option \<times> string option) list" where
  "coerce_all R dt [] = Inr []"
| "coerce_all R dt (p # ps) =
     (case coerce R dt (snd p) of
        Inl e \<Rightarrow> Inl e
      | Inr c \<Rightarrow> map_sum id (\<lambda>rest. (fst p, c) # rest) (coerce_all R dt ps))"

definition int8 :: "int \<Rightarrow> bool" where
  "int8 i \<longleftrightarrow> - (2 ^ 63) \<le> i \<and> i < 2 ^ 63"

definition tsdata_cols :: "tsdata_row \<Rightarrow> bool" where
  "tsdata_cols r \<longleftrightarrow> fits 64 (ts_node_id r) \<and> fits 64 (ts_device_name r) \<and> fits 64 (ts_param_name r) \<and>
     fits 16 (ts_data_type r) \<and> (case ts_value_int r of None \<Rightarrow> True | Some i \<Rightarrow> int8 i)"

definition tsdata_of ::
  "string \<Rightarrow> string \<Rightarrow> string \<Rightarrow> string \<Rightarrow>
     datetime \<times> int option \<times> pyfloat option \<times> bool option \<times> string option \<Rightarrow> tsdata_row" where
  "tsdata_of nid dev par dt p = (case p of (t, i, f, b, s) \<Rightarrow>
     \<lparr>ts_ts = t, ts_node_id = nid, ts_device_name = dev, ts_param_name = par, ts_data_type = dt,
      ts_value_int = i, ts_value_float = f, ts_value_bool = b, ts_value_str = s\<rparr>)"

definition insert_tsdata ::
  "pyrt \<Rightarrow> string \<Rightarrow> string \<Rightarrow> string \<Rightarrow> json \<Rightarrow> (datetime \<times> json) list \<Rightarrow> db \<Rightarrow> nat result \<times> db" where
  "insert_tsdata R node_id device_name param_name data_type points d =
     (if points = [] then (Inr 0, d)
      else attempt d (lift_exc (coerce_all R data_type points)) (\<lambda>coerced.
        case data_type of
          JStr dt \<Rightarrow>
            let rows = map (tsdata_of node_id device_name param_name dt) coerced in
            if list_all tsdata_cols rows
            then (Inr (length rows), d\<lparr>tsdata := tsdata d @ rows\<rparr>)
            else (Inl (Uncaught DataError), d)
        | JNull \<Rightarrow> (Inl (Uncaught IntegrityError), d)
        | _ \<Rightarrow> (Inl (Uncaught DataError), d)))"

section \<open>Queries\<close>

definition series :: "string \<Rightarrow> string \<Rightarrow> string \<Rightarrow> db \<Rightarrow> tsdata_row list" where
  "series nid dev par d =
     select (\<lambda>r. ts_node_id r = nid \<and> ts_device_name r = dev \<and> ts_param_name r = par) (tsdata d)"

definition column_value :: "string \<Rightarrow> tsdata_row \<Rightarrow> json" where
  "column_value col r =
     (if col = ''value_int'' then (case ts_value_int r of None \<Rightarrow> JNull | Some i \<Rightarrow> JInt i)
      else if col = ''value_float'' then (case ts_value_float r of None \<Rightarrow> JNull | Some f \<Rightarrow> JFloat f)
      else if col = ''value_bool'' then (case ts_value_bool r of None \<Rightarrow> JNull | Some b \<Rightarrow> JBool b)
      else (case ts_value_str r of None \<Rightarrow> JNull | Some s \<Rightarrow> JStr s))"

definition sql_aggregate :: "string \<Rightarrow> string option" where
  "sql_aggregate a = (let l = py_lower a in
     if l = ''avg'' then Some ''AVG'' else if l = ''min'' then Some ''MIN''
     else if l = ''max'' then Some ''MAX'' else if l = ''sum'' then Some ''SUM'' else None)"

definition record_view :: "datetime \<Rightarrow> json \<Rightarrow> dict" where
  "record_view t v = [(''t'', JInt (t div 1000000)), (''v'', v)]"

definition query_tsdata ::
  "pyrt \<Rightarrow> bucket_query \<Rightarrow> string \<Rightarrow> string \<Rightarrow> datetime \<Rightarrow> datetime \<Rightarrow> string option \<Rightarrow> string option \<Rightarrow>
     int \<Rightarrow> db \<Rightarrow> raised + dict list"
where
  "query_tsdata R B node_id param start_time end_time aggregate aggregate_interval limit d =
     (if CHR ''.'' \<notin> set param then Inl (RValue ''param must be `Device.param`'')
      else
        let device_name = hd (py_split (CHR ''.'') 1 param);
            param_name = last (py_split (CHR ''.'') 1 param);
            all_rows = series node_id device_name param_name d;
            dt = (case first (order_by_desc ts_ts all_rows) of None \<Rightarrow> ''int'' | Some r \<Rightarrow> ts_data_type r);
            value_col = value_column dt;
            hits = filter (\<lambda>r. start_time \<le> ts_ts r \<and> ts_ts r \<le> end_time) all_rows
        in if str_truthy aggregate \<and> str_truthy aggregate_interval
           then case parse_interval R (the aggregate_interval) of
             Inl e \<Rightarrow> Inl e
           | Inr delta \<Rightarrow>
               (case sql_aggregate (the aggregate) of
                  None \<Rightarrow> Inl (RValue (''Unsupported aggregate '' @ the aggregate))
                | Some agg \<Rightarrow>
                    (case B agg value_col delta hits limit of
                       Inl e \<Rightarrow> Inl (ROther e)
                     | Inr rows \<Rightarrow> Inr (map (\<lambda>(t, v). record_view t v) rows)))
           else if limit < 0 then Inl (ROther DataError)
           else Inr (map (\<lambda>r. record_view (ts_ts r) (column_value value_col r))
                  (take (nat limit) (order_by_asc ts_ts hits))))"

section \<open>Integrity\<close>

lemma db_ok_tsdata [simp]: "db_ok (d\<lparr>tsdata := rows\<rparr>) = db_ok d"
  by (simp add: db_ok_def keys_ok_def foreign_ok_def refs_defs)

lemma insert_tsdata_ok [store_ok]: "db_ok d \<Longrightarrow> db_ok (snd (insert_tsdata R nid dev par dt pts d))"
  by (auto simp: insert_tsdata_def Let_def split: attempt_splits json.splits)

section \<open>Parsing intervals\<close>

lemma unit_not_space: "unit_of c \<noteq> None \<Longrightarrow> \<not> is_space c"
  by (auto simp: unit_of_def is_space_def code_point_def split: if_splits)

lemma digit_not_space: "dec_digit c \<noteq> None \<Longrightarrow> \<not> is_space c"
  by (auto simp: dec_digit_def is_space_def Let_def split: if_splits)

lemma nat_str_nonempty [simp]: "nat_str n \<noteq> []"
  by (subst nat_str.simps) simp

lemma py_strip_id: "s \<noteq> [] \<Longrightarrow> \<not> is_space (hd s) \<Longrightarrow> \<not> is_space (last s) \<Longrightarrow> py_strip s = s"
proof -
  assume s: "s \<noteq> []" "\<not> is_space (hd s)" "\<not> is_space (last s)"
  then have "dropWhile is_space s = s" by (cases s) auto
  moreover have "dropWhile is_space (rev s) = rev s"
    using s by (cases s rule: rev_cases) simp_all
  ultimately show ?thesis by (simp add: py_strip_def)
qed

lemma interval_text_strip:
  assumes "unit_of u \<noteq> None"
  shows "py_strip (nat_str n @ [u]) = nat_str n @ [u]"
proof (rule py_strip_id)
  have "hd (nat_str n) \<in> set (nat_str n)" by simp
  then show "\<not> is_space (hd (nat_str n @ [u]))"
    using nat_str_dec [of n] digit_not_space by (simp add: list_all_iff del: not_None_eq)
qed (use unit_not_space [OF assms] in simp_all)

lemma nat_str_few_digits:
  assumes "n < 10 ^ 18"
  shows "\<not> too_many_digits (nat_str n)"
proof -
  from assms have "length (nat_str n) \<le> 18" using nat_str_length [of n 17] by simp
  then show ?thesis
    using length_filter_le [of "\<lambda>c. dec_digit c \<noteq> None" "nat_str n"]
    unfolding too_many_digits_def by linarith
qed

section \<open>Reading back\<close>

lemma coerce_all_ints:
  "coerce_all R (JStr ''int'') (map (\<lambda>(t, i). (t, JInt i)) pts) =
     Inr (map (\<lambda>(t, i). (t, Some i, None, None, None)) pts)"
  by (induction pts) (auto simp: coerce_def)

lemma series_append:
  "series nid dev par (d\<lparr>tsdata := tsdata d @ rows\<rparr>) = series nid dev par d @
     select (\<lambda>r. ts_node_id r = nid \<and> ts_device_name r = dev \<and> ts_param_name r = par) rows"
  by (simp add: series_def select_def)

lemma first_in: "rows \<noteq> [] \<Longrightarrow> \<exists>r \<in> set rows. first rows = Some r"
  by (cases rows) auto

lemma latest_type:
  assumes "rows \<noteq> []" "\<forall>r \<in> set rows. ts_data_type r = dt"
  shows "(case first (order_by_desc ts_ts rows) of None \<Rightarrow> x | Some r \<Rightarrow> ts_data_type r) = dt"
proof -
  have "order_by_desc ts_ts rows \<noteq> []"
    using assms(1) length_order_by(2) [of ts_ts rows] by (metis length_0_conv)
  then obtain r where "r \<in> set (order_by_desc ts_ts rows)" "first (order_by_desc ts_ts rows) = Some r"
    using first_in by blast
  with assms(2) show ?thesis by simp
qed

lemma order_by_asc_map:
  "order_by_asc ts_ts (map f xs) = map f (sort_key (\<lambda>x. ts_ts (f x)) xs)"
proof -
  have "insort_key ts_ts (f x) (map f ys) = map f (insort_key (\<lambda>x. ts_ts (f x)) x ys)" for x ys
    by (induction ys) auto
  then have "sort_key ts_ts (map f xs) = map f (sort_key (\<lambda>x. ts_ts (f x)) xs)"
    by (induction xs) (auto simp: sort_key_def)
  then show ?thesis by (simp add: order_by_asc_def)
qed

lemma split_param: "CHR ''.'' \<notin> set dev \<Longrightarrow> py_split (CHR ''.'') 1 (dev @ CHR ''.'' # par) = [dev, par]"
  using py_split_here [of "CHR ''.''" dev 0 par] by simp

text \<open>An ingestion of integer points, taken apart.\<close>

lemma insert_ints:
  assumes "fits 64 nid" "fits 64 dev" "fits 64 par" "list_all (\<lambda>p. int8 (snd p)) pts" "pts \<noteq> []"
  shows "insert_tsdata R nid dev par (JStr ''int'') (map (\<lambda>(t, i). (t, JInt i)) pts) d =
    (Inr (length pts), d\<lparr>tsdata := tsdata d @
       map (\<lambda>(t, i). tsdata_of nid dev par ''int'' (t, Some i, None, None, None)) pts\<rparr>)"
proof -
  have rows: "map (tsdata_of nid dev par ''int'') (map (\<lambda>(t, i). (t, Some i, None, None, None)) pts) =
      map (\<lambda>(t, i). tsdata_of nid dev par ''int'' (t, Some i, None, None, None)) pts"
    by (simp add: case_prod_unfold)
  have "list_all tsdata_cols (map (\<lambda>(t, i). tsdata_of nid dev par ''int'' (t, Some i, None, None, None)) pts)"
    using assms by (auto simp: list_all_iff tsdata_cols_def tsdata_of_def fits_def)
  with assms(5) show ?thesis
    by (simp add: insert_tsdata_def coerce_all_ints Let_def rows del: map_map)
qed

lemma sort_take_sorted: "sorted (map k (take m (sort_key k xs)))"
  by (simp add: sorted_wrt_take take_map [symmetric])

lemma record_time [simp]: "get (record_view t v) ''t'' = JInt (t div 1000000)"
  by (simp add: record_view_def get_or_def)

definition record_seconds :: "dict \<Rightarrow> int" where
  "record_seconds r = (case get r ''t'' of JInt t \<Rightarrow> t | _ \<Rightarrow> 0)"

lemma record_seconds_view [simp]: "record_seconds (record_view t v) = t div 1000000"
  by (simp add: record_seconds_def)

text \<open>A plain query in terms of its page.\<close>

lemma query_page:
  assumes "query_tsdata R B nid param t0 t1 None iv limit d = Inr records"
  obtains f rows where "0 \<le> limit" "records = map (\<lambda>r. record_view (ts_ts r) (f r)) rows" "length rows \<le> nat limit"
    "\<forall>r \<in> set rows. r \<in> set (tsdata d) \<and> ts_node_id r = nid \<and> t0 \<le> ts_ts r \<and> ts_ts r \<le> t1" "sorted (map ts_ts rows)"
proof -
  define rows where "rows = take (nat limit) (order_by_asc ts_ts (filter (\<lambda>r. t0 \<le> ts_ts r \<and> ts_ts r \<le> t1)
     (series nid (hd (py_split (CHR ''.'') 1 param)) (last (py_split (CHR ''.'') 1 param)) d)))"
  obtain f where lim: "0 \<le> limit" and rec: "records = map (\<lambda>r. record_view (ts_ts r) (f r)) rows"
    using assms by (auto simp: query_tsdata_def Let_def str_truthy_def rows_def split: if_split_asm)
  have "set rows \<subseteq> set (filter (\<lambda>r. t0 \<le> ts_ts r \<and> ts_ts r \<le> t1)
     (series nid (hd (py_split (CHR ''.'') 1 param)) (last (py_split (CHR ''.'') 1 param)) d))"
    unfolding rows_def using set_take_subset by (fastforce simp: order_by_asc_def)
  moreover have "sorted (map ts_ts rows)" by (simp add: rows_def order_by_asc_def sort_take_sorted)
  ultimately show thesis
    by (intro that [OF lim rec]) (auto simp: rows_def series_def)
qed

definition sample_bucket :: bucket_query where
  "sample_bucket agg col delta rows n = Inr []"

section \<open>Properties\<close>

text \<open>
  The interval syntax, printed and parsed: a decimal number followed by \<open>s\<close>, \<open>m\<close>, \<open>h\<close> or
  \<open>d\<close> parses to that many units, up to 999999999; a larger number raises \<open>OverflowError\<close> for every
  unit, seconds included, since the code builds the day-valued \<open>timedelta\<close> in any case.
\<close>

theorem parse_interval_print:
  assumes "unit_of u = Some w" and "n < 10 ^ 18"
  shows "parse_interval R (nat_str n @ [u]) =
    (if n \<le> 999999999 then Inr (int n * w) else Inl (ROther OverflowError))"
proof -
  have strip: "py_strip (nat_str n @ [u]) = nat_str n @ [u]"
    by (rule interval_text_strip) (use assms in simp)
  show ?thesis
    unfolding parse_interval_def strip Let_def
    using assms nat_str_dec [of n] nat_str_few_digits [OF assms(2)] dec_scan_nat_str [of n]
    by (simp del: not_None_eq)
qed

theorem parse_interval_print_witness:
  "parse_interval sample_rt (nat_str 90 @ ''m'') = Inr (minutes 90) \<and>
   parse_interval sample_rt (nat_str 1000000000 @ ''s'') = Inl (ROther OverflowError)"
  using parse_interval_print [of "CHR ''m''" "minutes 1" 90 sample_rt]
    parse_interval_print [of "CHR ''s''" "seconds 1" 1000000000 sample_rt]
  by (simp add: unit_of_def)

text \<open>
  C36: what was ingested is what is queried.  Integer points reported for a fresh series are all
  stored, and a plain query over a range returns exactly the points in the range, oldest first, up
  to the limit, each with its time in whole seconds and its value; the series of other nodes and
  parameters are unchanged.
\<close>

theorem ingest_then_query:
  assumes fit: "fits 64 nid" "fits 64 dev" "fits 64 par" "CHR ''.'' \<notin> set dev"
    and pts: "pts \<noteq> []" "list_all (\<lambda>p. int8 (snd p)) pts" and new: "series nid dev par d = []"
    and lim: "0 \<le> limit"
  shows "\<exists>d'. insert_tsdata R nid dev par (JStr ''int'') (map (\<lambda>(t, i). (t, JInt i)) pts) d =
      (Inr (length pts), d') \<and>
    query_tsdata R B nid (dev @ CHR ''.'' # par) from till None iv limit d' =
      Inr (map (\<lambda>(t, i). record_view t (JInt i)) (take (nat limit)
        (sort_key fst (filter (\<lambda>(t, i). from \<le> t \<and> t \<le> till) pts)))) \<and>
    (\<forall>n e p. (n, e, p) \<noteq> (nid, dev, par) \<longrightarrow> series n e p d' = series n e p d)"
proof -
  let ?row = "\<lambda>(t, i). tsdata_of nid dev par ''int'' (t, Some i, None, None, None)"
  let ?d' = "d\<lparr>tsdata := tsdata d @ map ?row pts\<rparr>"
  have mine: "ts_node_id (?row p) = nid \<and> ts_device_name (?row p) = dev \<and> ts_param_name (?row p) = par \<and>
      ts_data_type (?row p) = ''int'' \<and> ts_ts (?row p) = fst p" for p
    by (cases p) (simp add: tsdata_of_def)
  have ser: "series nid dev par ?d' = map ?row pts"
    unfolding series_append new using mine by (simp add: select_def filter_map comp_def)
  have others: "series n e p ?d' = series n e p d" if "(n, e, p) \<noteq> (nid, dev, par)" for n e p
    unfolding series_append using mine that by (auto simp: select_def filter_map comp_def filter_empty_conv)
  have dt: "(case first (order_by_desc ts_ts (map ?row pts)) of None \<Rightarrow> ''int'' | Some r \<Rightarrow> ts_data_type r) = ''int''"
    by (rule latest_type) (use pts(1) mine in auto)
  have hits: "filter (\<lambda>r. from \<le> ts_ts r \<and> ts_ts r \<le> till) (map ?row pts) =
      map ?row (filter (\<lambda>(t, i). from \<le> t \<and> t \<le> till) pts)"
    using mine by (simp add: filter_map comp_def case_prod_unfold)
  have view: "record_view (ts_ts (?row p)) (column_value ''value_int'' (?row p)) =
      (\<lambda>(t, i). record_view t (JInt i)) p" for p
    by (cases p) (simp add: tsdata_of_def column_value_def)
  have key: "(\<lambda>x. ts_ts (?row x)) = fst" using mine by auto
  have "query_tsdata R B nid (dev @ CHR ''.'' # par) from till None iv limit ?d' =
      Inr (map (\<lambda>(t, i). record_view t (JInt i)) (take (nat limit)
        (sort_key fst (filter (\<lambda>(t, i). from \<le> t \<and> t \<le> till) pts))))"
    unfolding query_tsdata_def Let_def split_param [OF fit(4)] list.sel last.simps
    using lim
    by (simp add: ser dt hits value_column_def str_truthy_def order_by_asc_map key take_map view comp_def)
  with insert_ints [OF fit(1-3) pts(2,1), of R d] others show ?thesis by blast
qed

theorem ingest_then_query_witness:
  "\<exists>d'. insert_tsdata sample_rt ''n1'' ''Temp'' ''c'' (JStr ''int'') (map (\<lambda>(t, i). (t, JInt i))
      [(seconds 20, 7), (seconds 10, 5)]) empty_db = (Inr (length [(seconds 20, 7 :: int), (seconds 10, 5)]), d') \<and>
    query_tsdata sample_rt sample_bucket ''n1'' (''Temp'' @ CHR ''.'' # ''c'') 0 (seconds 60) None None 200 d' =
      Inr (map (\<lambda>(t, i). record_view t (JInt i)) (take (nat 200)
        (sort_key fst (filter (\<lambda>(t, i). 0 \<le> t \<and> t \<le> seconds 60) [(seconds 20, 7), (seconds 10, 5)])))) \<and>
    (\<forall>n e p. (n, e, p) = (''n1'', ''Temp'', ''c'') \<or> series n e p d' = series n e p empty_db)"
  using ingest_then_query [of "''n1''" "''Temp''" "''c''" "[(seconds 20, 7), (seconds 10, 5)]" empty_db 200 sample_rt sample_bucket 0
      "seconds 60" None]
  by (simp add: fits_def int8_def series_def select_def empty_db_def) blast

end
