(* ===== verification/Http.thy ===== *)
theory Http
  imports Deps Claim Ota Tsdata
begin

text \<open>
  What every route shares.  A \<open>world\<close> is what a request draws from outside the repository's code: the
  libraries, the settings, the readings of the clock and the random draws.  A \<open>request\<close> is what
  FastAPI hands to a route once the path is matched and the JSON body parsed.  A route is a function
  of both that returns the body of its 200 response or the exception that leaves it, with the store.
  The helpers are FastAPI's dependencies and validations: the dependencies run first, so that a
  request that fails to authenticate is a 401 whatever its body, and then parameters and body are
  validated (a 422).  The schemas are those of \<open>app/schemas\<close>.
\<close>

section \<open>Worlds and requests\<close>

record world =
  w_libs :: libs
  w_settings :: settings
  w_claims :: claim_libs
  w_storage :: object_storage
  w_rt :: pyrt
  w_buckets :: bucket_query
  w_clk :: "nat \<Rightarrow> datetime"
  w_now :: datetime
  w_uuid :: "nat \<Rightarrow> uuid"
  w_token :: "nat \<Rightarrow> string"
  w_bytes :: bytes
  w_bits :: nat
  w_code :: nat
  w_salt :: string
  w_isoformat :: "datetime \<Rightarrow> string"
  w_query_int :: "string \<Rightarrow> int option"
  w_query_bool :: "string \<Rightarrow> bool option"

record request =
  rq_authorization :: "string option"
  rq_client_cn :: "string option"
  rq_path :: "(string \<times> string) list"
  rq_query :: "(string \<times> string) list"
  rq_body :: "json option"

type_synonym handler = "world \<Rightarrow> request \<Rightarrow> db \<Rightarrow> dict result \<times> db"

text \<open>The clock after the reading that the authentication made.\<close>

definition later :: "world \<Rightarrow> nat \<Rightarrow> datetime" where
  "later W i = w_clk W (i + 1)"

section \<open>Dependencies and validation\<close>

definition with_user :: "world \<Rightarrow> request \<Rightarrow> db \<Rightarrow> (user \<Rightarrow> 'a result \<times> db) \<Rightarrow> 'a result \<times> db" where
  "with_user W rq d k =
     attempt d (get_current_user (w_libs W) (w_settings W) (w_clk W 0) (rq_authorization rq) d) k"

definition with_admin :: "world \<Rightarrow> request \<Rightarrow> db \<Rightarrow> (user \<Rightarrow> 'a result \<times> db) \<Rightarrow> 'a result \<times> db" where
  "with_admin W rq d k =
     attempt d (require_admin (w_libs W) (w_settings W) (w_clk W 0) (rq_authorization rq) d) k"

definition with_node :: "request \<Rightarrow> db \<Rightarrow> (node \<Rightarrow> 'a result \<times> db) \<Rightarrow> 'a result \<times> db" where
  "with_node rq d k = attempt d (get_node_from_mtls (rq_client_cn rq) d) k"

text \<open>\<open>valid\<close> is a validated parameter or body; a failure is FastAPI's 422.\<close>

definition valid :: "db \<Rightarrow> 'b option \<Rightarrow> ('b \<Rightarrow> 'a result \<times> db) \<Rightarrow> 'a result \<times> db" where
  "valid d v k = (case v of None \<Rightarrow> (Inl Validation, d) | Some x \<Rightarrow> k x)"

text \<open>\<open>payload: dict[str, Any]\<close>\<close>

definition json_object :: "request \<Rightarrow> dict option" where
  "json_object rq = (case rq_body rq of Some (JObj p) \<Rightarrow> Some p | _ \<Rightarrow> None)"

text \<open>Of a repeated query parameter the last value counts.\<close>

definition query :: "request \<Rightarrow> string \<Rightarrow> string option" where
  "query rq k = map_of (rev (rq_query rq)) k"

definition query_opt :: "request \<Rightarrow> string \<Rightarrow> (string \<Rightarrow> 'b option) \<Rightarrow> 'b \<Rightarrow> 'b option" where
  "query_opt rq k parse dflt = (case query rq k of None \<Rightarrow> Some dflt | Some s \<Rightarrow> parse s)"

definition query_req :: "request \<Rightarrow> string \<Rightarrow> (string \<Rightarrow> 'b option) \<Rightarrow> 'b option" where
  "query_req rq k parse = Option.bind (query rq k) parse"

definition path_param :: "request \<Rightarrow> string \<Rightarrow> string" where
  "path_param rq k = (case map_of (rq_path rq) k of None \<Rightarrow> [] | Some s \<Rightarrow> s)"

text \<open>A value of the body where the service binds it, first of all, to a string column.\<close>

definition as_text :: "db \<Rightarrow> pyexc \<Rightarrow> json \<Rightarrow> (string \<Rightarrow> 'a result \<times> db) \<Rightarrow> 'a result \<times> db" where
  "as_text d e v k = (case v of JStr s \<Rightarrow> k s | _ \<Rightarrow> (Inl (Uncaught e), d))"

text \<open>A route's own \<open>return\<close> after the call of a service.\<close>

definition returning :: "'a result \<times> db \<Rightarrow> ('a \<Rightarrow> 'b) \<Rightarrow> 'b result \<times> db" where
  "returning m f = andthen m (\<lambda>x d. (Inr (f x), d))"

section \<open>Schemas\<close>

definition SuccessResponse :: "string \<Rightarrow> dict" where
  "SuccessResponse descr = [(''status'', JStr ''success''), (''description'', JStr descr)]"

text \<open>Of the other common schemas only \<open>ApiVersionsResponse\<close> is used; every error has the shape of \<open>FailureResponse\<close>.\<close>

definition FailureResponse :: "string \<Rightarrow> int \<Rightarrow> dict" where
  "FailureResponse descr code = [(''status'', JStr ''failure''), (''description'', JStr descr), (''error_code'', JInt code)]"

definition PaginatedListMeta :: "int \<Rightarrow> string option \<Rightarrow> dict" where
  "PaginatedListMeta n next_id = [(''total'', JInt n), (''next_id'', opt_str next_id)]"

definition ApiVersionsResponse :: "string list \<Rightarrow> dict \<Rightarrow> dict" where
  "ApiVersionsResponse versions info = [(''supported_versions'', JArr (map JStr versions)), (''additional_info'', JObj info)]"

text \<open>A required string, an optional one, and bounds on the length.\<close>

definition str_field :: "dict \<Rightarrow> string \<Rightarrow> string option" where
  "str_field p k = (case get p k of JStr s \<Rightarrow> Some s | _ \<Rightarrow> None)"

definition opt_field :: "dict \<Rightarrow> string \<Rightarrow> string option option" where
  "opt_field p k = (case get p k of JStr s \<Rightarrow> Some (Some s) | JNull \<Rightarrow> Some None | _ \<Rightarrow> None)"

definition bounded :: "nat \<Rightarrow> nat \<Rightarrow> string \<Rightarrow> bool" where
  "bounded lo hi s \<longleftrightarrow> lo \<le> length s \<and> length s \<le> hi"

record login_request =
  lr_user_name :: "string option"
  lr_password :: "string option"
  lr_refreshtoken :: "string option"

definition LoginRequest :: "dict \<Rightarrow> login_request option" where
  "LoginRequest p =
     (case (opt_field p ''user_name'', opt_field p ''password'', opt_field p ''refreshtoken'', opt_field p ''otp'') of
        (Some u, Some pw, Some r, Some _) \<Rightarrow>
          Some \<lparr>lr_user_name = u, lr_password = pw, lr_refreshtoken = r\<rparr>
      | _ \<Rightarrow> None)"

definition LoginResponse :: "login \<Rightarrow> dict" where
  "LoginResponse l =
     (case l of (acc, idt, refresh, ttl) \<Rightarrow>
        [(''status'', JStr ''success''), (''accesstoken'', JStr acc), (''idtoken'', JStr idt),
         (''refreshtoken'', JStr refresh), (''expires_in'', JInt ttl)])"

definition SignUpRequest :: "dict \<Rightarrow> (string \<times> string) option" where
  "SignUpRequest p =
     (case (str_field p ''user_name'', str_field p ''password'') of
        (Some u, Some pw) \<Rightarrow> if bounded 3 254 u \<and> bounded 8 128 pw then Some (u, pw) else None
      | _ \<Rightarrow> None)"

definition ConfirmSignUpRequest :: "dict \<Rightarrow> (string \<times> string) option" where
  "ConfirmSignUpRequest p =
     (case (str_field p ''user_name'', str_field p ''verification_code'') of
        (Some u, Some c) \<Rightarrow> if bounded 4 16 c then Some (u, c) else None
      | _ \<Rightarrow> None)"

definition PasswordChangeRequest :: "dict \<Rightarrow> (string \<times> string) option" where
  "PasswordChangeRequest p =
     (case (str_field p ''password'', str_field p ''newpassword'') of
        (Some old, Some new) \<Rightarrow> if bounded 8 128 new then Some (old, new) else None
      | _ \<Rightarrow> None)"

definition ForgotPasswordRequest :: "dict \<Rightarrow> (string \<times> string option \<times> string option) option" where
  "ForgotPasswordRequest p =
     (case (str_field p ''user_name'', opt_field p ''verification_code'', opt_field p ''password'') of
        (Some u, Some c, Some pw) \<Rightarrow>
          (case pw of
             Some s \<Rightarrow> if bounded 8 128 s then Some (u, c, pw) else None
           | None \<Rightarrow> Some (u, c, pw))
      | _ \<Rightarrow> None)"

definition UserUpdateRequest :: "dict \<Rightarrow> (string option \<times> string option) option" where
  "UserUpdateRequest p =
     (case (opt_field p ''full_name'', opt_field p ''phone_number'') of
        (Some n, Some ph) \<Rightarrow> Some (n, ph)
      | _ \<Rightarrow> None)"

definition UserResponse :: "user \<Rightarrow> dict" where
  "UserResponse u =
     [(''user_id'', JStr (str_uuid (usr_id u))), (''user_name'', JStr (usr_user_name u)),
      (''email'', JStr (usr_email u)), (''full_name'', opt_str (usr_full_name u)),
      (''phone_number'', opt_str (usr_phone_number u)), (''status'', JStr (usr_status u)),
      (''mfa_enabled'', JBool (usr_mfa_enabled u)), (''is_super_admin'', JBool (usr_is_super_admin u)),
      (''is_admin'', JBool (usr_is_admin u))]"

section \<open>Lemmas\<close>

lemma snd_returning [simp]: "snd (returning m f) = snd m"
  by (cases m; cases "fst m") (auto simp: returning_def)

lemma returning_simps [simp]:
  "returning (Inl e, d) f = (Inl e, d)" "returning (Inr x, d) f = (Inr (f x), d)"
  by (simp_all add: returning_def)

lemma with_user_inv:
  "P d \<Longrightarrow> (\<And>u. u \<in> set (users d) \<Longrightarrow> P (snd (k u))) \<Longrightarrow> P (snd (with_user W rq d k))"
  unfolding with_user_def by (rule attempt_inv) (auto dest: get_current_user_in)

lemma with_admin_inv:
  "P d \<Longrightarrow> (\<And>u. u \<in> set (users d) \<Longrightarrow> P (snd (k u))) \<Longrightarrow> P (snd (with_admin W rq d k))"
  unfolding with_admin_def by (rule attempt_inv) (auto dest!: require_admin_Inr get_current_user_in)

lemma with_node_inv:
  "P d \<Longrightarrow> (\<And>n. n \<in> set (nodes d) \<Longrightarrow> P (snd (k n))) \<Longrightarrow> P (snd (with_node rq d k))"
  unfolding with_node_def by (rule attempt_inv) (auto elim: get_node_from_mtls_Inr)

lemma valid_inv: "P d \<Longrightarrow> (\<And>x. v = Some x \<Longrightarrow> P (snd (k x))) \<Longrightarrow> P (snd (valid d v k))"
  by (cases v) (simp_all add: valid_def)

lemma as_text_inv: "P d \<Longrightarrow> (\<And>s. v = JStr s \<Longrightarrow> P (snd (k s))) \<Longrightarrow> P (snd (as_text d e v k))"
  by (cases v) (simp_all add: as_text_def)

lemma if_inv:
  "(b \<Longrightarrow> P (snd x)) \<Longrightarrow> (\<not> b \<Longrightarrow> P (snd y)) \<Longrightarrow> P (snd (if b then x else y))"
  by simp

lemmas route_ok = attempt_inv [where P = db_ok] andthen_inv [where P = db_ok] with_user_inv [where P = db_ok]
  with_admin_inv [where P = db_ok] with_node_inv [where P = db_ok] valid_inv [where P = db_ok]
  as_text_inv [where P = db_ok] if_inv [where P = db_ok]

lemma valid_simps [simp]: "valid d None k = (Inl Validation, d)" "valid d (Some x) k = k x"
  by (simp_all add: valid_def)

lemma as_text_JStr [simp]: "as_text d e (JStr s) k = k s"
  by (simp add: as_text_def)

lemma error_body: "rainmaker_handler (rainmaker st code descr) = (st, Some (JObj (FailureResponse descr code)))"
  by (simp add: rainmaker_def RainmakerError_def FailureResponse_def)

section \<open>A world to run examples in\<close>

text \<open>The token \<open>jwt\<close> is an access token of the user with identifier 1.\<close>

definition sample_world :: world where
  "sample_world = \<lparr>
     w_libs = sample_libs (member_claims Access), w_settings = default_settings, w_claims = sample_claim_libs,
     w_storage = LocalStubStorage, w_rt = sample_rt, w_buckets = sample_bucket,
     w_clk = (\<lambda>i. 5), w_now = 0, w_uuid = (\<lambda>i. 100 + i), w_token = (\<lambda>i. CHR ''t'' # nat_str i),
     w_bytes = [1, 2, 3], w_bits = 5, w_code = 42, w_salt = ''salt'', w_isoformat = (\<lambda>t. ''now''),
     w_query_int = (\<lambda>s. None), w_query_bool = (\<lambda>s. None)\<rparr>"

lemma sample_login:
  assumes ok: "db_ok d" and u: "u \<in> set (users d)" "usr_id u = 1" "usr_status u = ''confirmed''"
  shows "get_current_user (w_libs sample_world) (w_settings sample_world) (w_clk sample_world 0) (Some ''jwt'') d = Inr u"
proof -
  have ext: "extract_token (Some ''jwt'') = Inr ''jwt''"
    by (simp add: extract_token_def str_truthy_def py_strip_def is_space_def code_point_def py_lower_def
        lower_char_def startswith_def)
  have dec: "decode_token (sample_libs (member_claims Access)) default_settings ''jwt'' (Some Access) 5 =
      Inr (member_claims Access)"
    using decode_minted [of "[]" "sample_libs (member_claims Access)" default_settings "str_uuid 1" Access None 0 "''j''" "''jwt''"
        "seconds (ttl_for default_settings Access)" 5 Access]
    by (simp add: member_claims_def dict_ok_def mint_token_def sample_libs_def jwt_accepts_def)
  have "parse_uuid (str_uuid 1) = Inr 1" by (rule parse_str_uuid) simp
  moreover from this have "str_uuid 1 \<noteq> []" by (auto simp: parse_uuid_def strip_braces_def)
  moreover have "get (member_claims Access) ''sub'' = JStr (str_uuid 1)"
    unfolding member_claims_def by (rule get_token_claims(2)) (simp_all add: dict_ok_def)
  ultimately show ?thesis
    using find_user_by_id_known [OF ok u(1)] u
    by (simp add: get_current_user_def sample_world_def ext dec uuid_of_json_def)
qed

end
