(* ===== verification/Email.thy ===== *)
theory Email
  imports Security
begin

text \<open>
  \<open>app/services/email.py\<close>: the messages with the codes of signup and password reset.  A call that
  does not raise gives the messages it hands to the SMTP client, none in the test environment; how
  the client fares is logged and swallowed by the code, so that nothing of the caller depends on it.
\<close>

section \<open>Messages\<close>

record email =
  em_from :: string
  em_to :: string
  em_subject :: string
  em_body :: string

text \<open>
  \<open>len(s.splitlines()) > 1\<close>: the values that \<open>EmailMessage\<close> refuses as a header.
\<close>

definition is_linebreak :: "char \<Rightarrow> bool" where
  "is_linebreak c \<longleftrightarrow> code_point c \<in> {10, 11, 12, 13, 28, 29, 30, 133}"

definition many_lines :: "string \<Rightarrow> bool" where
  "many_lines s =
     (case dropWhile (\<lambda>c. \<not> is_linebreak c) s of
        [] \<Rightarrow> False
      | c # r \<Rightarrow> (if code_point c = 13 \<and> r \<noteq> [] \<and> code_point (hd r) = 10 then tl r \<noteq> [] else r \<noteq> []))"

definition send_mail :: "settings \<Rightarrow> string \<Rightarrow> string \<Rightarrow> string \<Rightarrow> email list result" where
  "send_mail S recipient subject body =
     (if env S = ''test'' then Inr []
      else if many_lines (email_from S) then Inl (Uncaught ValueError)
      else if many_lines recipient then Inl (Uncaught ValueError)
      else Inr [\<lparr>em_from = email_from S, em_to = recipient, em_subject = subject, em_body = body\<rparr>])"

definition send_confirmation_email :: "settings \<Rightarrow> string \<Rightarrow> string \<Rightarrow> email list result" where
  "send_confirmation_email S recipient code =
     send_mail S recipient ''Confirm your RainMaker account'' (''Your confirmation code is: '' @ code)"

definition send_reset_email :: "settings \<Rightarrow> string \<Rightarrow> string \<Rightarrow> email list result" where
  "send_reset_email S recipient code =
     send_mail S recipient ''Reset your RainMaker password'' (''Your password reset code is: '' @ code)"

section \<open>Lemmas\<close>

lemma send_mail_sent:
  "env S \<noteq> ''test'' \<Longrightarrow> \<not> many_lines (email_from S) \<Longrightarrow> \<not> many_lines recipient \<Longrightarrow>
     send_mail S recipient subject body =
       Inr [\<lparr>em_from = email_from S, em_to = recipient, em_subject = subject, em_body = body\<rparr>]"
  by (simp add: send_mail_def)

lemma send_mail_returns:
  "env S = ''test'' \<or> \<not> many_lines (email_from S) \<and> \<not> many_lines recipient \<Longrightarrow>
     \<exists>ms. send_mail S recipient subject body = Inr ms"
  by (auto simp: send_mail_def)

end
