(* ===== verification/RoutesAccount.thy ===== *)
theory RoutesAccount
  imports Http Email
begin

text \<open>
  \<open>app/api/v1/routes/auth.py\<close> and \<open>user.py\<close>: login, signup, password and profile routes.  A route whose
  name is a service's too has the suffix \<open>_route\<close>.
\<close>

section \<open>\<open>auth.py\<close>\<close>

definition login2 :: handler where
  "login2 W rq d =
     valid d (Option.bind (json_object rq) LoginRequest) (\<lambda>payload.
       if str_truthy (lr_refreshtoken payload) \<and> \<not> str_truthy (lr_password payload)
       then returning (login_refresh (w_libs W) (w_settings W) (w_clk W) (w_token W)
              (the (lr_refreshtoken payload)) d) LoginResponse
       else if \<not> str_truthy (lr_user_name payload) \<or> \<not> str_truthy (lr_password payload)
       then (Inl (invalid_request ''user_name and password required''), d)
       else returning (login_password (w_libs W) (w_settings W) (w_clk W) (w_token W) (w_uuid W 0)
              (the (lr_user_name payload)) (the (lr_password payload)) d) LoginResponse)"

text \<open>
  The two routes that send mail give the messages beside the body of the response; the handlers of
  the route table are the responses alone.
\<close>

definition signup_exchange :: "world \<Rightarrow> request \<Rightarrow> db \<Rightarrow> (dict \<times> email list) result \<times> db" where
  "signup_exchange W rq d =
     valid d (Option.bind (json_object rq) SignUpRequest) (\<lambda>(user_name, password).
       andthen (signup (w_libs W) (w_clk W) (w_salt W) (w_code W) (w_uuid W 0) user_name password d) (\<lambda>(_, code) d'.
       attempt d' (send_confirmation_email (w_settings W) user_name code) (\<lambda>sent.
         (Inr (SuccessResponse ''Confirmation code sent'', sent), d'))))"

definition signup_route :: handler where
  "signup_route W rq d = returning (signup_exchange W rq d) fst"

definition confirm_signup_or_update :: handler where
  "confirm_signup_or_update W rq d =
     valid d (json_object rq) (\<lambda>payload.
       if has_key payload ''verification_code'' \<and> has_key payload ''user_name''
       then (case ConfirmSignUpRequest payload of
           None \<Rightarrow> (Inl (invalid_request ''Invalid confirm body''), d)
         | Some (user_name, code) \<Rightarrow>
             returning (confirm_signup (w_clk W) user_name code d) (\<lambda>_. SuccessResponse ''User confirmed''))
       else (Inl (rainmaker 400 INVALID_REQUEST
              ''Missing verification_code (use authed endpoint to update profile)''), d))"

definition change_password_route :: handler where
  "change_password_route W rq d =
     with_user W rq d (\<lambda>user.
     valid d (Option.bind (json_object rq) PasswordChangeRequest) (\<lambda>(password, newpassword).
       returning (change_password (w_libs W) (w_salt W) user password newpassword d)
         (\<lambda>_. SuccessResponse ''Password changed'')))"

definition forgot_password_exchange :: "world \<Rightarrow> request \<Rightarrow> db \<Rightarrow> (dict \<times> email list) result \<times> db" where
  "forgot_password_exchange W rq d =
     valid d (Option.bind (json_object rq) ForgotPasswordRequest) (\<lambda>(user_name, code, password).
       if str_truthy code \<and> str_truthy password
       then returning (confirm_password_reset (w_libs W) (w_clk W) (w_salt W) user_name (the code) (the password) d)
              (\<lambda>_. (SuccessResponse ''Password reset'', []))
       else andthen (request_password_reset (w_clk W) (w_code W) user_name d) (\<lambda>code d'.
         attempt d' (case code of None \<Rightarrow> Inr [] | Some c \<Rightarrow> send_reset_email (w_settings W) user_name c) (\<lambda>sent.
           (Inr (SuccessResponse ''Reset code sent'', sent), d'))))"

definition forgot_password :: handler where
  "forgot_password W rq d = returning (forgot_password_exchange W rq d) fst"

definition logout_route :: handler where
  "logout_route W rq d =
     with_user W rq d (\<lambda>user.
       returning (logout (later W) (usr_id user) d) (\<lambda>_. SuccessResponse ''Logged out''))"

section \<open>\<open>user.py\<close>\<close>

definition get_current_user_profile :: handler where
  "get_current_user_profile W rq d = with_user W rq d (\<lambda>user. (Inr (UserResponse user), d))"

definition delete_current_user :: handler where
  "delete_current_user W rq d =
     with_user W rq d (\<lambda>user. (Inr (SuccessResponse ''User deleted''), delete_user (usr_id user) d))"

section \<open>Integrity\<close>

lemma account_routes_ok [store_ok]:
  assumes "db_ok d"
  shows "db_ok (snd (login2 W rq d))" "db_ok (snd (signup_route W rq d))"
    "db_ok (snd (confirm_signup_or_update W rq d))" "db_ok (snd (change_password_route W rq d))"
    "db_ok (snd (forgot_password W rq d))" "db_ok (snd (logout_route W rq d))"
    "db_ok (snd (get_current_user_profile W rq d))" "db_ok (snd (delete_current_user W rq d))"
  using assms
  by (auto simp: login2_def signup_route_def signup_exchange_def confirm_signup_or_update_def change_password_route_def
      forgot_password_def forgot_password_exchange_def logout_route_def get_current_user_profile_def delete_current_user_def
      intro!: route_ok login_password_ok signup_ok confirm_signup_ok change_password_ok
        confirm_password_reset_ok request_password_reset_ok logout_ok delete_user_ok split: option.splits)

end
