(* ===== verification/Access.thy ===== *)
theory Access
  imports Schema
begin

text \<open>
  \<open>app/services/access.py\<close>: who may act on a node.  The abstract policy is \<open>may_access\<close> (a mapping
  or a share exists); \<open>has_access\<close> decides it by two queries, \<open>require_access\<close> guards an operation
  with it and \<open>accessible_node_ids\<close> enumerates it.  The locale \<open>access_policy\<close> is what the routes
  and services that guard an operation rely on; the three functions interpret it.
\<close>

section \<open>Operations\<close>

definition find_mapping :: "uuid \<Rightarrow> string \<Rightarrow> db \<Rightarrow> user_node_mapping option result" where
  "find_mapping user_id node_id d = scalar_one_or_none
     (select (\<lambda>m. unm_user_id m = user_id \<and> unm_node_id m = node_id) (user_node_mappings d))"

definition find_share :: "uuid \<Rightarrow> string \<Rightarrow> db \<Rightarrow> node_sharing_row option result" where
  "find_share user_id node_id d = scalar_one_or_none
     (select (\<lambda>s. sh_to_user_id s = user_id \<and> sh_node_id s = node_id) (node_sharings d))"

definition has_access :: "uuid \<Rightarrow> string \<Rightarrow> db \<Rightarrow> bool result" where
  "has_access user_id node_id d =
     (case find_mapping user_id node_id d of
        Inl e \<Rightarrow> Inl e
      | Inr (Some row) \<Rightarrow> Inr True
      | Inr None \<Rightarrow>
          (case find_share user_id node_id d of
             Inl e \<Rightarrow> Inl e
           | Inr share \<Rightarrow> Inr (share \<noteq> None)))"

definition require_access :: "uuid \<Rightarrow> string \<Rightarrow> db \<Rightarrow> unit result" where
  "require_access user_id node_id d =
     (case has_access user_id node_id d of
        Inl e \<Rightarrow> Inl e
      | Inr ok \<Rightarrow> if \<not> ok then Inl (forbidden ''Node not mapped to this user'') else Inr ())"

text \<open>\<open>list(dict.fromkeys(xs))\<close>: the first occurrence of each element, in order.\<close>

primrec dedup :: "'a list \<Rightarrow> 'a list \<Rightarrow> 'a list" where
  "dedup seen [] = []"
| "dedup seen (x # xs) = (if x \<in> set seen then dedup seen xs else x # dedup (x # seen) xs)"

definition fromkeys :: "'a list \<Rightarrow> 'a list" where
  "fromkeys xs = dedup [] xs"

definition accessible_node_ids :: "uuid \<Rightarrow> db \<Rightarrow> string list" where
  "accessible_node_ids user_id d =
     (let owned = map unm_node_id (select (\<lambda>m. unm_user_id m = user_id) (user_node_mappings d));
          shared = map sh_node_id (select (\<lambda>s. sh_to_user_id s = user_id) (node_sharings d))
      in fromkeys (owned @ shared))"

section \<open>The abstract policy\<close>

definition is_mapped :: "uuid \<Rightarrow> string \<Rightarrow> db \<Rightarrow> bool" where
  "is_mapped user_id node_id d \<longleftrightarrow>
     (\<exists>m \<in> set (user_node_mappings d). unm_user_id m = user_id \<and> unm_node_id m = node_id)"

definition is_shared :: "uuid \<Rightarrow> string \<Rightarrow> db \<Rightarrow> bool" where
  "is_shared user_id node_id d \<longleftrightarrow>
     (\<exists>s \<in> set (node_sharings d). sh_to_user_id s = user_id \<and> sh_node_id s = node_id)"

definition may_access :: "uuid \<Rightarrow> string \<Rightarrow> db \<Rightarrow> bool" where
  "may_access user_id node_id d \<longleftrightarrow> is_mapped user_id node_id d \<or> is_shared user_id node_id d"

lemma set_dedup: "set (dedup seen xs) = set xs - set seen"
  by (induction xs arbitrary: seen) auto

lemma distinct_dedup: "distinct (dedup seen xs)"
  by (induction xs arbitrary: seen) (auto simp: set_dedup)

lemma set_fromkeys [simp]: "set (fromkeys xs) = set xs"
  by (simp add: fromkeys_def set_dedup)

lemma distinct_fromkeys [simp]: "distinct (fromkeys xs)"
  by (simp add: fromkeys_def distinct_dedup)

lemma find_mapping_first:
  "db_ok d \<Longrightarrow> find_mapping uid nid d = Inr (first
     (select (\<lambda>m. unm_user_id m = uid \<and> unm_node_id m = nid) (user_node_mappings d)))"
  unfolding find_mapping_def by (rule mappings_by_pair.scalar_by_key [OF mapping_keys]) auto

lemma find_share_first:
  "db_ok d \<Longrightarrow> find_share uid nid d = Inr (first
     (select (\<lambda>s. sh_to_user_id s = uid \<and> sh_node_id s = nid) (node_sharings d)))"
  unfolding find_share_def by (rule sharings_by_pair.scalar_by_key [OF sharing_keys]) auto

lemma find_mapping_None:
  "find_mapping uid nid d = Inr None \<longleftrightarrow> \<not> is_mapped uid nid d"
  by (auto simp: find_mapping_def is_mapped_def select_def filter_empty_conv)

lemma find_mapping_Some:
  "find_mapping uid nid d = Inr (Some m) \<Longrightarrow>
     m \<in> set (user_node_mappings d) \<and> unm_user_id m = uid \<and> unm_node_id m = nid"
proof -
  assume "find_mapping uid nid d = Inr (Some m)"
  then have "m \<in> set (select (\<lambda>m. unm_user_id m = uid \<and> unm_node_id m = nid) (user_node_mappings d))"
    by (simp add: find_mapping_def)
  then show ?thesis by simp
qed

lemma find_share_None:
  "find_share uid nid d = Inr None \<longleftrightarrow> \<not> is_shared uid nid d"
  by (auto simp: find_share_def is_shared_def select_def filter_empty_conv)

lemma find_mapping_total: "db_ok d \<Longrightarrow> \<exists>x. find_mapping uid nid d = Inr x"
  by (simp add: find_mapping_first)

lemma find_share_total: "db_ok d \<Longrightarrow> \<exists>x. find_share uid nid d = Inr x"
  by (simp add: find_share_first)

lemma has_access_decides: "db_ok d \<Longrightarrow> has_access uid nid d = Inr (may_access uid nid d)"
  using find_mapping_None [of uid nid d] find_share_None [of uid nid d]
    find_mapping_total [of d uid nid] find_share_total [of d uid nid]
  by (auto simp: has_access_def may_access_def split: option.splits)

lemma accessible_may_access: "nid \<in> set (accessible_node_ids uid d) \<longleftrightarrow> may_access uid nid d"
  by (auto simp: accessible_node_ids_def may_access_def is_mapped_def is_shared_def)

section \<open>The contract of a guard\<close>

locale access_policy =
  fixes inv :: "'s \<Rightarrow> bool"
    and policy :: "'u \<Rightarrow> 'n \<Rightarrow> 's \<Rightarrow> bool"
    and guard :: "'u \<Rightarrow> 'n \<Rightarrow> 's \<Rightarrow> unit result"
    and reach :: "'u \<Rightarrow> 's \<Rightarrow> 'n list"
    and refusal :: err
  assumes guard_pass: "inv d \<Longrightarrow> policy u n d \<Longrightarrow> guard u n d = Inr ()"
    and guard_refuse: "inv d \<Longrightarrow> \<not> policy u n d \<Longrightarrow> guard u n d = Inl refusal"
    and reach_policy: "n \<in> set (reach u d) \<longleftrightarrow> policy u n d"
    and reach_distinct: "distinct (reach u d)"
begin

lemma guarded:
  "inv d \<Longrightarrow> attempt d (guard u n d) k = (if policy u n d then k () else (Inl refusal, d))"
  by (cases "policy u n d") (simp_all add: guard_pass guard_refuse)

lemma guarded_success:
  "inv d \<Longrightarrow> attempt d (guard u n d) k = (Inr x, d') \<Longrightarrow> policy u n d \<and> k () = (Inr x, d')"
  by (simp add: guarded split: if_splits)

lemma guarded_keeps:
  "inv d \<Longrightarrow> (policy u n d \<Longrightarrow> inv (snd (k ()))) \<Longrightarrow> inv (snd (attempt d (guard u n d) k))"
  by (simp add: guarded)

lemma guard_reach: "inv d \<Longrightarrow> guard u n d = Inr () \<longleftrightarrow> n \<in> set (reach u d)"
  by (cases "policy u n d") (simp_all add: guard_pass guard_refuse reach_policy)

end

interpretation node_access: access_policy db_ok may_access require_access accessible_node_ids
  "forbidden ''Node not mapped to this user''"
  by unfold_locales
    (simp_all add: require_access_def has_access_decides accessible_may_access,
     simp add: accessible_node_ids_def)

section \<open>Properties\<close>

text \<open>
  In a consistent store \<open>has_access\<close> never raises, and answers true exactly when the user has
  a mapping to the node or a share of it; \<open>require_access\<close> passes in the same cases and is a 403
  otherwise; \<open>accessible_node_ids\<close> lists exactly the nodes that pass, each once.
\<close>

theorem access_decides:
  assumes "db_ok d"
  shows "has_access uid nid d = Inr (is_mapped uid nid d \<or> is_shared uid nid d) \<and>
    require_access uid nid d = (if is_mapped uid nid d \<or> is_shared uid nid d then Inr ()
      else Inl (forbidden ''Node not mapped to this user'')) \<and>
    (nid \<in> set (accessible_node_ids uid d)) = (has_access uid nid d = Inr True) \<and>
    distinct (accessible_node_ids uid d)"
  using assms node_access.guard_pass [OF assms] node_access.guard_refuse [OF assms]
    node_access.reach_distinct
  by (simp add: has_access_decides accessible_may_access flip: may_access_def)

definition access_db :: db where
  "access_db = empty_db\<lparr>
     users := [User 1 ''ann'' ''ann'', User 2 ''bob'' ''bob''],
     nodes := [Node ''n1'' 0, Node ''n2'' 0],
     user_node_mappings := [\<lparr>unm_id = 10, unm_user_id = 1, unm_node_id = ''n1'',
       unm_role = ''primary'', unm_primary = True\<rparr>],
     node_sharings := [\<lparr>sh_id = 20, sh_node_id = ''n1'', sh_from_user_id = 1, sh_to_user_id = 2,
       sh_role = ''secondary''\<rparr>]\<rparr>"

lemma access_db_ok [simp]: "db_ok access_db"
  by (simp add: db_ok_def keys_ok_def foreign_ok_def access_db_def empty_db_def clash_free_def
      clash_defs refs_defs present_def User_def Node_def)

theorem access_decides_witness:
  "has_access 2 ''n1'' access_db = Inr True \<and>
   require_access 2 ''n2'' access_db = Inl (forbidden ''Node not mapped to this user'') \<and>
   ''n1'' \<in> set (accessible_node_ids 2 access_db)"
  using access_decides [OF access_db_ok, of 2 "''n1''"] access_decides [OF access_db_ok, of 2 "''n2''"]
  by (simp add: is_mapped_def is_shared_def access_db_def empty_db_def)

end
