(* ===== verification/Sharing.thy ===== *)
theory Sharing
  imports Access PyUuid
begin

text \<open>
  \<open>app/services/sharing.py\<close>: an owner invites a user by name (one \<open>pending\<close> request for each
  node), the invitee accepts (the request becomes a share, which \<open>has_access\<close> honours) or
  declines, the owner revokes.  \<open>rids i\<close> is the \<open>uuid4\<close> of the \<open>i\<close>-th request row, \<open>sid\<close> that of
  a share.
\<close>

section \<open>Operations\<close>

text \<open>
  The loop that checks ownership: the first node that is not mapped ends it.  The elements come from
  the request body; no row matches \<open>None\<close>, and a value that is no string cannot be compared.
\<close>

primrec check_owner :: "uuid \<Rightarrow> json list \<Rightarrow> db \<Rightarrow> unit result" where
  "check_owner uid [] d = Inr ()"
| "check_owner uid (v # vs) d =
     (case v of
        JStr nid \<Rightarrow>
          (case find_mapping uid nid d of
             Inl e \<Rightarrow> Inl e
           | Inr None \<Rightarrow> Inl (rainmaker 403 100070 (''Not owner of node '' @ nid))
           | Inr (Some owns) \<Rightarrow> check_owner uid vs d)
      | JNull \<Rightarrow> Inl (rainmaker 403 100070 ''Not owner of node None'')
      | _ \<Rightarrow> Inl (Uncaught DataError))"

definition sharing_request :: "uuid \<Rightarrow> string \<Rightarrow> uuid \<Rightarrow> string \<Rightarrow> datetime \<Rightarrow> node_sharing_request" where
  "sharing_request i nid uid name now =
     \<lparr>sr_id = i, sr_node_id = nid, sr_from_user_id = uid, sr_to_user_name = name,
      sr_status = ''pending'', sr_expires_at = now + days 7\<rparr>"

text \<open>The rows added to the session, flushed in order by the one commit.\<close>

primrec add_requests ::
  "(nat \<Rightarrow> datetime) \<Rightarrow> (nat \<Rightarrow> uuid) \<Rightarrow> nat \<Rightarrow> uuid \<Rightarrow> string \<Rightarrow> string list \<Rightarrow> db \<Rightarrow> db result"
where
  "add_requests clk rids i uid name [] d = Inr d"
| "add_requests clk rids i uid name (nid # nids) d =
     (case insert_sharing_request (sharing_request (rids i) nid uid name (clk i)) d of
        Inl e \<Rightarrow> Inl e
      | Inr d' \<Rightarrow> add_requests clk rids (Suc i) uid name nids d')"

definition create_request ::
  "(nat \<Rightarrow> datetime) \<Rightarrow> (nat \<Rightarrow> uuid) \<Rightarrow> uuid \<Rightarrow> json list \<Rightarrow> json \<Rightarrow> db \<Rightarrow> string result \<times> db"
where
  "create_request clk rids from_user_id node_ids to_user_name d =
     (if node_ids = [] \<or> \<not> truthy to_user_name
      then (Inl (invalid_request ''nodes and user_name required''), d)
      else attempt d (check_owner from_user_id node_ids d) (\<lambda>_.
        attempt d (text_column None to_user_name) (\<lambda>name.
        attempt d (text_columns node_ids) (\<lambda>nids.
        attempt d (add_requests clk rids 0 from_user_id name nids d) (\<lambda>d'.
          (Inr (str_uuid (rids 0)), d'))))))"

definition set_request_status :: "uuid \<Rightarrow> string \<Rightarrow> db \<Rightarrow> db" where
  "set_request_status i st d =
     d\<lparr>node_sharing_requests := update_where (\<lambda>r. sr_id r = i) (\<lambda>r. r\<lparr>sr_status := st\<rparr>)
        (node_sharing_requests d)\<rparr>"

definition ensure_share :: "uuid \<Rightarrow> uuid \<Rightarrow> node_sharing_request \<Rightarrow> db \<Rightarrow> db result" where
  "ensure_share sid invitee_id row d =
     (case find_share invitee_id (sr_node_id row) d of
        Inl e \<Rightarrow> Inl e
      | Inr (Some existing) \<Rightarrow> Inr d
      | Inr None \<Rightarrow> insert_sharing \<lparr>sh_id = sid, sh_node_id = sr_node_id row,
          sh_from_user_id = sr_from_user_id row, sh_to_user_id = invitee_id,
          sh_role = ''secondary''\<rparr> d)"

definition resolved :: "string \<Rightarrow> dict" where
  "resolved st = [(''status'', JStr ''success''), (''request_status'', JStr st)]"

definition accept_or_decline ::
  "(nat \<Rightarrow> datetime) \<Rightarrow> uuid \<Rightarrow> uuid \<Rightarrow> string \<Rightarrow> uuid \<Rightarrow> bool \<Rightarrow> db \<Rightarrow> dict result \<times> db" where
  "accept_or_decline clk sid invitee_id invitee_name request_id accept d =
     attempt d (scalar_one_or_none (select (\<lambda>r. sr_id r = request_id) (node_sharing_requests d)))
       (\<lambda>found. case found of
          None \<Rightarrow> (Inl (rainmaker 404 100015 ''Request not found''), d)
        | Some row \<Rightarrow>
            if sr_to_user_name row \<noteq> invitee_name
            then (Inl (rainmaker 403 100070 ''Request is for a different user''), d)
            else if sr_status row \<noteq> ''pending''
            then (Inl (invalid_request ''Request already resolved''), d)
            else if sr_expires_at row < clk 0
            then (Inl (invalid_request ''Request expired''), set_request_status (sr_id row) ''expired'' d)
            else if accept
            then attempt d (ensure_share sid invitee_id row
                    (set_request_status (sr_id row) ''accepted'' d))
                  (\<lambda>d'. (Inr (resolved ''accepted''), d'))
            else (Inr (resolved ''declined''), set_request_status (sr_id row) ''declined'' d))"

primrec revoke_loop :: "uuid \<Rightarrow> uuid \<Rightarrow> string list \<Rightarrow> db \<Rightarrow> db result" where
  "revoke_loop owner_id invitee_id [] d = Inr d"
| "revoke_loop owner_id invitee_id (nid # nids) d =
     (case scalar_one_or_none (select (\<lambda>s. sh_node_id s = nid \<and> sh_from_user_id s = owner_id \<and>
             sh_to_user_id s = invitee_id) (node_sharings d)) of
        Inl e \<Rightarrow> Inl e
      | Inr None \<Rightarrow> revoke_loop owner_id invitee_id nids d
      | Inr (Some share) \<Rightarrow> revoke_loop owner_id invitee_id nids
          (d\<lparr>node_sharings := delete_where (\<lambda>s. sh_id s = sh_id share) (node_sharings d)\<rparr>))"

definition revoke_share :: "uuid \<Rightarrow> string list \<Rightarrow> string \<Rightarrow> db \<Rightarrow> unit result \<times> db" where
  "revoke_share owner_id node_ids invitee_name d =
     attempt d (scalar_one_or_none (select (\<lambda>u. usr_user_name u = invitee_name) (users d))) (\<lambda>found.
       case found of
         None \<Rightarrow> (Inr (), d)
       | Some invitee \<Rightarrow>
           attempt d (revoke_loop owner_id (usr_id invitee) node_ids d) (\<lambda>d'. (Inr (), d')))"

section \<open>Integrity\<close>

lemma add_requests_ok [store_ok]:
  "db_ok d \<Longrightarrow> add_requests clk rids i uid name nids d = Inr d' \<Longrightarrow> db_ok d'"
  by (induction nids arbitrary: i d) (auto intro: insert_sharing_request_ok split: sum.splits)

lemma create_request_ok [store_ok]:
  "db_ok d \<Longrightarrow> db_ok (snd (create_request clk rids uid nids name d))"
  by (auto simp: create_request_def intro: add_requests_ok split: attempt_splits)

lemma set_request_status_ok [store_ok]: "db_ok d \<Longrightarrow> db_ok (set_request_status i st d)"
  by (auto simp: set_request_status_def intro: update_sharing_request_ok)

lemma ensure_share_ok [store_ok]: "db_ok d \<Longrightarrow> ensure_share sid iid row d = Inr d' \<Longrightarrow> db_ok d'"
  by (auto simp: ensure_share_def intro: insert_sharing_ok split: sum.splits option.splits)

lemma accept_or_decline_ok [store_ok]:
  "db_ok d \<Longrightarrow> db_ok (snd (accept_or_decline clk sid iid name rid acc d))"
  by (auto simp: accept_or_decline_def intro: ensure_share_ok set_request_status_ok
      split: attempt_splits option.splits)

lemma revoke_loop_ok [store_ok]:
  "db_ok d \<Longrightarrow> revoke_loop oid iid nids d = Inr d' \<Longrightarrow> db_ok d'"
  by (induction nids arbitrary: d) (auto intro: delete_sharing_ok split: sum.splits option.splits)

lemma revoke_share_ok [store_ok]: "db_ok d \<Longrightarrow> db_ok (snd (revoke_share oid nids name d))"
  by (auto simp: revoke_share_def intro: revoke_loop_ok split: attempt_splits option.splits)

section \<open>Creating requests\<close>

lemma check_owner_Inr:
  "db_ok d \<Longrightarrow> check_owner uid (map JStr nids) d = Inr () \<longleftrightarrow> list_all (\<lambda>n. is_mapped uid n d) nids"
proof (induction nids)
  case (Cons n nids)
  then show ?case
    using find_mapping_None [of uid n d] find_mapping_total [OF Cons.prems, of uid n]
    by (auto split: option.splits)
qed simp

lemma check_owner_Inl:
  "db_ok d \<Longrightarrow> check_owner uid (map JStr nids) d = Inl e \<Longrightarrow>
     \<exists>n \<in> set nids. \<not> is_mapped uid n d \<and> e = rainmaker 403 100070 (''Not owner of node '' @ n)"
proof (induction nids)
  case (Cons n nids)
  then show ?case
    using find_mapping_None [of uid n d] find_mapping_total [OF Cons.prems(1), of uid n]
    by (auto split: option.splits)
qed simp

lemma add_requests_rows:
  assumes "add_requests clk rids i uid name nids d = Inr d'"
  shows "d' = d\<lparr>node_sharing_requests := node_sharing_requests d @
    map (\<lambda>(k, n). sharing_request (rids (i + k)) n uid name (clk (i + k))) (enumerate 0 nids)\<rparr>"
  using assms
proof (induction nids arbitrary: i d)
  case (Cons n nids)
  then obtain d1 where d1: "insert_sharing_request (sharing_request (rids i) n uid name (clk i)) d = Inr d1"
    and rest: "add_requests clk rids (Suc i) uid name nids d1 = Inr d'"
    by (auto split: sum.splits)
  have shift: "map (\<lambda>(k, n). sharing_request (rids (i + k)) n uid name (clk (i + k))) (enumerate (Suc 0) nids) =
      map (\<lambda>(k, n). sharing_request (rids (Suc i + k)) n uid name (clk (Suc i + k))) (enumerate 0 nids)"
    by (rule nth_equalityI) (simp_all add: nth_enumerate_eq)
  from Cons.IH [OF rest] d1 show ?case
    by (simp add: insert_sharing_request_Inr shift)
qed simp

lemma add_requests_total:
  assumes "present usr_id (users d) uid" "list_all (present nd_node_id (nodes d)) nids" "fits 254 name"
    and "inj rids" "\<forall>r \<in> set (node_sharing_requests d). \<forall>k. i \<le> k \<longrightarrow> sr_id r \<noteq> rids k"
  shows "\<exists>d'. add_requests clk rids i uid name nids d = Inr d'"
  using assms
proof (induction nids arbitrary: i d)
  case (Cons n nids)
  let ?r = "sharing_request (rids i) n uid name (clk i)"
  let ?d = "d\<lparr>node_sharing_requests := node_sharing_requests d @ [?r]\<rparr>"
  have "insert_sharing_request ?r d = Inr ?d"
    using Cons.prems
    by (auto simp: insert_sharing_request_Inr sharing_request_cols_def sharing_request_refs_def
        sharing_request_clash_def sharing_request_def fits_def)
  moreover have "\<exists>d'. add_requests clk rids (Suc i) uid name nids ?d = Inr d'"
  proof (rule Cons.IH)
    show "\<forall>r \<in> set (node_sharing_requests ?d). \<forall>k. Suc i \<le> k \<longrightarrow> sr_id r \<noteq> rids k"
      using Cons.prems(5) inj_eq [OF Cons.prems(4)] by (auto simp: sharing_request_def)
  qed (use Cons.prems in simp_all)
  ultimately show ?case by simp
qed simp

lemma create_request_single:
  assumes ok: "db_ok d" and own: "is_mapped oid nid d" and nm: "name \<noteq> []" "fits 254 name"
    and fresh: "inj rids" "\<forall>r \<in> set (node_sharing_requests d). \<forall>k. sr_id r \<noteq> rids k"
  shows "create_request clk rids oid [JStr nid] (JStr name) d = (Inr (str_uuid (rids 0)),
    d\<lparr>node_sharing_requests := node_sharing_requests d @ [sharing_request (rids 0) nid oid name (clk 0)]\<rparr>)"
proof -
  obtain m where m: "m \<in> set (user_node_mappings d)" "unm_user_id m = oid" "unm_node_id m = nid"
    using own by (auto simp: is_mapped_def)
  then have refs: "present usr_id (users d) oid" "present nd_node_id (nodes d) nid"
    using mapping_foreign [OF ok m(1)] by (simp_all add: mapping_refs_def)
  obtain d1 where add: "add_requests clk rids 0 oid name [nid] d = Inr d1"
    using add_requests_total [of d oid "[nid]" name rids 0 clk] refs nm fresh by auto
  moreover have "check_owner oid [JStr nid] d = Inr ()"
    using check_owner_Inr [OF ok, of oid "[nid]"] own by simp
  ultimately show ?thesis
    using nm add_requests_rows [OF add] by (simp add: create_request_def del: check_owner.simps add_requests.simps)
qed

section \<open>Resolving requests\<close>

lemma set_request_status_fields [simp]:
  "users (set_request_status i st d) = users d"
  "nodes (set_request_status i st d) = nodes d"
  "user_node_mappings (set_request_status i st d) = user_node_mappings d"
  "node_sharings (set_request_status i st d) = node_sharings d"
  by (simp_all add: set_request_status_def)

lemma select_request:
  "db_ok d \<Longrightarrow> r \<in> set (node_sharing_requests d) \<Longrightarrow>
     select (\<lambda>x. sr_id x = sr_id r) (node_sharing_requests d) = [r]"
  by (rule requests_by_id.select_key [OF sharing_request_keys])

lemma ensure_share_frame:
  "ensure_share sid iid row d = Inr d' \<Longrightarrow> d' = d\<lparr>node_sharings := node_sharings d'\<rparr>"
  by (auto simp: ensure_share_def insert_sharing_Inr split: option.splits sum.splits)

lemma find_share_Some:
  "find_share uid nid d = Inr (Some s) \<Longrightarrow>
     s \<in> set (node_sharings d) \<and> sh_to_user_id s = uid \<and> sh_node_id s = nid"
proof -
  assume "find_share uid nid d = Inr (Some s)"
  then have "s \<in> set (select (\<lambda>s. sh_to_user_id s = uid \<and> sh_node_id s = nid) (node_sharings d))"
    by (simp add: find_share_def)
  then show ?thesis by simp
qed

lemma ensure_share_shares:
  "ensure_share sid iid row d = Inr d' \<Longrightarrow>
     is_shared u n d' \<longleftrightarrow> is_shared u n d \<or> u = iid \<and> n = sr_node_id row"
  by (auto simp: ensure_share_def insert_sharing_Inr is_shared_def
      split: option.splits sum.splits dest: find_share_Some)

lemma ensure_share_total:
  assumes ok: "db_ok d" and r: "row \<in> set (node_sharing_requests d)"
    and "present usr_id (users d) iid" and fresh: "\<forall>s \<in> set (node_sharings d). sh_id s \<noteq> sid"
  shows "\<exists>d'. ensure_share sid iid row d = Inr d'"
proof (cases "find_share iid (sr_node_id row) d")
  case (Inl e)
  with find_share_total [OF ok] show ?thesis by (metis Inl_Inr_False)
next
  case (Inr x)
  show ?thesis
  proof (cases x)
    case None
    with Inr have "\<not> is_shared iid (sr_node_id row) d" using find_share_None by metis
    with None Inr fresh assms(3) sharing_request_foreign [OF ok r] show ?thesis
      by (auto simp: ensure_share_def insert_sharing_Inr sharing_cols_def sharing_refs_def fits_def
          sharing_clash_def sharing_request_refs_def is_shared_def)
  next
    case (Some s)
    with Inr show ?thesis by (simp add: ensure_share_def)
  qed
qed

lemma ensure_share_status [simp]:
  "ensure_share sid iid (row\<lparr>sr_status := st\<rparr>) d = ensure_share sid iid row d"
  by (simp add: ensure_share_def cong: option.case_cong sum.case_cong)

text \<open>Accepting a request that is pending, in time, and not granted yet.\<close>

lemma accept_pending:
  assumes ok: "db_ok d" and row: "row \<in> set (node_sharing_requests d)" "sr_status row = ''pending''"
      "clk 0 \<le> sr_expires_at row"
    and iid: "present usr_id (users d) iid" and no: "\<not> is_shared iid (sr_node_id row) d"
    and fresh: "\<forall>s \<in> set (node_sharings d). sh_id s \<noteq> sid"
  shows "accept_or_decline clk sid iid (sr_to_user_name row) (sr_id row) True d =
    (Inr (resolved ''accepted''), (set_request_status (sr_id row) ''accepted'' d)\<lparr>node_sharings :=
       node_sharings d @ [\<lparr>sh_id = sid, sh_node_id = sr_node_id row, sh_from_user_id = sr_from_user_id row,
         sh_to_user_id = iid, sh_role = ''secondary''\<rparr>]\<rparr>)"
proof -
  let ?a = "set_request_status (sr_id row) ''accepted'' d"
  have oka: "db_ok ?a" by (rule set_request_status_ok [OF ok])
  have "row\<lparr>sr_status := ''accepted''\<rparr> \<in> set (node_sharing_requests ?a)"
    using row(1) by (force simp: set_request_status_def set_update_where)
  from ensure_share_total [OF oka this, of iid sid] iid fresh
  obtain d2 where es: "ensure_share sid iid row ?a = Inr d2" by auto
  moreover have "find_share iid (sr_node_id row) ?a = Inr None"
    using no by (simp add: find_share_None is_shared_def)
  ultimately have "d2 = ?a\<lparr>node_sharings := node_sharings d @ [\<lparr>sh_id = sid, sh_node_id = sr_node_id row,
      sh_from_user_id = sr_from_user_id row, sh_to_user_id = iid, sh_role = ''secondary''\<rparr>]\<rparr>"
    by (simp add: ensure_share_def insert_sharing_Inr)
  with es row show ?thesis
    by (simp add: accept_or_decline_def select_request [OF ok row(1)])
qed

text \<open>A resolution that succeeds, taken apart.\<close>

lemma accept_or_decline_Inr:
  assumes "accept_or_decline clk sid iid name rid acc d = (Inr out, d')"
  obtains row where "row \<in> set (node_sharing_requests d)" "sr_id row = rid" "sr_to_user_name row = name"
    "sr_status row = ''pending''" "clk 0 \<le> sr_expires_at row"
    "acc \<Longrightarrow> ensure_share sid iid row (set_request_status rid ''accepted'' d) = Inr d'"
    "\<not> acc \<Longrightarrow> d' = set_request_status rid ''declined'' d"
proof -
  from assms obtain row where row: "select (\<lambda>r. sr_id r = rid) (node_sharing_requests d) = [row]"
    and rest: "sr_to_user_name row = name" "sr_status row = ''pending''" "clk 0 \<le> sr_expires_at row"
      "acc \<Longrightarrow> ensure_share sid iid row (set_request_status (sr_id row) ''accepted'' d) = Inr d'"
      "\<not> acc \<Longrightarrow> d' = set_request_status (sr_id row) ''declined'' d"
    by (auto simp: accept_or_decline_def elim!: attempt_InrE split: option.split_asm if_split_asm)
  from row have "row \<in> set (select (\<lambda>r. sr_id r = rid) (node_sharing_requests d))" by simp
  then have "row \<in> set (node_sharing_requests d)" "sr_id row = rid" by simp_all
  with rest that [of row] show thesis by simp
qed

lemma request_after_status:
  "db_ok d \<Longrightarrow> row \<in> set (node_sharing_requests d) \<Longrightarrow>
     select (\<lambda>r. sr_id r = sr_id row) (node_sharing_requests (set_request_status (sr_id row) st d)) =
       [row\<lparr>sr_status := st\<rparr>]"
proof -
  assume ok: "db_ok d" and row: "row \<in> set (node_sharing_requests d)"
  let ?d = "set_request_status (sr_id row) st d"
  have "row\<lparr>sr_status := st\<rparr> \<in> set (node_sharing_requests ?d)"
    using row by (force simp: set_request_status_def set_update_where)
  from select_request [OF set_request_status_ok [OF ok] this] show ?thesis by simp
qed

section \<open>Revoking\<close>

lemma revoke_loop_total:
  "db_ok d \<Longrightarrow> \<exists>d'. revoke_loop oid iid nids d = Inr d'"
proof (induction nids arbitrary: d)
  case (Cons n nids)
  let ?p = "\<lambda>s. sh_node_id s = n \<and> sh_from_user_id s = oid \<and> sh_to_user_id s = iid"
  have "scalar_one_or_none (select ?p (node_sharings d)) = Inr (first (select ?p (node_sharings d)))"
    by (rule sharings_by_pair.scalar_by_key [OF sharing_keys [OF Cons.prems]]) auto
  with Cons show ?case
    by (cases "first (select ?p (node_sharings d))") (auto intro: delete_sharing_ok)
qed simp

lemma revoke_loop_removes:
  "db_ok d \<Longrightarrow> revoke_loop oid iid nids d = Inr d' \<Longrightarrow>
     d' = d\<lparr>node_sharings := delete_where (\<lambda>s. sh_node_id s \<in> set nids \<and>
        sh_from_user_id s = oid \<and> sh_to_user_id s = iid) (node_sharings d)\<rparr>"
proof (induction nids arbitrary: d)
  case (Cons n nids)
  let ?p = "\<lambda>s. sh_node_id s = n \<and> sh_from_user_id s = oid \<and> sh_to_user_id s = iid"
  let ?d1 = "d\<lparr>node_sharings := delete_where ?p (node_sharings d)\<rparr>"
  have ok1: "db_ok ?d1" using Cons.prems(1) by (rule delete_sharing_ok)
  have "revoke_loop oid iid nids ?d1 = Inr d'"
  proof (cases "select ?p (node_sharings d)")
    case Nil
    then have "delete_where ?p (node_sharings d) = node_sharings d"
      by (auto simp: select_def delete_where_def filter_empty_conv filter_id_conv)
    with Nil Cons.prems(2) show ?thesis by simp
  next
    case (Cons s ss)
    then have "s \<in> set (select ?p (node_sharings d))" by simp
    then have s: "s \<in> set (node_sharings d)" "?p s" by auto
    have "x = s" if "x \<in> set (node_sharings d)" "?p x \<or> sh_id x = sh_id s" for x
      using that s sharings_by_pair.row_unique [OF sharing_keys [OF Cons.prems(1)] that(1) s(1)]
        sharings_by_id.row_unique [OF sharing_keys [OF Cons.prems(1)] that(1) s(1)] by auto
    then have "delete_where ?p (node_sharings d) = delete_where (\<lambda>x. sh_id x = sh_id s) (node_sharings d)"
      unfolding delete_where_def using s(2) by (intro filter_cong) auto
    moreover have "select ?p (node_sharings d) = [s]"
      by (rule sharings_by_pair.select_refined [OF sharing_keys [OF Cons.prems(1)] s(1)]) (use s in simp_all)
    ultimately show ?thesis using Cons.prems(2) by simp
  qed
  from Cons.IH [OF ok1 this] show ?case
    by (simp add: delete_where_def) (rule arg_cong, rule filter_cong, auto)
qed (simp add: delete_where_def)

lemma revoke_share_exact:
  assumes ok: "db_ok d" and v: "v \<in> set (users d)"
  shows "revoke_share oid nids (usr_user_name v) d = (Inr (), d\<lparr>node_sharings :=
    delete_where (\<lambda>s. sh_node_id s \<in> set nids \<and> sh_from_user_id s = oid \<and> sh_to_user_id s = usr_id v)
      (node_sharings d)\<rparr>)"
proof -
  obtain d' where loop: "revoke_loop oid (usr_id v) nids d = Inr d'"
    using revoke_loop_total [OF ok] by metis
  with revoke_loop_removes [OF ok loop] users_by_name.select_key [OF user_keys [OF ok] v] show ?thesis
    by (simp add: revoke_share_def)
qed

section \<open>Properties\<close>

text \<open>
  C34: sharing end to end.  From any consistent store in which the owner has the node, the invitee
  exists and is no owner of the node: the invitation is created, the invitee who accepts it within
  seven days gets access to the node, and after the owner's revocation (no other share having been
  granted before) the access is gone.
\<close>

theorem share_accept_revoke:
  assumes ok: "db_ok d" and own: "is_mapped oid nid d" and inv: "v \<in> set (users d)"
    and no: "\<not> may_access (usr_id v) nid d" and nm: "usr_user_name v \<noteq> []" "fits 254 (usr_user_name v)"
    and fresh: "inj rids" "\<forall>r \<in> set (node_sharing_requests d). \<forall>k. sr_id r \<noteq> rids k"
      "\<forall>s \<in> set (node_sharings d). sh_id s \<noteq> sid"
    and time: "clk' 0 \<le> clk 0 + days 7"
  shows "\<exists>d1 d2 d3. create_request clk rids oid [JStr nid] (JStr (usr_user_name v)) d = (Inr (str_uuid (rids 0)), d1) \<and>
    has_access (usr_id v) nid d1 = Inr False \<and>
    accept_or_decline clk' sid (usr_id v) (usr_user_name v) (rids 0) True d1 =
      (Inr (resolved ''accepted''), d2) \<and> has_access (usr_id v) nid d2 = Inr True \<and>
    revoke_share oid [nid] (usr_user_name v) d2 = (Inr (), d3) \<and>
    has_access (usr_id v) nid d3 = Inr False \<and> has_access oid nid d3 = Inr True"
proof -
  let ?r = "sharing_request (rids 0) nid oid (usr_user_name v) (clk 0)"
  let ?s = "\<lparr>sh_id = sid, sh_node_id = nid, sh_from_user_id = oid, sh_to_user_id = usr_id v,
    sh_role = ''secondary''\<rparr>"
  let ?d1 = "d\<lparr>node_sharing_requests := node_sharing_requests d @ [?r]\<rparr>"
  let ?d2 = "(set_request_status (rids 0) ''accepted'' ?d1)\<lparr>node_sharings := node_sharings d @ [?s]\<rparr>"
  have create: "create_request clk rids oid [JStr nid] (JStr (usr_user_name v)) d = (Inr (str_uuid (rids 0)), ?d1)"
    by (rule create_request_single [OF ok own nm fresh(1,2)])
  then have ok1: "db_ok ?d1"
    using create_request_ok [OF ok] by (metis snd_conv)
  have accept: "accept_or_decline clk' sid (usr_id v) (usr_user_name v) (rids 0) True ?d1 =
      (Inr (resolved ''accepted''), ?d2)"
    using accept_pending [OF ok1, of ?r clk' "usr_id v" sid] presentI [OF inv, of usr_id] no fresh(3) time
    by (simp add: sharing_request_def may_access_def is_shared_def)
  then have ok2: "db_ok ?d2"
    using accept_or_decline_ok [OF ok1] by (metis snd_conv)
  note revoke = revoke_share_exact [OF ok2, of v oid "[nid]"]
  have ok3: "db_ok (snd (revoke_share oid [nid] (usr_user_name v) ?d2))"
    by (rule revoke_share_ok [OF ok2])
  from create accept revoke ok1 ok2 ok3 inv no own show ?thesis
    by (auto simp: has_access_decides may_access_def is_mapped_def is_shared_def)
qed

theorem share_accept_revoke_witness:
  "\<exists>d1 d2 d3. create_request (\<lambda>i. 0) (\<lambda>k. 100 + k) 1 [JStr ''n3''] (JStr ''bob'')
      (access_db\<lparr>nodes := [Node ''n1'' 0, Node ''n3'' 0], user_node_mappings := user_node_mappings access_db @
        [\<lparr>unm_id = 12, unm_user_id = 1, unm_node_id = ''n3'', unm_role = ''primary'', unm_primary = True\<rparr>]\<rparr>) =
      (Inr (str_uuid 100), d1) \<and>
    has_access 2 ''n3'' d1 = Inr False \<and>
    accept_or_decline (\<lambda>i. 5) 30 2 ''bob'' 100 True d1 = (Inr (resolved ''accepted''), d2) \<and>
    has_access 2 ''n3'' d2 = Inr True \<and>
    revoke_share 1 [''n3''] ''bob'' d2 = (Inr (), d3) \<and>
    has_access 2 ''n3'' d3 = Inr False \<and> has_access 1 ''n3'' d3 = Inr True"
  using share_accept_revoke [of
      "access_db\<lparr>nodes := [Node ''n1'' 0, Node ''n3'' 0], user_node_mappings := user_node_mappings access_db @
        [\<lparr>unm_id = 12, unm_user_id = 1, unm_node_id = ''n3'', unm_role = ''primary'', unm_primary = True\<rparr>]\<rparr>"
      1 "''n3''" "User 2 ''bob'' ''bob''" "\<lambda>k. 100 + k" 30 "\<lambda>i. 5" "\<lambda>i. 0"]
  by (simp add: db_ok_def keys_ok_def foreign_ok_def access_db_def empty_db_def clash_free_def
      clash_defs refs_defs present_def User_def Node_def may_access_def is_mapped_def is_shared_def
      fits_def)

text \<open>
  An invitation is for an owner only.  If the inviter lacks a mapping to one of the nodes, the
  request is refused with a 403 that names such a node and nothing is written, even for the nodes
  he does own.
\<close>

theorem create_request_owner_only:
  assumes ok: "db_ok d" and "nids \<noteq> []" "name \<noteq> []" and "n \<in> set nids" "\<not> is_mapped uid n d"
  shows "\<exists>m. m \<in> set nids \<and> \<not> is_mapped uid m d \<and>
    create_request clk rids uid (map JStr nids) (JStr name) d = (Inl (rainmaker 403 100070 (''Not owner of node '' @ m)), d)"
proof -
  have "check_owner uid (map JStr nids) d \<noteq> Inr ()"
    using check_owner_Inr [OF ok, of uid nids] assms(4,5) by (auto simp: list_all_iff)
  then obtain e where e: "check_owner uid (map JStr nids) d = Inl e"
    by (cases "check_owner uid (map JStr nids) d") auto
  with check_owner_Inl [OF ok e] assms(2,3) show ?thesis
    by (auto simp: create_request_def)
qed

theorem create_request_owner_only_witness:
  "\<exists>m. m \<in> set [''n1'', ''n2''] \<and> \<not> is_mapped 1 m access_db \<and>
    create_request (\<lambda>i. 0) (\<lambda>k. 100 + k) 1 (map JStr [''n1'', ''n2'']) (JStr ''bob'') access_db =
      (Inl (rainmaker 403 100070 (''Not owner of node '' @ m)), access_db)"
  by (rule create_request_owner_only [OF access_db_ok, where n = "''n2''"])
    (simp_all add: is_mapped_def access_db_def empty_db_def)

text \<open>
  A created invitation is one pending request for each node of the list, in its order, all
  from that owner to that name; no access changes, and the identifier returned is the first
  request's only.
\<close>

theorem create_request_rows:
  assumes ok: "db_ok d" and step: "create_request clk rids uid vs v d = (Inr out, d')"
  shows "\<exists>nids name. vs = map JStr nids \<and> v = JStr name \<and> nids \<noteq> [] \<and> name \<noteq> [] \<and>
    list_all (\<lambda>n. is_mapped uid n d) nids \<and> out = str_uuid (rids 0) \<and>
    d' = d\<lparr>node_sharing_requests := node_sharing_requests d @
      map (\<lambda>(k, n). sharing_request (rids k) n uid name (clk k)) (enumerate 0 nids)\<rparr>"
proof -
  from step obtain nids name where v: "text_columns vs = Inr nids" "text_column None v = Inr name" "vs \<noteq> []"
      "truthy v" "check_owner uid vs d = Inr ()" "add_requests clk rids 0 uid name nids d = Inr d'"
      "out = str_uuid (rids 0)"
    by (auto simp: create_request_def elim!: attempt_InrE split: if_split_asm)
  from v(2,4) have "v = JStr name" "name \<noteq> []"
    by (auto simp: text_column_def split: json.split_asm)
  with v text_columns_Inr [OF v(1)] check_owner_Inr [OF ok, of uid nids] show ?thesis
    by (intro exI [of _ nids] exI [of _ name]) (simp add: add_requests_rows [of clk rids 0, simplified])
qed

definition invited_db :: db where
  "invited_db = access_db\<lparr>node_sharing_requests := [sharing_request 100 ''n1'' 1 ''ann'' 0]\<rparr>"

lemma invited_db_ok [simp]: "db_ok invited_db"
  by (simp add: db_ok_def keys_ok_def foreign_ok_def invited_db_def access_db_def empty_db_def
      clash_free_def clash_defs refs_defs present_def User_def Node_def sharing_request_def)

lemma invited_db_step:
  "create_request (\<lambda>i. 0) (\<lambda>k. 100 + k) 1 [JStr ''n1''] (JStr ''ann'') access_db = (Inr (str_uuid 100), invited_db)"
  by (simp add: create_request_def find_mapping_def access_db_def empty_db_def select_def
      insert_sharing_request_def insert_row_def sharing_request_cols_def sharing_request_refs_def
      fits_def present_def User_def Node_def invited_db_def sharing_request_def)

theorem create_request_rows_witness:
  "\<exists>nids name. [JStr ''n1''] = map JStr nids \<and> JStr ''ann'' = JStr name \<and> nids \<noteq> [] \<and> name \<noteq> [] \<and>
    list_all (\<lambda>n. is_mapped 1 n access_db) nids \<and> str_uuid 100 = str_uuid (100 + 0) \<and>
    invited_db = access_db\<lparr>node_sharing_requests := node_sharing_requests access_db @
      map (\<lambda>(k, n). sharing_request (100 + k) n 1 name 0) (enumerate 0 nids)\<rparr>"
  using create_request_rows [OF access_db_ok invited_db_step] .

text \<open>
  A resolution that succeeds is of a pending, unexpired request addressed to the invitee's
  name.  Accepting adds exactly the invitee's access to the request's node, declining changes no
  access, and either way the request is resolved for good: resolving it again is a 400 that
  changes nothing.
\<close>

theorem accept_or_decline_sound:
  assumes ok: "db_ok d" and step: "accept_or_decline clk sid iid name rid acc d = (Inr out, d')"
  shows "\<exists>row. row \<in> set (node_sharing_requests d) \<and> sr_id row = rid \<and> sr_to_user_name row = name \<and>
    sr_status row = ''pending'' \<and> clk 0 \<le> sr_expires_at row \<and>
    (\<forall>u n. is_shared u n d' = (is_shared u n d \<or> acc \<and> u = iid \<and> n = sr_node_id row)) \<and>
    (\<forall>u n. is_mapped u n d' = is_mapped u n d) \<and>
    (\<forall>clk' sid' iid' acc'. accept_or_decline clk' sid' iid' name rid acc' d' =
       (Inl (invalid_request ''Request already resolved''), d'))"
proof (rule accept_or_decline_Inr [OF step])
  fix row
  assume row: "row \<in> set (node_sharing_requests d)" "sr_id row = rid" "sr_to_user_name row = name"
      "sr_status row = ''pending''" "clk 0 \<le> sr_expires_at row"
    and yes: "acc \<Longrightarrow> ensure_share sid iid row (set_request_status rid ''accepted'' d) = Inr d'"
    and no: "\<not> acc \<Longrightarrow> d' = set_request_status rid ''declined'' d"
  have shared: "is_shared u n d' = (is_shared u n d \<or> acc \<and> u = iid \<and> n = sr_node_id row)" for u n
    using ensure_share_shares [OF yes, of u n] no by (cases acc) (simp_all add: is_shared_def)
  have mapped: "is_mapped u n d' = is_mapped u n d" for u n
    using arg_cong [OF ensure_share_frame [OF yes], of user_node_mappings] no
    by (cases acc) (simp_all add: is_mapped_def)
  obtain st where st: "st \<noteq> ''pending''"
    and reqs: "node_sharing_requests d' = node_sharing_requests (set_request_status rid st d)"
    using arg_cong [OF ensure_share_frame [OF yes], of node_sharing_requests] no
    by (cases acc) (auto intro: that [of "''accepted''"] that [of "''declined''"])
  have "select (\<lambda>r. sr_id r = rid) (node_sharing_requests d') = [row\<lparr>sr_status := st\<rparr>]"
    using request_after_status [OF ok row(1), of st] row(2) reqs by simp
  then have "accept_or_decline clk' sid' iid' name rid acc' d' =
      (Inl (invalid_request ''Request already resolved''), d')" for clk' sid' iid' acc'
    using row(3) st by (simp add: accept_or_decline_def)
  with row shared mapped show ?thesis by (intro exI [of _ row]) simp
qed

definition accepted_db :: db where
  "accepted_db = snd (accept_or_decline (\<lambda>i. 7) 31 1 ''ann'' 100 True invited_db)"

lemma accepted_db_step:
  "accept_or_decline (\<lambda>i. 7) 31 1 ''ann'' 100 True invited_db = (Inr (resolved ''accepted''), accepted_db)"
  by (simp add: accepted_db_def accept_or_decline_def invited_db_def access_db_def empty_db_def
      select_def sharing_request_def set_request_status_def update_where_def ensure_share_def
      find_share_def insert_sharing_def insert_row_def sharing_clash_def sharing_cols_def
      sharing_refs_def fits_def present_def User_def Node_def)

theorem accept_or_decline_sound_witness:
  "\<exists>row. row \<in> set (node_sharing_requests invited_db) \<and> sr_id row = 100 \<and> sr_to_user_name row = ''ann'' \<and>
    sr_status row = ''pending'' \<and> 7 \<le> sr_expires_at row \<and>
    (\<forall>u n. is_shared u n accepted_db = (is_shared u n invited_db \<or> True \<and> u = 1 \<and> n = sr_node_id row)) \<and>
    (\<forall>u n. is_mapped u n accepted_db = is_mapped u n invited_db) \<and>
    (\<forall>clk' sid' iid' acc'. accept_or_decline clk' sid' iid' ''ann'' 100 acc' accepted_db =
       (Inl (invalid_request ''Request already resolved''), accepted_db))"
  using accept_or_decline_sound [OF invited_db_ok accepted_db_step] .

end
