(* ===== verification/NodeGroups.thy ===== *)
theory NodeGroups
  imports Schema PyUuid
begin

text \<open>
  \<open>app/services/groups.py\<close>: a user's node groups, a forest through \<open>parent_id\<close>.  \<open>gid\<close> is the
  \<open>uuid4\<close> of a new group and \<open>mids i\<close> that of its \<open>i\<close>-th membership row.  The invariant
  \<open>rooted\<close> says that every parent stands before its children in the table and has the same owner;
  it makes the parent relation acyclic, and it is kept by creation, by deletion of a subtree and by
  deletion of a user.
\<close>

section \<open>Operations\<close>

primrec add_members :: "(nat \<Rightarrow> uuid) \<Rightarrow> nat \<Rightarrow> uuid \<Rightarrow> string list \<Rightarrow> db \<Rightarrow> db result" where
  "add_members mids i gid [] d = Inr d"
| "add_members mids i gid (nid # nids) d =
     (case insert_group_node \<lparr>gn_id = mids i, gn_group_id = gid, gn_node_id = nid\<rparr> d of
        Inl e \<Rightarrow> Inl e
      | Inr d' \<Rightarrow> add_members mids (Suc i) gid nids d')"

text \<open>\<open>metadata or {}\<close>\<close>

definition NodeGroup ::
  "uuid \<Rightarrow> uuid \<Rightarrow> uuid option \<Rightarrow> string \<Rightarrow> string option \<Rightarrow> bool \<Rightarrow> json \<Rightarrow> node_group" where
  "NodeGroup gid owner_id parent_id name typ excl metadata = \<lparr>
     grp_id = gid, grp_owner_id = owner_id, grp_parent_id = parent_id, grp_name = name,
     grp_type = typ, grp_mutually_exclusive = excl,
     grp_metadata = (if truthy metadata then metadata else JObj [])\<rparr>"

definition find_group :: "uuid \<Rightarrow> uuid \<Rightarrow> db \<Rightarrow> node_group option result" where
  "find_group gid owner_id d = scalar_one_or_none
     (select (\<lambda>g. grp_id g = gid \<and> grp_owner_id g = owner_id) (node_groups d))"

definition check_parent :: "uuid option \<Rightarrow> uuid \<Rightarrow> db \<Rightarrow> unit result" where
  "check_parent parent_group_id owner_id d =
     (case parent_group_id of
        None \<Rightarrow> Inr ()
      | Some p \<Rightarrow>
          (case find_group p owner_id d of
             Inl e \<Rightarrow> Inl e
           | Inr None \<Rightarrow> Inl (invalid_request ''Unknown parent group'')
           | Inr (Some parent) \<Rightarrow> Inr ()))"

definition create_group ::
  "uuid \<Rightarrow> (nat \<Rightarrow> uuid) \<Rightarrow> uuid \<Rightarrow> json \<Rightarrow> uuid option \<Rightarrow> json \<Rightarrow> bool \<Rightarrow> json \<Rightarrow> json \<Rightarrow>
     db \<Rightarrow> node_group result \<times> db"
where
  "create_group gid mids owner_id name parent_group_id group_type mutually_exclusive nds metadata d =
     (if \<not> truthy name then (Inl (invalid_request ''group_name required''), d)
      else attempt d (check_parent parent_group_id owner_id d) (\<lambda>_.
        attempt d (text_column None name) (\<lambda>nm.
        attempt d (str_column group_type) (\<lambda>typ.
        let grp = NodeGroup gid owner_id parent_group_id nm typ mutually_exclusive metadata in
        attempt d (insert_group grp d) (\<lambda>d1.
        attempt d (lift_exc (iterate nds)) (\<lambda>vs.
        attempt d (text_columns vs) (\<lambda>nids.
        attempt d (add_members mids 0 gid nids d1) (\<lambda>d2. (Inr grp, d2)))))))))"

definition group_view :: "db \<Rightarrow> node_group \<Rightarrow> dict" where
  "group_view d g = [
     (''group_id'', JStr (str_uuid (grp_id g))),
     (''group_name'', JStr (grp_name g)),
     (''type'', (case grp_type g of None \<Rightarrow> JNull | Some t \<Rightarrow> JStr t)),
     (''mutually_exclusive'', JBool (grp_mutually_exclusive g)),
     (''parent_group_id'', (case grp_parent_id g of None \<Rightarrow> JNull | Some p \<Rightarrow> JStr (str_uuid p))),
     (''nodes'', JArr (map (\<lambda>m. JStr (gn_node_id m))
        (select (\<lambda>m. gn_group_id m = grp_id g) (node_group_nodes d))))]"

definition list_groups :: "uuid \<Rightarrow> uuid option \<Rightarrow> db \<Rightarrow> dict list" where
  "list_groups owner_id group_id d =
     (let rows = select (\<lambda>g. grp_owner_id g = owner_id \<and>
                   (case group_id of None \<Rightarrow> True | Some i \<Rightarrow> grp_id g = i)) (node_groups d)
      in map (group_view d) rows)"

text \<open>The foreign keys delete the groups below and their memberships with the group.\<close>

definition delete_group :: "uuid \<Rightarrow> uuid \<Rightarrow> db \<Rightarrow> unit result \<times> db" where
  "delete_group owner_id group_id d =
     attempt d (find_group group_id owner_id d) (\<lambda>found.
       case found of
         None \<Rightarrow> (Inl (rainmaker 404 100015 ''Group not found''), d)
       | Some grp \<Rightarrow> (Inr (), cascade_groups [grp_id grp] d))"

section \<open>Integrity\<close>

lemma add_members_ok [store_ok]:
  "db_ok d \<Longrightarrow> add_members mids i gid nds d = Inr d' \<Longrightarrow> db_ok d'"
  by (induction nds arbitrary: i d) (auto intro: insert_group_node_ok split: sum.splits)

lemma create_group_ok [store_ok]:
  "db_ok d \<Longrightarrow> db_ok (snd (create_group gid mids oid name p t x nds md d))"
  by (auto simp: create_group_def Let_def intro: insert_group_ok add_members_ok split: attempt_splits)

lemma delete_group_ok [store_ok]: "db_ok d \<Longrightarrow> db_ok (snd (delete_group oid gid d))"
  by (auto simp: delete_group_def intro: cascade_groups_ok split: attempt_splits option.splits)

section \<open>The forest\<close>

definition parent_ok :: "node_group set \<Rightarrow> node_group \<Rightarrow> bool" where
  "parent_ok seen g \<longleftrightarrow> (case grp_parent_id g of None \<Rightarrow> True
     | Some p \<Rightarrow> \<exists>h \<in> seen. grp_id h = p \<and> grp_owner_id h = grp_owner_id g)"

primrec rooted_from :: "node_group set \<Rightarrow> node_group list \<Rightarrow> bool" where
  "rooted_from seen [] = True"
| "rooted_from seen (g # gs) = (parent_ok seen g \<and> rooted_from (insert g seen) gs)"

abbreviation rooted :: "node_group list \<Rightarrow> bool" where
  "rooted gs \<equiv> rooted_from {} gs"

lemma rooted_snoc:
  "rooted_from seen (gs @ [g]) \<longleftrightarrow> rooted_from seen gs \<and> parent_ok (seen \<union> set gs) g"
  by (induction gs arbitrary: seen) (auto simp: insert_commute)

lemma rooted_filter:
  assumes "rooted_from seen gs"
    and closed: "\<And>g h. g \<in> set gs \<Longrightarrow> h \<in> seen \<union> set gs \<Longrightarrow> grp_parent_id g = Some (grp_id h) \<Longrightarrow>
      \<not> keep h \<Longrightarrow> \<not> keep g"
  shows "rooted_from {h \<in> seen. keep h} (filter keep gs)"
  using assms
proof (induction gs arbitrary: seen)
  case (Cons g gs)
  have sub: "{h \<in> insert g seen. keep h} = (if keep g then insert g {h \<in> seen. keep h} else {h \<in> seen. keep h})"
    by auto
  have "rooted_from {h \<in> insert g seen. keep h} (filter keep gs)"
    by (rule Cons.IH) (use Cons.prems in auto)
  moreover have "parent_ok {h \<in> seen. keep h} g" if "keep g"
    using Cons.prems(1) Cons.prems(2) [of g] that
    by (auto simp: parent_ok_def split: option.splits)
  ultimately show ?case unfolding sub by (cases "keep g") simp_all
qed simp

definition parents :: "node_group list \<Rightarrow> (uuid \<times> uuid) set" where
  "parents gs = {(grp_id g, p) | g p. g \<in> set gs \<and> grp_parent_id g = Some p}"

text \<open>Ranks that fall from a child to its parent.\<close>

lemma rooted_rank:
  assumes "clash_free group_clash gs" "rooted gs"
  shows "\<exists>f :: uuid \<Rightarrow> nat. \<forall>(c, p) \<in> parents gs. f p < f c"
  using assms
proof (induction gs rule: rev_induct)
  case Nil
  then show ?case by (simp add: parents_def)
next
  case (snoc g gs)
  then obtain f :: "uuid \<Rightarrow> nat" where f: "\<forall>(c, p) \<in> parents gs. f p < f c"
    by (auto simp: rooted_snoc)
  have ids: "grp_id h \<noteq> grp_id g" if "h \<in> set gs" for h
    using snoc.prems(1) that by (auto simp: group_clash_def)
  have up: "p \<noteq> grp_id g" if "(c, p) \<in> parents gs" for c p
  proof -
    from that obtain h where h: "h \<in> set gs" "grp_parent_id h = Some p"
      by (auto simp: parents_def)
    have "parent_ok (set gs) h"
      if "rooted_from seen xs" "h \<in> set xs" "seen \<union> set xs \<subseteq> set gs" for seen xs
      using that by (induction xs arbitrary: seen) (fastforce simp: parent_ok_def split: option.splits)+
    with h snoc.prems(2) have "parent_ok (set gs) h" by (auto simp: rooted_snoc)
    with h(2) ids show ?thesis by (auto simp: parent_ok_def)
  qed
  let ?r = "case grp_parent_id g of None \<Rightarrow> 0 | Some p \<Rightarrow> Suc (f p)"
  have self: "p \<noteq> grp_id g" if "grp_parent_id g = Some p" for p
    using snoc.prems(2) ids that by (auto simp: rooted_snoc parent_ok_def)
  have "\<forall>(c, p) \<in> parents (gs @ [g]). (f(grp_id g := ?r)) p < (f(grp_id g := ?r)) c"
    using f up self ids by (fastforce simp: parents_def)
  then show ?case by blast
qed

lemma rooted_acyclic:
  assumes "clash_free group_clash gs" "rooted gs"
  shows "acyclic (parents gs)"
proof -
  from rooted_rank [OF assms] obtain f :: "uuid \<Rightarrow> nat" where "\<forall>(c, p) \<in> parents gs. f p < f c" ..
  then have "(parents gs)\<inverse> \<subseteq> measure f" by auto
  then have "wf ((parents gs)\<inverse>)" by (rule wf_subset [OF wf_measure])
  then show ?thesis by (metis acyclic_converse wf_acyclic)
qed

text \<open>The cascade removes exactly what stands below.\<close>

lemma groups_below_sound:
  "x \<in> set (groups_below n gs ids) \<Longrightarrow> \<exists>i \<in> set ids. (x, i) \<in> (parents gs)\<^sup>*"
proof (induction n arbitrary: ids)
  case (Suc n)
  then obtain i where i: "i \<in> set (ids @ child_groups gs ids)" "(x, i) \<in> (parents gs)\<^sup>*"
    by (metis groups_below.simps(2))
  show ?case
  proof (cases "i \<in> set ids")
    case False
    with i obtain p where "p \<in> set ids" "(i, p) \<in> parents gs"
      by (auto simp: child_groups_def parents_def)
    with i(2) show ?thesis by (meson rtrancl.rtrancl_into_rtrancl)
  qed (use i in auto)
qed auto

lemma doomed_groups_exact:
  "x \<in> set (doomed_groups d ids) \<longleftrightarrow> (\<exists>i \<in> set ids. (x, i) \<in> (parents (node_groups d))\<^sup>*)"
proof
  show "x \<in> set (doomed_groups d ids) \<Longrightarrow> \<exists>i \<in> set ids. (x, i) \<in> (parents (node_groups d))\<^sup>*"
    unfolding doomed_groups_def by (rule groups_below_sound)
next
  assume "\<exists>i \<in> set ids. (x, i) \<in> (parents (node_groups d))\<^sup>*"
  then obtain i where i: "i \<in> set ids" "(x, i) \<in> (parents (node_groups d))\<^sup>*" by blast
  from i(2) show "x \<in> set (doomed_groups d ids)"
  proof (induction rule: converse_rtrancl_induct)
    case base
    with i(1) show ?case using doomed_groups_superset [of ids d] by blast
  next
    case (step y z)
    with doomed_groups_closed [of d ids] show ?case
      by (auto simp: closed_below_def parents_def)
  qed
qed

lemma cascade_groups_rooted:
  assumes "rooted (node_groups d)"
  shows "rooted (node_groups (cascade_groups ids d))"
proof -
  have "rooted_from {h \<in> {}. grp_id h \<notin> set (doomed_groups d ids)}
      (filter (\<lambda>g. grp_id g \<notin> set (doomed_groups d ids)) (node_groups d))"
    by (rule rooted_filter [OF assms])
      (use doomed_groups_closed [of d ids] in \<open>auto simp: closed_below_def\<close>)
  then show ?thesis by (simp add: cascade_groups_def delete_where_def)
qed

section \<open>Creation\<close>

lemma add_members_rows:
  "add_members mids i gid nds d = Inr d' \<Longrightarrow>
     d' = d\<lparr>node_group_nodes := node_group_nodes d'\<rparr> \<and> distinct nds \<and>
     map gn_node_id (select (\<lambda>m. gn_group_id m = gid) (node_group_nodes d')) =
       map gn_node_id (select (\<lambda>m. gn_group_id m = gid) (node_group_nodes d)) @ nds \<and>
     (\<forall>g. g \<noteq> gid \<longrightarrow> select (\<lambda>m. gn_group_id m = g) (node_group_nodes d') =
        select (\<lambda>m. gn_group_id m = g) (node_group_nodes d)) \<and>
     (\<forall>m \<in> set (node_group_nodes d). gn_group_id m = gid \<longrightarrow> gn_node_id m \<notin> set nds)"
proof (induction nds arbitrary: i d)
  case (Cons n nds)
  let ?m = "\<lparr>gn_id = mids i, gn_group_id = gid, gn_node_id = n\<rparr>"
  from Cons.prems obtain d1 where d1: "insert_group_node ?m d = Inr d1"
    and rest: "add_members mids (Suc i) gid nds d1 = Inr d'"
    by (auto split: sum.splits)
  then have rows: "d1 = d\<lparr>node_group_nodes := node_group_nodes d @ [?m]\<rparr>"
    and new: "\<forall>s \<in> set (node_group_nodes d). \<not> group_node_clash s ?m"
    by (simp_all add: insert_group_node_Inr)
  from Cons.IH [OF rest] have ih: "d' = d1\<lparr>node_group_nodes := node_group_nodes d'\<rparr>" "distinct nds"
    "map gn_node_id (select (\<lambda>m. gn_group_id m = gid) (node_group_nodes d')) =
       map gn_node_id (select (\<lambda>m. gn_group_id m = gid) (node_group_nodes d1)) @ nds"
    "\<forall>g. g \<noteq> gid \<longrightarrow> select (\<lambda>m. gn_group_id m = g) (node_group_nodes d') =
        select (\<lambda>m. gn_group_id m = g) (node_group_nodes d1)"
    "\<forall>m \<in> set (node_group_nodes d1). gn_group_id m = gid \<longrightarrow> gn_node_id m \<notin> set nds"
    by blast+
  have frame: "d' = d\<lparr>node_group_nodes := node_group_nodes d'\<rparr>"
    using ih(1) rows by simp
  show ?case
    apply (intro conjI)
    subgoal by (rule frame)
    subgoal using ih(2,5) rows by auto
    subgoal using ih(3) rows by (simp add: select_def)
    subgoal using ih(4) rows by (simp add: select_def)
    subgoal using ih(5) rows new by (auto simp: group_node_clash_def)
    done
qed simp

lemma find_group_Some:
  "find_group gid oid d = Inr (Some g) \<Longrightarrow>
     g \<in> set (node_groups d) \<and> grp_id g = gid \<and> grp_owner_id g = oid"
proof -
  assume "find_group gid oid d = Inr (Some g)"
  then have "g \<in> set (select (\<lambda>g. grp_id g = gid \<and> grp_owner_id g = oid) (node_groups d))"
    by (simp add: find_group_def)
  then show ?thesis by simp
qed

lemma find_group_iff:
  "db_ok d \<Longrightarrow> find_group gid oid d = Inr (Some g) \<longleftrightarrow>
     g \<in> set (node_groups d) \<and> grp_id g = gid \<and> grp_owner_id g = oid"
  unfolding find_group_def by (rule groups_by_id.found_iff [OF group_keys]) auto

lemma check_parent_Inr:
  "check_parent p oid d = Inr u \<longleftrightarrow> (\<forall>q. p = Some q \<longrightarrow> (\<exists>h. find_group q oid d = Inr (Some h)))"
  by (auto simp: check_parent_def split: option.splits sum.splits)

lemma create_group_Inr:
  assumes "create_group gid mids oid name p t x nds md d = (Inr g, d')"
  obtains nm ty nids d1 where "name = JStr nm" "nm \<noteq> []" "str_column t = Inr ty"
    "iterate nds = Inr (map JStr nids)" "g = NodeGroup gid oid p nm ty x md"
    "\<And>q. p = Some q \<Longrightarrow> \<exists>h. h \<in> set (node_groups d) \<and> grp_id h = q \<and> grp_owner_id h = oid"
    "insert_group g d = Inr d1" "add_members mids 0 gid nids d1 = Inr d'"
proof -
  from assms obtain nm ty vs nids d1 where nm: "truthy name" "text_column None name = Inr nm"
    and rest: "str_column t = Inr ty" "iterate nds = Inr vs" "text_columns vs = Inr nids"
      "g = NodeGroup gid oid p nm ty x md" "\<And>q. p = Some q \<Longrightarrow> \<exists>h. find_group q oid d = Inr (Some h)"
      "insert_group g d = Inr d1" "add_members mids 0 gid nids d1 = Inr d'"
    by (auto simp: create_group_def Let_def check_parent_Inr elim!: attempt_InrE split: if_split_asm)
  from nm have "name = JStr nm" "nm \<noteq> []" by (auto simp: text_column_def split: json.split_asm)
  moreover have "\<exists>h. h \<in> set (node_groups d) \<and> grp_id h = q \<and> grp_owner_id h = oid" if "p = Some q" for q
    using rest(5) [OF that] find_group_Some by blast
  ultimately show thesis using rest text_columns_Inr [OF rest(3)] that [of nm ty nids d1] by simp
qed

lemma create_group_rooted:
  assumes "rooted (node_groups d)"
  shows "rooted (node_groups (snd (create_group gid mids oid name p t x nds md d)))"
proof (cases "create_group gid mids oid name p t x nds md d")
  case (Pair r d')
  show ?thesis
  proof (cases r)
    case (Inl e)
    with Pair have "d' = d"
      by (auto simp: create_group_def Let_def split: if_split_asm attempt_splits)
    with Pair assms show ?thesis by simp
  next
    case (Inr g)
    with Pair have "create_group gid mids oid name p t x nds md d = (Inr g, d')" by simp
    then show ?thesis
    proof (rule create_group_Inr)
      fix nm ty nids d1
      assume g: "g = NodeGroup gid oid p nm ty x md" and ins: "insert_group g d = Inr d1"
        and par: "\<And>q. p = Some q \<Longrightarrow> \<exists>h. h \<in> set (node_groups d) \<and> grp_id h = q \<and> grp_owner_id h = oid"
        and add: "add_members mids 0 gid nids d1 = Inr d'"
      have "parent_ok (set (node_groups d)) g"
        using par by (auto simp: parent_ok_def g NodeGroup_def split: option.splits)
      then have "rooted (node_groups d1)"
        using ins assms by (simp add: insert_group_Inr rooted_snoc)
      moreover have "node_groups d' = node_groups d1"
        using arg_cong [OF conjunct1 [OF add_members_rows [OF add]], of node_groups] by simp
      ultimately show ?thesis using Pair by simp
    qed
  qed
qed

lemma delete_group_rooted:
  "rooted (node_groups d) \<Longrightarrow> rooted (node_groups (snd (delete_group oid gid d)))"
  by (auto simp: delete_group_def intro: cascade_groups_rooted split: attempt_splits option.splits)

lemma delete_user_rooted:
  "rooted (node_groups d) \<Longrightarrow> rooted (node_groups (delete_user uid d))"
  by (simp add: delete_user_def purge_user_def cascade_groups_rooted)

section \<open>Properties\<close>

text \<open>
  The groups form a forest.  If every group's parent is an earlier group of the same owner,
  this stays so after creating a group, after deleting one with all below it, and after deleting a
  user; and in such a consistent store no group is its own ancestor.
\<close>

theorem groups_forest:
  assumes "rooted (node_groups d)"
  shows "rooted (node_groups (snd (create_group gid mids oid name p t x nds md d))) \<and>
    rooted (node_groups (snd (delete_group oid gid d))) \<and>
    rooted (node_groups (delete_user oid d)) \<and>
    (db_ok d \<longrightarrow> acyclic (parents (node_groups d)))"
  using assms rooted_acyclic [OF group_keys]
  by (simp add: create_group_rooted delete_group_rooted delete_user_rooted)

definition group_db :: db where
  "group_db = empty_db\<lparr>
     users := [User 1 ''ann'' ''ann'', User 2 ''bob'' ''bob''], nodes := [Node ''n1'' 0],
     node_groups := [NodeGroup 10 1 None ''home'' None False JNull, NodeGroup 11 2 None ''lab'' None False JNull,
       NodeGroup 12 1 (Some 10) ''room'' None False JNull, NodeGroup 13 1 (Some 12) ''shelf'' None False JNull],
     node_group_nodes := [\<lparr>gn_id = 20, gn_group_id = 12, gn_node_id = ''n1''\<rparr>]\<rparr>"

lemma group_db_ok [simp]: "db_ok group_db"
  by (simp add: db_ok_def keys_ok_def foreign_ok_def group_db_def empty_db_def clash_free_def
      clash_defs refs_defs present_def User_def Node_def NodeGroup_def)

theorem groups_forest_witness:
  "rooted (node_groups (snd (delete_group 1 12 group_db))) \<and> acyclic (parents (node_groups group_db))"
  using groups_forest [of group_db 12 id 1 "JStr ''x''" None JNull False JNull JNull]
  by (simp add: parent_ok_def group_db_def [THEN arg_cong, of node_groups] NodeGroup_def)

text \<open>
  C35: deleting a group of the user removes the group and everything below it, with the memberships
  of what is removed, and nothing else: a group stays exactly when its chain of parents does not
  lead to the deleted one.  A group of another user, or none, is a 404 that changes nothing.
\<close>

theorem delete_group_exact:
  assumes ok: "db_ok d"
  shows "delete_group oid gid d =
    (if \<exists>g. g \<in> set (node_groups d) \<and> grp_id g = gid \<and> grp_owner_id g = oid
     then (Inr (), d
       \<lparr>node_groups := filter (\<lambda>g. (grp_id g, gid) \<notin> (parents (node_groups d))\<^sup>*) (node_groups d),
        node_group_nodes :=
          filter (\<lambda>m. (gn_group_id m, gid) \<notin> (parents (node_groups d))\<^sup>*) (node_group_nodes d)\<rparr>)
     else (Inl (rainmaker 404 100015 ''Group not found''), d))"
proof (cases "find_group gid oid d")
  case (Inl e)
  have "find_group gid oid d = Inr (first (select (\<lambda>g. grp_id g = gid \<and> grp_owner_id g = oid) (node_groups d)))"
    unfolding find_group_def by (rule groups_by_id.scalar_by_key [OF group_keys [OF ok]]) auto
  with Inl show ?thesis by simp
next
  case (Inr x)
  show ?thesis
  proof (cases x)
    case None
    with Inr find_group_iff [OF ok, of gid oid] have "\<not> (\<exists>g. g \<in> set (node_groups d) \<and> grp_id g = gid \<and> grp_owner_id g = oid)"
      by (metis Inr_inject option.distinct(1))
    with None Inr show ?thesis by (simp add: delete_group_def)
  next
    case (Some g)
    with Inr find_group_iff [OF ok, of gid oid g] show ?thesis
      by (auto simp: delete_group_def cascade_groups_def delete_where_def doomed_groups_exact)
  qed
qed

theorem delete_group_exact_witness:
  "delete_group 1 10 group_db = (Inr (), group_db
     \<lparr>node_groups := filter (\<lambda>g. (grp_id g, 10) \<notin> (parents (node_groups group_db))\<^sup>*) (node_groups group_db),
      node_group_nodes :=
        filter (\<lambda>m. (gn_group_id m, 10) \<notin> (parents (node_groups group_db))\<^sup>*) (node_group_nodes group_db)\<rparr>) \<and>
   delete_group 1 11 group_db = (Inl (rainmaker 404 100015 ''Group not found''), group_db)"
proof -
  have "\<exists>g. g \<in> set (node_groups group_db) \<and> grp_id g = 10 \<and> grp_owner_id g = 1"
    by (rule exI [of _ "NodeGroup 10 1 None ''home'' None False JNull"])
      (simp add: group_db_def, simp add: NodeGroup_def)
  moreover have "\<not> (\<exists>g. g \<in> set (node_groups group_db) \<and> grp_id g = 11 \<and> grp_owner_id g = 1)"
    by (auto simp: group_db_def NodeGroup_def)
  ultimately show ?thesis
    using delete_group_exact [OF group_db_ok, of 1 10] delete_group_exact [OF group_db_ok, of 1 11]
    by (simp only: if_True if_False simp_thms)
qed

text \<open>
  What was created is what is listed.  After a successful \<open>create_group\<close> on a consistent store,
  \<open>list_groups\<close> of that owner and identifier shows exactly the one group, with its name, type, flag,
  parent and the given nodes in order (they are distinct); the owner's listing gains it at the
  end, and no other owner's listing changes.
\<close>

theorem create_then_list:
  assumes ok: "db_ok d" and step: "create_group gid mids oid name p t x nds md d = (Inr g, d')"
  shows "(\<exists>vs. iterate nds = Inr vs \<and> distinct vs \<and>
       list_groups oid (Some gid) d' = [[(''group_id'', JStr (str_uuid gid)), (''group_name'', name),
         (''type'', t), (''mutually_exclusive'', JBool x),
         (''parent_group_id'', (case p of None \<Rightarrow> JNull | Some q \<Rightarrow> JStr (str_uuid q))),
         (''nodes'', JArr vs)]]) \<and>
    list_groups oid None d' = list_groups oid None d @ list_groups oid (Some gid) d' \<and>
    (\<forall>u f. u \<noteq> oid \<longrightarrow> list_groups u f d' = list_groups u f d)"
proof (rule create_group_Inr [OF step])
  fix nm ty nids d1
  assume vals: "name = JStr nm" "str_column t = Inr ty" "iterate nds = Inr (map JStr nids)"
    and g: "g = NodeGroup gid oid p nm ty x md" and ins: "insert_group g d = Inr d1"
    and add: "add_members mids 0 gid nids d1 = Inr d'"
  from ins have d1: "d1 = d\<lparr>node_groups := node_groups d @ [g]\<rparr>"
    and new: "\<forall>h \<in> set (node_groups d). grp_id h \<noteq> gid"
    by (auto simp: insert_group_Inr group_clash_def g NodeGroup_def)
  note rows = add_members_rows [OF add]
  have none: "select (\<lambda>m. gn_group_id m = gid) (node_group_nodes d) = []"
    using group_node_foreign [OF ok] new
    by (force simp: select_def filter_empty_conv group_node_refs_def present_def)
  have grps: "node_groups d' = node_groups d @ [g]"
    using arg_cong [OF conjunct1 [OF rows], of node_groups] by (simp add: d1)
  have members: "map gn_node_id (select (\<lambda>m. gn_group_id m = gid) (node_group_nodes d')) = nids"
    using rows none by (simp add: d1)
  have same: "group_view d' h = group_view d h" if "h \<in> set (node_groups d)" for h
    using rows new that by (simp add: group_view_def d1)
  have ty: "t = (case ty of None \<Rightarrow> JNull | Some s \<Rightarrow> JStr s)"
    using vals(2) by (auto simp: str_column_def split: json.split_asm)
  have view: "group_view d' g = [(''group_id'', JStr (str_uuid gid)), (''group_name'', name),
      (''type'', t), (''mutually_exclusive'', JBool x),
      (''parent_group_id'', (case p of None \<Rightarrow> JNull | Some q \<Rightarrow> JStr (str_uuid q))),
      (''nodes'', JArr (map JStr nids))]"
    using arg_cong [OF members, of "map JStr"] ty
    by (simp add: group_view_def g NodeGroup_def comp_def vals)
  have one: "list_groups oid (Some gid) d' = [group_view d' g]"
    using new by (auto simp: list_groups_def grps select_def g NodeGroup_def filter_empty_conv)
  have all: "list_groups oid None d' = list_groups oid None d @ [group_view d' g]"
    using same by (auto simp: list_groups_def grps select_def g NodeGroup_def)
  have others: "list_groups u f d' = list_groups u f d" if "u \<noteq> oid" for u f
    using same that by (auto simp: list_groups_def grps select_def g NodeGroup_def)
  have "distinct (map JStr nids)" using rows by (simp add: distinct_map inj_on_def)
  then show ?thesis using one all others view vals(3) by auto
qed

lemma group_db_create:
  "create_group 14 (\<lambda>i. 30 + i) 2 (JStr ''desk'') (Some 11) JNull True (JArr [JStr ''n1'']) JNull group_db =
     (Inr (NodeGroup 14 2 (Some 11) ''desk'' None True JNull),
      snd (create_group 14 (\<lambda>i. 30 + i) 2 (JStr ''desk'') (Some 11) JNull True (JArr [JStr ''n1'']) JNull group_db))"
  by (simp add: create_group_def Let_def check_parent_def text_column_def find_group_def group_db_def empty_db_def select_def NodeGroup_def
      insert_group_def insert_row_def group_clash_def group_cols_def group_refs_def fits_def
      present_def User_def Node_def insert_group_node_def group_node_clash_def group_node_cols_def
      group_node_refs_def)

theorem create_then_list_witness:
  "list_groups 2 (Some 14) (snd (create_group 14 (\<lambda>i. 30 + i) 2 (JStr ''desk'') (Some 11) JNull True (JArr [JStr ''n1'']) JNull group_db)) =
     [[(''group_id'', JStr (str_uuid 14)), (''group_name'', JStr ''desk''), (''type'', JNull),
       (''mutually_exclusive'', JBool True), (''parent_group_id'', JStr (str_uuid 11)),
       (''nodes'', JArr [JStr ''n1''])]]"
  using create_then_list [OF group_db_ok group_db_create] by simp

end
