(* ===== verification/Automations.thy ===== *)
theory Automations
  imports Schema PyUuid
begin

text \<open>
  \<open>app/services/automations.py\<close>: storage of a user's automations.  The fields of a request reach the
  row untyped, so \<open>name\<close> and \<open>event_operator\<close> are JSON values here and a value that is not a string
  fails at the commit.  \<open>aid\<close> is the \<open>uuid4\<close> of a new row.
\<close>

section \<open>Operations\<close>

definition both_columns :: "json \<Rightarrow> json \<Rightarrow> (string \<times> string) result" where
  "both_columns a b =
     (case str_column a of
        Inl e \<Rightarrow> Inl e
      | Inr x \<Rightarrow>
          (case str_column b of
             Inl e \<Rightarrow> Inl e
           | Inr y \<Rightarrow>
               (case (x, y) of (Some s, Some t) \<Rightarrow> Inr (s, t) | _ \<Rightarrow> Inl (Uncaught IntegrityError))))"

text \<open>An \<open>event_operator\<close> of \<open>None\<close> is inserted as the default of its column.\<close>

definition create_automation ::
  "uuid \<Rightarrow> uuid \<Rightarrow> json \<Rightarrow> json \<Rightarrow> json \<Rightarrow> json \<Rightarrow> json \<Rightarrow> db \<Rightarrow> automation result \<times> db" where
  "create_automation aid user_id name events actions event_operator metadata d =
     attempt d (both_columns name (if event_operator = JNull then JStr ''and'' else event_operator)) (\<lambda>(n, oper).
       let row = \<lparr>au_id = aid, au_user_id = user_id, au_name = n, au_enabled = True,
                  au_event_operator = oper, au_events = or_list events, au_actions = or_list actions,
                  au_metadata = or_empty metadata\<rparr>
       in attempt d (insert_automation row d) (\<lambda>d'. (Inr row, d')))"

definition list_automations :: "uuid \<Rightarrow> db \<Rightarrow> automation list" where
  "list_automations user_id d = select (\<lambda>a. au_user_id a = user_id) (automations d)"

definition find_automation :: "uuid \<Rightarrow> uuid \<Rightarrow> db \<Rightarrow> automation option result" where
  "find_automation user_id automation_id d =
     scalar_one_or_none (select (\<lambda>a. au_id a = automation_id \<and> au_user_id a = user_id) (automations d))"

text \<open>\<open>patch["k"]\<close> when the key is there, the old value otherwise.\<close>

definition patched :: "dict \<Rightarrow> string \<Rightarrow> (json \<Rightarrow> 'a) \<Rightarrow> 'a \<Rightarrow> 'a" where
  "patched patch k f old = (case map_of patch k of None \<Rightarrow> old | Some v \<Rightarrow> f v)"

definition update_automation :: "uuid \<Rightarrow> uuid \<Rightarrow> dict \<Rightarrow> db \<Rightarrow> automation result \<times> db" where
  "update_automation user_id automation_id patch d =
     attempt d (find_automation user_id automation_id d) (\<lambda>found. case found of
       None \<Rightarrow> (Inl (rainmaker 404 100015 ''Automation not found''), d)
     | Some row \<Rightarrow>
         attempt d (both_columns (patched patch ''name'' id (JStr (au_name row)))
                      (patched patch ''event_operator'' id (JStr (au_event_operator row)))) (\<lambda>(n, oper).
           let f = (\<lambda>a. a\<lparr>au_name := n, au_enabled := patched patch ''enabled'' truthy (au_enabled row),
                          au_event_operator := oper,
                          au_events := patched patch ''events'' (assigned (au_events row) \<circ> or_list) (au_events row),
                          au_actions := patched patch ''actions'' (assigned (au_actions row) \<circ> or_list) (au_actions row),
                          au_metadata := patched patch ''metadata'' (assigned (au_metadata row) \<circ> or_empty) (au_metadata row)\<rparr>)
           in if \<not> automation_cols (f row) then (Inl (Uncaught DataError), d)
              else (Inr (f row), d\<lparr>automations := update_where (\<lambda>a. au_id a = au_id row) f (automations d)\<rparr>)))"

definition delete_automation :: "uuid \<Rightarrow> uuid \<Rightarrow> db \<Rightarrow> unit result \<times> db" where
  "delete_automation user_id automation_id d =
     attempt d (find_automation user_id automation_id d) (\<lambda>found. case found of
       None \<Rightarrow> (Inl (rainmaker 404 100015 ''Automation not found''), d)
     | Some row \<Rightarrow>
         (Inr (), d\<lparr>automations := delete_where (\<lambda>a. au_id a = au_id row) (automations d)\<rparr>))"

definition serialise :: "automation \<Rightarrow> dict" where
  "serialise row = [(''automation_id'', JStr (str_uuid (au_id row))), (''name'', JStr (au_name row)),
     (''enabled'', JBool (au_enabled row)), (''event_operator'', JStr (au_event_operator row)),
     (''events'', au_events row), (''actions'', au_actions row), (''metadata'', or_empty (au_metadata row))]"

section \<open>Integrity\<close>

lemma create_automation_ok [store_ok]:
  "db_ok d \<Longrightarrow> db_ok (snd (create_automation aid uid n ev ac oper md d))"
  by (auto simp: create_automation_def Let_def intro: insert_automation_ok split: attempt_splits prod.splits)

lemma update_automation_op_ok [store_ok]: "db_ok d \<Longrightarrow> db_ok (snd (update_automation uid aid p d))"
  by (auto simp: update_automation_def Let_def intro: update_automation_ok
      split: attempt_splits option.splits prod.splits)

lemma delete_automation_op_ok [store_ok]: "db_ok d \<Longrightarrow> db_ok (snd (delete_automation uid aid d))"
  by (auto simp: delete_automation_def intro: delete_automation_ok split: attempt_splits option.splits)

section \<open>Properties\<close>

lemma find_automation_iff:
  "db_ok d \<Longrightarrow> find_automation uid aid d = Inr (Some a) \<longleftrightarrow>
     a \<in> set (automations d) \<and> au_id a = aid \<and> au_user_id a = uid"
  unfolding find_automation_def by (rule automations_by_id.found_iff [OF automation_keys]) auto

lemma find_automation_none:
  "(\<forall>a \<in> set (automations d). au_id a = aid \<longrightarrow> au_user_id a \<noteq> uid) \<Longrightarrow> find_automation uid aid d = Inr None"
  by (auto simp: find_automation_def select_def filter_empty_conv)

lemma both_columns_Inr: "both_columns a b = Inr (s, t) \<longleftrightarrow> a = JStr s \<and> b = JStr t"
  by (auto simp: both_columns_def str_column_def split: json.splits)

text \<open>
  A patch changes what it names.  A successful update is of an automation of that user; every
  field that the patch names has the patch's value (as a truth value, or with the empty default,
  where the code says so; a JSON field whose value is \<open>==\<close> the patch's stays as it is), every other field and the owner keep theirs, and every other automation
  is untouched.
\<close>

theorem automation_patch:
  assumes ok: "db_ok d" and step: "update_automation uid aid patch d = (Inr new, d')"
  shows "\<exists>old. old \<in> set (automations d) \<and> au_id old = aid \<and> au_user_id old = uid \<and>
    au_id new = aid \<and> au_user_id new = uid \<and>
    JStr (au_name new) = (case map_of patch ''name'' of None \<Rightarrow> JStr (au_name old) | Some v \<Rightarrow> v) \<and>
    au_enabled new = (case map_of patch ''enabled'' of None \<Rightarrow> au_enabled old | Some v \<Rightarrow> truthy v) \<and>
    JStr (au_event_operator new) =
      (case map_of patch ''event_operator'' of None \<Rightarrow> JStr (au_event_operator old) | Some v \<Rightarrow> v) \<and>
    au_events new = (case map_of patch ''events'' of None \<Rightarrow> au_events old | Some v \<Rightarrow> assigned (au_events old) (or_list v)) \<and>
    au_actions new = (case map_of patch ''actions'' of None \<Rightarrow> au_actions old | Some v \<Rightarrow> assigned (au_actions old) (or_list v)) \<and>
    au_metadata new = (case map_of patch ''metadata'' of None \<Rightarrow> au_metadata old | Some v \<Rightarrow> assigned (au_metadata old) (or_empty v)) \<and>
    d' = d\<lparr>automations := map (\<lambda>a. if au_id a = aid then new else a) (automations d)\<rparr>"
proof -
  from step obtain row n oper where row: "find_automation uid aid d = Inr (Some row)"
    and cols: "both_columns (patched patch ''name'' id (JStr (au_name row)))
        (patched patch ''event_operator'' id (JStr (au_event_operator row))) = Inr (n, oper)"
    and res: "update_automation uid aid patch d = (Inr new, d')"
    by (auto simp: update_automation_def elim!: attempt_InrE split: option.split_asm)
  have r: "row \<in> set (automations d)" "au_id row = aid" "au_user_id row = uid"
    using row find_automation_iff [OF ok] by simp_all
  have nm: "patched patch ''name'' id (JStr (au_name row)) = JStr n"
    "patched patch ''event_operator'' id (JStr (au_event_operator row)) = JStr oper"
    using cols by (simp_all add: both_columns_Inr)
  let ?f = "\<lambda>a. a\<lparr>au_name := n, au_enabled := patched patch ''enabled'' truthy (au_enabled row),
    au_event_operator := oper, au_events := patched patch ''events'' (assigned (au_events row) \<circ> or_list) (au_events row),
    au_actions := patched patch ''actions'' (assigned (au_actions row) \<circ> or_list) (au_actions row),
    au_metadata := patched patch ''metadata'' (assigned (au_metadata row) \<circ> or_empty) (au_metadata row)\<rparr>"
  from res have new: "new = ?f row"
    and d': "d' = d\<lparr>automations := update_where (\<lambda>a. au_id a = au_id row) ?f (automations d)\<rparr>"
    by (auto simp: update_automation_def row cols Let_def split: if_split_asm)
  have "a = row" if "a \<in> set (automations d)" "au_id a = aid" for a
    using automations_by_id.row_unique [OF automation_keys [OF ok] that(1) r(1)] that(2) r(2) by simp
  then have "update_where (\<lambda>a. au_id a = au_id row) ?f (automations d) =
      map (\<lambda>a. if au_id a = aid then new else a) (automations d)"
    unfolding update_where_def new r(2) by (intro map_cong) auto
  with r new nm d' show ?thesis
    by (intro exI [of _ row]) (simp add: patched_def split: option.splits)
qed

definition night_light :: automation where
  "night_light = \<lparr>au_id = 3, au_user_id = 1, au_name = ''night'', au_enabled = True,
     au_event_operator = ''and'', au_events = JArr [], au_actions = JArr [], au_metadata = JObj []\<rparr>"

definition automation_db :: db where
  "automation_db = empty_db\<lparr>users := [User 1 ''ann'' ''ann''], automations := [night_light]\<rparr>"

lemma automation_db_ok [simp]: "db_ok automation_db"
  by (simp add: db_ok_def keys_ok_def foreign_ok_def automation_db_def empty_db_def clash_free_def
      refs_defs present_def User_def night_light_def)

lemma automation_db_step:
  "update_automation 1 3 [(''enabled'', JInt 0)] automation_db =
     (Inr (night_light\<lparr>au_enabled := False\<rparr>),
      automation_db\<lparr>automations := [night_light\<lparr>au_enabled := False\<rparr>]\<rparr>)"
  by (simp add: update_automation_def find_automation_def automation_db_def empty_db_def select_def
      night_light_def both_columns_def str_column_def patched_def automation_cols_def fits_def update_where_def)

theorem automation_patch_witness:
  "\<exists>old. old \<in> set (automations automation_db) \<and> au_id old = 3 \<and> au_user_id old = 1 \<and>
     au_name (night_light\<lparr>au_enabled := False\<rparr>) = au_name old \<and>
     automation_db\<lparr>automations := [night_light\<lparr>au_enabled := False\<rparr>]\<rparr> =
       automation_db\<lparr>automations := map (\<lambda>a. if au_id a = 3 then night_light\<lparr>au_enabled := False\<rparr> else a)
         (automations automation_db)\<rparr>"
  using automation_patch [OF automation_db_ok automation_db_step] by auto

text \<open>
  Automations belong to their user: updating or deleting one that the user does not have, be it
  somebody else's, is a 404 that changes nothing, and deleting one's own removes exactly it.
\<close>

theorem automation_owner_only:
  assumes ok: "db_ok d"
  shows "delete_automation uid aid d =
      (if \<exists>a. a \<in> set (automations d) \<and> au_id a = aid \<and> au_user_id a = uid
       then (Inr (), d\<lparr>automations := filter (\<lambda>a. au_id a \<noteq> aid) (automations d)\<rparr>)
       else (Inl (rainmaker 404 100015 ''Automation not found''), d)) \<and>
    (\<not> (\<exists>a. a \<in> set (automations d) \<and> au_id a = aid \<and> au_user_id a = uid) \<longrightarrow>
       update_automation uid aid patch d = (Inl (rainmaker 404 100015 ''Automation not found''), d))"
proof (cases "\<exists>a. a \<in> set (automations d) \<and> au_id a = aid \<and> au_user_id a = uid")
  case True
  then obtain a where "a \<in> set (automations d)" "au_id a = aid" "au_user_id a = uid" by blast
  with find_automation_iff [OF ok, of uid aid a] True show ?thesis
    by (auto simp: delete_automation_def delete_where_def)
next
  case False
  then have "find_automation uid aid d = Inr None" by (intro find_automation_none) blast
  with False show ?thesis by (simp add: delete_automation_def update_automation_def)
qed

theorem automation_owner_only_witness:
  "delete_automation 2 3 automation_db = (Inl (rainmaker 404 100015 ''Automation not found''), automation_db)"
  using automation_owner_only [OF automation_db_ok, of 2 3 "[]"]
  by (simp add: automation_db_def night_light_def)

end
