(* ===== verification/NodeMapping.thy ===== *)
theory NodeMapping
  imports Access
begin

text \<open>
  \<open>app/services/mapping.py\<close>: how a node becomes a user's.  A mapping request is a row of
  \<open>mapping_challenges\<close> that starts \<open>pending\<close>; the legacy flow leaves it to the MQTT ingestor to
  complete, the challenge flow completes it in \<open>verify_challenge\<close>.  \<open>rid\<close> and \<open>chal\<close> are the draws
  of \<open>secrets.token_urlsafe(16)\<close> and \<open>(32)\<close>, \<open>cid\<close> and \<open>mid\<close> the \<open>uuid4\<close> of new rows.
\<close>

section \<open>Operations\<close>

definition request_legacy_mapping ::
  "(nat \<Rightarrow> datetime) \<Rightarrow> uuid \<Rightarrow> string \<Rightarrow> uuid \<Rightarrow> string \<Rightarrow> string \<Rightarrow> string \<Rightarrow> db \<Rightarrow> string result \<times> db"
where
  "request_legacy_mapping clk cid rid user_id node_id secret_key operation d =
     attempt d (insert_challenge
       ((MappingChallenge cid rid user_id node_id operation (clk 0 + hours 1))
          \<lparr>mc_secret_key := Some secret_key\<rparr>) d) (\<lambda>d'. (Inr rid, d'))"

definition get_mapping_status :: "uuid \<Rightarrow> string \<Rightarrow> db \<Rightarrow> dict result" where
  "get_mapping_status user_id request_id d =
     (case scalar_one_or_none (select (\<lambda>c. mc_request_id c = request_id \<and> mc_user_id c = user_id)
             (mapping_challenges d)) of
        Inl e \<Rightarrow> Inl e
      | Inr None \<Rightarrow> Inl (rainmaker 404 100015 ''Mapping request not found'')
      | Inr (Some row) \<Rightarrow>
          Inr [(''request_id'', JStr request_id), (''request_status'', JStr (mc_status row))])"

definition initiate_challenge ::
  "(nat \<Rightarrow> datetime) \<Rightarrow> uuid \<Rightarrow> string \<Rightarrow> string \<Rightarrow> uuid \<Rightarrow> string \<Rightarrow> db \<Rightarrow> dict result \<times> db"
where
  "initiate_challenge clk cid rid chal user_id node_id d =
     attempt d (insert_challenge
       ((MappingChallenge cid rid user_id node_id ''add'' (clk 0 + minutes 10))
          \<lparr>mc_challenge := Some chal\<rparr>) d) (\<lambda>d'.
       (Inr [(''request_id'', JStr rid), (''challenge'', JStr chal)], d'))"

definition complete_challenge :: "mapping_challenge \<Rightarrow> datetime \<Rightarrow> db \<Rightarrow> db" where
  "complete_challenge row now d =
     d\<lparr>mapping_challenges := update_where (\<lambda>c. mc_id c = mc_id row)
        (\<lambda>c. c\<lparr>mc_status := ''completed'', mc_completed_at := Some now\<rparr>) (mapping_challenges d)\<rparr>"

text \<open>
  The query for an existing mapping and, when there is none, the insertion of a primary one.  A
  request without a node (the column is nullable) finds no mapping, and its insertion violates
  \<open>NOT NULL\<close>.
\<close>

definition ensure_mapping :: "uuid \<Rightarrow> uuid \<Rightarrow> string option \<Rightarrow> db \<Rightarrow> db result" where
  "ensure_mapping mid user_id node_id d =
     (case node_id of
        None \<Rightarrow> Inl (Uncaught IntegrityError)
      | Some nid \<Rightarrow>
          (case find_mapping user_id nid d of
             Inl e \<Rightarrow> Inl e
           | Inr (Some existing) \<Rightarrow> Inr d
           | Inr None \<Rightarrow> insert_mapping \<lparr>unm_id = mid, unm_user_id = user_id, unm_node_id = nid,
                                         unm_role = ''primary'', unm_primary = True\<rparr> d))"

text \<open>\<open>secrets.compare_digest(challenge, response)\<close>; the response comes from a request body.\<close>

definition compare_digest_json :: "string \<Rightarrow> json \<Rightarrow> pyexc + bool" where
  "compare_digest_json a v = (case v of JStr b \<Rightarrow> compare_digest_str a b | _ \<Rightarrow> Inl TypeError)"

lemma compare_digest_json_simps [simp]:
  "compare_digest_json a (JStr b) = compare_digest_str a b"
  "compare_digest_json a v = Inr True \<Longrightarrow> v = JStr a"
  by (auto simp: compare_digest_json_def split: json.splits dest: compare_digest_True)

definition verify_challenge ::
  "(nat \<Rightarrow> datetime) \<Rightarrow> uuid \<Rightarrow> uuid \<Rightarrow> string \<Rightarrow> json \<Rightarrow> db \<Rightarrow> dict result \<times> db" where
  "verify_challenge clk mid user_id request_id challenge_response d =
     attempt d (scalar_one_or_none (select (\<lambda>c. mc_request_id c = request_id \<and>
         mc_user_id c = user_id \<and> mc_status c = ''pending'') (mapping_challenges d))) (\<lambda>found.
       case found of
         None \<Rightarrow> (Inl (invalid_request ''Mapping request not found or already used''), d)
       | Some row \<Rightarrow>
           if mc_expires_at row < clk 0 then (Inl (invalid_request ''Mapping request expired''), d)
           else case mc_challenge row of
             None \<Rightarrow> (Inl (invalid_request ''Mapping not in challenge-response mode''), d)
           | Some chal \<Rightarrow>
               attempt d (lift_exc (compare_digest_json chal challenge_response)) (\<lambda>same.
                 if \<not> same then (Inl (invalid_request ''Invalid challenge_response''), d)
                 else attempt d (ensure_mapping mid user_id (mc_node_id row) d) (\<lambda>d'.
                   (Inr [(''request_id'', JStr request_id), (''request_status'', JStr ''completed'')],
                    complete_challenge row (clk 1) d'))))"

section \<open>Integrity\<close>

lemma complete_challenge_ok [store_ok]: "db_ok d \<Longrightarrow> db_ok (complete_challenge row now d)"
  by (auto simp: complete_challenge_def intro: update_challenge_ok)

lemma ensure_mapping_ok [store_ok]:
  "db_ok d \<Longrightarrow> ensure_mapping mid uid nid d = Inr d' \<Longrightarrow> db_ok d'"
  by (auto simp: ensure_mapping_def intro: insert_mapping_ok split: option.splits sum.splits)

lemma request_legacy_mapping_ok [store_ok]:
  "db_ok d \<Longrightarrow> db_ok (snd (request_legacy_mapping clk cid rid uid nid sk oper d))"
  by (auto simp: request_legacy_mapping_def intro: insert_challenge_ok split: attempt_splits)

lemma initiate_challenge_ok [store_ok]:
  "db_ok d \<Longrightarrow> db_ok (snd (initiate_challenge clk cid rid chal uid nid d))"
  by (auto simp: initiate_challenge_def intro: insert_challenge_ok split: attempt_splits)

lemma verify_challenge_ok [store_ok]:
  "db_ok d \<Longrightarrow> db_ok (snd (verify_challenge clk mid uid rid resp d))"
  by (auto simp: verify_challenge_def intro: complete_challenge_ok ensure_mapping_ok
      split: attempt_splits option.splits)

section \<open>What each step does\<close>

lemma complete_challenge_fields [simp]:
  "users (complete_challenge row now d) = users d"
  "nodes (complete_challenge row now d) = nodes d"
  "user_node_mappings (complete_challenge row now d) = user_node_mappings d"
  "node_sharings (complete_challenge row now d) = node_sharings d"
  by (simp_all add: complete_challenge_def)

lemma is_mapped_complete [simp]: "is_mapped uid nid (complete_challenge row now d) = is_mapped uid nid d"
  by (simp add: is_mapped_def)

lemma ensure_mapping_users: "ensure_mapping mid uid nid d = Inr d' \<Longrightarrow> users d' = users d"
  by (auto simp: ensure_mapping_def insert_mapping_Inr split: option.splits sum.splits)

lemma ensure_mapping_frame:
  "ensure_mapping mid uid nid d = Inr d' \<Longrightarrow>
     d' = d\<lparr>user_node_mappings := user_node_mappings d'\<rparr>"
  by (auto simp: ensure_mapping_def insert_mapping_Inr split: option.splits sum.splits)

text \<open>The pair becomes mapped and no other pair changes.\<close>

lemma ensure_mapping_maps:
  assumes "ensure_mapping mid uid (Some nid) d = Inr d'"
  shows "is_mapped u n d' \<longleftrightarrow> is_mapped u n d \<or> u = uid \<and> n = nid"
  using assms
  by (auto simp: ensure_mapping_def insert_mapping_Inr is_mapped_def
      split: option.splits sum.splits dest: find_mapping_Some)

lemma ensure_mapping_known_node:
  assumes ok: "db_ok d" and "present usr_id (users d) uid" "present nd_node_id (nodes d) nid"
    and fresh: "\<forall>m \<in> set (user_node_mappings d). unm_id m \<noteq> mid"
  shows "\<exists>d'. ensure_mapping mid uid (Some nid) d = Inr d'"
proof (cases "find_mapping uid nid d")
  case (Inl e)
  with find_mapping_total [OF ok, of uid nid] show ?thesis by auto
next
  case (Inr x)
  show ?thesis
  proof (cases x)
    case None
    with Inr have "\<not> is_mapped uid nid d" using find_mapping_None by metis
    then have "\<forall>s \<in> set (user_node_mappings d). \<not> mapping_clash s
        \<lparr>unm_id = mid, unm_user_id = uid, unm_node_id = nid, unm_role = ''primary'', unm_primary = True\<rparr>"
      using fresh by (auto simp: mapping_clash_def is_mapped_def)
    with None Inr assms show ?thesis
      by (auto simp: ensure_mapping_def insert_mapping_Inr mapping_cols_def mapping_refs_def fits_def)
  next
    case (Some m)
    with Inr show ?thesis by (simp add: ensure_mapping_def)
  qed
qed

lemma pending_select:
  assumes ok: "db_ok d" and c: "c \<in> set (mapping_challenges d)" "mc_status c = ''pending''"
  shows "select (\<lambda>x. mc_request_id x = mc_request_id c \<and> mc_user_id x = mc_user_id c \<and>
      mc_status x = ''pending'') (mapping_challenges d) = [c]"
  by (rule challenges_by_request.select_refined [OF challenge_keys [OF ok] c(1)]) (simp_all add: c)

lemma select_completed:
  assumes "db_ok d" and "c \<in> set (mapping_challenges d)"
  shows "select (\<lambda>x. mc_request_id x = mc_request_id c \<and> mc_user_id x = uid \<and> mc_status x = ''pending'')
    (mapping_challenges (complete_challenge c now d)) = []"
proof -
  have "mc_id x = mc_id c" if "x \<in> set (mapping_challenges d)" "mc_request_id x = mc_request_id c" for x
    using challenges_by_request.row_unique [OF challenge_keys [OF assms(1)] that(1) assms(2) that(2)]
    by simp
  then show ?thesis
    by (auto simp: select_def filter_empty_conv complete_challenge_def set_update_where)
qed

text \<open>A successful verification, taken apart.\<close>

lemma verify_challenge_Inr:
  assumes "verify_challenge clk mid uid rid resp d = (Inr out, d')"
  obtains c nid d1 where "c \<in> set (mapping_challenges d)" "mc_request_id c = rid" "mc_user_id c = uid"
    "mc_status c = ''pending''" "\<not> mc_expires_at c < clk 0" "map_option JStr (mc_challenge c) = Some resp"
    "mc_node_id c = Some nid" "ensure_mapping mid uid (Some nid) d = Inr d1"
    "d' = complete_challenge c (clk 1) d1"
proof -
  let ?p = "\<lambda>c. mc_request_id c = rid \<and> mc_user_id c = uid \<and> mc_status c = ''pending''"
  from assms obtain c chal d1 where c: "select ?p (mapping_challenges d) = [c]"
    and rest: "\<not> mc_expires_at c < clk 0" "mc_challenge c = Some chal"
      "compare_digest_json chal resp = Inr True" "ensure_mapping mid uid (mc_node_id c) d = Inr d1"
      "d' = complete_challenge c (clk 1) d1"
    by (auto simp: verify_challenge_def elim!: attempt_InrE split: option.split_asm if_split_asm)
  then have "c \<in> set (select ?p (mapping_challenges d))" by simp
  moreover obtain nid where "mc_node_id c = Some nid"
    using rest(4) by (cases "mc_node_id c") (auto simp: ensure_mapping_def)
  ultimately show thesis
    using that [of c nid d1] rest compare_digest_json_simps(2) [OF rest(3)] by simp
qed

section \<open>Properties\<close>

text \<open>
  The challenge flow, from any consistent store in which the user and the node exist:
  \<open>initiate_challenge\<close> succeeds and returns the request id and the challenge, nobody's access
  changes yet, and \<open>verify_challenge\<close> within ten minutes with the returned challenge as its
  response succeeds, after which the user has access to the node.  No message of the device takes
  part in it.
\<close>

lemma challenge_flow:
  assumes ok: "db_ok d" and ex: "present usr_id (users d) uid" "present nd_node_id (nodes d) nid"
    and fresh: "\<forall>c \<in> set (mapping_challenges d). mc_id c \<noteq> cid \<and> mc_request_id c \<noteq> rid"
      "\<forall>m \<in> set (user_node_mappings d). unm_id m \<noteq> mid"
    and fit: "fits 64 rid" "fits 64 nid" "fits 256 chal" "is_ascii chal"
    and time: "clk' 0 \<le> clk 0 + minutes 10"
  shows "\<exists>d1 d2. initiate_challenge clk cid rid chal uid nid d =
      (Inr [(''request_id'', JStr rid), (''challenge'', JStr chal)], d1) \<and>
    user_node_mappings d1 = user_node_mappings d \<and>
    verify_challenge clk' mid uid rid (JStr chal) d1 =
      (Inr [(''request_id'', JStr rid), (''request_status'', JStr ''completed'')], d2) \<and>
    db_ok d2 \<and> has_access uid nid d2 = Inr True"
proof -
  let ?c = "(MappingChallenge cid rid uid nid ''add'' (clk 0 + minutes 10))\<lparr>mc_challenge := Some chal\<rparr>"
  let ?d1 = "d\<lparr>mapping_challenges := mapping_challenges d @ [?c]\<rparr>"
  have ins: "insert_challenge ?c d = Inr ?d1"
    using ex(1) fresh fit
    by (auto simp: insert_challenge_Inr challenge_cols_def challenge_refs_def challenge_clash_def
        MappingChallenge_def fits_def)
  then have ok1: "db_ok ?d1" by (rule insert_challenge_ok [OF ok])
  obtain d2 where d2: "ensure_mapping mid uid (Some nid) ?d1 = Inr d2"
    using ensure_mapping_known_node [OF ok1, of uid nid mid] ex fresh(2) by auto
  have sel: "select (\<lambda>x. mc_request_id x = rid \<and> mc_user_id x = uid \<and> mc_status x = ''pending'')
      (mapping_challenges ?d1) = [?c]"
    using pending_select [OF ok1, of ?c] by (simp add: MappingChallenge_def)
  let ?d2 = "complete_challenge ?c (clk' 1) d2"
  have "is_mapped uid nid ?d2" using ensure_mapping_maps [OF d2] by simp
  moreover have ok2: "db_ok ?d2"
    by (intro complete_challenge_ok ensure_mapping_ok [OF ok1 d2])
  moreover have "verify_challenge clk' mid uid rid (JStr chal) ?d1 =
      (Inr [(''request_id'', JStr rid), (''request_status'', JStr ''completed'')], ?d2)"
    unfolding verify_challenge_def sel using time fit(4) d2 by (simp add: MappingChallenge_def)
  ultimately show ?thesis
    using ins by (auto simp: initiate_challenge_def has_access_decides may_access_def)
qed

text \<open>
  \<open>verify_challenge\<close> succeeds only against a pending, unexpired request of that same user whose
  challenge equals the response; it then gives that user, and nobody else, access to the node of
  the request, and to no other node.
\<close>

theorem verify_challenge_sound:
  assumes "db_ok d" and "verify_challenge clk mid uid rid resp d = (Inr out, d')"
  shows "\<exists>c nid. c \<in> set (mapping_challenges d) \<and> mc_request_id c = rid \<and> mc_user_id c = uid \<and>
    mc_status c = ''pending'' \<and> clk 0 \<le> mc_expires_at c \<and> map_option JStr (mc_challenge c) = Some resp \<and>
    mc_node_id c = Some nid \<and>
    (\<forall>u n. is_mapped u n d' = (is_mapped u n d \<or> u = uid \<and> n = nid)) \<and>
    (\<forall>u n. is_shared u n d' = is_shared u n d)"
proof (rule verify_challenge_Inr [OF assms(2)])
  fix c nid d1
  assume c: "c \<in> set (mapping_challenges d)" "mc_request_id c = rid" "mc_user_id c = uid"
    "mc_status c = ''pending''" "\<not> mc_expires_at c < clk 0" "map_option JStr (mc_challenge c) = Some resp"
    "mc_node_id c = Some nid" and en: "ensure_mapping mid uid (Some nid) d = Inr d1"
    and d': "d' = complete_challenge c (clk 1) d1"
  have "node_sharings d1 = node_sharings d"
    using arg_cong [OF ensure_mapping_frame [OF en], of node_sharings] by simp
  with c show ?thesis
    by (intro exI [of _ c] exI [of _ nid]) (simp add: d' ensure_mapping_maps [OF en] is_shared_def)
qed

definition pending_mapping_db :: db where
  "pending_mapping_db = access_db\<lparr>mapping_challenges :=
     [(MappingChallenge 5 ''req'' 2 ''n2'' ''add'' 1000)\<lparr>mc_challenge := Some ''tok''\<rparr>]\<rparr>"

lemma pending_mapping_db_ok [simp]: "db_ok pending_mapping_db"
  by (simp add: db_ok_def keys_ok_def foreign_ok_def pending_mapping_db_def access_db_def empty_db_def
      clash_free_def clash_defs refs_defs present_def User_def Node_def MappingChallenge_def)

definition mapped_db :: db where
  "mapped_db = snd (verify_challenge (\<lambda>i. 60) 11 2 ''req'' (JStr ''tok'') pending_mapping_db)"

lemma mapped_db_step:
  "verify_challenge (\<lambda>i. 60) 11 2 ''req'' (JStr ''tok'') pending_mapping_db =
     (Inr [(''request_id'', JStr ''req''), (''request_status'', JStr ''completed'')], mapped_db)"
  by (simp add: mapped_db_def verify_challenge_def pending_mapping_db_def access_db_def empty_db_def
      select_def MappingChallenge_def compare_digest_str_def is_ascii_def code_point_def
      ensure_mapping_def find_mapping_def insert_mapping_def insert_row_def mapping_clash_def
      mapping_cols_def mapping_refs_def fits_def present_def User_def Node_def)

theorem verify_challenge_sound_witness:
  "\<exists>c nid. c \<in> set (mapping_challenges pending_mapping_db) \<and> mc_request_id c = ''req'' \<and>
    mc_user_id c = 2 \<and> mc_status c = ''pending'' \<and> 60 \<le> mc_expires_at c \<and>
    map_option JStr (mc_challenge c) = Some (JStr ''tok'') \<and> mc_node_id c = Some nid \<and>
    (\<forall>u n. is_mapped u n mapped_db = (is_mapped u n pending_mapping_db \<or> u = 2 \<and> n = nid)) \<and>
    (\<forall>u n. is_shared u n mapped_db = is_shared u n pending_mapping_db)"
  using verify_challenge_sound [OF pending_mapping_db_ok mapped_db_step] .

text \<open>
  A mapping request is used once: after a successful verification, every later verification of
  the same request id, by any user and with any response, is a 400 that changes nothing.
\<close>

theorem verify_challenge_once:
  assumes "db_ok d" and "verify_challenge clk mid uid rid resp d = (Inr out, d')"
  shows "verify_challenge clk' mid' uid' rid resp' d' =
    (Inl (invalid_request ''Mapping request not found or already used''), d')"
proof (rule verify_challenge_Inr [OF assms(2)])
  fix c nid d1
  assume c: "c \<in> set (mapping_challenges d)" "mc_request_id c = rid"
    and en: "ensure_mapping mid uid (Some nid) d = Inr d1" and d': "d' = complete_challenge c (clk 1) d1"
  have "mapping_challenges d1 = mapping_challenges d"
    using arg_cong [OF ensure_mapping_frame [OF en], of mapping_challenges] by simp
  then have "select (\<lambda>x. mc_request_id x = rid \<and> mc_user_id x = uid' \<and> mc_status x = ''pending'')
      (mapping_challenges d') = []"
    using select_completed [OF ensure_mapping_ok [OF assms(1) en], of c] c d' by simp
  then show ?thesis by (simp add: verify_challenge_def)
qed

theorem verify_challenge_once_witness:
  "verify_challenge (\<lambda>i. 61) 12 1 ''req'' (JStr ''tok'') mapped_db =
    (Inl (invalid_request ''Mapping request not found or already used''), mapped_db)"
  by (rule verify_challenge_once [OF pending_mapping_db_ok mapped_db_step])

text \<open>
  A request for a node that does not exist is accepted by \<open>initiate_challenge\<close>, and its
  verification with the right response then fails on the foreign key (an uncaught
  \<open>IntegrityError\<close>, answered 500) and leaves the request pending.
\<close>

theorem verify_unknown_node:
  assumes "db_ok d" and "c \<in> set (mapping_challenges d)" "mc_status c = ''pending''"
    and "clk 0 \<le> mc_expires_at c" "mc_challenge c = Some resp" "is_ascii resp"
    and "mc_node_id c = Some nid" "\<not> present nd_node_id (nodes d) nid"
  shows "verify_challenge clk mid (mc_user_id c) (mc_request_id c) (JStr resp) d =
    (Inl (Uncaught IntegrityError), d)"
proof -
  have "\<not> is_mapped (mc_user_id c) nid d"
    using mapping_foreign [OF assms(1)] assms(8) by (force simp: is_mapped_def mapping_refs_def)
  then have "find_mapping (mc_user_id c) nid d = Inr None" by (simp add: find_mapping_None)
  then have "ensure_mapping mid (mc_user_id c) (Some nid) d = Inl (Uncaught IntegrityError)"
    using assms(8)
    by (simp add: ensure_mapping_def insert_mapping_def insert_row_def mapping_cols_def
        mapping_refs_def fits_def)
  with assms show ?thesis
    unfolding verify_challenge_def pending_select [OF assms(1-3)] by simp
qed

definition ghost_mapping_db :: db where
  "ghost_mapping_db = access_db\<lparr>mapping_challenges :=
     [(MappingChallenge 5 ''req'' 2 ''n9'' ''add'' 1000)\<lparr>mc_challenge := Some ''tok''\<rparr>]\<rparr>"

theorem verify_unknown_node_witness:
  "verify_challenge (\<lambda>i. 60) 11 2 ''req'' (JStr ''tok'') ghost_mapping_db =
    (Inl (Uncaught IntegrityError), ghost_mapping_db)"
  using verify_unknown_node [of ghost_mapping_db
      "(MappingChallenge 5 ''req'' 2 ''n9'' ''add'' 1000)\<lparr>mc_challenge := Some ''tok''\<rparr>"
      "\<lambda>i. 60" "''tok''" "''n9''" 11]
  by (simp add: db_ok_def keys_ok_def foreign_ok_def ghost_mapping_db_def access_db_def empty_db_def
      clash_free_def clash_defs refs_defs present_def User_def Node_def MappingChallenge_def
      is_ascii_def code_point_def)

end
