(* ===== verification/NodeSvc.thy ===== *)
theory NodeSvc
  imports Schema
begin

text \<open>
  \<open>app/services/node.py\<close>: a node's configuration and its parameter shadow, written by the HTTPS
  API and by the MQTT ingestor alike.  The configuration is replaced, the shadow is merged two
  levels deep.
\<close>

section \<open>Operations\<close>

definition upsert_node_config :: "string \<Rightarrow> dict \<Rightarrow> db \<Rightarrow> node_config result \<times> db" where
  "upsert_node_config node_id payload d =
     attempt d (scalar_one_or_none (select (\<lambda>c. cfg_node_id c = node_id) (node_configs d))) (\<lambda>existing.
     attempt d (str_column (get payload ''config_version'')) (\<lambda>cfg_version.
       case existing of
         None \<Rightarrow>
           let row = \<lparr>cfg_node_id = node_id, cfg_config_version = cfg_version, cfg_payload = payload\<rparr>
           in attempt d (insert_config row d) (\<lambda>d'. (Inr row, d'))
       | Some c \<Rightarrow>
           let row = c\<lparr>cfg_config_version := cfg_version, cfg_payload := assigned_dict (cfg_payload c) payload\<rparr>
           in if \<not> config_cols row then (Inl (Uncaught DataError), d)
              else (Inr row, d\<lparr>node_configs := update_where (\<lambda>x. cfg_node_id x = cfg_node_id c)
                (\<lambda>x. x\<lparr>cfg_config_version := cfg_version, cfg_payload := cfg_payload row\<rparr>) (node_configs d)\<rparr>)))"

definition merge_value :: "json \<Rightarrow> json \<Rightarrow> json" where
  "merge_value current params =
     (case (params, current) of
        (JObj new, JObj old) \<Rightarrow> JObj (dict_update old new)
      | _ \<Rightarrow> params)"

text \<open>\<open>_merge_params\<close>; the loop runs over the items of the update.\<close>

primrec merge_params :: "dict \<Rightarrow> dict \<Rightarrow> dict" where
  "merge_params merged [] = merged"
| "merge_params merged (item # items) =
     merge_params (AList.update (fst item) (merge_value (get merged (fst item)) (snd item)) merged) items"

text \<open>A merged payload that is \<open>==\<close> the loaded one is no change, and no UPDATE is emitted for it.\<close>

definition upsert_params_shadow :: "string \<Rightarrow> dict \<Rightarrow> db \<Rightarrow> node_params_shadow result \<times> db" where
  "upsert_params_shadow node_id params d =
     attempt d (scalar_one_or_none (select (\<lambda>s. shadow_node_id s = node_id) (node_params_shadows d)))
     (\<lambda>existing. case existing of
        None \<Rightarrow>
          let row = \<lparr>shadow_node_id = node_id, shadow_payload = params\<rparr>
          in attempt d (insert_shadow row d) (\<lambda>d'. (Inr row, d'))
      | Some s \<Rightarrow>
          let row = s\<lparr>shadow_payload := merge_params (shadow_payload s) params\<rparr>
          in if dict_eq (shadow_payload row) (shadow_payload s) then (Inr s, d)
             else if \<not> shadow_cols row then (Inl (Uncaught DataError), d)
             else (Inr row, d\<lparr>node_params_shadows := update_where (\<lambda>x. shadow_node_id x = shadow_node_id s)
               (\<lambda>x. x\<lparr>shadow_payload := shadow_payload row\<rparr>) (node_params_shadows d)\<rparr>))"

section \<open>Integrity\<close>

lemma upsert_node_config_ok [store_ok]: "db_ok d \<Longrightarrow> db_ok (snd (upsert_node_config nid pl d))"
  by (auto simp: upsert_node_config_def Let_def intro: insert_config_ok update_config_ok
      split: attempt_splits option.splits)

lemma upsert_params_shadow_ok [store_ok]: "db_ok d \<Longrightarrow> db_ok (snd (upsert_params_shadow nid ps d))"
  by (auto simp: upsert_params_shadow_def Let_def intro: insert_shadow_ok update_shadow_ok
      split: attempt_splits option.splits)

section \<open>The laws of the merge\<close>

text \<open>What a lookup in a merged shadow returns.\<close>

lemma map_of_merge_params:
  "dict_ok u \<Longrightarrow> map_of (merge_params c u) k =
     (case map_of u k of None \<Rightarrow> map_of c k | Some v \<Rightarrow> Some (merge_value (get c k) v))"
proof (induction u arbitrary: c)
  case (Cons p u)
  then have ok: "dict_ok u" and none: "map_of u (fst p) = None"
    by (simp_all add: dict_ok_def map_of_eq_None_iff)
  from Cons.IH [OF ok] none show ?case
    by (cases p; cases "k = fst p"; cases "map_of u k") (simp_all add: update_conv' get_or_def)
qed (simp add: dict_ok_def)

lemma dict_ok_merge_params [simp]: "dict_ok c \<Longrightarrow> dict_ok (merge_params c u)"
  by (induction u arbitrary: c) auto

lemma update_same: "map_of d k = Some v \<Longrightarrow> AList.update k v d = d"
  by (induction d) auto

lemma dict_update_absorb:
  "(\<And>k v. (k, v) \<in> set e \<Longrightarrow> map_of d k = Some v) \<Longrightarrow> dict_update d e = d"
  by (induction e) (auto simp: update_same)

lemma dict_update_idem: "dict_ok e \<Longrightarrow> dict_update (dict_update d e) e = dict_update d e"
  by (rule dict_update_absorb) (simp add: map_of_dict_update dict_ok_def)

definition params_ok :: "dict \<Rightarrow> bool" where
  "params_ok u \<longleftrightarrow> dict_ok u \<and> list_all (\<lambda>p. case snd p of JObj ps \<Rightarrow> dict_ok ps | _ \<Rightarrow> True) u"

lemma merge_value_idem:
  "(case v of JObj ps \<Rightarrow> dict_ok ps | _ \<Rightarrow> True) \<Longrightarrow> merge_value (merge_value c v) v = merge_value c v"
  by (auto simp: merge_value_def dict_update_idem dict_update_absorb dict_ok_def split: json.splits)

lemma merge_params_absorb:
  "(\<And>k v. (k, v) \<in> set u \<Longrightarrow> map_of c k = Some (merge_value (get c k) v)) \<Longrightarrow> merge_params c u = c"
proof (induction u)
  case (Cons p u)
  then have "map_of c (fst p) = Some (merge_value (get c (fst p)) (snd p))" by (cases p) simp
  then have "AList.update (fst p) (merge_value (get c (fst p)) (snd p)) c = c" by (rule update_same)
  with Cons show ?case by simp
qed simp

lemma merge_params_idem:
  assumes "params_ok u"
  shows "merge_params (merge_params c u) u = merge_params c u"
proof (rule merge_params_absorb)
  fix k v
  assume kv: "(k, v) \<in> set u"
  with assms have v: "map_of u k = Some v" and ok: "case v of JObj ps \<Rightarrow> dict_ok ps | _ \<Rightarrow> True"
    by (auto simp: params_ok_def dict_ok_def list_all_iff)
  with assms show "map_of (merge_params c u) k = Some (merge_value (get (merge_params c u) k) v)"
    by (simp add: map_of_merge_params params_ok_def get_or_def merge_value_idem)
qed

section \<open>Reading back\<close>

definition shadow_of :: "string \<Rightarrow> db \<Rightarrow> dict option" where
  "shadow_of nid d =
     map_option shadow_payload (first (select (\<lambda>s. shadow_node_id s = nid) (node_params_shadows d)))"

definition config_of :: "string \<Rightarrow> db \<Rightarrow> dict option" where
  "config_of nid d = map_option cfg_payload (first (select (\<lambda>c. cfg_node_id c = nid) (node_configs d)))"

lemma select_update_key:
  assumes "\<And>r. key (f r) = key r"
  shows "select (\<lambda>r. key r = k) (update_where (\<lambda>r. key r = k') f rows) =
    (if k = k' then map f (select (\<lambda>r. key r = k) rows) else select (\<lambda>r. key r = k) rows)"
  by (induction rows) (auto simp: select_def update_where_def assms)

lemma select_snoc_key:
  "select (\<lambda>r. key r = k) (rows @ [x]) = select (\<lambda>r. key r = k) rows @ (if key x = k then [x] else [])"
  by (simp add: select_def)

lemma shadow_upsert:
  assumes "upsert_params_shadow nid ps d = (Inr row, d')"
  shows "shadow_of n d' = (if n = nid then Some (case shadow_of nid d of None \<Rightarrow> ps
    | Some old \<Rightarrow> assigned_dict old (merge_params old ps)) else shadow_of n d)"
proof (cases "select (\<lambda>s. shadow_node_id s = nid) (node_params_shadows d)")
  case Nil
  with assms have "insert_shadow \<lparr>shadow_node_id = nid, shadow_payload = ps\<rparr> d = Inr d'"
    by (auto simp: upsert_params_shadow_def Let_def elim!: attempt_InrE)
  with Nil show ?thesis by (auto simp: insert_shadow_Inr shadow_of_def select_snoc_key)
next
  case (Cons s ss)
  with assms have one: "select (\<lambda>s. shadow_node_id s = nid) (node_params_shadows d) = [s]"
    by (cases ss) (auto simp: upsert_params_shadow_def)
  show ?thesis
  proof (cases "dict_eq (merge_params (shadow_payload s) ps) (shadow_payload s)")
    case True
    with assms one show ?thesis by (simp add: upsert_params_shadow_def shadow_of_def assigned_dict_def)
  next
    case False
    with assms one have "d' = d\<lparr>node_params_shadows := update_where (\<lambda>x. shadow_node_id x = shadow_node_id s)
        (\<lambda>x. x\<lparr>shadow_payload := merge_params (shadow_payload s) ps\<rparr>) (node_params_shadows d)\<rparr>"
      by (auto simp: upsert_params_shadow_def Let_def split: if_split_asm)
    with False one select_one [OF one] show ?thesis by (simp add: shadow_of_def select_update_key assigned_dict_def)
  qed
qed

lemma config_upsert:
  assumes "upsert_node_config nid pl d = (Inr row, d')"
  shows "config_of n d' = (if n = nid then Some (case config_of nid d of None \<Rightarrow> pl | Some old \<Rightarrow> assigned_dict old pl)
    else config_of n d)"
proof (cases "select (\<lambda>c. cfg_node_id c = nid) (node_configs d)")
  case Nil
  with assms obtain v where "insert_config \<lparr>cfg_node_id = nid, cfg_config_version = v, cfg_payload = pl\<rparr> d = Inr d'"
    by (auto simp: upsert_node_config_def Let_def elim!: attempt_InrE)
  with Nil show ?thesis by (auto simp: insert_config_Inr config_of_def select_snoc_key)
next
  case (Cons c cs)
  with assms have one: "select (\<lambda>c. cfg_node_id c = nid) (node_configs d) = [c]"
    by (cases cs) (auto simp: upsert_node_config_def)
  with assms obtain v where "d' = d\<lparr>node_configs := update_where (\<lambda>x. cfg_node_id x = cfg_node_id c)
      (\<lambda>x. x\<lparr>cfg_config_version := v, cfg_payload := assigned_dict (cfg_payload c) pl\<rparr>) (node_configs d)\<rparr>"
    by (auto simp: upsert_node_config_def Let_def elim!: attempt_InrE split: if_split_asm)
  with one select_one [OF one] show ?thesis by (simp add: config_of_def select_update_key)
qed

lemma config_upsert_frame:
  "upsert_node_config nid pl d = (Inr row, d') \<Longrightarrow> d' = d\<lparr>node_configs := node_configs d'\<rparr>"
  by (auto simp: upsert_node_config_def Let_def insert_config_Inr
      elim!: attempt_InrE split: option.split_asm if_split_asm)

lemma shadow_upsert_frame:
  "upsert_params_shadow nid ps d = (Inr row, d') \<Longrightarrow>
     d' = d\<lparr>node_params_shadows := node_params_shadows d'\<rparr>"
  by (auto simp: upsert_params_shadow_def Let_def insert_shadow_Inr
      elim!: attempt_InrE split: option.split_asm if_split_asm)

lemma update_shadow_exists:
  assumes ok: "db_ok d" and n: "present nd_node_id (nodes d) nid"
    and st: "\<And>c. shadow_of nid d = Some c \<Longrightarrow> storable (JObj (merge_params c ps))" "storable (JObj ps)"
  shows "\<exists>row d'. upsert_params_shadow nid ps d = (Inr row, d')"
proof (cases "select (\<lambda>s. shadow_node_id s = nid) (node_params_shadows d)")
  case Nil
  then have "\<forall>s \<in> set (node_params_shadows d). shadow_node_id s \<noteq> nid"
    by (simp add: select_def filter_empty_conv)
  then show ?thesis
    using Nil n st(2) by (simp add: upsert_params_shadow_def Let_def insert_shadow_def insert_row_def
        shadow_cols_def shadow_refs_def shadow_clash_def)
next
  case (Cons s ss)
  then have s: "s \<in> set (node_params_shadows d)" "shadow_node_id s = nid"
    using set_select [of "\<lambda>s. shadow_node_id s = nid" "node_params_shadows d"] by auto
  then have "select (\<lambda>s. shadow_node_id s = nid) (node_params_shadows d) = [s]"
    using shadows_by_node.select_key [OF shadow_keys [OF ok] s(1)] by simp
  with st(1) show ?thesis
    by (simp add: upsert_params_shadow_def shadow_cols_def shadow_of_def Let_def)
qed

lemma update_where_id: "(\<And>r. r \<in> set rows \<Longrightarrow> p r \<Longrightarrow> f r = r) \<Longrightarrow> update_where p f rows = rows"
  by (auto simp: update_where_def intro: map_idI)

text \<open>The row that is written, and where it is found again.\<close>

lemma shadow_upsert_row:
  assumes ok: "db_ok d" and "upsert_params_shadow nid ps d = (Inr row, d')"
  shows "select (\<lambda>s. shadow_node_id s = nid) (node_params_shadows d') = [row] \<and>
    (case shadow_of nid d of
       None \<Rightarrow> shadow_cols row \<and> shadow_payload row = ps
     | Some old \<Rightarrow> shadow_payload row = old \<and> dict_eq (merge_params old ps) old \<and> d' = d \<or>
         shadow_cols row \<and> shadow_payload row = merge_params old ps)"
proof (cases "select (\<lambda>s. shadow_node_id s = nid) (node_params_shadows d)")
  case Nil
  with assms(2) have "insert_shadow row d = Inr d'" "row = \<lparr>shadow_node_id = nid, shadow_payload = ps\<rparr>"
    by (auto simp: upsert_params_shadow_def Let_def elim!: attempt_InrE)
  with Nil show ?thesis by (auto simp: insert_shadow_Inr shadow_of_def select_snoc_key)
next
  case (Cons s ss)
  with assms(2) have one: "select (\<lambda>s. shadow_node_id s = nid) (node_params_shadows d) = [s]"
    by (cases ss) (auto simp: upsert_params_shadow_def)
  show ?thesis
  proof (cases "dict_eq (merge_params (shadow_payload s) ps) (shadow_payload s)")
    case True
    with assms(2) one show ?thesis by (simp add: upsert_params_shadow_def shadow_of_def)
  next
    case False
    with assms(2) one have "row = s\<lparr>shadow_payload := merge_params (shadow_payload s) ps\<rparr>" "shadow_cols row"
        "d' = d\<lparr>node_params_shadows := update_where (\<lambda>x. shadow_node_id x = shadow_node_id s)
        (\<lambda>x. x\<lparr>shadow_payload := merge_params (shadow_payload s) ps\<rparr>) (node_params_shadows d)\<rparr>"
      by (auto simp: upsert_params_shadow_def Let_def split: if_split_asm)
    with one select_one [OF one] show ?thesis by (simp add: shadow_of_def select_update_key)
  qed
qed

text \<open>The value of one parameter of one device in a shadow.\<close>

definition param_of :: "dict \<Rightarrow> string \<Rightarrow> string \<Rightarrow> json option" where
  "param_of sh dev p = (case map_of sh dev of Some (JObj ps) \<Rightarrow> map_of ps p | _ \<Rightarrow> None)"

lemma param_of_merge:
  assumes "params_ok ps"
  shows "param_of (merge_params old ps) dev p = (case map_of ps dev of
       None \<Rightarrow> param_of old dev p
     | Some v \<Rightarrow> (case v of
         JObj reported \<Rightarrow> (case map_of reported p of Some x \<Rightarrow> Some x | None \<Rightarrow> param_of old dev p)
       | _ \<Rightarrow> None))"
proof -
  have inner: "dict_ok r" if "map_of ps dev = Some (JObj r)" for r
    using assms map_of_SomeD [OF that] by (force simp: params_ok_def list_all_iff)
  have ok: "dict_ok ps" using assms by (simp add: params_ok_def)
  show ?thesis
    using inner
    by (auto simp: param_of_def map_of_merge_params [OF ok] merge_value_def get_or_def map_of_dict_update
        split: option.splits json.splits)
qed

text \<open>Shadows that Python takes for equal have the same parameters, with values it takes for equal.\<close>

lemma dict_eq_param_of:
  assumes "dict_eq a b"
  shows "rel_option py_eq (param_of a dev p) (param_of b dev p)"
  using py_eq_map_of [OF assms [unfolded dict_eq_def], of dev]
proof (cases rule: option.rel_cases)
  case (Some v w)
  have "(\<exists>qs. v = JObj qs) \<longleftrightarrow> (\<exists>qs. w = JObj qs)" using Some(3) py_eq_JObj by blast
  then show ?thesis using Some py_eq_map_of by (auto simp: param_of_def split: json.splits)
qed (simp add: param_of_def)

text \<open>What is stored stays storable.\<close>

abbreviation storables :: "dict \<Rightarrow> bool" where
  "storables d \<equiv> list_all (\<lambda>p. storable (snd p)) d"

lemma storables_item [simp]: "storables d \<Longrightarrow> storable v \<Longrightarrow> storables (AList.update k v d)"
  by (induction d) auto

lemma storables_dict_update [simp]: "storables d \<Longrightarrow> storables e \<Longrightarrow> storables (dict_update d e)"
  by (induction e arbitrary: d) auto

lemma storables_map_of: "storables d \<Longrightarrow> map_of d k = Some v \<Longrightarrow> storable v"
  by (auto simp: list_all_iff dest!: map_of_SomeD)

lemma storables_param: "storables sh \<Longrightarrow> param_of sh dev p = Some x \<Longrightarrow> storable x"
  by (auto simp: param_of_def split: option.split_asm json.split_asm dest!: storables_map_of)

lemma rel_param_refl: "storables sh \<Longrightarrow> rel_option py_eq (param_of sh dev p) (param_of sh dev p)"
  by (rule option.rel_refl_strong) (auto dest: storables_param py_eq_refl)

lemma merge_value_storable: "storable c \<Longrightarrow> storable v \<Longrightarrow> storable (merge_value c v)"
  by (auto simp: merge_value_def split: json.splits)

lemma storables_merge_params: "storables c \<Longrightarrow> storables u \<Longrightarrow> storables (merge_params c u)"
proof (induction u arbitrary: c)
  case (Cons p u)
  have "storable (get c (fst p))"
    using Cons.prems(1) by (cases "map_of c (fst p)") (auto simp: get_or_def dest: storables_map_of)
  then have "storable (merge_value (get c (fst p)) (snd p))" using Cons.prems(2) by (simp add: merge_value_storable)
  with Cons show ?case by simp
qed simp

section \<open>Properties\<close>

text \<open>
  A parameter report changes exactly what it mentions.  After a successful
  \<open>upsert_params_shadow\<close> that changes the shadow of a node, a parameter that the report gives has the
  reported value, one that it does not give keeps its value (unless the report replaces the whole
  device by something that is not an object), and the shadows of all other nodes are untouched.
\<close>

theorem params_shadow_merge:
  assumes "params_ok ps" and "upsert_params_shadow nid ps d = (Inr row, d')" and "shadow_of nid d = Some old"
    and "\<not> dict_eq (merge_params old ps) old"
  shows "\<exists>new. shadow_of nid d' = Some new \<and>
    (\<forall>dev p. param_of new dev p = (case map_of ps dev of
       None \<Rightarrow> param_of old dev p
     | Some v \<Rightarrow> (case v of
         JObj reported \<Rightarrow> (case map_of reported p of Some x \<Rightarrow> Some x | None \<Rightarrow> param_of old dev p)
       | _ \<Rightarrow> None))) \<and>
    (\<forall>n. n \<noteq> nid \<longrightarrow> shadow_of n d' = shadow_of n d)"
proof (intro exI [of _ "merge_params old ps"] conjI allI impI)
  show "shadow_of nid d' = Some (merge_params old ps)"
    using shadow_upsert [OF assms(2), of nid] assms(3,4) by (simp add: assigned_dict_def)
  show "shadow_of n d' = shadow_of n d" if "n \<noteq> nid" for n
    using shadow_upsert [OF assms(2), of n] that by simp
qed (rule param_of_merge [OF assms(1)])

definition shadow_db :: db where
  "shadow_db = empty_db\<lparr>nodes := [Node ''n1'' 0, Node ''n2'' 0], node_params_shadows :=
     [\<lparr>shadow_node_id = ''n1'', shadow_payload =
        [(''Light'', JObj [(''Power'', JBool True), (''Level'', JInt 5)])]\<rparr>]\<rparr>"

lemma shadow_db_ok [simp]: "db_ok shadow_db"
  by (simp add: db_ok_def keys_ok_def foreign_ok_def shadow_db_def empty_db_def clash_free_def
      clash_defs refs_defs present_def Node_def)

definition light_off :: dict where
  "light_off = [(''Light'', JObj [(''Power'', JBool False)])]"

definition shadow_db' :: db where
  "shadow_db' = shadow_db\<lparr>node_params_shadows := [\<lparr>shadow_node_id = ''n1'', shadow_payload =
        [(''Light'', JObj [(''Power'', JBool False), (''Level'', JInt 5)])]\<rparr>]\<rparr>"

lemma shadow_db_step:
  "upsert_params_shadow ''n1'' light_off shadow_db =
     (Inr \<lparr>shadow_node_id = ''n1'', shadow_payload =
        [(''Light'', JObj [(''Power'', JBool False), (''Level'', JInt 5)])]\<rparr>, shadow_db')"
  by (simp add: upsert_params_shadow_def Let_def shadow_db_def shadow_db'_def empty_db_def select_def light_off_def
      merge_value_def get_or_def shadow_cols_def update_where_def has_key_def dict_eq_def)

lemma light_off_ok [simp]: "params_ok light_off"
  by (simp add: params_ok_def dict_ok_def light_off_def)

theorem params_shadow_merge_witness:
  "\<exists>new. shadow_of ''n1'' shadow_db' = Some new \<and>
     param_of new ''Light'' ''Power'' = Some (JBool False) \<and> param_of new ''Light'' ''Level'' = Some (JInt 5)"
proof -
  let ?old = "[(''Light'', JObj [(''Power'', JBool True), (''Level'', JInt 5)])]"
  have "shadow_of ''n1'' shadow_db = Some ?old"
    by (simp add: shadow_of_def shadow_db_def select_def)
  moreover have "\<not> dict_eq (merge_params ?old light_off) ?old"
    by (simp add: light_off_def merge_value_def get_or_def has_key_def dict_eq_def)
  ultimately obtain new where
    new: "shadow_of ''n1'' shadow_db' = Some new"
    and eq: "\<And>dev p. param_of new dev p = (case map_of light_off dev of
       None \<Rightarrow> param_of ?old dev p
     | Some v \<Rightarrow> (case v of
         JObj reported \<Rightarrow> (case map_of reported p of Some x \<Rightarrow> Some x | None \<Rightarrow> param_of ?old dev p)
       | _ \<Rightarrow> None))" using params_shadow_merge [OF light_off_ok shadow_db_step] by blast
  show ?thesis
    by (rule exI [of _ new]) (simp add: new eq light_off_def, simp add: param_of_def)
qed

text \<open>
  Reporting the same parameters again is harmless: from a consistent store, a second identical
  report succeeds with the same row and leaves the store exactly as the first one did.  This is
  what makes redelivery of an MQTT message (QoS 1) safe.
\<close>

theorem params_report_idempotent:
  assumes ok: "db_ok d" and ps: "params_ok ps" and step: "upsert_params_shadow nid ps d = (Inr row, d')"
  shows "upsert_params_shadow nid ps d' = (Inr row, d')"
proof (cases "d' = d")
  case False
  note row = shadow_upsert_row [OF ok step]
  have "merge_params ps ps = ps"
  proof (rule merge_params_absorb)
    fix k v
    assume "(k, v) \<in> set ps"
    with ps have "map_of ps k = Some v" "case v of JObj qs \<Rightarrow> dict_ok qs | _ \<Rightarrow> True"
      by (auto simp: params_ok_def dict_ok_def list_all_iff)
    then show "map_of ps k = Some (merge_value (get ps k) v)"
      by (auto simp: get_or_def merge_value_def dict_ok_def dict_update_absorb split: json.splits)
  qed
  then have same: "merge_params (shadow_payload row) ps = shadow_payload row" "shadow_cols row"
    using row merge_params_idem [OF ps] False by (auto split: option.splits)
  have ok': "db_ok d'" using upsert_params_shadow_ok [OF ok, of nid ps] step by simp
  have "x = row" if "x \<in> set (node_params_shadows d')" "shadow_node_id x = shadow_node_id row" for x
    using shadows_by_node.row_unique [OF shadow_keys [OF ok'] that(1)] select_one [of _ _ row] row that(2)
    by (metis (no_types, lifting))
  note unique = this
  have "update_where (\<lambda>x. shadow_node_id x = shadow_node_id row)
      (\<lambda>x. x\<lparr>shadow_payload := shadow_payload row\<rparr>) (node_params_shadows d') = node_params_shadows d'"
    by (rule update_where_id) (use unique in fastforce)
  with conjunct1 [OF row] same show ?thesis by (simp add: upsert_params_shadow_def Let_def)
qed (use step in simp)

theorem params_report_idempotent_witness:
  "upsert_params_shadow ''n1'' light_off shadow_db' =
     (Inr \<lparr>shadow_node_id = ''n1'', shadow_payload =
        [(''Light'', JObj [(''Power'', JBool False), (''Level'', JInt 5)])]\<rparr>, shadow_db')"
  by (rule params_report_idempotent [OF shadow_db_ok light_off_ok shadow_db_step])

end
