(* ===== verification/VmqAuthz.thy ===== *)
theory VmqAuthz
  imports Schema Config PyNum
begin

text \<open>
  \<open>app/services/vmq_authz.py\<close>: the answers to VerneMQ's webhooks.  A device may connect when a
  certificate with its common name is not revoked, and may publish and subscribe below
  \<open>node/<cn>/\<close>; the backend's own user may do everything; connects and disconnects are recorded on
  the node.
\<close>

section \<open>Operations\<close>

definition allow :: dict where
  "allow = [(''result'', JStr ''ok'')]"

definition refuse :: "string \<Rightarrow> dict" where
  "refuse msg = [(''result'', JObj [(''error'', JStr msg)])]"

definition is_backend :: "settings \<Rightarrow> json \<Rightarrow> bool" where
  "is_backend S username \<longleftrightarrow> truthy username \<and> username = JStr (mqtt_internal_user S)"

definition authorise_register :: "settings \<Rightarrow> json \<Rightarrow> db \<Rightarrow> dict result" where
  "authorise_register S username d =
     (if \<not> truthy username then Inr (refuse ''missing username'')
      else if is_backend S username then Inr allow
      else case username of
        JStr u \<Rightarrow>
          (case first (select (\<lambda>c. cert_cn c = u \<and> \<not> cert_revoked c) (node_certificates d)) of
             None \<Rightarrow> Inr (refuse ''unknown or revoked client'')
           | Some cert \<Rightarrow> Inr allow)
      | _ \<Rightarrow> Inl (Uncaught DataError))"

definition allowed_topic :: "string \<Rightarrow> string \<Rightarrow> bool" where
  "allowed_topic username topic \<longleftrightarrow> startswith topic (''node/'' @ username @ ''/'')"

text \<open>A user name that is not a string is formatted into the prefix; a topic that is not one has no
  \<open>startswith\<close>.\<close>

definition allowed_topic_json :: "pyrt \<Rightarrow> json \<Rightarrow> json \<Rightarrow> bool result" where
  "allowed_topic_json R username topic =
     (case topic of
        JStr t \<Rightarrow> Inr (allowed_topic (py_str R username) t)
      | _ \<Rightarrow> Inl (Uncaught AttributeError))"

definition authorise_publish :: "pyrt \<Rightarrow> settings \<Rightarrow> json \<Rightarrow> json \<Rightarrow> dict result" where
  "authorise_publish R S username topic =
     (if \<not> truthy topic then Inr (refuse ''missing topic'')
      else if is_backend S username then Inr allow
      else if \<not> truthy username then Inr (refuse ''missing username'')
      else map_sum id (\<lambda>ok. if \<not> ok then refuse ''topic outside namespace'' else allow)
             (allowed_topic_json R username topic))"

primrec check_topics :: "pyrt \<Rightarrow> json \<Rightarrow> json list \<Rightarrow> dict result" where
  "check_topics R username [] = Inr allow"
| "check_topics R username (t # ts) =
     (case t of
        JObj entry \<Rightarrow>
          (let topic = get_or (JStr []) entry ''topic'' in
           case allowed_topic_json R username topic of
             Inl e \<Rightarrow> Inl e
           | Inr ok \<Rightarrow>
               if \<not> ok then Inr (refuse (''topic outside namespace: '' @ py_str R topic))
               else check_topics R username ts)
      | _ \<Rightarrow> Inl (Uncaught AttributeError))"

definition authorise_subscribe :: "pyrt \<Rightarrow> settings \<Rightarrow> json \<Rightarrow> json \<Rightarrow> dict result" where
  "authorise_subscribe R S username topics =
     (if is_backend S username then Inr allow
      else if \<not> truthy username then Inr (refuse ''missing username'')
      else if \<not> truthy topics then Inr allow
      else case iterate topics of
        Inl e \<Rightarrow> Inl (Uncaught e)
      | Inr ts \<Rightarrow> check_topics R username ts)"

text \<open>\<open>username or client_id\<close>\<close>

definition client_node :: "json \<Rightarrow> json \<Rightarrow> json" where
  "client_node client_id username = (if truthy username then username else client_id)"

definition set_online :: "bool \<Rightarrow> settings \<Rightarrow> datetime \<Rightarrow> json \<Rightarrow> json \<Rightarrow> db \<Rightarrow> unit result \<times> db" where
  "set_online flag S now client_id username d =
     (if is_backend S username then (Inr (), d)
      else let node_id = client_node client_id username in
        if \<not> truthy node_id then (Inr (), d)
        else case node_id of
          JStr nid \<Rightarrow> (Inr (), d\<lparr>nodes := update_where (\<lambda>n. nd_node_id n = nid)
               (\<lambda>n. n\<lparr>nd_online := flag, nd_last_seen_at := Some now\<rparr>) (nodes d)\<rparr>)
        | _ \<Rightarrow> (Inl (Uncaught DataError), d))"

definition mark_online :: "settings \<Rightarrow> datetime \<Rightarrow> json \<Rightarrow> json \<Rightarrow> db \<Rightarrow> unit result \<times> db" where
  "mark_online = set_online True"

definition mark_offline :: "settings \<Rightarrow> datetime \<Rightarrow> json \<Rightarrow> json \<Rightarrow> db \<Rightarrow> unit result \<times> db" where
  "mark_offline = set_online False"

section \<open>Lemmas\<close>

lemma allow_not_refuse [simp]: "allow \<noteq> refuse m" "refuse m \<noteq> allow"
  by (simp_all add: allow_def refuse_def)

lemma set_online_ok [store_ok]: "db_ok d \<Longrightarrow> db_ok (snd (set_online flag S now cid un d))"
  by (auto simp: set_online_def Let_def intro: update_node_ok split: json.splits)

lemma mark_online_ok [store_ok]: "db_ok d \<Longrightarrow> db_ok (snd (mark_online S now cid un d))"
  by (simp add: mark_online_def set_online_ok)

lemma mark_offline_ok [store_ok]: "db_ok d \<Longrightarrow> db_ok (snd (mark_offline S now cid un d))"
  by (simp add: mark_offline_def set_online_ok)

lemma allowed_topic_iff: "allowed_topic u t \<longleftrightarrow> (\<exists>rest. t = ''node/'' @ u @ ''/'' @ rest)"
  by (simp add: allowed_topic_def startswith_iff)

lemma publish_allowed:
  "authorise_publish R S (JStr u) (JStr t) = Inr allow \<Longrightarrow> u \<noteq> mqtt_internal_user S \<Longrightarrow>
     u \<noteq> [] \<and> allowed_topic u t"
  by (simp add: authorise_publish_def is_backend_def allowed_topic_json_def split: if_splits)

text \<open>A device with a certificate may connect, and may publish under its own prefix.\<close>

lemma register_certified:
  assumes "cert \<in> set (node_certificates d)" "\<not> cert_revoked cert" "cert_cn cert \<noteq> []"
  shows "authorise_register S (JStr (cert_cn cert)) d = Inr allow"
  using assms first_None [of "select (\<lambda>c. cert_cn c = cert_cn cert \<and> \<not> cert_revoked c) (node_certificates d)"]
  by (auto simp: authorise_register_def select_def filter_empty_conv split: option.split)

lemma publish_own: "u \<noteq> [] \<Longrightarrow> t \<noteq> [] \<Longrightarrow> allowed_topic u t \<Longrightarrow> authorise_publish R S (JStr u) (JStr t) = Inr allow"
  by (simp add: authorise_publish_def is_backend_def allowed_topic_json_def)

section \<open>Properties\<close>

text \<open>
  A client other than the backend may register exactly when its user name is the common name
  of a certificate that is not revoked.
\<close>

theorem register_needs_certificate:
  assumes "u \<noteq> mqtt_internal_user S"
  shows "authorise_register S (JStr u) d = Inr allow \<longleftrightarrow>
    u \<noteq> [] \<and> (\<exists>c. c \<in> set (node_certificates d) \<and> cert_cn c = u \<and> \<not> cert_revoked c)"
  using assms
  by (auto simp: authorise_register_def is_backend_def select_def filter_empty_conv
      split: option.splits dest!: first_Some_in)

theorem register_needs_certificate_witness:
  "authorise_register default_settings (JStr ''n1'') (empty_db\<lparr>node_certificates :=
     [\<lparr>cert_serial = ''5'', cert_node_id = ''n1'', cert_pem = [], cert_cn = ''n1'', cert_not_before = 0,
       cert_not_after = 9, cert_revoked = False\<rparr>]\<rparr>) = Inr allow \<and>
   authorise_register default_settings (JStr ''n2'') empty_db \<noteq> Inr allow"
  using register_needs_certificate [of "''n2''" default_settings empty_db]
  by (simp add: register_needs_certificate default_settings_def empty_db_def)

end
