(* ===== verification/MqttRouter.thy ===== *)
theory MqttRouter
  imports NodeMapping NodeSvc Tsdata VmqAuthz
begin

text \<open>
  \<open>app/mqtt/topics.py\<close> and \<open>app/mqtt/router.py\<close>: the ingestor's dispatch of a published message to
  the handler of its topic suffix.  A message is its topic and the value of
  \<open>json.loads(payload.decode())\<close>, \<open>None\<close> when that raises.  A handler may commit and then raise;
  \<open>dispatch\<close> swallows the exception and what was committed stays.  The locale \<open>node_scoped\<close> is the
  contract of a handler: it keeps the store consistent and touches nothing of any other node; every
  handler interprets it and \<open>dispatch\<close> inherits it.
\<close>

section \<open>Topics\<close>

definition node_topic :: "string \<Rightarrow> string \<Rightarrow> string" where
  "node_topic node_id suff = ''node/'' @ node_id @ ''/'' @ suff"

definition split_topic :: "string \<Rightarrow> (string \<times> string) option" where
  "split_topic topic =
     (if \<not> startswith topic ''node/'' then None
      else case py_split (CHR ''/'') 2 topic of
        [_, nid, suff] \<Rightarrow> if nid = [] \<or> suff = [] then None else Some (nid, suff)
      | _ \<Rightarrow> None)"

section \<open>Handlers\<close>

definition ensure_node :: "datetime \<Rightarrow> string \<Rightarrow> db \<Rightarrow> db result" where
  "ensure_node now node_id d =
     (case scalar_one_or_none (select (\<lambda>n. nd_node_id n = node_id) (nodes d)) of
        Inl e \<Rightarrow> Inl e
      | Inr (Some existing) \<Rightarrow> Inr d
      | Inr None \<Rightarrow> insert_node (Node node_id now) d)"

definition handle_config :: "(nat \<Rightarrow> datetime) \<Rightarrow> string \<Rightarrow> json \<Rightarrow> db \<Rightarrow> unit result \<times> db" where
  "handle_config clk node_id payload d =
     (case payload of
        JObj pl \<Rightarrow>
          attempt d (ensure_node (clk 0) node_id d) (\<lambda>d1.
            andthen (upsert_node_config node_id pl d1) (\<lambda>_ d2. (Inr (), d2)))
      | _ \<Rightarrow> (Inr (), d))"

definition handle_params_local :: "(nat \<Rightarrow> datetime) \<Rightarrow> string \<Rightarrow> json \<Rightarrow> db \<Rightarrow> unit result \<times> db" where
  "handle_params_local clk node_id payload d =
     (case payload of
        JObj pl \<Rightarrow>
          attempt d (ensure_node (clk 0) node_id d) (\<lambda>d1.
            andthen (upsert_params_shadow node_id pl d1) (\<lambda>_ d2. (Inr (), d2)))
      | _ \<Rightarrow> (Inr (), d))"

definition expire_challenge :: "mapping_challenge \<Rightarrow> db \<Rightarrow> db" where
  "expire_challenge c d =
     d\<lparr>mapping_challenges := update_where (\<lambda>x. mc_id x = mc_id c)
        (\<lambda>x. x\<lparr>mc_status := ''expired''\<rparr>) (mapping_challenges d)\<rparr>"

definition pending_secret :: "string \<Rightarrow> string \<Rightarrow> db \<Rightarrow> mapping_challenge list" where
  "pending_secret sk node_id d =
     select (\<lambda>c. mc_secret_key c = Some sk \<and> mc_node_id c = Some node_id \<and>
       mc_status c = ''pending'') (mapping_challenges d)"

definition handle_user_mapping ::
  "(nat \<Rightarrow> datetime) \<Rightarrow> uuid \<Rightarrow> string \<Rightarrow> json \<Rightarrow> db \<Rightarrow> unit result \<times> db" where
  "handle_user_mapping clk mid node_id payload d =
     (case payload of
        JObj pl \<Rightarrow>
          if \<not> truthy (get pl ''secret_key'') then (Inr (), d)
          else if truthy (get pl ''node_id'') \<and> get pl ''node_id'' \<noteq> JStr node_id then (Inr (), d)
          else (case get pl ''secret_key'' of
            JStr sk \<Rightarrow>
              attempt d (scalar_one_or_none (pending_secret sk node_id d)) (\<lambda>found. case found of
                None \<Rightarrow> (Inr (), d)
              | Some c \<Rightarrow>
                  if mc_expires_at c < clk 0 then (Inr (), expire_challenge c d)
                  else attempt d (ensure_mapping mid (mc_user_id c) (Some node_id) d) (\<lambda>d'.
                    (Inr (), complete_challenge c (clk 1) d')))
          | _ \<Rightarrow> (Inl (Uncaught DataError), d))
      | _ \<Rightarrow> (Inr (), d))"

definition handle_otastatus :: "string \<Rightarrow> json \<Rightarrow> db \<Rightarrow> unit result \<times> db" where
  "handle_otastatus node_id payload d = (Inr (), d)"

definition handle_alert :: "string \<Rightarrow> json \<Rightarrow> db \<Rightarrow> unit result \<times> db" where
  "handle_alert node_id payload d = (Inr (), d)"

text \<open>\<open>"." in full_name\<close> and \<open>full_name.split(".", 1)\<close> on a value of any type.\<close>

fun split_name :: "json \<Rightarrow> pyexc + (string \<times> string) option" where
  "split_name (JStr s) =
     (if CHR ''.'' \<notin> set s then Inr None
      else Inr (Some (hd (py_split (CHR ''.'') 1 s), last (py_split (CHR ''.'') 1 s))))"
| "split_name (JArr xs) = (if JStr ''.'' \<in> set xs then Inl AttributeError else Inr None)"
| "split_name (JObj d) = (if has_key d ''.'' then Inl AttributeError else Inr None)"
| "split_name v = Inl TypeError"

text \<open>\<open>datetime.fromtimestamp(int(r["t"]), tz=UTC)\<close>\<close>

definition time_of :: "json \<Rightarrow> pyexc + datetime" where
  "time_of r =
     (case r of
        JObj d \<Rightarrow>
          (case map_of d ''t'' of
             None \<Rightarrow> Inl KeyError
           | Some v \<Rightarrow> (case py_int v of Inl e \<Rightarrow> Inl e | Inr n \<Rightarrow> fromtimestamp n))
      | _ \<Rightarrow> Inl TypeError)"

definition skipped :: "pyexc \<Rightarrow> bool" where
  "skipped e \<longleftrightarrow> e = TypeError \<or> e = ValueError \<or> e = KeyError"

definition value_of :: "json \<Rightarrow> json" where
  "value_of r = (case r of JObj d \<Rightarrow> get d ''v'' | _ \<Rightarrow> JNull)"

primrec collect_points :: "json list \<Rightarrow> pyexc + (datetime \<times> json) list" where
  "collect_points [] = Inr []"
| "collect_points (r # rs) =
     (case time_of r of
        Inl e \<Rightarrow> if skipped e then collect_points rs else Inl e
      | Inr ts \<Rightarrow> map_sum id (\<lambda>ps. (ts, value_of r) # ps) (collect_points rs))"

primrec tsdata_loop :: "pyrt \<Rightarrow> string \<Rightarrow> json list \<Rightarrow> db \<Rightarrow> unit result \<times> db" where
  "tsdata_loop R node_id [] d = (Inr (), d)"
| "tsdata_loop R node_id (entry # rest) d =
     (case entry of
        JObj e \<Rightarrow>
          attempt d (lift_exc (split_name (get_or (JStr []) e ''name''))) (\<lambda>name. case name of
            None \<Rightarrow> tsdata_loop R node_id rest d
          | Some (device_name, param_name) \<Rightarrow>
              attempt d (lift_exc (iterate (get e ''records''))) (\<lambda>records.
              attempt d (lift_exc (collect_points records)) (\<lambda>points.
                if points = [] then tsdata_loop R node_id rest d
                else andthen (insert_tsdata R node_id device_name param_name
                       (get_or (JStr ''int'') e ''dt'') points d) (\<lambda>_ d'. tsdata_loop R node_id rest d'))))
      | _ \<Rightarrow> (Inl (Uncaught AttributeError), d))"

definition handle_tsdata :: "pyrt \<Rightarrow> string \<Rightarrow> json \<Rightarrow> db \<Rightarrow> unit result \<times> db" where
  "handle_tsdata R node_id payload d =
     (case payload of
        JObj pl \<Rightarrow> (case get pl ''ts_data'' of
            JArr entries \<Rightarrow> tsdata_loop R node_id entries d
          | _ \<Rightarrow> (Inr (), d))
      | _ \<Rightarrow> (Inr (), d))"

definition handle_simple_tsdata :: "pyrt \<Rightarrow> string \<Rightarrow> json \<Rightarrow> db \<Rightarrow> unit result \<times> db" where
  "handle_simple_tsdata R node_id payload d =
     (case payload of
        JObj pl \<Rightarrow>
          attempt d (lift_exc (split_name (get_or (JStr []) pl ''name''))) (\<lambda>name. case name of
            None \<Rightarrow> (Inr (), d)
          | Some (device_name, param_name) \<Rightarrow>
              (case time_of (JObj pl) of
                 Inl e \<Rightarrow> if skipped e then (Inr (), d) else (Inl (Uncaught e), d)
               | Inr ts \<Rightarrow>
                   andthen (insert_tsdata R node_id device_name param_name
                     (get_or (JStr ''int'') pl ''dt'') [(ts, get pl ''v'')] d) (\<lambda>_ d'. (Inr (), d'))))
      | _ \<Rightarrow> (Inr (), d))"

section \<open>Dispatch\<close>

definition handler_of ::
  "pyrt \<Rightarrow> (nat \<Rightarrow> datetime) \<Rightarrow> uuid \<Rightarrow> string \<Rightarrow> (string \<Rightarrow> json \<Rightarrow> db \<Rightarrow> unit result \<times> db) option" where
  "handler_of R clk mid suff =
     (if suff = ''config'' then Some (handle_config clk)
      else if suff = ''params/local'' then Some (handle_params_local clk)
      else if suff = ''params/local/init'' then Some (handle_params_local clk)
      else if suff = ''user/mapping'' then Some (handle_user_mapping clk mid)
      else if suff = ''otastatus'' then Some handle_otastatus
      else if suff = ''tsdata'' then Some (handle_tsdata R)
      else if suff = ''simple_tsdata'' then Some (handle_simple_tsdata R)
      else if suff = ''alert'' then Some handle_alert
      else None)"

text \<open>A payload of JSON \<open>null\<close> is dropped like an unparseable one.\<close>

definition dispatch ::
  "pyrt \<Rightarrow> (nat \<Rightarrow> datetime) \<Rightarrow> uuid \<Rightarrow> string \<Rightarrow> json option \<Rightarrow> db \<Rightarrow> unit result \<times> db" where
  "dispatch R clk mid topic payload d =
     (case split_topic topic of
        None \<Rightarrow> (Inr (), d)
      | Some (node_id, suff) \<Rightarrow>
          (case payload of
             None \<Rightarrow> (Inr (), d)
           | Some JNull \<Rightarrow> (Inr (), d)
           | Some v \<Rightarrow>
               (case handler_of R clk mid suff of
                  None \<Rightarrow> (Inr (), d)
                | Some h \<Rightarrow> (Inr (), snd (h node_id v d)))))"

text \<open>The suffixes that \<open>app/mqtt/topics.py\<close> names, and those the router has a handler for.\<close>

definition topic_suffixes :: "(string \<times> string) list" where
  "topic_suffixes = [(''CONFIG'', ''config''), (''PARAMS_LOCAL'', ''params/local''),
     (''PARAMS_LOCAL_INIT'', ''params/local/init''), (''PARAMS_REMOTE'', ''params/remote''), (''ALERT'', ''alert''),
     (''USER_MAPPING'', ''user/mapping''), (''OTAFETCH'', ''otafetch''), (''OTAURL'', ''otaurl''), (''OTASTATUS'', ''otastatus''),
     (''TSDATA'', ''tsdata''), (''SIMPLE_TSDATA'', ''simple_tsdata''), (''FROM_NODE'', ''from-node''), (''TO_NODE'', ''to-node''),
     (''DIAGNOSTICS_FROM_NODE'', ''diagnostics/from-node'')]"

lemma handled_suffixes:
  "map fst (filter (\<lambda>p. handler_of R clk mid (snd p) \<noteq> None) topic_suffixes) =
     [''CONFIG'', ''PARAMS_LOCAL'', ''PARAMS_LOCAL_INIT'', ''ALERT'', ''USER_MAPPING'', ''OTASTATUS'', ''TSDATA'', ''SIMPLE_TSDATA'']"
  by (simp add: topic_suffixes_def handler_of_def)

section \<open>The contract of a handler\<close>

text \<open>
  All that the store holds apart from one node: every row of the thirteen tables that no message may change (accounts,
  certificates, claims, shares and invitations, groups and memberships, firmware, jobs and assignments, automations),
  and the rows of all other nodes in the tables of nodes, configurations, shadows, mappings, mapping requests and
  time series.
\<close>

definition elsewhere :: "string \<Rightarrow> db \<Rightarrow> db" where
  "elsewhere nid d = d\<lparr>
     nodes := select (\<lambda>x. nd_node_id x \<noteq> nid) (nodes d),
     node_configs := select (\<lambda>c. cfg_node_id c \<noteq> nid) (node_configs d),
     node_params_shadows := select (\<lambda>s. shadow_node_id s \<noteq> nid) (node_params_shadows d),
     user_node_mappings := select (\<lambda>m. unm_node_id m \<noteq> nid) (user_node_mappings d),
     mapping_challenges := select (\<lambda>c. mc_node_id c \<noteq> Some nid) (mapping_challenges d),
     tsdata := select (\<lambda>r. ts_node_id r \<noteq> nid) (tsdata d)\<rparr>"

locale node_scoped =
  fixes h :: "string \<Rightarrow> json \<Rightarrow> db \<Rightarrow> unit result \<times> db"
  assumes keeps: "db_ok d \<Longrightarrow> db_ok (snd (h nid v d))"
    and scoped: "db_ok d \<Longrightarrow> elsewhere nid (snd (h nid v d)) = elsewhere nid d"
begin

text \<open>A sequence of messages to one node.\<close>

primrec run :: "string \<Rightarrow> json list \<Rightarrow> db \<Rightarrow> db" where
  "run nid [] d = d"
| "run nid (v # vs) d = run nid vs (snd (h nid v d))"

lemma run_keeps: "db_ok d \<Longrightarrow> db_ok (run nid vs d)"
  by (induction vs arbitrary: d) (simp_all add: keeps)

lemma run_scoped: "db_ok d \<Longrightarrow> elsewhere nid (run nid vs d) = elsewhere nid d"
  by (induction vs arbitrary: d) (simp_all add: keeps scoped)

end

lemma ensure_node_frame:
  "ensure_node now nid d = Inr d' \<Longrightarrow> d' = d \<or> d' = d\<lparr>nodes := nodes d @ [Node nid now]\<rparr>"
  by (auto simp: ensure_node_def insert_node_Inr split: sum.splits option.splits)

lemma ensure_node_ok [store_ok]: "db_ok d \<Longrightarrow> ensure_node now nid d = Inr d' \<Longrightarrow> db_ok d'"
  by (auto simp: ensure_node_def intro: insert_node_ok split: sum.splits option.splits)

lemma select_append: "select q (xs @ ys) = select q xs @ select q ys"
  by (simp add: select_def)

text \<open>Rewriting the rows of one node leaves those of the others alone.\<close>

lemma select_update_other:
  assumes "\<And>r. p r \<Longrightarrow> q (f r) = q r" "\<And>r. r \<in> set rows \<Longrightarrow> p r \<Longrightarrow> \<not> q r"
  shows "select q (update_where p f rows) = select q rows"
  using assms(2)
proof (induction rows)
  case (Cons r rows)
  then show ?case using assms(1) by (simp add: select_def update_where_def)
qed (simp add: select_def update_where_def)

lemma elsewhere_ensure_node: "ensure_node now nid d = Inr d' \<Longrightarrow> elsewhere nid d' = elsewhere nid d"
  by (drule ensure_node_frame) (auto simp: elsewhere_def select_append Node_def select_def)

lemma upsert_node_config_Inl: "upsert_node_config nid pl d = (Inl e, d') \<Longrightarrow> d' = d"
  by (auto simp: upsert_node_config_def Let_def split: attempt_splits option.splits if_splits)

lemma upsert_params_shadow_Inl: "upsert_params_shadow nid pl d = (Inl e, d') \<Longrightarrow> d' = d"
  by (auto simp: upsert_params_shadow_def Let_def split: attempt_splits option.splits if_splits)

lemma elsewhere_config: "elsewhere nid (snd (upsert_node_config nid pl d)) = elsewhere nid d"
  by (auto simp: upsert_node_config_def Let_def elsewhere_def insert_config_Inr select_append select_update_other
      dest!: select_one split: attempt_splits option.splits) (simp_all add: select_def)

lemma elsewhere_shadow: "elsewhere nid (snd (upsert_params_shadow nid pl d)) = elsewhere nid d"
  by (auto simp: upsert_params_shadow_def Let_def elsewhere_def insert_shadow_Inr select_append select_update_other
      dest!: select_one split: attempt_splits option.splits) (simp_all add: select_def)

interpretation config: node_scoped "handle_config clk" for clk
proof
  show "db_ok (snd (handle_config clk nid v d))" if "db_ok d" for nid v d
    using that by (auto simp: handle_config_def intro: upsert_node_config_ok ensure_node_ok
        split: json.splits attempt_splits)
  show "elsewhere nid (snd (handle_config clk nid v d)) = elsewhere nid d" for nid v d
    by (auto simp: handle_config_def elsewhere_config elsewhere_ensure_node split: json.splits attempt_splits)
qed

interpretation params: node_scoped "handle_params_local clk" for clk
proof
  show "db_ok (snd (handle_params_local clk nid v d))" if "db_ok d" for nid v d
    using that by (auto simp: handle_params_local_def intro: upsert_params_shadow_ok ensure_node_ok
        split: json.splits attempt_splits)
  show "elsewhere nid (snd (handle_params_local clk nid v d)) = elsewhere nid d" for nid v d
    by (auto simp: handle_params_local_def elsewhere_shadow elsewhere_ensure_node split: json.splits attempt_splits)
qed

lemma expire_challenge_ok [store_ok]: "db_ok d \<Longrightarrow> db_ok (expire_challenge c d)"
  by (auto simp: expire_challenge_def intro: update_challenge_ok)

lemma other_challenges:
  assumes ok: "db_ok d" and c: "c \<in> set (mapping_challenges d)" "mc_node_id c = Some nid"
    and f: "\<And>x. mc_node_id (f x) = mc_node_id x"
  shows "select (\<lambda>x. mc_node_id x \<noteq> Some nid) (update_where (\<lambda>x. mc_id x = mc_id c) f (mapping_challenges d)) =
    select (\<lambda>x. mc_node_id x \<noteq> Some nid) (mapping_challenges d)"
proof (rule select_update_other)
  fix x
  assume "x \<in> set (mapping_challenges d)" "mc_id x = mc_id c"
  then have "x = c" using challenges_by_id.row_unique [OF challenge_keys [OF ok] _ c(1)] by blast
  then show "\<not> mc_node_id x \<noteq> Some nid" using c(2) by simp
qed (simp add: f)

lemma pending_secret_one:
  "pending_secret sk nid d = [c] \<Longrightarrow> c \<in> set (mapping_challenges d) \<and> mc_secret_key c = Some sk \<and>
     mc_node_id c = Some nid \<and> mc_status c = ''pending''"
  unfolding pending_secret_def by (drule select_one) simp

lemma elsewhere_mapping:
  "ensure_mapping mid u (Some nid) d = Inr d' \<Longrightarrow>
     d' = d\<lparr>user_node_mappings := user_node_mappings d'\<rparr> \<and>
     select (\<lambda>m. unm_node_id m \<noteq> nid) (user_node_mappings d') = select (\<lambda>m. unm_node_id m \<noteq> nid) (user_node_mappings d)"
  by (auto simp: ensure_mapping_def insert_mapping_Inr select_append select_def split: sum.splits option.splits if_split_asm)

lemma elsewhere_user_mapping:
  assumes ok: "db_ok d"
  shows "elsewhere nid (snd (handle_user_mapping clk mid nid v d)) = elsewhere nid d"
proof -
  have expire: "elsewhere nid (expire_challenge c d) = elsewhere nid d" if "pending_secret sk nid d = [c]" for sk c
    using other_challenges [OF ok, of c] pending_secret_one [OF that] by (simp add: elsewhere_def expire_challenge_def)
  have complete: "elsewhere nid (complete_challenge c t d') = elsewhere nid d"
    if s: "pending_secret sk nid d = [c]" and e: "ensure_mapping mid (mc_user_id c) (Some nid) d = Inr d'" for sk c t d'
  proof -
    obtain ms where "d' = d\<lparr>user_node_mappings := ms\<rparr>"
      "select (\<lambda>m. unm_node_id m \<noteq> nid) ms = select (\<lambda>m. unm_node_id m \<noteq> nid) (user_node_mappings d)"
      using elsewhere_mapping [OF e] by metis
    with other_challenges [OF ok, of c] pending_secret_one [OF s] show ?thesis
      by (simp add: elsewhere_def complete_challenge_def)
  qed
  show ?thesis
    using expire complete
    by (auto simp: handle_user_mapping_def split: json.splits attempt_splits option.splits)
qed

interpretation user_mapping: node_scoped "handle_user_mapping clk mid" for clk mid
proof
  show "db_ok (snd (handle_user_mapping clk mid nid v d))" if "db_ok d" for nid v d
    using that by (auto simp: handle_user_mapping_def intro: complete_challenge_ok ensure_mapping_ok
        expire_challenge_ok split: json.splits attempt_splits option.splits)
qed (rule elsewhere_user_mapping)

lemma tsdata_of_own: "select (\<lambda>r. ts_node_id r \<noteq> nid) (map (tsdata_of nid dev par dt) xs) = []"
  by (induction xs) (auto simp: select_def tsdata_of_def)

lemma elsewhere_insert_tsdata: "elsewhere nid (snd (insert_tsdata R nid dev par dt pts d)) = elsewhere nid d"
  by (auto simp: insert_tsdata_def Let_def elsewhere_def select_append tsdata_of_own split: attempt_splits json.splits)

text \<open>Whatever every insertion for the node preserves, the loop preserves.\<close>

lemma tsdata_loop_inv:
  assumes step: "\<And>d dev par dt pts. P d \<Longrightarrow> P (snd (insert_tsdata R nid dev par dt pts d))"
  shows "P d \<Longrightarrow> P (snd (tsdata_loop R nid es d))"
proof (induction es arbitrary: d)
  case (Cons e es)
  then show ?case
    by (auto split: json.splits attempt_splits option.splits intro!: andthen_inv [where P = P] step)
qed simp

lemmas tsdata_loop_ok = tsdata_loop_inv [of db_ok, OF insert_tsdata_ok]

lemma tsdata_loop_elsewhere: "elsewhere nid (snd (tsdata_loop R nid es d)) = elsewhere nid d"
  using tsdata_loop_inv [of "\<lambda>d'. elsewhere nid d' = elsewhere nid d" R nid d es]
  by (simp add: elsewhere_insert_tsdata)

interpretation bulk_tsdata: node_scoped "handle_tsdata R" for R
  by unfold_locales
    (auto simp: handle_tsdata_def tsdata_loop_ok tsdata_loop_elsewhere split: json.splits)

interpretation simple_tsdata: node_scoped "handle_simple_tsdata R" for R
  by unfold_locales
    (auto simp: handle_simple_tsdata_def insert_tsdata_ok elsewhere_insert_tsdata
      split: json.splits attempt_splits option.splits sum.splits)

interpretation otastatus: node_scoped handle_otastatus
  by unfold_locales (simp_all add: handle_otastatus_def)

interpretation alert: node_scoped handle_alert
  by unfold_locales (simp_all add: handle_alert_def)

lemma handler_scoped: "handler_of R clk mid suff = Some h \<Longrightarrow> node_scoped h"
  by (auto simp: handler_of_def split: if_splits intro: config.node_scoped_axioms
      params.node_scoped_axioms user_mapping.node_scoped_axioms bulk_tsdata.node_scoped_axioms
      simple_tsdata.node_scoped_axioms otastatus.node_scoped_axioms alert.node_scoped_axioms)

lemma dispatch_cases:
  "snd (dispatch R clk mid topic pl d) = d \<or>
   (\<exists>nid suff h v. split_topic topic = Some (nid, suff) \<and> handler_of R clk mid suff = Some h \<and>
      pl = Some v \<and> snd (dispatch R clk mid topic pl d) = snd (h nid v d))"
  by (auto simp: dispatch_def split: option.splits json.splits)

lemma dispatch_ok [store_ok]: "db_ok d \<Longrightarrow> db_ok (snd (dispatch R clk mid topic pl d))"
  using dispatch_cases [of R clk mid topic pl d] by (metis handler_scoped node_scoped.keeps)

lemma dispatch_scoped:
  assumes "db_ok d" and "\<And>n suff. split_topic topic = Some (n, suff) \<Longrightarrow> n = nid"
  shows "elsewhere nid (snd (dispatch R clk mid topic pl d)) = elsewhere nid d"
  using dispatch_cases [of R clk mid topic pl d] assms by (metis handler_scoped node_scoped.scoped)

section \<open>Topics and identities\<close>

lemma split_node_topic:
  assumes "CHR ''/'' \<notin> set nid"
  shows "split_topic (node_topic nid suff) = (if nid = [] \<or> suff = [] then None else Some (nid, suff))"
proof -
  have "py_split (CHR ''/'') 2 (''node'' @ CHR ''/'' # nid @ CHR ''/'' # suff) = [''node'', nid, suff]"
    using assms by (simp only: numeral_2_eq_2) (subst py_split_here; simp add: py_split_here del: append.simps)
  then show ?thesis by (simp add: split_topic_def node_topic_def startswith_def)
qed

lemma allowed_topic_node: "allowed_topic u t \<longleftrightarrow> (\<exists>suff. t = node_topic u suff)"
  by (simp add: allowed_topic_iff node_topic_def)

section \<open>The legacy handshake\<close>

definition mapping_message :: "string \<Rightarrow> string \<Rightarrow> json" where
  "mapping_message nid sk = JObj [(''node_id'', JStr nid), (''secret_key'', JStr sk)]"

lemma dispatch_user_mapping:
  assumes "CHR ''/'' \<notin> set nid" "nid \<noteq> []" "sk \<noteq> []"
  shows "snd (dispatch R clk mid (node_topic nid ''user/mapping'') (Some (mapping_message nid sk)) d) =
    snd (attempt d (scalar_one_or_none (pending_secret sk nid d)) (\<lambda>found. case found of
       None \<Rightarrow> (Inr (), d)
     | Some c \<Rightarrow>
         if mc_expires_at c < clk 0 then (Inr (), expire_challenge c d)
         else attempt d (ensure_mapping mid (mc_user_id c) (Some nid) d) (\<lambda>d'.
           (Inr (), complete_challenge c (clk 1) d'))))"
  using assms
  by (simp add: dispatch_def split_node_topic handler_of_def handle_user_mapping_def mapping_message_def get_or_def)

lemma pending_secret_completed:
  assumes ok: "db_ok d" and one: "pending_secret sk nid d = [c]"
  shows "pending_secret sk nid (complete_challenge c t d) = []"
proof -
  note c = pending_secret_one [OF one]
  have only: "x = c" if "x \<in> set (mapping_challenges d)" "mc_secret_key x = Some sk"
      "mc_node_id x = Some nid" "mc_status x = ''pending''" for x
  proof -
    have "x \<in> set (pending_secret sk nid d)" using that by (simp add: pending_secret_def)
    with one show ?thesis by simp
  qed
  then show ?thesis
    by (auto simp: pending_secret_def complete_challenge_def select_def filter_empty_conv set_update_where)
qed

lemma pending_secret_frame:
  "mapping_challenges d' = mapping_challenges d \<Longrightarrow> pending_secret sk nid d' = pending_secret sk nid d"
  by (simp add: pending_secret_def)

text \<open>What the reports of a registered node do.\<close>

lemma ensure_node_present:
  assumes "db_ok d" "present nd_node_id (nodes d) nid"
  shows "ensure_node t nid d = Inr d"
proof -
  obtain x where x: "x \<in> set (nodes d)" "nd_node_id x = nid" using assms(2) by (auto simp: present_def)
  then show ?thesis using nodes_by_id.select_key [OF node_keys [OF assms(1)] x(1)] by (simp add: ensure_node_def)
qed

lemma dispatch_params:
  assumes "CHR ''/'' \<notin> set nid" "nid \<noteq> []" "db_ok d" "present nd_node_id (nodes d) nid"
    and "suff = ''params/local'' \<or> suff = ''params/local/init''"
  shows "snd (dispatch R clk mid (node_topic nid suff) (Some (JObj ps)) d) = snd (upsert_params_shadow nid ps d)"
  using assms by (auto simp: dispatch_def split_node_topic handler_of_def handle_params_local_def ensure_node_present)

lemma dispatch_config:
  assumes "CHR ''/'' \<notin> set nid" "nid \<noteq> []" "db_ok d" "present nd_node_id (nodes d) nid"
  shows "snd (dispatch R clk mid (node_topic nid ''config'') (Some (JObj pl)) d) = snd (upsert_node_config nid pl d)"
  using assms by (simp add: dispatch_def split_node_topic handler_of_def handle_config_def ensure_node_present)

section \<open>Properties\<close>

text \<open>
  C14: a device is confined to its own node.  If the broker's webhook lets a client other than the
  backend publish to a topic, and the client's name has no slash in it, then ingesting any message
  on that topic changes no row of the store but rows of the client's own node in the tables of nodes, configurations,
  shadows, mappings, mapping requests and time series, and leaves the store consistent.
\<close>

theorem device_confined:
  assumes ok: "db_ok d" and u: "u \<noteq> mqtt_internal_user S" "CHR ''/'' \<notin> set u"
    and pub: "authorise_publish R S (JStr u) (JStr topic) = Inr allow"
  shows "elsewhere u (snd (dispatch R clk mid topic payload d)) = elsewhere u d \<and>
    db_ok (snd (dispatch R clk mid topic payload d))"
proof
  obtain suff where "topic = node_topic u suff"
    using publish_allowed [OF pub u(1)] allowed_topic_node by blast
  then have "n = u" if "split_topic topic = Some (n, x)" for n x
    using split_node_topic [OF u(2)] that by (simp split: if_split_asm)
  then show "elsewhere u (snd (dispatch R clk mid topic payload d)) = elsewhere u d"
    by (rule dispatch_scoped [OF ok])
  show "db_ok (snd (dispatch R clk mid topic payload d))" by (rule dispatch_ok [OF ok])
qed

theorem device_confined_witness:
  "elsewhere ''n2'' (snd (dispatch sample_rt (\<lambda>i. 0) 1 ''node/n2/config'' (Some (JObj [])) shadow_db)) =
     elsewhere ''n2'' shadow_db \<and>
   db_ok (snd (dispatch sample_rt (\<lambda>i. 0) 1 ''node/n2/config'' (Some (JObj [])) shadow_db))"
  by (rule device_confined [OF shadow_db_ok, of "''n2''" default_settings])
    (simp_all add: default_settings_def authorise_publish_def is_backend_def allowed_topic_json_def
      allowed_topic_def startswith_def)

text \<open>
  The condition on slashes is needed.  A client whose name is a node's identifier followed by
  \<open>/params\<close> may publish on that node's \<open>params/local\<close> topic, and the message is taken for the
  node's own: it updates the node's shadow exactly as the node's own report would.
\<close>

theorem slash_impersonates:
  assumes "CHR ''/'' \<notin> set nid" "nid \<noteq> []" and "nid @ ''/params'' \<noteq> mqtt_internal_user S"
    and ok: "db_ok d" and "present nd_node_id (nodes d) nid"
  shows "authorise_publish R S (JStr (nid @ ''/params'')) (JStr (node_topic nid ''params/local'')) = Inr allow \<and>
    snd (dispatch R clk mid (node_topic nid ''params/local'') (Some (JObj ps)) d) =
      snd (upsert_params_shadow nid ps d)"
proof -
  have "snd (dispatch R clk mid (node_topic nid ''params/local'') (Some (JObj ps)) d) = snd (upsert_params_shadow nid ps d)"
    by (rule dispatch_params) (use assms in simp_all)
  with assms show ?thesis
    by (simp add: authorise_publish_def is_backend_def allowed_topic_json_def allowed_topic_def startswith_def)
      (simp add: node_topic_def)
qed

theorem slash_impersonates_witness:
  "authorise_publish sample_rt default_settings (JStr ''n1/params'') (JStr ''node/n1/params/local'') = Inr allow \<and>
   snd (dispatch sample_rt (\<lambda>i. 0) 1 ''node/n1/params/local'' (Some (JObj light_off)) shadow_db) = shadow_db'"
  using slash_impersonates [of "''n1''" default_settings shadow_db sample_rt "\<lambda>i. 0" 1 light_off]
  by (simp add: default_settings_def shadow_db_step node_topic_def)
    (simp add: shadow_db_def empty_db_def present_def Node_def)

text \<open>
  The legacy mapping handshake.  A user's request with a secret, followed within the hour by
  the device's message with the same secret on its own topic, maps the node to that user and
  completes the request, whatever the request's \<open>operation\<close> was; the redelivered message changes
  nothing.  The secret must not be that of another pending request for the node.
\<close>

lemma legacy_handshake:
  assumes ok: "db_ok d" and node: "present nd_node_id (nodes d) nid" "CHR ''/'' \<notin> set nid" "nid \<noteq> []"
    and sk: "sk \<noteq> []" "pending_secret sk nid d = []"
    and req: "request_legacy_mapping clk cid rid uid nid sk oper d = (Inr out, d1)"
    and time: "clk' 0 \<le> clk 0 + hours 1" and fresh: "\<forall>m \<in> set (user_node_mappings d). unm_id m \<noteq> mid"
  shows "\<exists>d2. snd (dispatch R clk' mid (node_topic nid ''user/mapping'') (Some (mapping_message nid sk)) d1) = d2 \<and>
    has_access uid nid d2 = Inr True \<and>
    get_mapping_status uid rid d2 =
      Inr [(''request_id'', JStr rid), (''request_status'', JStr ''completed'')] \<and>
    snd (dispatch R clk'' mid' (node_topic nid ''user/mapping'') (Some (mapping_message nid sk)) d2) = d2"
proof -
  let ?c = "(MappingChallenge cid rid uid nid oper (clk 0 + hours 1))\<lparr>mc_secret_key := Some sk\<rparr>"
  from req have ins: "insert_challenge ?c d = Inr d1"
    by (auto simp: request_legacy_mapping_def elim!: attempt_InrE)
  then have d1: "d1 = d\<lparr>mapping_challenges := mapping_challenges d @ [?c]\<rparr>"
    and user: "present usr_id (users d) uid"
    by (simp_all add: insert_challenge_Inr challenge_refs_def MappingChallenge_def)
  have ok1: "db_ok d1" by (rule insert_challenge_ok [OF ok ins])
  have one: "pending_secret sk nid d1 = [?c]"
    using sk(2) by (simp add: d1 pending_secret_def select_def MappingChallenge_def)
  obtain e where e: "ensure_mapping mid uid (Some nid) d1 = Inr e"
    using ensure_mapping_known_node [OF ok1, of uid nid mid] user node(1) fresh by (auto simp: d1)
  have oke: "db_ok e" by (rule ensure_mapping_ok [OF ok1 e])
  have mce: "mapping_challenges e = mapping_challenges d1"
    by (subst ensure_mapping_frame [OF e]) simp
  let ?d2 = "complete_challenge ?c (clk' 1) e"
  have ok2: "db_ok ?d2" by (rule complete_challenge_ok [OF oke])
  have step: "snd (dispatch R clk' mid (node_topic nid ''user/mapping'') (Some (mapping_message nid sk)) d1) = ?d2"
    unfolding dispatch_user_mapping [OF node(2,3) sk(1)] one using time e
    by (simp add: MappingChallenge_def)
  have one_e: "pending_secret sk nid e = [?c]" using one pending_secret_frame [OF mce] by simp
  have again: "snd (dispatch R clk'' mid' (node_topic nid ''user/mapping'') (Some (mapping_message nid sk)) ?d2) = ?d2"
    unfolding dispatch_user_mapping [OF node(2,3) sk(1)] pending_secret_completed [OF oke one_e] by simp
  have acc: "has_access uid nid ?d2 = Inr True"
    unfolding has_access_decides [OF ok2] may_access_def using ensure_mapping_maps [OF e, of uid nid] by simp
  have "?c\<lparr>mc_status := ''completed'', mc_completed_at := Some (clk' 1)\<rparr> \<in> set (mapping_challenges ?d2)"
    using mce by (force simp: complete_challenge_def set_update_where d1)
  from challenges_by_request.select_refined [OF challenge_keys [OF ok2] this,
      of "\<lambda>c. mc_request_id c = rid \<and> mc_user_id c = uid"]
  have "get_mapping_status uid rid ?d2 =
      Inr [(''request_id'', JStr rid), (''request_status'', JStr ''completed'')]"
    by (simp add: get_mapping_status_def MappingChallenge_def)
  with step again acc show ?thesis by blast
qed

lemma access_db_request:
  "request_legacy_mapping (\<lambda>i. 0) 5 ''req'' 2 ''n2'' ''s3'' ''remove'' access_db =
     (Inr ''req'', access_db\<lparr>mapping_challenges :=
        [(MappingChallenge 5 ''req'' 2 ''n2'' ''remove'' (hours 1))\<lparr>mc_secret_key := Some ''s3''\<rparr>]\<rparr>)"
  by (simp add: request_legacy_mapping_def insert_challenge_def insert_row_def challenge_cols_def
      challenge_refs_def MappingChallenge_def fits_def present_def access_db_def empty_db_def User_def)

lemma legacy_handshake_example:
  "\<exists>d2. snd (dispatch sample_rt (\<lambda>i. 60) 40 (node_topic ''n2'' ''user/mapping'') (Some (mapping_message ''n2'' ''s3''))
      (access_db\<lparr>mapping_challenges :=
        [(MappingChallenge 5 ''req'' 2 ''n2'' ''remove'' (hours 1))\<lparr>mc_secret_key := Some ''s3''\<rparr>]\<rparr>)) = d2 \<and>
    has_access 2 ''n2'' d2 = Inr True \<and>
    get_mapping_status 2 ''req'' d2 =
      Inr [(''request_id'', JStr ''req''), (''request_status'', JStr ''completed'')] \<and>
    snd (dispatch sample_rt (\<lambda>i. 99) 41 (node_topic ''n2'' ''user/mapping'') (Some (mapping_message ''n2'' ''s3'')) d2) = d2"
  by (rule legacy_handshake [OF access_db_ok _ _ _ _ _ access_db_request])
    (simp_all add: access_db_def empty_db_def present_def Node_def pending_secret_def select_def)

text \<open>
  Two pending requests for a node with the same secret (a phone that repeats its request) block
  each other for good: every message of the device with that secret fails inside the handler, is
  swallowed by \<open>dispatch\<close>, and leaves the store as it was, both requests pending.
\<close>

theorem duplicate_secret_blocks:
  assumes "request_legacy_mapping clk cid rid uid nid sk oper d = (Inr o1, d1)"
    and "request_legacy_mapping clk' cid' rid' uid' nid sk oper' d1 = (Inr o2, d2)"
    and "CHR ''/'' \<notin> set nid" "nid \<noteq> []" "sk \<noteq> []"
  shows "snd (dispatch R clk'' mid (node_topic nid ''user/mapping'') (Some (mapping_message nid sk)) d2) = d2"
proof -
  have grow: "length (pending_secret sk nid b) = Suc (length (pending_secret sk nid a))"
    if "request_legacy_mapping c i r u nid sk w a = (Inr out, b)" for c i r u w a out b
    using that
    by (auto simp: request_legacy_mapping_def insert_challenge_Inr pending_secret_def select_def
        MappingChallenge_def elim!: attempt_InrE)
  from grow [OF assms(1)] grow [OF assms(2)] have "2 \<le> length (pending_secret sk nid d2)" by simp
  then have "scalar_one_or_none (pending_secret sk nid d2) = Inl (Uncaught MultipleResultsFound)" by simp
  then show ?thesis
    unfolding dispatch_user_mapping [OF assms(3-5)] by (simp only: attempt_simps snd_conv)
qed

theorem duplicate_secret_blocks_witness:
  "let d2 = snd (request_legacy_mapping (\<lambda>i. 60) 6 ''again'' 2 ''n2'' ''s3'' ''add'' (access_db\<lparr>mapping_challenges :=
        [(MappingChallenge 5 ''req'' 2 ''n2'' ''remove'' (hours 1))\<lparr>mc_secret_key := Some ''s3''\<rparr>]\<rparr>))
   in snd (dispatch sample_rt (\<lambda>i. 99) 41 (node_topic ''n2'' ''user/mapping'') (Some (mapping_message ''n2'' ''s3'')) d2) = d2"
  unfolding Let_def
  by (rule duplicate_secret_blocks [OF access_db_request, of "\<lambda>i. 60" 6 "''again''" 2 "''add''" "''again''"])
    (simp_all add: request_legacy_mapping_def insert_challenge_def insert_row_def challenge_cols_def
      challenge_refs_def challenge_clash_def MappingChallenge_def fits_def present_def access_db_def
      empty_db_def User_def)

end
