(* ===== verification/RoutesNode.thy ===== *)
theory RoutesNode
  imports Http Sharing NodeGroups Automations MqttRouter
begin

text \<open>
  The routes of the mobile app on nodes: \<open>user_nodes.py\<close>, \<open>tsdata.py\<close>, \<open>ota_user.py\<close>, \<open>sharing.py\<close>,
  \<open>groups.py\<close> and \<open>automations.py\<close> of \<open>app/api/v1/routes\<close>.  A route whose name is a service's too has
  the suffix \<open>_route\<close>.
\<close>

section \<open>\<open>user_nodes.py\<close>\<close>

definition node_detail :: "node \<Rightarrow> json" where
  "node_detail n = JObj [(''id'', JStr (nd_node_id n)), (''type'', opt_str (nd_node_type n)),
     (''fw_version'', opt_str (nd_fw_version n)), (''model'', opt_str (nd_model n)),
     (''online'', JBool (nd_online n)), (''tags'', JArr (map JStr (nd_tags n)))]"

definition find_node :: "string \<Rightarrow> db \<Rightarrow> node option result" where
  "find_node nid d = scalar_one_or_none (select (\<lambda>n. nd_node_id n = nid) (nodes d))"

primrec node_details :: "string list \<Rightarrow> db \<Rightarrow> json list result" where
  "node_details [] d = Inr []"
| "node_details (nid # nids) d =
     (case find_node nid d of
        Inl e \<Rightarrow> Inl e
      | Inr None \<Rightarrow> node_details nids d
      | Inr (Some n) \<Rightarrow> map_sum id (\<lambda>rest. node_detail n # rest) (node_details nids d))"

definition list_user_nodes :: handler where
  "list_user_nodes W rq d =
     with_user W rq d (\<lambda>user.
     valid d (query_opt rq ''node_details'' (w_query_bool W) False) (\<lambda>detailed.
       let node_ids = accessible_node_ids (usr_id user) d;
           response = [(''nodes'', JArr (map JStr node_ids)), (''total'', JInt (int (length node_ids)))]
       in if \<not> detailed then (Inr response, d)
          else attempt d (node_details node_ids d) (\<lambda>details.
            (Inr (response @ [(''node_details'', JArr details)]), d))))"

definition delete_user_node :: handler where
  "delete_user_node W rq d =
     with_user W rq d (\<lambda>user.
     attempt d (find_mapping (usr_id user) (path_param rq ''node_id'') d) (\<lambda>mapping. case mapping of
       None \<Rightarrow> (Inl (rainmaker 404 NODE_NOT_MAPPED ''Node not mapped to this user''), d)
     | Some m \<Rightarrow>
         (Inr (SuccessResponse ''Node unmapped''),
          d\<lparr>user_node_mappings := delete_where (\<lambda>x. unm_id x = unm_id m) (user_node_mappings d)\<rparr>)))"

text \<open>Authentication, the query parameter \<open>node_id\<close> and \<open>require_access\<close>, which five routes share.\<close>

definition with_accessible :: "world \<Rightarrow> request \<Rightarrow> db \<Rightarrow> (string \<Rightarrow> 'a result \<times> db) \<Rightarrow> 'a result \<times> db" where
  "with_accessible W rq d k =
     with_user W rq d (\<lambda>user.
     valid d (query rq ''node_id'') (\<lambda>node_id.
     attempt d (require_access (usr_id user) node_id d) (\<lambda>_. k node_id)))"

definition get_user_node_config :: handler where
  "get_user_node_config W rq d =
     with_accessible W rq d (\<lambda>node_id.
     attempt d (scalar_one_or_none (select (\<lambda>c. cfg_node_id c = node_id) (node_configs d))) (\<lambda>cfg. case cfg of
       None \<Rightarrow> (Inr [(''node_id'', JStr node_id), (''config_version'', JNull), (''payload'', JObj [])], d)
     | Some c \<Rightarrow>
         (Inr (dict_update [(''node_id'', JStr node_id), (''config_version'', opt_str (cfg_config_version c))]
            (cfg_payload c)), d)))"

definition get_user_node_status :: handler where
  "get_user_node_status W rq d =
     with_accessible W rq d (\<lambda>node_id.
     attempt d (find_node node_id d) (\<lambda>node. case node of
       None \<Rightarrow> (Inl (rainmaker 404 NODES_DO_NOT_EXIST ''Node not found''), d)
     | Some n \<Rightarrow>
         (Inr [(''node_id'', JStr node_id), (''connectivity'', JObj [(''connected'', JBool (nd_online n)),
            (''timestamp'', opt_str (map_option (w_isoformat W) (nd_last_seen_at n)))])], d)))"

definition get_user_node_params :: handler where
  "get_user_node_params W rq d =
     with_accessible W rq d (\<lambda>node_id.
     attempt d (scalar_one_or_none (select (\<lambda>s. shadow_node_id s = node_id) (node_params_shadows d))) (\<lambda>shadow.
       (Inr (case shadow of None \<Rightarrow> [] | Some s \<Rightarrow> shadow_payload s), d)))"

text \<open>
  \<open>publish_node_topic\<close> of \<open>app/mqtt/publisher.py\<close> hands one message to the MQTT client and swallows every
  failure; the message is part of what the route returns.  Whether the client sends it (it needs a connection, and
  refuses topics with wildcards) is not part of the model: flows that go on from here are those of messages that are delivered.
\<close>

definition publish_node_topic :: "string \<Rightarrow> string \<Rightarrow> json \<Rightarrow> string \<times> json" where
  "publish_node_topic node_id suff payload = (node_topic node_id suff, payload)"

definition put_user_node_params :: "world \<Rightarrow> request \<Rightarrow> db \<Rightarrow> (dict \<times> string \<times> json) result \<times> db" where
  "put_user_node_params W rq d =
     with_user W rq d (\<lambda>user.
     valid d (json_object rq) (\<lambda>payload.
     valid d (query rq ''node_id'') (\<lambda>node_id.
     attempt d (require_access (usr_id user) node_id d) (\<lambda>_.
       (Inr (SuccessResponse ''Params published'',
             publish_node_topic node_id ''params/remote'' (JObj payload)), d)))))"

definition put_user_node_mapping :: handler where
  "put_user_node_mapping W rq d =
     with_user W rq d (\<lambda>user.
     valid d (json_object rq) (\<lambda>payload.
       if \<not> truthy (get payload ''node_id'') \<or> \<not> truthy (get payload ''secret_key'')
       then (Inl (invalid_request ''node_id and secret_key required''), d)
       else
         as_text d DataError (get payload ''node_id'') (\<lambda>node_id.
         as_text d DataError (get payload ''secret_key'') (\<lambda>sk.
         attempt d (text_column (Some ''add'') (get_or (JStr ''add'') payload ''operation'')) (\<lambda>oper.
           returning (request_legacy_mapping (later W) (w_uuid W 0) (w_token W 0) (usr_id user) node_id sk oper d)
             (\<lambda>rid. [(''status'', JStr ''success''), (''request_id'', JStr rid)]))))))"

definition get_user_node_mapping :: handler where
  "get_user_node_mapping W rq d =
     with_user W rq d (\<lambda>user.
     valid d (query rq ''request_id'') (\<lambda>request_id.
     attempt d (get_mapping_status (usr_id user) request_id d) (\<lambda>out. (Inr out, d))))"

definition initiate_mapping :: handler where
  "initiate_mapping W rq d =
     with_user W rq d (\<lambda>user.
     valid d (json_object rq) (\<lambda>payload.
       if \<not> truthy (get payload ''node_id'') then (Inl (invalid_request ''node_id required''), d)
       else as_text d DataError (get payload ''node_id'') (\<lambda>node_id.
         initiate_challenge (later W) (w_uuid W 0) (w_token W 0) (w_token W 1) (usr_id user) node_id d)))"

definition verify_mapping :: handler where
  "verify_mapping W rq d =
     with_user W rq d (\<lambda>user.
     valid d (json_object rq) (\<lambda>payload.
       if \<not> truthy (get payload ''request_id'') \<or> \<not> truthy (get payload ''challenge_response'')
       then (Inl (invalid_request ''request_id and challenge_response required''), d)
       else as_text d DataError (get payload ''request_id'') (\<lambda>request_id.
         verify_challenge (later W) (w_uuid W 0) (usr_id user) request_id (get payload ''challenge_response'') d)))"

definition get_custom_data :: handler where
  "get_custom_data W rq d = with_user W rq d (\<lambda>user. (Inr (usr_custom_data user), d))"

definition put_custom_data :: handler where
  "put_custom_data W rq d =
     with_user W rq d (\<lambda>user.
     valid d (json_object rq) (\<lambda>payload.
       if \<not> storable (JObj payload) then (Inl (Uncaught DataError), d)
       else (Inr (SuccessResponse ''Custom data stored''),
             write_user user (\<lambda>u. u\<lparr>usr_custom_data := assigned_dict (usr_custom_data user) payload\<rparr>) d)))"

section \<open>\<open>tsdata.py\<close> and \<open>ota_user.py\<close>\<close>

text \<open>\<open>_ts\<close>, with the text of its \<open>ValueError\<close>.\<close>

definition ts_of :: "pyrt \<Rightarrow> int \<Rightarrow> raised + datetime" where
  "ts_of R n = (case fromtimestamp n of
       Inl e \<Rightarrow> Inl (if e = ValueError then RValue (year_error R n) else ROther e)
     | Inr t \<Rightarrow> Inr t)"

definition read_tsdata ::
  "world \<Rightarrow> user \<Rightarrow> string \<Rightarrow> string \<Rightarrow> int \<Rightarrow> int \<Rightarrow> string option \<Rightarrow> string option \<Rightarrow> int \<Rightarrow> db \<Rightarrow> dict result \<times> db" where
  "read_tsdata W user node_id param start_time end_time aggregate aggregate_interval num_records d =
     attempt d (require_access (usr_id user) node_id d) (\<lambda>_.
       case (case ts_of (w_rt W) start_time of
               Inl e \<Rightarrow> Inl e
             | Inr t0 \<Rightarrow>
                 (case ts_of (w_rt W) end_time of
                    Inl e \<Rightarrow> Inl e
                  | Inr t1 \<Rightarrow> query_tsdata (w_rt W) (w_buckets W) node_id param t0 t1 aggregate
                               aggregate_interval num_records d)) of
         Inl (RValue msg) \<Rightarrow> (Inl (invalid_request msg), d)
       | Inl (ROther e) \<Rightarrow> (Inl (Uncaught e), d)
       | Inr records \<Rightarrow>
           (Inr [(''node_id'', JStr node_id), (''param'', JStr param), (''records'', JArr (map JObj records))], d))"

text \<open>\<open>num_records: int = Query(default=200, le=200)\<close>\<close>

definition num_records :: "world \<Rightarrow> request \<Rightarrow> int option" where
  "num_records W rq =
     Option.bind (query_opt rq ''num_records'' (w_query_int W) 200) (\<lambda>n. if n \<le> 200 then Some n else None)"

definition get_tsdata :: handler where
  "get_tsdata W rq d =
     with_user W rq d (\<lambda>user.
     valid d (query rq ''node_id'') (\<lambda>node_id.
     valid d (query rq ''param'') (\<lambda>param.
     valid d (query_req rq ''start_time'' (w_query_int W)) (\<lambda>start_time.
     valid d (query_req rq ''end_time'' (w_query_int W)) (\<lambda>end_time.
     valid d (num_records W rq) (\<lambda>limit.
       read_tsdata W user node_id param start_time end_time (query rq ''aggregate'')
         (query rq ''aggregate_interval'') limit d))))))"

definition get_simple_tsdata :: handler where
  "get_simple_tsdata W rq d =
     with_user W rq d (\<lambda>user.
     valid d (query rq ''node_id'') (\<lambda>node_id.
     valid d (query rq ''param'') (\<lambda>param.
     valid d (query_req rq ''start_time'' (w_query_int W)) (\<lambda>start_time.
     valid d (query_req rq ''end_time'' (w_query_int W)) (\<lambda>end_time.
     valid d (num_records W rq) (\<lambda>limit.
       read_tsdata W user node_id param start_time end_time None None limit d))))))"

definition user_ota_status :: handler where
  "user_ota_status W rq d =
     with_accessible W rq d (\<lambda>node_id.
     attempt d (get_status_for_node node_id d) (\<lambda>out. (Inr out, d)))"

section \<open>\<open>sharing.py\<close>\<close>

definition put_sharing_request :: handler where
  "put_sharing_request W rq d =
     with_user W rq d (\<lambda>user.
     valid d (json_object rq) (\<lambda>payload.
       if has_key payload ''request_id''
       then (case uuid_of_json (get payload ''request_id'') of
           Inl e \<Rightarrow> (if e = TypeError \<or> e = ValueError then (Inl (invalid_request ''invalid request_id''), d)
                     else (Inl (Uncaught e), d))
         | Inr rid \<Rightarrow> accept_or_decline (later W) (w_uuid W 0) (usr_id user) (usr_user_name user) rid
                       (truthy (get_or (JBool True) payload ''accept'')) d)
       else if \<not> truthy (get payload ''nodes'') \<or> \<not> truthy (get payload ''user_name'')
       then (Inl (invalid_request ''nodes and user_name required''), d)
       else attempt d (lift_exc (iterate (get payload ''nodes''))) (\<lambda>node_ids.
         returning (create_request (later W) (w_uuid W) (usr_id user) node_ids (get payload ''user_name'') d)
           (\<lambda>rid. [(''status'', JStr ''success''), (''request_id'', JStr rid)]))))"

definition list_sharing :: handler where
  "list_sharing W rq d =
     with_user W rq d (\<lambda>user.
       (Inr [(''shared_with_me'', JArr (map (\<lambda>s. JObj [(''node_id'', JStr (sh_node_id s)), (''role'', JStr (sh_role s))])
                (select (\<lambda>s. sh_to_user_id s = usr_id user) (node_sharings d)))),
             (''shared_by_me'', JArr (map (\<lambda>s. JObj [(''node_id'', JStr (sh_node_id s)),
                  (''to_user_id'', JStr (str_uuid (sh_to_user_id s)))])
                (select (\<lambda>s. sh_from_user_id s = usr_id user) (node_sharings d))))], d))"

text \<open>\<open>[n for n in nodes.split(",") if n]\<close>\<close>

definition split_commas :: "string \<Rightarrow> string list" where
  "split_commas s = filter (\<lambda>n. n \<noteq> []) (py_split_all (CHR '','') s)"

definition revoke_sharing :: handler where
  "revoke_sharing W rq d =
     with_user W rq d (\<lambda>user.
     valid d (query rq ''nodes'') (\<lambda>nds.
     valid d (query rq ''user_name'') (\<lambda>user_name.
       returning (revoke_share (usr_id user) (split_commas nds) user_name d)
         (\<lambda>_. SuccessResponse ''Sharing revoked''))))"

section \<open>\<open>groups.py\<close>\<close>

definition create_group_route :: handler where
  "create_group_route W rq d =
     with_user W rq d (\<lambda>user.
     valid d (json_object rq) (\<lambda>payload.
       if \<not> truthy (get payload ''group_name'') then (Inl (invalid_request ''group_name required''), d)
       else case (if truthy (get payload ''parent_group_id'')
                  then map_sum id Some (uuid_of_json (get payload ''parent_group_id'')) else Inr None) of
           Inl e \<Rightarrow> (if e = TypeError \<or> e = ValueError then (Inl (invalid_request ''invalid parent_group_id''), d)
                     else (Inl (Uncaught e), d))
         | Inr parent_id \<Rightarrow>
             returning (create_group (w_uuid W 0) (\<lambda>i. w_uuid W (i + 1)) (usr_id user) (get payload ''group_name'')
                 parent_id (get payload ''type'') (truthy (get_or (JBool False) payload ''mutually_exclusive''))
                 (or_list (get payload ''nodes'')) (get payload ''metadata'') d)
               (\<lambda>g. [(''status'', JStr ''success''), (''group_id'', JStr (str_uuid (grp_id g)))])))"

definition list_user_node_groups :: handler where
  "list_user_node_groups W rq d =
     with_user W rq d (\<lambda>user.
     attempt d (if str_truthy (query rq ''group_id'')
                then map_sum id Some (lift_exc (parse_uuid (the (query rq ''group_id'')))) else Inr None) (\<lambda>gid.
       (Inr [(''groups'', JArr (map JObj (list_groups (usr_id user) gid d)))], d)))"

definition delete_user_node_group :: handler where
  "delete_user_node_group W rq d =
     with_user W rq d (\<lambda>user.
       case parse_uuid (path_param rq ''group_id'') of
         Inl e \<Rightarrow> (if e = TypeError \<or> e = ValueError then (Inl (invalid_request ''invalid group_id''), d)
                   else (Inl (Uncaught e), d))
       | Inr gid \<Rightarrow> returning (delete_group (usr_id user) gid d) (\<lambda>_. SuccessResponse ''Group deleted''))"

section \<open>\<open>automations.py\<close>\<close>

definition create_automation_route :: handler where
  "create_automation_route W rq d =
     with_user W rq d (\<lambda>user.
     valid d (json_object rq) (\<lambda>payload.
       if \<not> truthy (get payload ''name'') then (Inl (invalid_request ''name required''), d)
       else returning (create_automation (w_uuid W 0) (usr_id user) (get payload ''name'')
           (or_list (get payload ''events'')) (or_list (get payload ''actions''))
           (get_or (JStr ''and'') payload ''event_operator'') (get payload ''metadata'') d)
         (\<lambda>row. [(''status'', JStr ''success''), (''automation_id'', JStr (str_uuid (au_id row)))])))"

definition list_automations_route :: handler where
  "list_automations_route W rq d =
     with_user W rq d (\<lambda>user.
       (Inr [(''automations'', JArr (map (\<lambda>r. JObj (serialise r)) (list_automations (usr_id user) d)))], d))"

definition update_automation_route :: handler where
  "update_automation_route W rq d =
     with_user W rq d (\<lambda>user.
     valid d (json_object rq) (\<lambda>payload.
       case (if has_key payload ''automation_id'' then uuid_of_json (get payload ''automation_id'') else Inl KeyError) of
         Inl e \<Rightarrow> (if e = KeyError \<or> e = TypeError \<or> e = ValueError
                   then (Inl (invalid_request ''automation_id required''), d) else (Inl (Uncaught e), d))
       | Inr aid \<Rightarrow> returning (update_automation (usr_id user) aid payload d)
                     (\<lambda>_. SuccessResponse ''Automation updated'')))"

definition delete_automation_route :: handler where
  "delete_automation_route W rq d =
     with_user W rq d (\<lambda>user.
     valid d (query rq ''automation_id'') (\<lambda>automation_id.
       case parse_uuid automation_id of
         Inl e \<Rightarrow> (if e = TypeError \<or> e = ValueError then (Inl (invalid_request ''invalid automation_id''), d)
                   else (Inl (Uncaught e), d))
       | Inr aid \<Rightarrow> returning (delete_automation (usr_id user) aid d) (\<lambda>_. SuccessResponse ''Automation deleted'')))"

section \<open>Integrity\<close>

lemma with_accessible_inv: "P d \<Longrightarrow> (\<And>n. P (snd (k n))) \<Longrightarrow> P (snd (with_accessible W rq d k))"
  unfolding with_accessible_def by (intro with_user_inv [where P = P] valid_inv [where P = P] attempt_inv [where P = P])

lemma read_tsdata_pure [simp]: "snd (read_tsdata W u n p a b g gi l d) = d"
  by (auto simp: read_tsdata_def attempt_def split: sum.splits raised.splits)

lemmas node_route_ok = route_ok with_accessible_inv [where P = db_ok]

lemma user_node_routes_ok:
  assumes "db_ok d"
  shows "db_ok (snd (list_user_nodes W rq d))" "db_ok (snd (delete_user_node W rq d))"
    "db_ok (snd (get_user_node_config W rq d))" "db_ok (snd (get_user_node_status W rq d))"
    "db_ok (snd (get_user_node_params W rq d))" "db_ok (snd (put_user_node_params W rq d))"
    "db_ok (snd (put_user_node_mapping W rq d))" "db_ok (snd (get_user_node_mapping W rq d))"
    "db_ok (snd (initiate_mapping W rq d))" "db_ok (snd (verify_mapping W rq d))"
    "db_ok (snd (get_custom_data W rq d))" "db_ok (snd (put_custom_data W rq d))"
    "db_ok (snd (get_tsdata W rq d))" "db_ok (snd (get_simple_tsdata W rq d))"
    "db_ok (snd (user_ota_status W rq d))"
  using assms
  by (auto simp: list_user_nodes_def delete_user_node_def get_user_node_config_def get_user_node_status_def
      get_user_node_params_def put_user_node_params_def put_user_node_mapping_def get_user_node_mapping_def
      initiate_mapping_def verify_mapping_def get_custom_data_def put_custom_data_def get_tsdata_def
      get_simple_tsdata_def user_ota_status_def Let_def
      intro!: node_route_ok delete_mapping_ok request_legacy_mapping_ok initiate_challenge_ok verify_challenge_ok
        write_user_ok split: option.splits)

lemma sharing_routes_ok:
  assumes "db_ok d"
  shows "db_ok (snd (put_sharing_request W rq d))" "db_ok (snd (list_sharing W rq d))"
    "db_ok (snd (revoke_sharing W rq d))" "db_ok (snd (create_group_route W rq d))"
    "db_ok (snd (list_user_node_groups W rq d))" "db_ok (snd (delete_user_node_group W rq d))"
    "db_ok (snd (create_automation_route W rq d))" "db_ok (snd (list_automations_route W rq d))"
    "db_ok (snd (update_automation_route W rq d))" "db_ok (snd (delete_automation_route W rq d))"
  using assms
  by (auto simp: put_sharing_request_def list_sharing_def revoke_sharing_def create_group_route_def
      list_user_node_groups_def delete_user_node_group_def create_automation_route_def list_automations_route_def
      update_automation_route_def delete_automation_route_def
      intro!: node_route_ok accept_or_decline_ok create_request_ok revoke_share_ok create_group_ok delete_group_ok
        create_automation_ok update_automation_op_ok delete_automation_op_ok split: sum.splits)

end
