(* ===== verification/RoutesDevice.thy ===== *)
theory RoutesDevice
  imports Http NodeSvc VmqAuthz
begin

text \<open>
  The routes of devices, administrators and the broker: \<open>claim.py\<close>, \<open>node.py\<close>, \<open>ota_admin.py\<close>, \<open>meta.py\<close>
  and \<open>health.py\<close> of \<open>app/api/v1/routes\<close>, and the webhooks of \<open>app/api/internal/vmq_authz.py\<close>.
\<close>

section \<open>\<open>claim.py\<close>\<close>

text \<open>
  \<open>_resolve_user_from_header\<close>: unlike \<open>get_current_user\<close> it strips the header before it looks for the
  prefix, and turns every failure to read \<open>sub\<close> into a 401.
\<close>

definition resolve_user_from_header :: "world \<Rightarrow> string \<Rightarrow> db \<Rightarrow> user result" where
  "resolve_user_from_header W authorization d =
     (let token = py_strip authorization in
      if startswith (py_lower token) ''bearer '' then Inl (unauthorized ''Bearer-prefixed tokens are not supported'')
      else case decode_token (w_libs W) (w_settings W) token (Some Access) (w_clk W 0) of
        Inl e \<Rightarrow> (if e = ExpiredSignatureError \<or> e = InvalidTokenError then Inl (unauthorized ''Invalid token'')
                  else Inl (Uncaught e))
      | Inr payload \<Rightarrow>
          (case (if has_key payload ''sub'' then uuid_of_json (get payload ''sub'') else Inl KeyError) of
             Inl _ \<Rightarrow> Inl (unauthorized ''Invalid token'')
           | Inr user_id \<Rightarrow>
               (case find_user_by_id user_id d of
                  Inl e \<Rightarrow> Inl e
                | Inr None \<Rightarrow> Inl (unauthorized ''User not found'')
                | Inr (Some user) \<Rightarrow>
                    if usr_status user \<noteq> ''confirmed'' then Inl (unauthorized ''User not found'') else Inr user)))"

definition claim_initiate :: handler where
  "claim_initiate W rq d =
     valid d (json_object rq) (\<lambda>payload.
       let mac_addr = get payload ''mac_addr''; platform = get payload ''platform'' in
       if \<not> truthy mac_addr \<or> \<not> truthy platform
       then (Inl (invalid_request ''mac_addr and platform required''), d)
       else if str_truthy (rq_authorization rq)
       then attempt d (resolve_user_from_header W (the (rq_authorization rq)) d) (\<lambda>user.
         as_text d AttributeError mac_addr (\<lambda>mac.
           initiate_assisted_claim (w_settings W) (later W) (w_uuid W 0) (w_now W) (usr_id user) mac platform d))
       else as_text d DataError mac_addr (\<lambda>mac.
         initiate_self_claim (w_settings W) (w_clk W) (w_uuid W 0) (w_now W) (w_bytes W) (w_token W 0) mac platform d))"

definition claim_verify :: handler where
  "claim_verify W rq d =
     valid d (json_object rq) (\<lambda>payload.
       if \<not> truthy (get payload ''csr'') then (Inl (invalid_request ''csr required''), d)
       else as_text d AttributeError (get payload ''csr'') (\<lambda>csr_pem.
         if str_truthy (rq_authorization rq)
         then attempt d (resolve_user_from_header W (the (rq_authorization rq)) d) (\<lambda>user.
           verify_assisted_claim (w_claims W) (w_settings W) (later W) (w_bits W) (usr_id user) csr_pem d)
         else if \<not> truthy (get payload ''auth_id'') \<or> \<not> truthy (get payload ''challenge_response'')
         then (Inl (invalid_request ''auth_id and challenge_response required for self-claim''), d)
         else as_text d DataError (get payload ''auth_id'') (\<lambda>auth_id.
           verify_self_claim (w_claims W) (w_settings W) (w_clk W) (w_bits W) auth_id
             (get payload ''challenge_response'') csr_pem d)))"

section \<open>\<open>node.py\<close>\<close>

definition put_node_config :: handler where
  "put_node_config W rq d =
     with_node rq d (\<lambda>node.
     valid d (json_object rq) (\<lambda>payload.
       returning (upsert_node_config (nd_node_id node) payload d) (\<lambda>_. SuccessResponse ''Config stored'')))"

definition post_node_params_local :: handler where
  "post_node_params_local W rq d =
     with_node rq d (\<lambda>node.
     valid d (json_object rq) (\<lambda>payload.
       returning (upsert_params_shadow (nd_node_id node) payload d) (\<lambda>_. SuccessResponse ''Params merged'')))"

definition get_node_otafetch :: handler where
  "get_node_otafetch W rq d =
     with_node rq d (\<lambda>node.
     attempt d (fetch_pending_for_node (w_settings W) (w_storage W) (w_token W 0) (nd_node_id node) d)
       (\<lambda>out. (Inr out, d)))"

definition post_node_otastatus :: handler where
  "post_node_otastatus W rq d =
     with_node rq d (\<lambda>node.
     valid d (json_object rq) (\<lambda>payload.
       if \<not> truthy (get payload ''ota_job_id'') \<or> \<not> truthy (get payload ''status'')
       then (Inl (invalid_request ''ota_job_id and status required''), d)
       else returning (update_status (w_clk W) (nd_node_id node) (get payload ''ota_job_id'')
           (get payload ''status'') (get payload ''additional_info'') d)
         (\<lambda>_. SuccessResponse ''OTA status recorded'')))"

section \<open>\<open>ota_admin.py\<close>\<close>

definition admin_upload_request :: handler where
  "admin_upload_request W rq d =
     with_admin W rq d (\<lambda>admin.
     valid d (json_object rq) (\<lambda>payload.
       let name = get payload ''name''; fw_version = get payload ''fw_version''; file_size = get payload ''file_size'' in
       if \<not> truthy name \<or> \<not> truthy fw_version \<or> \<not> truthy file_size
       then (Inl (invalid_request ''name, fw_version and file_size required''), d)
       else attempt d (lift_exc (py_int file_size)) (\<lambda>size.
         create_image_upload (w_rt W) (w_settings W) (w_storage W) (w_uuid W 0) (w_token W 0) name fw_version size
           (get payload ''model'') (get payload ''metadata'') d)))"

text \<open>\<open>uuid.UUID(payload["ota_image_id"])\<close>; a \<open>TypeError\<close> is not caught here.\<close>

definition image_id_of :: "dict \<Rightarrow> uuid result" where
  "image_id_of payload =
     (case (if has_key payload ''ota_image_id'' then uuid_of_json (get payload ''ota_image_id'') else Inl KeyError) of
        Inl e \<Rightarrow> (if e = KeyError \<or> e = ValueError then Inl (invalid_request ''ota_image_id required'')
                  else Inl (Uncaught e))
      | Inr i \<Rightarrow> Inr i)"

definition admin_upload_confirm :: handler where
  "admin_upload_confirm W rq d =
     with_admin W rq d (\<lambda>admin.
     valid d (json_object rq) (\<lambda>payload.
     attempt d (image_id_of payload) (\<lambda>image_id.
       returning (confirm_image_upload image_id (get payload ''file_md5'') (get payload ''file_sha256'') d)
         (\<lambda>img. [(''status'', JStr ''success''), (''ota_image_id'', JStr (str_uuid (img_id img))),
                 (''image_status'', JStr (img_status img))]))))"

definition admin_create_otajob :: handler where
  "admin_create_otajob W rq d =
     with_admin W rq d (\<lambda>admin.
     valid d (json_object rq) (\<lambda>payload.
     attempt d (image_id_of payload) (\<lambda>image_id.
       if \<not> truthy (get payload ''name'') \<or> \<not> truthy (get payload ''nodes'')
       then (Inl (invalid_request ''name and nodes required''), d)
       else attempt d (lift_exc (iterate (get payload ''nodes''))) (\<lambda>node_ids.
         returning (create_job (later W) (w_uuid W 0) (\<lambda>i. w_uuid W (i + 1)) (w_now W) (get payload ''name'')
             image_id node_ids (get payload ''rollout_policy'') (Some (usr_id admin)) d)
           (\<lambda>job. [(''status'', JStr ''success''), (''ota_job_id'', JStr (str_uuid (job_id job)))])))))"

section \<open>The broker's webhooks\<close>

definition on_register :: handler where
  "on_register W rq d =
     valid d (json_object rq) (\<lambda>payload.
     attempt d (authorise_register (w_settings W) (get payload ''username'') d) (\<lambda>out. (Inr out, d)))"

definition on_publish :: handler where
  "on_publish W rq d =
     valid d (json_object rq) (\<lambda>payload.
     attempt d (authorise_publish (w_rt W) (w_settings W) (get payload ''username'')
       (get_or (JStr []) payload ''topic'')) (\<lambda>out. (Inr out, d)))"

definition on_subscribe :: handler where
  "on_subscribe W rq d =
     valid d (json_object rq) (\<lambda>payload.
     attempt d (authorise_subscribe (w_rt W) (w_settings W) (get payload ''username'') (get payload ''topics''))
       (\<lambda>out. (Inr out, d)))"

definition on_client_online :: handler where
  "on_client_online W rq d =
     valid d (json_object rq) (\<lambda>payload.
       returning (mark_online (w_settings W) (w_clk W 0) (get payload ''client_id'') (get payload ''username'') d)
         (\<lambda>_. allow))"

definition on_client_offline :: handler where
  "on_client_offline W rq d =
     valid d (json_object rq) (\<lambda>payload.
       returning (mark_offline (w_settings W) (w_clk W 0) (get payload ''client_id'') (get payload ''username'') d)
         (\<lambda>_. allow))"

section \<open>\<open>meta.py\<close> and \<open>health.py\<close>\<close>

definition apiversions :: handler where
  "apiversions W rq d =
     (Inr (ApiVersionsResponse [''v1''] [(''public_base_url'', JStr (public_base_url (w_settings W)))]), d)"

definition mqtt_host :: handler where
  "mqtt_host W rq d =
     (let S = w_settings W in
      (Inr [(''mqtt_host'', JStr (mqtt_broker_host S @ '':'' @ int_str (mqtt_broker_port S))),
            (''mqtt_ws_host'', JStr (mqtt_ws_host S @ '':'' @ int_str (mqtt_ws_port S)))], d))"

definition HealthResponse :: "string \<Rightarrow> dict \<Rightarrow> dict" where
  "HealthResponse st components = [(''status'', JStr st), (''version'', JStr ''0.1.0''), (''components'', JObj components)]"

definition healthz :: handler where
  "healthz W rq d = (Inr (HealthResponse ''ok'' []), d)"

text \<open>
  \<open>readyz\<close>: the status code and the body by what \<open>SELECT 1\<close> raised, if anything.  The database of the model is
  reached by every request.
\<close>

definition readiness :: "string option \<Rightarrow> nat \<times> dict" where
  "readiness raised = (case raised of
       None \<Rightarrow> (200, HealthResponse ''ok'' [(''db'', JStr ''ok'')])
     | Some msg \<Rightarrow> (503, HealthResponse ''degraded'' [(''db'', JStr (''error: '' @ msg))]))"

definition readyz :: handler where
  "readyz W rq d = (Inr (snd (readiness None)), d)"

section \<open>Integrity\<close>

lemma device_routes_ok:
  assumes "db_ok d"
  shows "db_ok (snd (claim_initiate W rq d))" "db_ok (snd (claim_verify W rq d))"
    "db_ok (snd (put_node_config W rq d))" "db_ok (snd (post_node_params_local W rq d))"
    "db_ok (snd (get_node_otafetch W rq d))" "db_ok (snd (post_node_otastatus W rq d))"
    "db_ok (snd (admin_upload_request W rq d))" "db_ok (snd (admin_upload_confirm W rq d))"
    "db_ok (snd (admin_create_otajob W rq d))"
  using assms
  by (auto simp: claim_initiate_def claim_verify_def put_node_config_def post_node_params_local_def
      get_node_otafetch_def post_node_otastatus_def admin_upload_request_def admin_upload_confirm_def
      admin_create_otajob_def Let_def
      intro!: route_ok initiate_assisted_claim_ok initiate_self_claim_ok verify_assisted_claim_ok
        verify_self_claim_ok upsert_node_config_ok upsert_params_shadow_ok update_status_ok
        create_image_upload_ok confirm_image_upload_ok create_job_ok)

lemma broker_routes_ok:
  assumes "db_ok d"
  shows "db_ok (snd (on_register W rq d))" "db_ok (snd (on_publish W rq d))" "db_ok (snd (on_subscribe W rq d))"
    "db_ok (snd (on_client_online W rq d))" "db_ok (snd (on_client_offline W rq d))"
    "db_ok (snd (apiversions W rq d))" "db_ok (snd (mqtt_host W rq d))" "db_ok (snd (healthz W rq d))" "db_ok (snd (readyz W rq d))"
  using assms
  by (auto simp: on_register_def on_publish_def on_subscribe_def on_client_online_def on_client_offline_def
      apiversions_def mqtt_host_def healthz_def readyz_def Let_def intro!: route_ok mark_online_ok mark_offline_ok)

end
