(* ===== verification/RouteTable.thy ===== *)
theory RouteTable
  imports RoutesAccount RoutesNode RoutesDevice
begin

text \<open>
  \<open>app/api/v1/router.py\<close> and \<open>create_app\<close> of \<open>app/main.py\<close>: the routes in the order in which they are
  registered, and Starlette's dispatch over them, which takes the first route whose path and method
  match.
\<close>

section \<open>Paths\<close>

datatype seg = Lit string | Var string

type_synonym entry = "string \<times> seg list \<times> handler"

fun match_path :: "seg list \<Rightarrow> string list \<Rightarrow> (string \<times> string) list option" where
  "match_path [] [] = Some []"
| "match_path (Lit l # ss) (p # ps) = (if l = p then match_path ss ps else None)"
| "match_path (Var v # ss) (p # ps) = (if p = [] then None else map_option (\<lambda>m. (v, p) # m) (match_path ss ps))"
| "match_path _ _ = None"

primrec find_route :: "entry list \<Rightarrow> string \<Rightarrow> string list \<Rightarrow> (handler \<times> (string \<times> string) list) option" where
  "find_route [] m ps = None"
| "find_route (e # es) m ps =
     (case e of (m', t, h) \<Rightarrow>
        (case match_path t ps of
           Some args \<Rightarrow> if m' = m then Some (h, args) else find_route es m ps
         | None \<Rightarrow> find_route es m ps))"

definition path_known :: "entry list \<Rightarrow> string list \<Rightarrow> bool" where
  "path_known es ps \<longleftrightarrow> list_ex (\<lambda>(m, t, h). match_path t ps \<noteq> None) es"

section \<open>The routers\<close>

text \<open>What the client gets of \<open>put_user_node_params\<close>.\<close>

definition put_user_node_params_route :: handler where
  "put_user_node_params_route W rq d =
     (case put_user_node_params W rq d of (r, d') \<Rightarrow> (map_sum id fst r, d'))"

definition health_router :: "entry list" where
  "health_router = [(''GET'', [Lit ''healthz''], healthz), (''GET'', [Lit ''readyz''], readyz)]"

definition claim_router :: "entry list" where
  "claim_router = [
     (''POST'', [Lit ''claim'', Lit ''initiate''], claim_initiate),
     (''POST'', [Lit ''claim'', Lit ''verify''], claim_verify)]"

definition vmq_authz_router :: "entry list" where
  "vmq_authz_router = [
     (''POST'', [Lit ''auth'', Lit ''on_register''], on_register),
     (''POST'', [Lit ''auth'', Lit ''on_publish''], on_publish),
     (''POST'', [Lit ''auth'', Lit ''on_subscribe''], on_subscribe),
     (''POST'', [Lit ''on_client_online''], on_client_online),
     (''POST'', [Lit ''on_client_offline''], on_client_offline)]"

definition meta_router :: "entry list" where
  "meta_router = [
     (''GET'', [Lit ''apiversions''], apiversions),
     (''GET'', [Lit ''mqtt_host''], mqtt_host)]"

definition auth_router :: "entry list" where
  "auth_router = [
     (''POST'', [Lit ''login2''], login2),
     (''POST'', [Lit ''user2''], signup_route),
     (''PUT'', [Lit ''user2''], confirm_signup_or_update),
     (''PUT'', [Lit ''password2''], change_password_route),
     (''PUT'', [Lit ''forgotpassword2''], forgot_password),
     (''POST'', [Lit ''logout2''], logout_route)]"

definition user_router :: "entry list" where
  "user_router = [
     (''GET'', [Lit ''user2''], get_current_user_profile),
     (''DELETE'', [Lit ''user2''], delete_current_user)]"

definition sharing_router :: "entry list" where
  "sharing_router = [
     (''PUT'', [Lit ''user'', Lit ''nodes'', Lit ''sharing'', Lit ''requests''], put_sharing_request),
     (''GET'', [Lit ''user'', Lit ''nodes'', Lit ''sharing''], list_sharing),
     (''DELETE'', [Lit ''user'', Lit ''nodes'', Lit ''sharing''], revoke_sharing)]"

definition groups_router :: "entry list" where
  "groups_router = [
     (''POST'', [Lit ''user'', Lit ''node_group''], create_group_route),
     (''GET'', [Lit ''user'', Lit ''node_group''], list_user_node_groups),
     (''DELETE'', [Lit ''user'', Lit ''node_group'', Var ''group_id''], delete_user_node_group)]"

definition automations_router :: "entry list" where
  "automations_router = [
     (''POST'', [Lit ''user'', Lit ''node_automation''], create_automation_route),
     (''GET'', [Lit ''user'', Lit ''node_automation''], list_automations_route),
     (''PUT'', [Lit ''user'', Lit ''node_automation''], update_automation_route),
     (''DELETE'', [Lit ''user'', Lit ''node_automation''], delete_automation_route)]"

definition tsdata_router :: "entry list" where
  "tsdata_router = [
     (''GET'', [Lit ''user'', Lit ''nodes'', Lit ''tsdata''], get_tsdata),
     (''GET'', [Lit ''user'', Lit ''nodes'', Lit ''simple_tsdata''], get_simple_tsdata)]"

definition user_nodes_router :: "entry list" where
  "user_nodes_router = [
     (''GET'', [Lit ''user'', Lit ''nodes''], list_user_nodes),
     (''DELETE'', [Lit ''user'', Lit ''nodes'', Var ''node_id''], delete_user_node),
     (''GET'', [Lit ''user'', Lit ''nodes'', Lit ''config''], get_user_node_config),
     (''GET'', [Lit ''user'', Lit ''nodes'', Lit ''status''], get_user_node_status),
     (''GET'', [Lit ''user'', Lit ''nodes'', Lit ''params''], get_user_node_params),
     (''PUT'', [Lit ''user'', Lit ''nodes'', Lit ''params''], put_user_node_params_route),
     (''PUT'', [Lit ''user'', Lit ''nodes'', Lit ''mapping''], put_user_node_mapping),
     (''GET'', [Lit ''user'', Lit ''nodes'', Lit ''mapping''], get_user_node_mapping),
     (''POST'', [Lit ''user'', Lit ''nodes'', Lit ''mapping'', Lit ''initiate''], initiate_mapping),
     (''POST'', [Lit ''user'', Lit ''nodes'', Lit ''mapping'', Lit ''verify''], verify_mapping),
     (''GET'', [Lit ''user'', Lit ''custom_data''], get_custom_data),
     (''PUT'', [Lit ''user'', Lit ''custom_data''], put_custom_data)]"

definition node_router :: "entry list" where
  "node_router = [
     (''PUT'', [Lit ''node'', Lit ''config''], put_node_config),
     (''PUT'', [Lit ''node'', Lit ''params'', Lit ''local''], post_node_params_local),
     (''POST'', [Lit ''node'', Lit ''params'', Lit ''local''], post_node_params_local),
     (''GET'', [Lit ''node'', Lit ''otafetch''], get_node_otafetch),
     (''POST'', [Lit ''node'', Lit ''otastatus''], post_node_otastatus)]"

definition ota_admin_router :: "entry list" where
  "ota_admin_router = [
     (''POST'', [Lit ''admin'', Lit ''otaimage'', Lit ''upload_request''], admin_upload_request),
     (''POST'', [Lit ''admin'', Lit ''otaimage'', Lit ''upload_confirm''], admin_upload_confirm),
     (''POST'', [Lit ''admin'', Lit ''otajob''], admin_create_otajob)]"

definition ota_user_router :: "entry list" where
  "ota_user_router = [(''GET'', [Lit ''user'', Lit ''nodes'', Lit ''ota_status''], user_ota_status)]"

definition api_router :: "entry list" where
  "api_router = health_router @ claim_router @ vmq_authz_router"

definition include_router :: "string \<Rightarrow> entry list \<Rightarrow> entry list" where
  "include_router pfx es = map (\<lambda>(m, t, h). (m, Lit pfx # t, h)) es"

definition v1_router :: "entry list" where
  "v1_router = include_router ''v1'' (meta_router @ auth_router @ user_router @ sharing_router @ groups_router @
     automations_router @ tsdata_router @ user_nodes_router @ node_router @ ota_admin_router @ ota_user_router)"

definition app_routes :: "entry list" where
  "app_routes = api_router @ v1_router"

text \<open>\<open>create_app\<close>: the application with its documentation URLs, the CORS middleware and the routes.\<close>

record cors_policy =
  allow_origins :: "string list"
  allow_credentials :: bool
  allow_methods :: "string list"
  allow_headers :: "string list"

record fastapi_app =
  app_title :: string
  docs_url :: "string option"
  redoc_url :: "string option"
  openapi_url :: "string option"
  app_cors :: "cors_policy option"
  app_entries :: "entry list"

definition create_app :: "settings \<Rightarrow> fastapi_app" where
  "create_app S = \<lparr>
     app_title = ''ESP RainMaker (self-hosted)'',
     docs_url = (if debug S then Some ''/docs'' else None),
     redoc_url = None,
     openapi_url = (if debug S then Some ''/openapi.json'' else None),
     app_cors = (if cors_allow_origins S \<noteq> []
       then Some \<lparr>allow_origins = cors_allow_origins S, allow_credentials = True, allow_methods = [''*''], allow_headers = [''*'']\<rparr>
       else None),
     app_entries = app_routes\<rparr>"

section \<open>Serving a request\<close>

datatype outcome = Answer "dict result" | MethodNotAllowed | NoSuchRoute

definition serve :: "world \<Rightarrow> string \<Rightarrow> string list \<Rightarrow> request \<Rightarrow> db \<Rightarrow> outcome \<times> db" where
  "serve W m ps rq d =
     (case find_route app_routes m ps of
        Some (h, args) \<Rightarrow> (case h W (rq\<lparr>rq_path := args\<rparr>) d of (r, d') \<Rightarrow> (Answer r, d'))
      | None \<Rightarrow> (if path_known app_routes ps then MethodNotAllowed else NoSuchRoute, d))"

lemmas router_defs =
  health_router_def claim_router_def vmq_authz_router_def meta_router_def auth_router_def user_router_def
  sharing_router_def groups_router_def automations_router_def tsdata_router_def user_nodes_router_def
  node_router_def ota_admin_router_def ota_user_router_def

text \<open>All handlers, in order.\<close>

definition handlers :: "entry list \<Rightarrow> handler list" where
  "handlers es = map (\<lambda>(m, t, h). h) es"

lemma find_route_in: "find_route es m ps = Some (h, args) \<Longrightarrow> h \<in> set (handlers es)"
  by (induction es) (auto simp: handlers_def split: prod.splits option.splits if_splits)

lemma handlers_app:
  "handlers app_routes = concat (map handlers [health_router, claim_router, vmq_authz_router, meta_router,
     auth_router, user_router, sharing_router, groups_router, automations_router, tsdata_router,
     user_nodes_router, node_router, ota_admin_router, ota_user_router])"
  by (simp add: app_routes_def api_router_def v1_router_def include_router_def handlers_def comp_def split_def)

lemma serve_cases:
  obtains (handled) h args where "h \<in> set (handlers app_routes)" "find_route app_routes m ps = Some (h, args)"
      "serve W m ps rq d = (Answer (fst (h W (rq\<lparr>rq_path := args\<rparr>) d)), snd (h W (rq\<lparr>rq_path := args\<rparr>) d))"
    | (unhandled) "fst (serve W m ps rq d) \<in> {MethodNotAllowed, NoSuchRoute}" "snd (serve W m ps rq d) = d"
  by (cases "find_route app_routes m ps")
    (auto simp: serve_def split_beta dest: find_route_in)

text \<open>A predicate that every handler keeps is kept by the application.\<close>

lemma serve_inv:
  assumes "list_all (\<lambda>h. \<forall>rq. P (snd (h W rq d))) (handlers app_routes)" and "P d"
  shows "P (snd (serve W m ps rq d))"
  by (rule serve_cases [of m ps W rq d]) (use assms in \<open>auto simp: list_all_iff\<close>)

lemma put_user_node_params_route_ok: "db_ok d \<Longrightarrow> db_ok (snd (put_user_node_params_route W rq d))"
  using user_node_routes_ok(6) by (simp add: put_user_node_params_route_def split_beta)

lemma handlers_ok: "db_ok d \<Longrightarrow> list_all (\<lambda>h. \<forall>rq. db_ok (snd (h W rq d))) (handlers app_routes)"
  unfolding handlers_app
  by (simp add: handlers_def router_defs account_routes_ok user_node_routes_ok sharing_routes_ok device_routes_ok
      broker_routes_ok put_user_node_params_route_ok)

lemma serve_ok [store_ok]: "db_ok d \<Longrightarrow> db_ok (snd (serve W m ps rq d))"
  by (rule serve_inv [where P = db_ok]) (rule handlers_ok)

section \<open>Which routes hide which\<close>

definition fill :: "string \<Rightarrow> seg list \<Rightarrow> string list" where
  "fill x t = map (\<lambda>s. case s of Lit l \<Rightarrow> l | Var v \<Rightarrow> x) t"

definition vars :: "string \<Rightarrow> seg list \<Rightarrow> (string \<times> string) list" where
  "vars x t = concat (map (\<lambda>s. case s of Lit l \<Rightarrow> [] | Var v \<Rightarrow> [(v, x)]) t)"

text \<open>
  The values of the parameter of the second template for which the first one matches too: \<open>None\<close> for
  no value, \<open>Some names\<close> when the value has to be each of the names.
\<close>

fun overlap :: "seg list \<Rightarrow> seg list \<Rightarrow> string list option" where
  "overlap [] [] = Some []"
| "overlap (Lit a # s) (Lit b # t) = (if a = b then overlap s t else None)"
| "overlap (Lit a # s) (Var w # t) = map_option (\<lambda>ns. a # ns) (overlap s t)"
| "overlap (Var v # s) (Lit b # t) = (if b = [] then None else overlap s t)"
| "overlap (Var v # s) (Var w # t) = overlap s t"
| "overlap _ _ = None"

lemma match_fill:
  "x \<noteq> [] \<Longrightarrow> match_path s (fill x t) \<noteq> None \<longleftrightarrow> (\<exists>ns. overlap s t = Some ns \<and> (\<forall>n \<in> set ns. n = x))"
  by (induction s t rule: overlap.induct) (auto simp: fill_def)

lemma match_own: "x \<noteq> [] \<Longrightarrow> match_path t (fill x t) = Some (vars x t)"
  by (induction t) (auto simp: fill_def vars_def split: seg.splits)

definition clear_of :: "string \<Rightarrow> entry \<Rightarrow> entry \<Rightarrow> bool" where
  "clear_of x e e' \<longleftrightarrow> (case (e, e') of ((m, s, h), (m', t, h')) \<Rightarrow>
     m \<noteq> m' \<or> (case overlap s t of None \<Rightarrow> True | Some ns \<Rightarrow> x \<in> set ns))"

lemma find_route_clear:
  assumes "x \<noteq> []" "list_all (\<lambda>e. clear_of y e (m, t, h)) es" "x \<noteq> y"
  shows "find_route (es @ (m, t, h) # es') m (fill x t) = Some (h, vars x t)"
  using assms(2)
proof (induction es)
  case Nil
  then show ?case using match_own [OF assms(1)] by simp
next
  case (Cons e es)
  obtain m' s h' where e: "e = (m', s, h')" by (cases e)
  show ?case
    using Cons match_fill [OF assms(1), of s t] assms(3)
    by (auto simp: e clear_of_def split: option.splits)
qed

lemma sorted_wrt_find:
  assumes "sorted_wrt (clear_of y) es" "x \<noteq> []" "x \<noteq> y"
  shows "list_all (\<lambda>(m, t, h). find_route es m (fill x t) = Some (h, vars x t)) es"
proof -
  have "find_route es m (fill x t) = Some (h, vars x t)" if "(m, t, h) \<in> set es" for m t h
  proof -
    from that obtain pre post where es: "es = pre @ (m, t, h) # post" by (meson split_list)
    with assms(1) have "list_all (\<lambda>e. clear_of y e (m, t, h)) pre"
      by (auto simp: sorted_wrt_append list_all_iff)
    with find_route_clear [OF assms(2) _ assms(3)] show ?thesis unfolding es by blast
  qed
  then show ?thesis by (auto simp: list_all_iff)
qed

lemma app_routes_clear: "sorted_wrt (clear_of ''sharing'') app_routes"
proof -
  have "sorted_wrt (\<lambda>(m, s) (m', t). m \<noteq> m' \<or> (case overlap s t of None \<Rightarrow> True | Some ns \<Rightarrow> ''sharing'' \<in> set ns))
      (map (\<lambda>(m, t, h). (m, t)) app_routes)"
    unfolding app_routes_def api_router_def v1_router_def include_router_def router_defs
      append.simps list.map prod.case
    by code_simp
  then show ?thesis by (simp add: sorted_wrt_map clear_of_def [abs_def] split_beta)
qed

section \<open>Properties\<close>

text \<open>
  C38: every path leads where it is declared.  The application's table sends each request with a
  method and a path of a declared route to that route's handler, with the parameters of the path;
  none of them is hidden by a route before it.  In particular \<open>DELETE /v1/user/nodes/sharing\<close>
  revokes a share, and every other name in its place is taken for a node.
\<close>

theorem routes_reached:
  assumes "x \<noteq> []" "x \<noteq> ''sharing''"
  shows "list_all (\<lambda>(m, t, h). find_route app_routes m (fill x t) = Some (h, vars x t)) app_routes"
  by (rule sorted_wrt_find [OF app_routes_clear assms])

theorem routes_reached_witness:
  "list_all (\<lambda>(m, t, h). find_route app_routes m (fill ''n1'' t) = Some (h, vars ''n1'' t)) app_routes"
  by (rule routes_reached) simp_all

text \<open>
  The order of the routers matters, as the comment in \<open>router.py\<close> says.  With the routers in the
  order of the code, \<open>DELETE /v1/user/nodes/sharing\<close> is the revocation of a share; with \<open>user_nodes\<close>
  registered before \<open>sharing\<close> it is the deletion of a node called \<open>sharing\<close>.
\<close>

theorem router_order:
  "find_route app_routes ''DELETE'' [''v1'', ''user'', ''nodes'', ''sharing''] = Some (revoke_sharing, []) \<and>
   find_route (include_router ''v1'' (user_nodes_router @ sharing_router)) ''DELETE''
     [''v1'', ''user'', ''nodes'', ''sharing''] = Some (delete_user_node, [(''node_id'', ''sharing'')])"
  by (simp add: app_routes_def api_router_def v1_router_def include_router_def router_defs)

end
