(* ===== verification/Frames.thy ===== *)
theory Frames
  imports RouteTable
begin

text \<open>
  Which operations touch the part of the store that decides who may do what: the accounts, the
  groups, the mappings and the shares, with the requests for them.  \<open>core\<close> is that part.  Every
  operation outside the services that own one of these six tables leaves it as it is; what the
  owners do to it is the subject of the next theory.
\<close>

definition core ::
  "db \<Rightarrow> user list \<times> node_group list \<times> user_node_mapping list \<times> node_sharing_row list \<times>
     mapping_challenge list \<times> node_sharing_request list"
where
  "core d = (users d, node_groups d, user_node_mappings d, node_sharings d, mapping_challenges d,
     node_sharing_requests d)"

named_theorems core_frame \<open>operations that leave the core as it is\<close>

lemma core_updates [simp]:
  "core (d\<lparr>refresh_tokens := a\<rparr>) = core d" "core (d\<lparr>nodes := b\<rparr>) = core d"
  "core (d\<lparr>node_configs := c\<rparr>) = core d" "core (d\<lparr>node_params_shadows := e\<rparr>) = core d"
  "core (d\<lparr>node_certificates := f\<rparr>) = core d" "core (d\<lparr>ota_images := l\<rparr>) = core d"
  "core (d\<lparr>device_provisionings := h\<rparr>) = core d" "core (d\<lparr>claim_challenges := i\<rparr>) = core d"
  "core (d\<lparr>node_group_nodes := k\<rparr>) = core d" "core (d\<lparr>ota_jobs := m\<rparr>) = core d"
  "core (d\<lparr>ota_job_nodes := n\<rparr>) = core d" "core (d\<lparr>automations := p\<rparr>) = core d"
  "core (d\<lparr>tsdata := q\<rparr>) = core d"
  by (simp_all add: core_def)

section \<open>Services that leave the core alone\<close>

lemma logout_core [core_frame]: "core (snd (logout clk uid d)) = core d"
  by (simp add: logout_def)

lemma issue_certificate_core [core_frame]: "core (snd (issue_certificate C S clk i bits nid csr d)) = core d"
  by (auto simp: issue_certificate_def insert_node_Inr insert_certificate_Inr
      split: attempt_splits sum.splits if_splits)

lemma write_claim_core [simp]: "core (write_claim c f d) = core d"
  by (simp add: write_claim_def)

lemma claim_core [core_frame]:
  "core (snd (initiate_self_claim S clk cid now chal auth mac plat d)) = core d"
  "core (snd (initiate_assisted_claim S clk cid now uid mac plat d)) = core d"
  "core (snd (verify_self_claim C S clk bits auth_id resp csr d)) = core d"
  "core (snd (verify_assisted_claim C S clk bits uid csr d)) = core d"
  by (auto simp: initiate_self_claim_def initiate_assisted_claim_def verify_self_claim_def verify_assisted_claim_def
      Let_def insert_claim_Inr issue_certificate_core split: attempt_splits option.splits sum.splits)

lemma node_service_core [core_frame]:
  "core (snd (upsert_node_config nid pl d)) = core d"
  "core (snd (upsert_params_shadow nid pl d)) = core d"
  by (auto simp: upsert_node_config_def upsert_params_shadow_def Let_def insert_config_Inr insert_shadow_Inr
      split: attempt_splits option.splits)

lemma insert_tsdata_core [core_frame]: "core (snd (insert_tsdata R nid dev par dt pts d)) = core d"
  by (auto simp: insert_tsdata_def Let_def split: attempt_splits json.splits)

lemma add_job_nodes_core: "add_job_nodes jids i now jid nids d = Inr d' \<Longrightarrow> core d' = core d"
  by (induction nids arbitrary: i d) (auto simp: insert_job_node_Inr split: sum.splits)

lemma ota_core [core_frame]:
  "core (snd (create_image_upload R S ST i tok nm fw sz md meta d)) = core d"
  "core (snd (confirm_image_upload i m s d)) = core d"
  "core (snd (create_job clk jid jids now nm img nids rp cb d)) = core d"
  "core (snd (update_status clk nid oj st ai d)) = core d"
  by (auto simp: create_image_upload_def confirm_image_upload_def create_job_def update_status_def Let_def
      insert_image_Inr insert_job_Inr dest!: add_job_nodes_core
      split: attempt_splits option.splits sum.splits)

lemma automation_core [core_frame]:
  "core (snd (create_automation aid uid nm ev ac eo md d)) = core d"
  "core (snd (update_automation uid aid p d)) = core d"
  "core (snd (delete_automation uid aid d)) = core d"
  by (auto simp: create_automation_def update_automation_def delete_automation_def Let_def insert_automation_Inr
      split: attempt_splits option.splits)

lemma set_online_core [core_frame]:
  "core (snd (mark_online S now cid un d)) = core d" "core (snd (mark_offline S now cid un d)) = core d"
  by (auto simp: mark_online_def mark_offline_def set_online_def Let_def split: json.splits)

section \<open>Messages\<close>

lemma tsdata_loop_core: "core (snd (tsdata_loop R nid es d)) = core d"
  using tsdata_loop_inv [of "\<lambda>d'. core d' = core d"] by (simp add: insert_tsdata_core)

lemma ensure_node_core: "ensure_node now nid d = Inr d' \<Longrightarrow> core d' = core d"
  by (auto simp: ensure_node_def insert_node_Inr split: sum.splits option.splits)

lemma handler_core:
  assumes "handler_of R clk mid suff = Some h" "suff \<noteq> ''user/mapping''"
  shows "core (snd (h nid v d)) = core d"
  using assms
  by (auto simp: handler_of_def handle_config_def handle_params_local_def handle_otastatus_def handle_alert_def
      handle_tsdata_def handle_simple_tsdata_def tsdata_loop_core insert_tsdata_core node_service_core
      dest: ensure_node_core split: if_splits json.splits attempt_splits option.splits sum.splits)

text \<open>Only a message on a node's \<open>user/mapping\<close> topic reaches the core.\<close>

lemma dispatch_core:
  "(\<And>nid. split_topic topic \<noteq> Some (nid, ''user/mapping'')) \<Longrightarrow> core (snd (dispatch R clk mid topic pl d)) = core d"
  by (auto simp: dispatch_def handler_core split: option.splits json.splits)

section \<open>Routes\<close>

definition keeps_core :: "handler \<Rightarrow> bool" where
  "keeps_core h \<longleftrightarrow> (\<forall>W rq d. core (snd (h W rq d)) = core d)"

lemma keeps_coreI: "(\<And>W rq d. core (snd (h W rq d)) = core d) \<Longrightarrow> keeps_core h"
  by (simp add: keeps_core_def)

lemmas route_core = attempt_inv [where P = "\<lambda>d'. core d' = core d" for d]
  andthen_inv [where P = "\<lambda>d'. core d' = core d" for d] with_user_inv [where P = "\<lambda>d'. core d' = core d" for d]
  with_admin_inv [where P = "\<lambda>d'. core d' = core d" for d] with_node_inv [where P = "\<lambda>d'. core d' = core d" for d]
  valid_inv [where P = "\<lambda>d'. core d' = core d" for d] as_text_inv [where P = "\<lambda>d'. core d' = core d" for d]
  if_inv [where P = "\<lambda>d'. core d' = core d" for d] with_accessible_inv [where P = "\<lambda>d'. core d' = core d" for d]

lemma account_routes_core:
  "keeps_core logout_route" "keeps_core get_current_user_profile"
  by (auto simp: logout_route_def get_current_user_profile_def core_frame intro!: keeps_coreI route_core)

lemma node_routes_core:
  "keeps_core list_user_nodes" "keeps_core get_user_node_config" "keeps_core get_user_node_status"
  "keeps_core get_user_node_params" "keeps_core get_user_node_mapping"
  "keeps_core get_custom_data" "keeps_core get_tsdata" "keeps_core get_simple_tsdata"
  "keeps_core user_ota_status" "keeps_core list_sharing" "keeps_core list_user_node_groups"
  "keeps_core create_automation_route" "keeps_core list_automations_route" "keeps_core update_automation_route"
  "keeps_core delete_automation_route"
  by (auto simp: list_user_nodes_def get_user_node_config_def get_user_node_status_def
      get_user_node_params_def get_user_node_mapping_def get_custom_data_def get_tsdata_def get_simple_tsdata_def user_ota_status_def
      list_sharing_def list_user_node_groups_def create_automation_route_def list_automations_route_def
      update_automation_route_def delete_automation_route_def Let_def core_frame
      intro!: keeps_coreI route_core split: option.splits sum.splits)

lemma put_user_node_params_core: "keeps_core put_user_node_params_route"
proof (rule keeps_coreI)
  fix W rq d
  have "core (snd (put_user_node_params W rq d)) = core d"
    by (auto simp: put_user_node_params_def intro!: route_core)
  then show "core (snd (put_user_node_params_route W rq d)) = core d"
    by (simp add: put_user_node_params_route_def split_beta)
qed

lemma device_routes_core:
  "keeps_core claim_initiate" "keeps_core claim_verify" "keeps_core put_node_config"
  "keeps_core post_node_params_local" "keeps_core get_node_otafetch" "keeps_core post_node_otastatus"
  "keeps_core admin_upload_request" "keeps_core admin_upload_confirm" "keeps_core admin_create_otajob"
  "keeps_core on_register" "keeps_core on_publish" "keeps_core on_subscribe" "keeps_core on_client_online"
  "keeps_core on_client_offline" "keeps_core apiversions" "keeps_core mqtt_host" "keeps_core healthz" "keeps_core readyz"
  by (auto simp: claim_initiate_def claim_verify_def put_node_config_def post_node_params_local_def
      get_node_otafetch_def post_node_otastatus_def admin_upload_request_def admin_upload_confirm_def
      admin_create_otajob_def on_register_def on_publish_def on_subscribe_def on_client_online_def
      on_client_offline_def apiversions_def mqtt_host_def healthz_def readyz_def Let_def core_frame
      intro!: keeps_coreI route_core)

lemmas routes_core = account_routes_core node_routes_core put_user_node_params_core device_routes_core

end
