(* ===== verification/FakeNode.thy ===== *)
theory FakeNode
  imports RouteTable
begin

text \<open>
  \<open>scripts/fake_node.py\<close>: the device's side of the contract.  \<open>provision_key\<close> is the manufacturer's
  upsert of a device key, \<open>self_claim\<close> the device's two requests to the claim routes, \<open>boot\<close>,
  \<open>on_message\<close> and \<open>ts_point\<close> what the running device publishes.  A device's directory under
  \<open>var/devices\<close> is a record, found by the lowercased MAC.  The theorems run the device against the
  backend: requests go through the route table, published messages through the ingestor.
\<close>

section \<open>Provisioning and claiming\<close>

record device_dir =
  dd_hmac_key :: "bytes option"
  dd_node_pem :: "string option"
  dd_node_key :: "string option"
  dd_metadata :: "dict option"

type_synonym disk = "string \<Rightarrow> device_dir"

definition empty_disk :: disk where
  "empty_disk = (\<lambda>_. \<lparr>dd_hmac_key = None, dd_node_pem = None, dd_node_key = None, dd_metadata = None\<rparr>)"

text \<open>\<open>INSERT ... ON CONFLICT (mac_addr) DO UPDATE SET hmac_key\<close>; the key is drawn or decoded from
  the command line.\<close>

definition upsert_provisioning :: "device_provisioning \<Rightarrow> db \<Rightarrow> db result" where
  "upsert_provisioning row d =
     (if \<not> provisioning_cols row then Inl (Uncaught DataError)
      else if present dp_mac_addr (device_provisionings d) (dp_mac_addr row)
      then Inr (d\<lparr>device_provisionings := update_where (\<lambda>p. dp_mac_addr p = dp_mac_addr row)
             (\<lambda>p. p\<lparr>dp_hmac_key := dp_hmac_key row\<rparr>) (device_provisionings d)\<rparr>)
      else insert_provisioning row d)"

definition cmd_provision_key ::
  "string \<Rightarrow> string \<Rightarrow> bytes \<Rightarrow> disk \<Rightarrow> db \<Rightarrow> disk result \<times> db" where
  "cmd_provision_key mac platform key fs d =
     attempt d (upsert_provisioning \<lparr>dp_mac_addr = mac, dp_platform = platform, dp_hmac_key = key\<rparr> d) (\<lambda>d'.
       let dir = py_lower mac in (Inr (fs(dir := (fs dir)\<lparr>dd_hmac_key := Some key\<rparr>)), d'))"

datatype client_error = SysExit string | ClientRaised pyexc

definition http_post :: "world \<Rightarrow> string list \<Rightarrow> dict \<Rightarrow> db \<Rightarrow> outcome \<times> db" where
  "http_post W ps body d = serve W ''POST'' ps
     \<lparr>rq_authorization = None, rq_client_cn = None, rq_path = [], rq_query = [], rq_body = Some (JObj body)\<rparr> d"

definition item :: "dict \<Rightarrow> string \<Rightarrow> client_error + json" where
  "item d k = (case map_of d k of None \<Rightarrow> Inl (ClientRaised KeyError) | Some v \<Rightarrow> Inr v)"

definition device_metadata :: "string \<Rightarrow> string \<Rightarrow> string \<Rightarrow> dict \<Rightarrow> dict" where
  "device_metadata node_id mac platform body =
     [(''node_id'', JStr node_id), (''mac_addr'', JStr mac), (''platform'', JStr platform),
      (''mqtt_host'', get body ''mqtt_host'')]"

text \<open>
  \<open>csr\<close> and \<open>key_pem\<close> are what \<open>_generate_csr\<close> draws for the node's name; the two requests see the
  worlds \<open>W1\<close> and \<open>W2\<close>.
\<close>

definition cmd_self_claim ::
  "world \<Rightarrow> world \<Rightarrow> string \<Rightarrow> string \<Rightarrow> string \<Rightarrow> string \<Rightarrow> disk \<Rightarrow> db \<Rightarrow> (client_error + disk) \<times> db" where
  "cmd_self_claim W1 W2 csr key_pem mac platform fs d =
     (let dir = py_lower mac in
      case dd_hmac_key (fs dir) of
        None \<Rightarrow> (Inl (SysExit ''HMAC key missing; run provision-key first.''), d)
      | Some key \<Rightarrow>
          (case http_post W1 [''claim'', ''initiate''] [(''mac_addr'', JStr mac), (''platform'', JStr platform)] d of
             (Answer (Inr init_body), d1) \<Rightarrow>
               (case (item init_body ''auth_id'', item init_body ''challenge'') of
                  (Inl e, _) \<Rightarrow> (Inl e, d1)
                | (Inr _, Inl e) \<Rightarrow> (Inl e, d1)
                | (Inr auth_id, Inr chal) \<Rightarrow>
                    (case b64decode_json chal of
                       Inl e \<Rightarrow> (Inl (ClientRaised e), d1)
                     | Inr challenge \<Rightarrow>
                         let proof_bytes = hmac_sha256 (w_claims W1) key challenge in
                         (case http_post W2 [''claim'', ''verify'']
                                 [(''auth_id'', auth_id), (''challenge_response'', JStr (b64encode proof_bytes)),
                                  (''csr'', JStr csr), (''send_mqtt_host'', JBool True)] d1 of
                            (Answer (Inr body), d2) \<Rightarrow>
                              (case item body ''certificate'' of
                                 Inr (JStr pem) \<Rightarrow>
                                   (Inr (fs(dir := (fs dir)\<lparr>dd_node_pem := Some pem, dd_node_key := Some key_pem,
                                      dd_metadata := Some (device_metadata dir mac platform body)\<rparr>)), d2)
                               | Inr _ \<Rightarrow> (Inl (ClientRaised AttributeError), d2)
                               | Inl e \<Rightarrow> (Inl e, d2))
                          | (_, d2) \<Rightarrow> (Inl (SysExit ''verify failed''), d2))))
           | (_, d1) \<Rightarrow> (Inl (SysExit ''initiate failed''), d1)))"

section \<open>The running device\<close>

text \<open>The state is a dict of dicts: device name, parameter name, value.\<close>

type_synonym device_state = "(string \<times> dict) list"

type_synonym message = "string \<times> json"

definition param_spec :: "string \<Rightarrow> string \<Rightarrow> string list \<Rightarrow> dict \<Rightarrow> json" where
  "param_spec name dt props rest = JObj ([(''name'', JStr name), (''type'', JStr (''esp.param.'' @ name)),
     (''data_type'', JStr dt), (''properties'', JArr (map JStr props))] @ rest)"

definition config_payload :: "string \<Rightarrow> dict" where
  "config_payload node_id =
     [(''node_id'', JStr node_id), (''config_version'', JStr ''2019-09-11''),
      (''info'', JObj [(''name'', JStr ''FakeBulb''), (''fw_version'', JStr ''1.0.0''), (''type'', JStr ''Lightbulb''),
         (''model'', JStr ''fake-bulb-v1''), (''project_name'', JStr ''fake_node''), (''platform'', JStr ''esp32s3'')]),
      (''devices'', JArr [JObj [(''name'', JStr ''Light''), (''type'', JStr ''esp.device.lightbulb''),
         (''primary'', JStr ''power''),
         (''params'', JArr [param_spec ''power'' ''bool'' [''read'', ''write''] [],
            param_spec ''brightness'' ''int'' [''read'', ''write'', ''time_series'']
              [(''bounds'', JObj [(''min'', JInt 0), (''max'', JInt 100), (''step'', JInt 1)])]])]]),
      (''services'', JArr [])]"

definition initial_state :: device_state where
  "initial_state = [(''Light'', [(''power'', JBool False), (''brightness'', JInt 50)])]"

definition state_dict :: "device_state \<Rightarrow> dict" where
  "state_dict st = map (\<lambda>p. (fst p, JObj (snd p))) st"

definition boot :: "string \<Rightarrow> device_state \<Rightarrow> message list" where
  "boot node_id st = [(node_topic node_id ''config'', JObj (config_payload node_id)),
     (node_topic node_id ''params/local/init'', JObj (state_dict st))]"

definition set_device :: "device_state \<Rightarrow> string \<times> json \<Rightarrow> device_state" where
  "set_device st p =
     (case snd p of
        JObj params \<Rightarrow>
          AList.update (fst p) (dict_update (case map_of st (fst p) of None \<Rightarrow> [] | Some old \<Rightarrow> old) params) st
      | _ \<Rightarrow> st)"

definition apply_remote :: "device_state \<Rightarrow> dict \<Rightarrow> device_state" where
  "apply_remote st payload = foldl set_device st payload"

definition endswith :: "string \<Rightarrow> string \<Rightarrow> bool" where
  "endswith s t \<longleftrightarrow> startswith (rev s) (rev t)"

text \<open>
  One message of the loop over \<open>client.messages\<close>: \<open>None\<close> is a payload that does not decode, which ends
  the loop with an exception, as an unexpected type of the payload does.  \<open>download\<close> tells whether
  \<open>urlopen(url).read()\<close> returns; its exceptions are caught.
\<close>

definition on_message ::
  "(json \<Rightarrow> bool) \<Rightarrow> int \<Rightarrow> string \<Rightarrow> string \<Rightarrow> json option \<Rightarrow> device_state \<Rightarrow> pyexc + message list \<times> device_state"
where
  "on_message download now node_id topic payload st =
     (case payload of
        None \<Rightarrow> Inl ValueError
      | Some v \<Rightarrow>
          if endswith topic ''/params/remote''
          then (case v of
              JObj items \<Rightarrow>
                let st' = apply_remote st items
                in Inr ([(node_topic node_id ''params/local'', JObj (state_dict st'))], st')
            | _ \<Rightarrow> Inl AttributeError)
          else if endswith topic ''/otaurl''
          then (case v of
              JObj p \<Rightarrow>
                if truthy (get p ''url'') \<and> truthy (get p ''ota_job_id'') \<and> download (get p ''url'')
                then Inr ([(node_topic node_id ''otastatus'', JObj [(''ota_job_id'', get p ''ota_job_id''),
                       (''status'', JStr ''success''), (''ts'', JInt now)])], st)
                else Inr ([], st)
            | _ \<Rightarrow> Inl AttributeError)
          else Inr ([], st))"

text \<open>What \<open>tsdata_loop\<close> publishes every thirty seconds.\<close>

definition ts_point :: "int \<Rightarrow> string \<Rightarrow> device_state \<Rightarrow> pyexc + message" where
  "ts_point now node_id st =
     (case map_of st ''Light'' of
        None \<Rightarrow> Inl KeyError
      | Some params \<Rightarrow>
          (case map_of params ''brightness'' of
             None \<Rightarrow> Inl KeyError
           | Some v \<Rightarrow> Inr (node_topic node_id ''tsdata'',
               JObj [(''ts_data_version'', JStr ''2021-09-13''),
                 (''ts_data'', JArr [JObj [(''name'', JStr ''Light.brightness''), (''type'', JStr ''esp.param.brightness''),
                    (''dt'', JStr ''int''), (''t'', JInt now),
                    (''records'', JArr [JObj [(''t'', JInt now), (''v'', v)]])]])])))"

definition mapping_body :: "string \<Rightarrow> string \<Rightarrow> string \<Rightarrow> message" where
  "mapping_body node_id user_id sk = (node_topic node_id ''user/mapping'',
     JObj [(''node_id'', JStr node_id), (''user_id'', JStr user_id), (''secret_key'', JStr sk), (''reset'', JBool False)])"

text \<open>
  \<open>_load_device\<close> and \<open>_build_ssl_context\<close> on the device's directory; a file that is not there is an \<open>OSError\<close>.
\<close>

definition load_device :: "device_dir \<Rightarrow> client_error + string" where
  "load_device dir = (case dd_metadata dir of
       None \<Rightarrow> Inl (ClientRaised OSError)
     | Some meta \<Rightarrow> (case item meta ''node_id'' of
         Inl e \<Rightarrow> Inl e
       | Inr (JStr n) \<Rightarrow> Inr n
       | Inr _ \<Rightarrow> Inl (ClientRaised TypeError)))"

definition build_ssl_context :: "device_dir \<Rightarrow> client_error + string \<times> string" where
  "build_ssl_context dir = (case (dd_node_pem dir, dd_node_key dir) of
       (Some cert, Some key) \<Rightarrow> Inr (cert, key)
     | _ \<Rightarrow> Inl (ClientRaised OSError))"

text \<open>The credentials that \<open>publish-mapping\<close> connects with, and the message that it publishes.\<close>

definition cmd_publish_mapping ::
  "device_dir \<Rightarrow> string \<Rightarrow> string \<Rightarrow> client_error + (string \<times> string) \<times> message" where
  "cmd_publish_mapping dir user_id sk = (case load_device dir of
       Inl e \<Rightarrow> Inl e
     | Inr node_id \<Rightarrow> (case build_ssl_context dir of
         Inl e \<Rightarrow> Inl e
       | Inr ctx \<Rightarrow> Inr (ctx, mapping_body node_id user_id sk)))"

definition subscriptions :: "string \<Rightarrow> string list" where
  "subscriptions node_id = map (node_topic node_id) [''params/remote'', ''otaurl'', ''to-node'']"

text \<open>The environment of the simulator, and what \<open>run\<close> opens, publishes and subscribes to before its loop.\<close>

definition env_get :: "(string \<rightharpoonup> string) \<Rightarrow> string \<Rightarrow> string \<Rightarrow> string" where
  "env_get E k dflt = (case E k of None \<Rightarrow> dflt | Some v \<Rightarrow> v)"

definition api_base :: "(string \<rightharpoonup> string) \<Rightarrow> string" where
  "api_base E = env_get E ''FAKE_NODE_API'' ''http://localhost:8000''"

definition mqtt_broker :: "(string \<rightharpoonup> string) \<Rightarrow> pyexc + string \<times> int" where
  "mqtt_broker E =
     map_sum id (Pair (env_get E ''FAKE_NODE_MQTT_HOST'' ''localhost'')) (int_10 (env_get E ''FAKE_NODE_MQTT_PORT'' ''8883''))"

definition ca_path :: "(string \<rightharpoonup> string) \<Rightarrow> string" where
  "ca_path E = env_get E ''FAKE_NODE_CA_CHAIN'' ''var/pki/ca-chain.pem''"

record device_link =
  ln_hostname :: string
  ln_port :: int
  ln_identifier :: string
  ln_credentials :: "string \<times> string"
  ln_cafile :: string
  ln_clean_session :: bool

definition cmd_run :: "device_dir \<Rightarrow> (string \<rightharpoonup> string) \<Rightarrow> client_error + device_link \<times> message list \<times> string list" where
  "cmd_run dir E = (case load_device dir of
       Inl e \<Rightarrow> Inl e
     | Inr node_id \<Rightarrow> (case mqtt_broker E of
         Inl e \<Rightarrow> Inl (ClientRaised e)
       | Inr (host, port) \<Rightarrow> (case build_ssl_context dir of
           Inl e \<Rightarrow> Inl e
         | Inr ctx \<Rightarrow>
             Inr (\<lparr>ln_hostname = host, ln_port = port, ln_identifier = node_id, ln_credentials = ctx, ln_cafile = ca_path E,
                   ln_clean_session = False\<rparr>,
                  boot node_id initial_state, subscriptions node_id))))"

lemma dispatch_mapping_body:
  assumes "CHR ''/'' \<notin> set n" "n \<noteq> []"
  shows "dispatch R clk mid (fst (mapping_body n u sk)) (Some (snd (mapping_body n u sk))) d =
    dispatch R clk mid (node_topic n ''user/mapping'') (Some (mapping_message n sk)) d"
  using assms
  by (simp add: dispatch_def split_node_topic handler_of_def handle_user_mapping_def mapping_message_def mapping_body_def get_or_def)

section \<open>A claim over HTTP\<close>

lemma upsert_provisioning_ok [store_ok]: "db_ok d \<Longrightarrow> upsert_provisioning row d = Inr d' \<Longrightarrow> db_ok d'"
  by (auto simp: upsert_provisioning_def intro: insert_provisioning_ok update_provisioning_ok split: if_split_asm)

lemma upsert_provisioning_Inr:
  assumes "upsert_provisioning row d = Inr d'"
  shows "\<exists>p \<in> set (device_provisionings d'). dp_mac_addr p = dp_mac_addr row \<and> dp_hmac_key p = dp_hmac_key row"
    and "d' = d\<lparr>device_provisionings := device_provisionings d'\<rparr>" and "provisioning_cols row"
proof -
  show "\<exists>p \<in> set (device_provisionings d'). dp_mac_addr p = dp_mac_addr row \<and> dp_hmac_key p = dp_hmac_key row"
    using assms
    by (auto simp: upsert_provisioning_def insert_provisioning_Inr present_def set_update_where bex_Un split: if_split_asm)
qed (use assms in \<open>auto simp: upsert_provisioning_def insert_provisioning_Inr split: if_split_asm\<close>)

lemma post_claim:
  "http_post W [''claim'', ''initiate''] body d =
     (case claim_initiate W \<lparr>rq_authorization = None, rq_client_cn = None, rq_path = [], rq_query = [],
        rq_body = Some (JObj body)\<rparr> d of (r, d') \<Rightarrow> (Answer r, d'))"
  "http_post W [''claim'', ''verify''] body d =
     (case claim_verify W \<lparr>rq_authorization = None, rq_client_cn = None, rq_path = [], rq_query = [],
        rq_body = Some (JObj body)\<rparr> d of (r, d') \<Rightarrow> (Answer r, d'))"
  by (simp_all add: http_post_def serve_def app_routes_def api_router_def health_router_def claim_router_def)

lemma initiate_body:
  assumes "mac \<noteq> []" "plat \<noteq> []"
  shows "claim_initiate W \<lparr>rq_authorization = None, rq_client_cn = None, rq_path = [], rq_query = [],
      rq_body = Some (JObj [(''mac_addr'', JStr mac), (''platform'', JStr plat)])\<rparr> d =
    initiate_self_claim (w_settings W) (w_clk W) (w_uuid W 0) (w_now W) (w_bytes W) (w_token W 0) mac (JStr plat) d"
  using assms by (simp add: claim_initiate_def json_object_def get_or_def str_truthy_def)

lemma verify_body:
  assumes "auth \<noteq> []" "resp \<noteq> []" "csr \<noteq> []"
  shows "claim_verify W \<lparr>rq_authorization = None, rq_client_cn = None, rq_path = [], rq_query = [],
      rq_body = Some (JObj [(''auth_id'', JStr auth), (''challenge_response'', JStr resp), (''csr'', JStr csr),
        (''send_mqtt_host'', JBool True)])\<rparr> d =
    verify_self_claim (w_claims W) (w_settings W) (w_clk W) (w_bits W) auth (JStr resp) csr d"
  using assms by (simp add: claim_verify_def json_object_def get_or_def str_truthy_def)

lemma b64encode_nonempty: "bs \<noteq> [] \<Longrightarrow> b64encode bs \<noteq> []"
  by (induction bs rule: b64encode.induct) auto

section \<open>The loop against the ingestor\<close>

text \<open>A published message reaches the ingestor's \<open>dispatch\<close>.\<close>

definition ingest :: "pyrt \<Rightarrow> (nat \<Rightarrow> datetime) \<Rightarrow> uuid \<Rightarrow> message \<Rightarrow> db \<Rightarrow> db" where
  "ingest R clk mid m d = snd (dispatch R clk mid (fst m) (Some (snd m)) d)"

text \<open>
  The loop of \<open>cmd_run\<close> over the messages it receives, each a topic, a payload and the time, with
  every message it publishes ingested before the next arrives.  It ends at the first exception.
\<close>

primrec session ::
  "(json \<Rightarrow> bool) \<Rightarrow> (message \<Rightarrow> db \<Rightarrow> db) \<Rightarrow> string \<Rightarrow> (string \<times> json option \<times> int) list \<Rightarrow>
     device_state \<times> db \<Rightarrow> device_state \<times> db"
where
  "session dl ing nid [] sd = sd"
| "session dl ing nid (m # ms) sd =
     (case on_message dl (snd (snd m)) nid (fst m) (fst (snd m)) (fst sd) of
        Inl e \<Rightarrow> sd
      | Inr (out, st') \<Rightarrow> session dl ing nid ms (st', fold ing out (snd sd)))"

text \<open>
  A shadow with the parameters of the device, and with values that are \<open>==\<close> those of the device: a report that turns
  \<open>True\<close> into \<open>1\<close> and changes nothing else is not written.
\<close>

definition mirrors :: "dict \<Rightarrow> device_state \<Rightarrow> bool" where
  "mirrors sh st \<longleftrightarrow> (\<forall>dev p. rel_option py_eq (param_of (state_dict st) dev p) (param_of sh dev p))"

text \<open>Parameters of which at least one has a value that is not \<open>==\<close> that of the shadow.\<close>

definition changes :: "dict \<Rightarrow> dict \<Rightarrow> bool" where
  "changes ps sh \<longleftrightarrow> (\<exists>dev p. param_of ps dev p \<noteq> None \<and> \<not> rel_option py_eq (param_of ps dev p) (param_of sh dev p))"

definition state_ok :: "device_state \<Rightarrow> bool" where
  "state_ok st \<longleftrightarrow> params_ok (state_dict st) \<and> storables (state_dict st)"

lemma map_of_state_dict: "map_of (state_dict st) dev = map_option JObj (map_of st dev)"
  by (induction st) (auto simp: state_dict_def)

lemma param_of_state: "param_of (state_dict st) dev p = Option.bind (map_of st dev) (\<lambda>ps. map_of ps p)"
  by (cases "map_of st dev") (simp_all add: param_of_def map_of_state_dict)

lemma keys_dict_update: "map_of d k \<noteq> None \<Longrightarrow> map_of (dict_update d e) k \<noteq> None"
  by (induction e arbitrary: d) (auto simp: update_conv')

text \<open>A write never takes a parameter away, and sets those it names.\<close>

lemma set_device_keeps:
  "param_of (state_dict st) dev p \<noteq> None \<Longrightarrow> param_of (state_dict (set_device st q)) dev p \<noteq> None"
  using keys_dict_update
  by (auto simp: param_of_state set_device_def update_conv' split: json.splits option.splits)

lemma apply_remote_keeps:
  "param_of (state_dict st) dev p \<noteq> None \<Longrightarrow> param_of (state_dict (apply_remote st ps)) dev p \<noteq> None"
  unfolding apply_remote_def
proof (induction ps arbitrary: st)
  case (Cons q ps)
  show ?case using Cons.IH [OF set_device_keeps [OF Cons.prems]] by simp
qed simp

lemma param_of_single:
  "param_of [(k, v)] dev p = (if dev = k then (case v of JObj ps \<Rightarrow> map_of ps p | _ \<Rightarrow> None) else None)"
  by (simp add: param_of_def)

lemma param_of_set_device:
  assumes "case v of JObj ps \<Rightarrow> dict_ok ps | _ \<Rightarrow> True"
  shows "param_of (state_dict (set_device st (k, v))) dev p =
    (case param_of [(k, v)] dev p of Some x \<Rightarrow> Some x | None \<Rightarrow> param_of (state_dict st) dev p)"
proof (cases v)
  case (JObj ps)
  with assms show ?thesis
    by (cases "map_of st k"; cases "map_of ps p")
      (simp_all add: param_of_state set_device_def update_conv' map_of_dict_update param_of_single)
qed (simp_all add: set_device_def param_of_single)

lemma param_of_apply_remote:
  assumes "params_ok ps"
  shows "param_of (state_dict (apply_remote st ps)) dev p =
    (case param_of ps dev p of Some x \<Rightarrow> Some x | None \<Rightarrow> param_of (state_dict st) dev p)"
  using assms unfolding apply_remote_def
proof (induction ps arbitrary: st)
  case (Cons q ps)
  obtain k v where q: "q = (k, v)" by (cases q)
  have ok: "params_ok ps" "k \<notin> fst ` set ps" and v: "case v of JObj ps \<Rightarrow> dict_ok ps | _ \<Rightarrow> True"
    using Cons.prems by (auto simp: params_ok_def dict_ok_def q)
  then have "map_of ps k = None" by (simp add: map_of_eq_None_iff)
  then show ?case
    using Cons.IH [OF ok(1), of "set_device st q"] param_of_set_device [OF v, of st k dev p]
    by (auto simp: q param_of_def split: option.splits if_splits)
qed (simp add: param_of_def)

lemma update_in_set: "x \<in> set (AList.update k v d) \<Longrightarrow> x = (k, v) \<or> x \<in> set d"
  by (induction d) (auto split: if_splits)

lemma state_dict_update: "state_dict (AList.update k x st) = AList.update k (JObj x) (state_dict st)"
  by (induction st) (auto simp: state_dict_def)

lemma set_device_params_ok:
  assumes "params_ok (state_dict st)"
  shows "params_ok (state_dict (set_device st q))"
proof (cases "snd q")
  case (JObj ps)
  let ?old = "case map_of st (fst q) of None \<Rightarrow> [] | Some old \<Rightarrow> old"
  have "dict_ok ?old"
  proof (cases "map_of st (fst q)")
    case (Some old)
    from map_of_SomeD [OF this] assms Some show ?thesis by (auto simp: params_ok_def state_dict_def list_all_iff)
  qed (simp add: dict_ok_def)
  with assms show ?thesis
    by (auto simp: set_device_def JObj state_dict_update params_ok_def list_all_iff dest!: update_in_set)
qed (use assms in \<open>auto simp: set_device_def\<close>)

lemma set_device_storables:
  assumes "storables (state_dict st)" "storable (snd q)"
  shows "storables (state_dict (set_device st q))"
proof (cases "snd q")
  case (JObj ps)
  have "storables (case map_of st (fst q) of None \<Rightarrow> [] | Some old \<Rightarrow> old)"
  proof (cases "map_of st (fst q)")
    case (Some old)
    from map_of_SomeD [OF this] assms(1) Some show ?thesis by (auto simp: state_dict_def list_all_iff)
  qed simp
  with assms show ?thesis by (simp add: set_device_def JObj state_dict_update)
qed (use assms in \<open>auto simp: set_device_def\<close>)

lemma apply_remote_params_ok: "params_ok (state_dict st) \<Longrightarrow> params_ok (state_dict (apply_remote st ps))"
  unfolding apply_remote_def by (induction ps arbitrary: st) (auto simp: set_device_params_ok)

lemma apply_remote_ok: "state_ok st \<Longrightarrow> storables ps \<Longrightarrow> state_ok (apply_remote st ps)"
  unfolding apply_remote_def
  by (induction ps arbitrary: st) (auto simp: state_ok_def set_device_params_ok set_device_storables)

lemma on_message_Inr:
  assumes "on_message dl now nid topic payload st = Inr (out, st')"
  shows "(\<exists>items. payload = Some (JObj items) \<and> st' = apply_remote st items \<and>
      out = [(node_topic nid ''params/local'', JObj (state_dict st'))]) \<or>
    st' = st \<and> (out = [] \<or> (\<exists>v. out = [(node_topic nid ''otastatus'', v)]))"
  using assms by (auto simp: on_message_def Let_def split: option.split_asm if_split_asm json.split_asm)

text \<open>A node the backend knows, whose shadow shows the state of the device.\<close>

definition in_step :: "string \<Rightarrow> device_state \<times> db \<Rightarrow> bool" where
  "in_step nid sd \<longleftrightarrow> db_ok (snd sd) \<and> present nd_node_id (nodes (snd sd)) nid \<and> state_ok (fst sd) \<and>
     (\<exists>sh. shadow_of nid (snd sd) = Some sh \<and> storables sh \<and> mirrors sh (fst sd))"

lemma upsert_nodes: "nodes (snd (upsert_params_shadow nid ps d)) = nodes d" "nodes (snd (upsert_node_config nid ps d)) = nodes d"
  by (auto simp: upsert_params_shadow_def upsert_node_config_def Let_def insert_shadow_Inr insert_config_Inr
      split: attempt_splits option.splits)

lemma merge_echo:
  assumes "mirrors sh st" "params_ok (state_dict st')"
    and "\<And>dev p. param_of (state_dict st) dev p \<noteq> None \<Longrightarrow> param_of (state_dict st') dev p \<noteq> None"
  shows "param_of (merge_params sh (state_dict st')) dev p = param_of (state_dict st') dev p"
  using assms(1) [unfolded mirrors_def, THEN spec, THEN spec, of dev p] assms(3) [of dev p]
  by (cases "map_of st' dev"; cases "param_of (state_dict st) dev p"; cases "param_of sh dev p")
    (auto simp: param_of_merge [OF assms(2)] map_of_state_dict param_of_state split: option.splits)

lemma mirrors_assigned:
  assumes exact: "\<And>dev p. param_of new dev p = param_of (state_dict st) dev p" and st: "storables (state_dict st)"
  shows "mirrors (assigned_dict sh new) st"
proof (cases "dict_eq new sh")
  case True
  then show ?thesis using dict_eq_param_of [OF True] exact by (simp add: assigned_dict_def mirrors_def)
next
  case False
  then show ?thesis using rel_param_refl [OF st] exact by (simp add: assigned_dict_def mirrors_def)
qed

text \<open>An echo of the whole state: what the shadow is afterwards.\<close>

lemma report_in_step:
  assumes nid: "CHR ''/'' \<notin> set nid" "nid \<noteq> []" and I: "in_step nid (st, d)" and st': "state_ok st'"
    and keep: "\<forall>dev p. param_of (state_dict st) dev p \<noteq> None \<longrightarrow> param_of (state_dict st') dev p \<noteq> None"
    and d': "d' = ingest R clk mid (node_topic nid ''params/local'', JObj (state_dict st')) d"
  shows "in_step nid (st', d')"
    and "shadow_of nid d = Some sh \<Longrightarrow>
      shadow_of nid d' = Some (assigned_dict sh (merge_params sh (state_dict st'))) \<and>
      (\<forall>dev p. param_of (merge_params sh (state_dict st')) dev p = param_of (state_dict st') dev p)"
proof -
  obtain s0 where ok: "db_ok d" and n: "present nd_node_id (nodes d) nid" and sh: "shadow_of nid d = Some s0"
    and st: "storables s0" "mirrors s0 st" using I by (auto simp: in_step_def)
  obtain row e where up: "upsert_params_shadow nid (state_dict st') d = (Inr row, e)"
    using update_shadow_exists [OF ok n, of "state_dict st'"] sh st(1) st'
    by (auto simp: state_ok_def storables_merge_params)
  have e: "d' = e"
    using dispatch_params [OF nid ok n, of "''params/local''"] up by (simp add: ingest_def d')
  have after: "shadow_of nid d' = Some (assigned_dict s0 (merge_params s0 (state_dict st')))"
    using shadow_upsert [OF up, of nid] sh by (simp add: e)
  have exact: "param_of (merge_params s0 (state_dict st')) dev p = param_of (state_dict st') dev p" for dev p
    using merge_echo [OF st(2), of st'] keep st' by (simp add: state_ok_def)
  have "db_ok d'" using upsert_params_shadow_ok [OF ok, of nid "state_dict st'"] up by (simp add: e)
  moreover have "nodes d' = nodes d" using upsert_nodes(1) [of nid "state_dict st'" d] up by (simp add: e)
  moreover have "storables (assigned_dict s0 (merge_params s0 (state_dict st')))"
    using st(1) st' by (simp add: assigned_dict_def state_ok_def storables_merge_params)
  moreover have "mirrors (assigned_dict s0 (merge_params s0 (state_dict st'))) st'"
    by (rule mirrors_assigned) (use exact st' in \<open>simp_all add: state_ok_def\<close>)
  ultimately show "in_step nid (st', d')"
    using after st' n by (simp add: in_step_def)
  show "shadow_of nid d' = Some (assigned_dict sh (merge_params sh (state_dict st'))) \<and>
      (\<forall>dev p. param_of (merge_params sh (state_dict st')) dev p = param_of (state_dict st') dev p)"
    if "shadow_of nid d = Some sh"
    using that sh after exact by simp
qed

lemma otastatus_ignored:
  "CHR ''/'' \<notin> set nid \<Longrightarrow> nid \<noteq> [] \<Longrightarrow> ingest R clk mid (node_topic nid ''otastatus'', v) d = d"
  by (simp add: ingest_def dispatch_def split_node_topic handler_of_def handle_otastatus_def split: json.splits)

definition payload_ok :: "string \<times> json option \<times> int \<Rightarrow> bool" where
  "payload_ok m \<longleftrightarrow> (case fst (snd m) of Some v \<Rightarrow> storable v | None \<Rightarrow> True)"

lemma message_in_step:
  assumes nid: "CHR ''/'' \<notin> set nid" "nid \<noteq> []" and I: "in_step nid (st, d)" and m: "payload_ok m"
    and on: "on_message dl (snd (snd m)) nid (fst m) (fst (snd m)) st = Inr (out, st')"
  shows "in_step nid (st', fold (ingest R clk mid) out d)"
  using on_message_Inr [OF on]
proof (elim disjE exE conjE)
  fix items
  assume p: "fst (snd m) = Some (JObj items)" "st' = apply_remote st items"
    "out = [(node_topic nid ''params/local'', JObj (state_dict st'))]"
  have "state_ok st'" using I m p apply_remote_ok by (auto simp: in_step_def payload_ok_def)
  then show ?thesis using report_in_step(1) [OF nid I] apply_remote_keeps [of st _ _ items] p by simp
qed (use I otastatus_ignored [OF nid] in simp_all)

lemma session_in_step:
  assumes nid: "CHR ''/'' \<notin> set nid" "nid \<noteq> []"
  shows "in_step nid sd \<Longrightarrow> list_all payload_ok ms \<Longrightarrow> in_step nid (session dl (ingest R clk mid) nid ms sd)"
proof (induction ms arbitrary: sd)
  case (Cons m ms)
  then show ?case
    using message_in_step [OF nid, of "fst sd" "snd sd" m dl] by (auto split: sum.splits)
qed simp

section \<open>Properties\<close>

text \<open>
  C11: a device claims itself over HTTP.  A device whose key the manufacturer registers, and which
  then runs the self-claim exchange against the claim routes with that key and a CSR that the CA
  signs, ends with a certificate for its lowercased MAC on its disk; from then on the broker lets
  it register under that name and the node API identifies it by the certificate.
\<close>

theorem self_claim_over_http:
  assumes ok: "db_ok d" and prov: "cmd_provision_key mac plat key fs d = (Inr fs1, d1)"
    and fresh: "\<forall>c \<in> set (claim_challenges d). cc_id c \<noteq> w_uuid W1 0 \<and> cc_auth_id c \<noteq> Some (w_token W1 0)"
      "\<forall>c \<in> set (node_certificates d). cert_serial c \<noteq> hex_str (odd_serial (w_bits W2)) \<and> cert_cn c \<noteq> py_lower mac"
    and fit: "fits 64 (w_token W1 0)" "w_bits W2 < 2 ^ 128" "is_bytes (w_bytes W1)"
      "is_bytes (hmac_sha256 (w_claims W1) key (w_bytes W1))"
    and full: "mac \<noteq> []" "plat \<noteq> []" "csr \<noteq> []" "w_token W1 0 \<noteq> []" "hmac_sha256 (w_claims W1) key (w_bytes W1) \<noteq> []"
    and same: "w_claims W2 = w_claims W1" "w_settings W2 = w_settings W1"
    and time: "w_clk W2 0 \<le> w_clk W1 0 + seconds (claim_challenge_ttl_seconds (w_settings W1))"
    and sign: "sign_device_csr (x509 (w_claims W2)) (w_settings W2) (w_clk W2 2) (w_bits W2) csr (py_lower mac) None =
      Inr (chain, serial, nb, na)"
  shows "\<exists>fs2 d2 pem cert n. cmd_self_claim W1 W2 csr key_pem mac plat fs1 d1 = (Inr fs2, d2) \<and>
    dd_node_pem (fs2 (py_lower mac)) = Some pem \<and> cert \<in> set (node_certificates d2) \<and> cert_pem cert = pem \<and>
    cert_cn cert = py_lower mac \<and>
    authorise_register (w_settings W2) (JStr (py_lower mac)) d2 = Inr allow \<and>
    get_node_from_mtls (Some (py_lower mac)) d2 = Inr n \<and> nd_node_id n = py_lower mac"
proof -
  let ?row = "\<lparr>dp_mac_addr = mac, dp_platform = plat, dp_hmac_key = key\<rparr>"
  let ?hm = "hmac_sha256 (w_claims W1) key (w_bytes W1)"
  from prov have up: "upsert_provisioning ?row d = Inr d1" and fs1: "dd_hmac_key (fs1 (py_lower mac)) = Some key"
    by (auto simp: cmd_provision_key_def Let_def elim!: attempt_InrE)
  note row = upsert_provisioning_Inr [OF up]
  have tables: "claim_challenges d1 = claim_challenges d" "node_certificates d1 = node_certificates d"
    by (subst row(2), simp)+
  obtain p where p: "p \<in> set (device_provisionings d1)" "dp_mac_addr p = mac" "dp_hmac_key p = key" using row(1) by auto
  have fits: "fits 32 mac" "fits 32 plat" using row(3) by (simp_all add: provisioning_cols_def)
  obtain da d2 out cert where init: "initiate_self_claim (w_settings W1) (w_clk W1) (w_uuid W1 0) (w_now W1) (w_bytes W1)
        (w_token W1 0) mac (JStr plat) d1 =
        (Inr [(''auth_id'', JStr (w_token W1 0)), (''challenge'', JStr (b64encode (w_bytes W1)))], da)"
    and ver: "verify_self_claim (w_claims W1) (w_settings W1) (w_clk W2) (w_bits W2) (w_token W1 0)
        (JStr (b64encode ?hm)) csr da = (Inr out, d2)"
    and cert: "node_certificates d2 = node_certificates d @ [cert]" "cert_cn cert = py_lower mac"
      "cert_node_id cert = py_lower mac" "\<not> cert_revoked cert" "get out ''certificate'' = JStr (cert_pem cert)"
    and node: "present nd_node_id (nodes d2) (py_lower mac)" and ok2: "db_ok d2"
    using self_claim_flow [OF upsert_provisioning_ok [OF ok up] p(1), of "w_uuid W1 0" "w_token W1 0" "w_bits W2"
        plat "w_claims W1" "w_bytes W1" "w_clk W2" "w_clk W1" "w_settings W1" csr chain serial nb na "w_now W1"]
      fresh fit fits time sign p tables same by auto
  have item: "item out ''certificate'' = Inr (JStr (cert_pem cert))"
    using cert(5) by (auto simp: item_def get_or_def split: option.splits)
  obtain fs2 where claim: "cmd_self_claim W1 W2 csr key_pem mac plat fs1 d1 = (Inr fs2, d2)"
      "dd_node_pem (fs2 (py_lower mac)) = Some (cert_pem cert)"
    using full ver same
    by (simp add: cmd_self_claim_def fs1 post_claim initiate_body init verify_body b64encode_nonempty item_def [of "[_, _]"]
        b64decode_encode [OF fit(3)] item Let_def)
  have low: "py_lower mac \<noteq> []" using full(1) by (simp add: py_lower_def)
  have sel: "first (select (\<lambda>c. Some (cert_cn c) = Some (py_lower mac) \<and> \<not> cert_revoked c) (node_certificates d2)) = Some cert"
    using fresh(2) cert by (auto simp: select_def filter_empty_conv)
  obtain n where n: "n \<in> set (nodes d2)" "nd_node_id n = py_lower mac" using node by (auto simp: present_def)
  have "get_node_from_mtls (Some (py_lower mac)) d2 = Inr n"
    using nodes_by_id.select_key [OF node_keys [OF ok2] n(1)] low n(2) cert(3)
    unfolding get_node_from_mtls_def sel by (simp add: str_truthy_def)
  moreover have "authorise_register (w_settings W2) (JStr (py_lower mac)) d2 = Inr allow"
    using sel low by (simp add: authorise_register_def)
  ultimately show ?thesis using claim cert n by auto
qed

lemma sample_provision:
  "cmd_provision_key ''AB12'' ''esp32'' [7] empty_disk empty_db =
     (Inr (empty_disk(''ab12'' := (empty_disk ''ab12'')\<lparr>dd_hmac_key := Some [7]\<rparr>)), claim_db)"
  by (simp add: cmd_provision_key_def upsert_provisioning_def provisioning_cols_def fits_def present_def empty_db_def
      insert_provisioning_def insert_row_def provisioning_refs_def claim_db_def sample_lower Let_def)

theorem self_claim_over_http_witness:
  "\<exists>fs1 fs2 d2 pem cert n. cmd_provision_key ''AB12'' ''esp32'' [7] empty_disk empty_db = (Inr fs1, claim_db) \<and>
    cmd_self_claim sample_world sample_world ''CSR'' ''KEY'' ''AB12'' ''esp32'' fs1 claim_db = (Inr fs2, d2) \<and>
    dd_node_pem (fs2 ''ab12'') = Some pem \<and> cert \<in> set (node_certificates d2) \<and> cert_pem cert = pem \<and>
    cert_cn cert = ''ab12'' \<and> authorise_register default_settings (JStr ''ab12'') d2 = Inr allow \<and>
    get_node_from_mtls (Some ''ab12'') d2 = Inr n \<and> nd_node_id n = ''ab12''"
  using self_claim_over_http [OF db_ok_empty sample_provision, of sample_world sample_world "''CSR''"]
    sample_sign [of 5 "''ab12''"] sample_provision
  by (simp add: sample_world_def sample_claim_libs_def sample_lower empty_db_def [THEN arg_cong, of claim_challenges]
      empty_db_def [THEN arg_cong, of node_certificates] fits_def nat_str.simps is_bytes_def
      default_settings_def [THEN arg_cong, of claim_challenge_ttl_seconds])

lemma endswith_append: "endswith (a @ b) b"
  by (simp add: endswith_def startswith_iff)

lemma endswith_remote: "endswith (node_topic nid ''params/remote'') ''/params/remote''"
  using endswith_append [of "''node/'' @ nid" "''/params/remote''"] by (simp add: node_topic_def)

lemma get_current_user_users:
  assumes "users d' = users d"
  shows "get_current_user L S now h d' = get_current_user L S now h d"
proof -
  have "find_user_by_id i d' = find_user_by_id i d" for i by (simp add: find_user_by_id_def assms)
  then show ?thesis by (simp only: get_current_user_def)
qed

lemma get_params:
  assumes "db_ok d" and "get_current_user (w_libs W) (w_settings W) (w_clk W 0) (rq_authorization rq) d = Inr u"
    and "query rq ''node_id'' = Some nid" and "may_access (usr_id u) nid d" and "shadow_of nid d = Some sh"
  shows "get_user_node_params W rq d = (Inr sh, d)"
proof -
  have "scalar_one_or_none (select (\<lambda>s. shadow_node_id s = nid) (node_params_shadows d)) =
      Inr (first (select (\<lambda>s. shadow_node_id s = nid) (node_params_shadows d)))"
    by (rule shadows_by_node.scalar_by_key [OF shadow_keys [OF assms(1)]]) simp
  with assms show ?thesis
    by (auto simp: get_user_node_params_def with_accessible_def with_user_def node_access.guarded shadow_of_def)
qed

lemma report_frame:
  assumes "CHR ''/'' \<notin> set nid" "nid \<noteq> []" "db_ok d" "present nd_node_id (nodes d) nid"
  shows "users (ingest R clk mid (node_topic nid ''params/local'', JObj ps) d) = users d"
    "may_access u n (ingest R clk mid (node_topic nid ''params/local'', JObj ps) d) = may_access u n d"
proof -
  have "ingest R clk mid (node_topic nid ''params/local'', JObj ps) d = snd (upsert_params_shadow nid ps d)"
    using dispatch_params [OF assms, of "''params/local''"] by (simp add: ingest_def)
  moreover have "\<exists>ss. snd (upsert_params_shadow nid ps d) = d\<lparr>node_params_shadows := ss\<rparr>"
  proof (cases "upsert_params_shadow nid ps d")
    case (Pair r d')
    then show ?thesis
      using upsert_params_shadow_Inl [of nid ps d] shadow_upsert_frame [of nid ps d]
      by (cases r) (auto intro: exI [of _ "node_params_shadows d"])
  qed
  ultimately show "users (ingest R clk mid (node_topic nid ''params/local'', JObj ps) d) = users d"
    "may_access u n (ingest R clk mid (node_topic nid ''params/local'', JObj ps) d) = may_access u n d"
    by (auto simp: may_access_def is_mapped_def is_shared_def)
qed

text \<open>
  A parameter write reaches the device and comes back.  When a user with access to a node PUTs
  parameters, the message the API publishes makes the device set exactly these parameters, the
  device's echo is ingested, and a GET by any user with access then returns values that are \<open>==\<close> the new ones of the
  parameters that were written and the device's old ones of all others; they are exactly these when the write changes
  anything of the shadow.
\<close>

lemma params_write_roundtrip:
  assumes nid: "CHR ''/'' \<notin> set nid" "nid \<noteq> []" and I: "in_step nid (st, d)" and s0: "shadow_of nid d = Some sh0"
    and put: "get_current_user (w_libs W) (w_settings W) (w_clk W 0) (rq_authorization rq) d = Inr u"
      "query rq ''node_id'' = Some nid" "json_object rq = Some payload" "may_access (usr_id u) nid d"
    and read: "get_current_user (w_libs W') (w_settings W') (w_clk W' 0) (rq_authorization rq') d = Inr u'"
      "query rq' ''node_id'' = Some nid" "may_access (usr_id u') nid d"
    and pl: "params_ok payload" "storables payload"
  defines "written \<equiv> (\<lambda>dev p. case param_of payload dev p of Some x \<Rightarrow> Some x | None \<Rightarrow> param_of (state_dict st) dev p)"
  shows "\<exists>resp topic v out st' d' sh. put_user_node_params W rq d = (Inr (resp, topic, v), d) \<and>
    on_message dl now nid topic (Some v) st = Inr (out, st') \<and> fold (ingest R clk mid) out d = d' \<and>
    get_user_node_params W' rq' d' = (Inr sh, d') \<and>
    (\<forall>dev p. rel_option py_eq (written dev p) (param_of sh dev p)) \<and>
    (changes payload sh0 \<longrightarrow> (\<forall>dev p. param_of sh dev p = written dev p))"
proof -
  have ok: "db_ok d" and n: "present nd_node_id (nodes d) nid" using I by (auto simp: in_step_def)
  let ?st = "apply_remote st payload"
  let ?m = "(node_topic nid ''params/local'', JObj (state_dict ?st))"
  let ?d = "ingest R clk mid ?m d" and ?new = "merge_params sh0 (state_dict ?st)"
  let ?sh = "assigned_dict sh0 ?new"
  have p: "put_user_node_params W rq d = (Inr (SuccessResponse ''Params published'',
      node_topic nid ''params/remote'', JObj payload), d)"
    using put ok by (simp add: put_user_node_params_def with_user_def node_access.guarded publish_node_topic_def)
  have o: "on_message dl now nid (node_topic nid ''params/remote'') (Some (JObj payload)) st = Inr ([?m], ?st)"
    by (simp add: on_message_def endswith_remote Let_def)
  have st': "state_ok ?st" using I pl apply_remote_ok by (auto simp: in_step_def)
  have keep: "\<forall>dev p. param_of (state_dict st) dev p \<noteq> None \<longrightarrow> param_of (state_dict ?st) dev p \<noteq> None"
    using apply_remote_keeps by blast
  note echo = report_in_step [OF nid I st' keep refl, where R = R and clk = clk and mid = mid]
  have after: "shadow_of nid ?d = Some ?sh" and state: "\<And>dev p. param_of ?new dev p = written dev p"
    using echo(2) [OF s0] param_of_apply_remote [OF pl(1)] by (simp_all add: written_def)
  have "mirrors ?sh ?st" using echo(1) after by (simp add: in_step_def)
  then have like: "rel_option py_eq (written dev p) (param_of ?sh dev p)" for dev p
    using param_of_apply_remote [OF pl(1)] by (simp add: mirrors_def written_def)
  have exact: "param_of ?sh dev p = written dev p" if ch: "changes payload sh0" for dev p
  proof -
    obtain dev' p' x where "param_of payload dev' p' = Some x" "\<not> rel_option py_eq (Some x) (param_of sh0 dev' p')"
      using ch by (auto simp: changes_def)
    then have "\<not> dict_eq ?new sh0"
      using dict_eq_param_of [of ?new sh0 dev' p'] state [of dev' p'] by (auto simp: written_def)
    then show ?thesis using state by (simp add: assigned_dict_def)
  qed
  have "db_ok ?d" using echo(1) by (simp add: in_step_def)
  moreover have "get_current_user (w_libs W') (w_settings W') (w_clk W' 0) (rq_authorization rq') ?d = Inr u'"
    using read(1) get_current_user_users [OF report_frame(1) [OF nid ok n]] by simp
  ultimately have "get_user_node_params W' rq' ?d = (Inr ?sh, ?d)"
    using get_params after read report_frame(2) [OF nid ok n] by simp
  with p o like exact show ?thesis
    by (intro exI [of _ "SuccessResponse ''Params published''"] exI [of _ "node_topic nid ''params/remote''"]
        exI [of _ "JObj payload"] exI [of _ "[?m]"] exI [of _ ?st] exI [of _ ?d] exI [of _ ?sh]) simp
qed

definition light_on :: dict where
  "light_on = [(''Light'', JObj [(''power'', JBool True)])]"

definition bulb_db :: db where
  "bulb_db = member_db\<lparr>nodes := [Node ''n1'' 0], user_node_mappings := [\<lparr>unm_id = 10, unm_user_id = 1, unm_node_id = ''n1'',
       unm_role = ''primary'', unm_primary = True\<rparr>],
     node_params_shadows := [\<lparr>shadow_node_id = ''n1'', shadow_payload = state_dict initial_state\<rparr>]\<rparr>"

definition app_request :: "(string \<times> string) list \<Rightarrow> dict \<Rightarrow> request" where
  "app_request q body = \<lparr>rq_authorization = Some ''jwt'', rq_client_cn = None, rq_path = [], rq_query = q,
     rq_body = Some (JObj body)\<rparr>"

lemma bulb_db_ok: "db_ok bulb_db"
  by (simp add: db_ok_def keys_ok_def foreign_ok_def bulb_db_def member_db_def member_def empty_db_def clash_free_def
      clash_defs refs_defs present_def User_def Node_def)

lemma bulb_login:
  "get_current_user (w_libs sample_world) (w_settings sample_world) (w_clk sample_world 0)
     (rq_authorization (app_request q body)) bulb_db = Inr member"
  using sample_login [OF bulb_db_ok, of member] by (simp add: app_request_def bulb_db_def member_db_def member_def User_def)

lemma bulb_in_step: "in_step ''n1'' (initial_state, bulb_db)"
  using bulb_db_ok
  by (simp add: in_step_def bulb_db_def present_def Node_def shadow_of_def select_def state_ok_def mirrors_def rel_param_refl
      state_dict_def initial_state_def params_ok_def dict_ok_def)

text \<open>A value that a JSON column refuses is refused as part of a report.\<close>

lemma dict_update_storables_new: "dict_ok e \<Longrightarrow> storables (dict_update d e) \<Longrightarrow> storables e"
proof (unfold list_all_iff, intro ballI)
  fix q
  assume ok: "dict_ok e" and st: "\<forall>p \<in> set (dict_update d e). storable (snd p)" and q: "q \<in> set e"
  then have "map_of (dict_update d e) (fst q) = Some (snd q)"
    using map_of_dict_update [OF ok, of d "fst q"] by (cases q) (simp add: dict_ok_def)
  with map_of_SomeD [OF this] st show "storable (snd q)" by force
qed

lemma merge_storables_new:
  assumes ok: "params_ok u" and st: "storables (merge_params c u)"
  shows "storables u"
proof (unfold list_all_iff, intro ballI)
  fix q
  assume q: "q \<in> set u"
  obtain k v where kv: "q = (k, v)" by (cases q)
  have v: "map_of u k = Some v" using ok q by (simp add: params_ok_def dict_ok_def kv)
  have inner: "dict_ok new" if "v = JObj new" for new using ok q that by (auto simp: params_ok_def list_all_iff kv)
  have "map_of (merge_params c u) k = Some (merge_value (get c k) v)"
    using ok v by (simp add: map_of_merge_params params_ok_def)
  from storables_map_of [OF st this] inner have "storable v"
    by (auto simp: merge_value_def dest: dict_update_storables_new split: json.splits)
  then show "storable (snd q)" by (simp add: kv)
qed

lemma report_refused:
  assumes "CHR ''/'' \<notin> set nid" "nid \<noteq> []" "db_ok d" "present nd_node_id (nodes d) nid"
    and "params_ok ps" "\<not> storables ps"
  shows "ingest R clk mid (node_topic nid ''params/local'', JObj ps) d = d"
proof -
  have "\<not> storables (merge_params c ps)" for c using merge_storables_new [OF assms(5)] assms(6) by blast
  then have "snd (upsert_params_shadow nid ps d) = d"
    using assms(6)
    by (auto simp: upsert_params_shadow_def Let_def shadow_cols_def insert_shadow_Inr split: attempt_splits option.splits)
  with dispatch_params [OF assms(1-4), of "''params/local''"] show ?thesis by (simp add: ingest_def)
qed


definition power_nan :: dict where
  "power_nan = [(''Light'', JObj [(''brightness'', JFloat NaN)])]"


text \<open>
  C10: the shadow follows the device.  A registered node that has no shadow yet and boots, and then
  receives any sequence of messages whose payloads a JSON column can hold (\<open>NaN\<close> and the infinities are what it refuses),
  has, after its reports are ingested, a shadow with exactly the parameters of its own state, and with values that Python
  takes for equal (\<open>==\<close>) to its own.
\<close>

theorem shadow_follows_device:
  assumes nid: "CHR ''/'' \<notin> set nid" "nid \<noteq> []" and ok: "db_ok d" and n: "present nd_node_id (nodes d) nid"
    and new: "shadow_of nid d = None" and ms: "list_all payload_ok ms"
    and run: "session dl (ingest R clk mid) nid ms (initial_state, fold (ingest R clk mid) (boot nid initial_state) d) = (st, d')"
  shows "db_ok d' \<and> (\<exists>sh. shadow_of nid d' = Some sh \<and> (\<forall>dev p. rel_option py_eq (param_of (state_dict st) dev p) (param_of sh dev p)))"
proof -
  let ?d1 = "snd (upsert_node_config nid (config_payload nid) d)"
  have st0: "state_ok initial_state"
    by (simp add: state_ok_def initial_state_def state_dict_def params_ok_def dict_ok_def)
  have ok1: "db_ok ?d1" by (rule upsert_node_config_ok [OF ok])
  have n1: "present nd_node_id (nodes ?d1) nid" using n by (simp add: upsert_nodes)
  have new1: "shadow_of nid ?d1 = None"
    using new by (auto simp: upsert_node_config_def Let_def insert_config_Inr shadow_of_def split: attempt_splits option.splits)
  obtain row d2 where up: "upsert_params_shadow nid (state_dict initial_state) ?d1 = (Inr row, d2)"
    using update_shadow_exists [OF ok1 n1, of "state_dict initial_state"] new1 st0 by (auto simp: state_ok_def)
  have "fold (ingest R clk mid) (boot nid initial_state) d = d2"
    using dispatch_config [OF nid ok n] dispatch_params [OF nid ok1 n1, of "''params/local/init''"] up
    by (simp add: boot_def ingest_def)
  moreover have "in_step nid (initial_state, d2)"
    using shadow_upsert [OF up, of nid] new1 st0 upsert_params_shadow_ok [OF ok1, of nid "state_dict initial_state"] up
      upsert_nodes(1) [of nid "state_dict initial_state" ?d1] n1
    by (simp add: in_step_def state_ok_def mirrors_def rel_param_refl)
  ultimately have "in_step nid (st, d')" using session_in_step [OF nid _ ms] run by metis
  then show ?thesis by (auto simp: in_step_def mirrors_def)
qed

theorem shadow_follows_device_witness:
  "\<exists>st d' sh. session (\<lambda>_. True) (ingest sample_rt (\<lambda>i. 0) 1) ''n2''
      [(''node/n2/params/remote'', Some (JObj light_on), 0), (''node/n2/to-node'', Some JNull, 0)]
      (initial_state, fold (ingest sample_rt (\<lambda>i. 0) 1) (boot ''n2'' initial_state) shadow_db) = (st, d') \<and>
    shadow_of ''n2'' d' = Some sh \<and> (\<forall>dev p. rel_option py_eq (param_of (state_dict st) dev p) (param_of sh dev p))"
proof -
  let ?ms = "[(''node/n2/params/remote'', Some (JObj light_on), 0), (''node/n2/to-node'', Some JNull, 0)]"
  obtain st d' where run: "session (\<lambda>_. True) (ingest sample_rt (\<lambda>i. 0) 1) ''n2'' ?ms
      (initial_state, fold (ingest sample_rt (\<lambda>i. 0) 1) (boot ''n2'' initial_state) shadow_db) = (st, d')" by fastforce
  have "shadow_of ''n2'' shadow_db = None" "present nd_node_id (nodes shadow_db) ''n2''"
    by (simp_all add: shadow_of_def shadow_db_def select_def present_def Node_def)
  from shadow_follows_device [OF _ _ shadow_db_ok this(2,1) _ run] show ?thesis
    using run by (auto simp: payload_ok_def light_on_def)
qed

end
