(* ===== verification/System.thy ===== *)
theory System
  imports Frames FakeNode
begin

text \<open>
  The running system: HTTP requests, MQTT messages that the broker lets through and provisioning of
  devices, in any order, over one store.  A \<open>right\<close> is something the store entitles somebody to: a
  role, a mapping, a share, or a pending request for one of the latter.  Each operation is shown to
  add only the rights it is there to add (\<open>gains\<close>); \<open>step\<close> is one event and \<open>steps\<close> a run, and the
  invariants of a run and the tracing of a right back to the event that created it follow by rule
  induction.
\<close>

section \<open>Rights\<close>

datatype right = IsAdmin uuid | Mapped uuid string | Shared uuid string | Asked uuid string | Invited string string

fun holds :: "right \<Rightarrow> db \<Rightarrow> bool" where
  "holds (IsAdmin u) d = (\<exists>v \<in> set (users d). usr_id v = u \<and> (usr_is_admin v \<or> usr_is_super_admin v))"
| "holds (Mapped u n) d = is_mapped u n d"
| "holds (Shared u n) d = is_shared u n d"
| "holds (Asked u n) d = (\<exists>c \<in> set (mapping_challenges d). mc_user_id c = u \<and> mc_node_id c = Some n \<and>
     mc_status c = ''pending'')"
| "holds (Invited name n) d = (\<exists>r \<in> set (node_sharing_requests d). sr_to_user_name r = name \<and> sr_node_id r = n \<and>
     sr_status r = ''pending'')"

lemma all_rights:
  "(\<forall>r. P r) \<longleftrightarrow> (\<forall>u. P (IsAdmin u)) \<and> (\<forall>u n. P (Mapped u n)) \<and> (\<forall>u n. P (Shared u n)) \<and>
     (\<forall>u n. P (Asked u n)) \<and> (\<forall>m n. P (Invited m n))"
  by (metis right.exhaust)

text \<open>No cycle of groups, and no new right but those of \<open>A\<close>.\<close>

definition gains :: "right set \<Rightarrow> db \<Rightarrow> db \<Rightarrow> bool" where
  "gains A d d' \<longleftrightarrow> (rooted (node_groups d) \<longrightarrow> rooted (node_groups d')) \<and> (\<forall>r. holds r d' \<longrightarrow> holds r d \<or> r \<in> A)"

abbreviation no_gain :: "db \<Rightarrow> db \<Rightarrow> bool" where
  "no_gain \<equiv> gains {}"

lemma holds_core: "core d' = core d \<Longrightarrow> holds r d' = holds r d"
  by (cases r) (simp_all add: core_def is_mapped_def is_shared_def)

lemma gains_refl [simp]: "gains A d d"
  by (simp add: gains_def)

lemma gains_core: "core d' = core d1 \<Longrightarrow> gains A d d1 \<Longrightarrow> gains A d d'"
  by (simp add: gains_def holds_core [of d' d1]) (simp add: core_def)

lemma core_gains: "core d' = core d \<Longrightarrow> gains A d d'"
  by (rule gains_core [OF _ gains_refl])

lemma gains_mono: "gains A d d' \<Longrightarrow> A \<subseteq> B \<Longrightarrow> gains B d d'"
  by (auto simp: gains_def)

lemma gains_then: "gains A d d1 \<Longrightarrow> no_gain d1 d' \<Longrightarrow> gains A d d'"
  by (auto simp: gains_def)

text \<open>
  A change that keeps the groups and shrinks the five relations: what the operations that only
  take away, or rewrite, have in common.
\<close>

lemma shrink_gain:
  assumes "node_groups d' = node_groups d"
    and "\<And>v. v \<in> set (users d') \<Longrightarrow> usr_is_admin v \<or> usr_is_super_admin v \<Longrightarrow>
      \<exists>w \<in> set (users d). usr_id w = usr_id v \<and> (usr_is_admin w \<or> usr_is_super_admin w)"
    and "set (user_node_mappings d') \<subseteq> set (user_node_mappings d)" "set (node_sharings d') \<subseteq> set (node_sharings d)"
    and "\<And>c. c \<in> set (mapping_challenges d') \<Longrightarrow> mc_status c = ''pending'' \<Longrightarrow> c \<in> set (mapping_challenges d)"
    and "\<And>r. r \<in> set (node_sharing_requests d') \<Longrightarrow> sr_status r = ''pending'' \<Longrightarrow> r \<in> set (node_sharing_requests d)"
  shows "gains A d d'"
  unfolding gains_def all_rights using assms by (auto simp: is_mapped_def is_shared_def)

section \<open>The services that write the core\<close>

text \<open>A write to one account that keeps its identity and its roles.\<close>

lemma write_user_gain:
  assumes "\<And>v. usr_id (f v) = usr_id v" "\<And>v. usr_is_admin (f v) = usr_is_admin v"
    "\<And>v. usr_is_super_admin (f v) = usr_is_super_admin v"
  shows "no_gain d (write_user u f d)"
  by (rule shrink_gain) (auto simp: write_user_def set_update_where assms)

lemma mint_token_triple_core: "core (snd (mint_token_triple L S clk i jti rid u d)) = core d"
  by (auto simp: mint_token_triple_def Let_def insert_refresh_token_Inr
      split: attempt_splits option.splits json.splits prod.splits)

lemma new_user_gain: "insert_user u d = Inr d' \<Longrightarrow> \<not> usr_is_admin u \<Longrightarrow> \<not> usr_is_super_admin u \<Longrightarrow> no_gain d d'"
  by (rule shrink_gain) (auto simp: insert_user_Inr)

lemma signup_gain: "no_gain d (snd (signup L clk salt n uid nm pw d))"
  by (auto simp: signup_def Let_def User_def intro: new_user_gain split: attempt_splits)

lemma auth_gain:
  "no_gain d (snd (confirm_signup clk nm code d))"
  "no_gain d (snd (login_password L S clk jti rid nm pw d))"
  "no_gain d (snd (change_password L salt u pw new d))"
  "no_gain d (snd (request_password_reset clk n nm d))"
  "no_gain d (snd (confirm_password_reset L clk salt nm code pw d))"
proof -
  show "no_gain d (snd (confirm_signup clk nm code d))"
    by (auto simp: confirm_signup_def Let_def intro!: write_user_gain split: attempt_splits option.splits)
  show "no_gain d (snd (login_password L S clk jti rid nm pw d))"
    by (auto simp: login_password_def Let_def intro!: gains_core [OF mint_token_triple_core] write_user_gain
        split: attempt_splits option.splits)
  show "no_gain d (snd (change_password L salt u pw new d))"
    by (auto simp: change_password_def intro!: write_user_gain split: attempt_splits option.splits)
  show "no_gain d (snd (request_password_reset clk n nm d))"
    by (auto simp: request_password_reset_def Let_def intro!: write_user_gain split: attempt_splits option.splits)
  show "no_gain d (snd (confirm_password_reset L clk salt nm code pw d))"
    by (auto simp: confirm_password_reset_def Let_def intro!: write_user_gain split: attempt_splits option.splits)
qed

text \<open>The operations on groups.\<close>

lemma same_tables_gain:
  assumes "rooted (node_groups d) \<Longrightarrow> rooted (node_groups d')" and "core (d'\<lparr>node_groups := node_groups d\<rparr>) = core d"
  shows "gains A d d'"
proof -
  have "holds r (d'\<lparr>node_groups := node_groups d\<rparr>) = holds r d'" for r
    by (cases r) (simp_all add: is_mapped_def is_shared_def)
  with holds_core [OF assms(2)] assms(1) show ?thesis by (auto simp: gains_def)
qed

lemma add_members_core: "add_members mids i gid nids d = Inr d' \<Longrightarrow> core d' = core d"
  by (induction nids arbitrary: i d) (auto simp: insert_group_node_Inr split: sum.splits)

lemma group_gain:
  "no_gain d (snd (create_group gid mids oid nm p t x nds md d))"
  "no_gain d (snd (delete_group oid gid d))"
proof -
  show "no_gain d (snd (create_group gid mids oid nm p t x nds md d))"
    by (rule same_tables_gain [OF create_group_rooted])
      (auto simp: create_group_def Let_def insert_group_Inr core_def dest!: add_members_core split: attempt_splits)
  show "no_gain d (snd (delete_group oid gid d))"
    by (rule same_tables_gain [OF delete_group_rooted])
      (auto simp: delete_group_def cascade_groups_def core_def split: attempt_splits option.splits)
qed

lemma delete_user_gain: "no_gain d (delete_user uid d)"
proof -
  let ?d = "cascade_groups (map grp_id (filter (\<lambda>g. grp_owner_id g = uid) (node_groups d))) d"
  have "no_gain ?d (delete_user uid d)"
    unfolding delete_user_def by (rule shrink_gain) (auto simp: purge_user_def)
  moreover have "holds r ?d = holds r d" for r
    by (cases r) (simp_all add: cascade_groups_def is_mapped_def is_shared_def)
  ultimately show ?thesis by (auto simp: gains_def delete_user_rooted)
qed

text \<open>Shares and mappings that go away.\<close>

lemma revoke_loop_shrinks:
  "revoke_loop oid iid nids d = Inr d' \<Longrightarrow>
     d' = d\<lparr>node_sharings := node_sharings d'\<rparr> \<and> set (node_sharings d') \<subseteq> set (node_sharings d)"
proof (induction nids arbitrary: d)
  case (Cons n nids)
  then show ?case
    by (auto split: sum.splits option.splits simp: delete_where_def dest!: Cons.IH)
qed simp

lemma unshare_gain:
  assumes "d' = d\<lparr>node_sharings := ss\<rparr>" "set ss \<subseteq> set (node_sharings d)"
  shows "gains A d d'"
  by (rule shrink_gain) (use assms in auto)

lemma unmap_gain: "gains A d (d\<lparr>user_node_mappings := delete_where p (user_node_mappings d)\<rparr>)"
  by (rule shrink_gain) auto

lemma revoke_share_gain: "no_gain d (snd (revoke_share oid nids nm d))"
  by (auto simp: revoke_share_def split: attempt_splits option.splits dest!: revoke_loop_shrinks intro: unshare_gain)

text \<open>Requests for a mapping and their fulfilment.\<close>

lemma ask_gain:
  assumes "insert_challenge c d = Inr d'"
  shows "gains {Asked (mc_user_id c) n |n. mc_node_id c = Some n} d d'"
  unfolding gains_def all_rights using assms by (auto simp: insert_challenge_Inr is_mapped_def is_shared_def)

lemma request_mapping_gain:
  "gains {Asked uid nid} d (snd (request_legacy_mapping clk cid rid uid nid sk oper d))"
  "gains {Asked uid nid} d (snd (initiate_challenge clk cid rid chal uid nid d))"
  by (auto simp: request_legacy_mapping_def initiate_challenge_def MappingChallenge_def split: attempt_splits
      dest!: ask_gain intro: gains_mono)

lemma close_challenge_gain:
  "no_gain d (complete_challenge c t d)" "no_gain d (expire_challenge c d)"
  by (rule shrink_gain; auto simp: complete_challenge_def expire_challenge_def set_update_where)+

lemma ensure_mapping_gain:
  assumes "ensure_mapping mid uid nid d = Inr d'"
  shows "gains {Mapped uid n |n. nid = Some n} d d'"
proof (cases nid)
  case None
  with assms show ?thesis by (simp add: ensure_mapping_def)
next
  case (Some n)
  with assms have "is_mapped u m d' \<longleftrightarrow> is_mapped u m d \<or> u = uid \<and> m = n" for u m
    using ensure_mapping_maps by blast
  moreover note f = arg_cong [OF ensure_mapping_frame [OF assms]]
  have "users d' = users d" "node_groups d' = node_groups d" "node_sharings d' = node_sharings d"
    "mapping_challenges d' = mapping_challenges d" "node_sharing_requests d' = node_sharing_requests d"
    using f [of users] f [of node_groups] f [of node_sharings] f [of mapping_challenges] f [of node_sharing_requests]
    by simp_all
  ultimately show ?thesis by (simp add: gains_def all_rights is_shared_def Some)
qed

lemma verify_challenge_gain:
  "gains {Mapped uid n |n. holds (Asked uid n) d} d (snd (verify_challenge clk mid uid rid resp d))"
proof -
  have "gains {Mapped uid n |n. holds (Asked uid n) d} d (complete_challenge row t d')"
    if "ensure_mapping mid uid (mc_node_id row) d = Inr d'"
      "select (\<lambda>c. mc_request_id c = rid \<and> mc_user_id c = uid \<and> mc_status c = ''pending'') (mapping_challenges d) = [row]"
    for row t d'
    using gains_then [OF ensure_mapping_gain [OF that(1)] close_challenge_gain(1)] select_one [OF that(2)]
    by (rule_tac gains_mono) auto
  then show ?thesis
    by (auto simp: verify_challenge_def split: attempt_splits option.splits)
qed

text \<open>Invitations, their acceptance and their refusal.\<close>

lemma set_request_status_gain: "st \<noteq> ''pending'' \<Longrightarrow> no_gain d (set_request_status i st d)"
  by (rule shrink_gain) (auto simp: set_request_status_def set_update_where)

lemma check_owner_mapped: "check_owner uid vs d = Inr () \<Longrightarrow> JStr n \<in> set vs \<Longrightarrow> is_mapped uid n d"
  by (induction vs) (auto simp: is_mapped_def split: json.splits sum.splits option.splits dest!: find_mapping_Some)

lemma create_request_gain:
  "gains {Invited nm n |nm n. is_mapped uid n d} d (snd (create_request clk rids uid vs v d))"
proof -
  have "gains {Invited nm n |nm n. is_mapped uid n d} d d'"
    if "check_owner uid vs d = Inr ()" "text_columns vs = Inr nids" "add_requests clk rids 0 uid nm nids d = Inr d'"
    for nm nids d'
  proof -
    have "list_all (\<lambda>n. is_mapped uid n d) nids"
      using check_owner_mapped [OF that(1)] text_columns_Inr [OF that(2)] by (auto simp: list_all_iff)
    then show ?thesis
      unfolding add_requests_rows [OF that(3)] gains_def all_rights
      by (auto simp: is_mapped_def is_shared_def sharing_request_def list_all_iff in_set_enumerate_eq)
        (meson nth_mem)
  qed
  then show ?thesis by (auto simp: create_request_def split: attempt_splits)
qed

lemma ensure_share_gain:
  assumes "ensure_share sid iid row d = Inr d'"
  shows "gains {Shared iid (sr_node_id row)} d d'"
proof -
  note f = arg_cong [OF ensure_share_frame [OF assms]]
  have "users d' = users d" "node_groups d' = node_groups d" "user_node_mappings d' = user_node_mappings d"
    "mapping_challenges d' = mapping_challenges d" "node_sharing_requests d' = node_sharing_requests d"
    using f [of users] f [of node_groups] f [of user_node_mappings] f [of mapping_challenges] f [of node_sharing_requests]
    by simp_all
  then show ?thesis by (simp add: gains_def all_rights is_mapped_def ensure_share_shares [OF assms])
qed

lemma accept_or_decline_gain:
  "gains {Shared iid n |n. holds (Invited nm n) d} d (snd (accept_or_decline clk sid iid nm rid acc d))"
proof -
  have "gains {Shared iid n |n. holds (Invited nm n) d} d d'"
    if es: "ensure_share sid iid row (set_request_status (sr_id row) ''accepted'' d) = Inr d'"
      and row: "select (\<lambda>r. sr_id r = rid) (node_sharing_requests d) = [row]" "sr_to_user_name row = nm"
        "sr_status row = ''pending''" for row d'
  proof -
    let ?a = "set_request_status (sr_id row) ''accepted'' d"
    have "gains {Shared iid (sr_node_id row)} ?a d'"
      by (rule ensure_share_gain [OF es])
    moreover have "holds (Invited nm (sr_node_id row)) d" using select_one [OF row(1)] row(2,3) by auto
    moreover have "no_gain d ?a" by (rule set_request_status_gain) simp
    ultimately show ?thesis by (fastforce simp: gains_def)
  qed
  then show ?thesis
    by (auto simp: accept_or_decline_def intro: gains_mono [OF set_request_status_gain] split: attempt_splits option.splits)
qed

section \<open>Messages\<close>

lemma handle_user_mapping_gain:
  "gains {Mapped u nid |u. holds (Asked u nid) d} d (snd (handle_user_mapping clk mid nid v d))"
proof -
  have "gains {Mapped u nid |u. holds (Asked u nid) d} d (complete_challenge c t d')"
    if "ensure_mapping mid (mc_user_id c) (Some nid) d = Inr d'" "pending_secret sk nid d = [c]" for c sk t d'
    using gains_then [OF ensure_mapping_gain [OF that(1)] close_challenge_gain(1)] pending_secret_one [OF that(2)]
    by (rule_tac gains_mono) auto
  then show ?thesis
    by (auto simp: handle_user_mapping_def intro: gains_mono [OF close_challenge_gain(2)]
        split: json.splits attempt_splits option.splits)
qed

definition by_message :: "string \<Rightarrow> db \<Rightarrow> right set" where
  "by_message topic d = {Mapped u n |u n. holds (Asked u n) d \<and> split_topic topic = Some (n, ''user/mapping'')}"

lemma dispatch_gain: "gains (by_message topic d) d (snd (dispatch R clk mid topic pl d))"
proof (cases "\<exists>n. split_topic topic = Some (n, ''user/mapping'')")
  case True
  then obtain n where n: "split_topic topic = Some (n, ''user/mapping'')" by blast
  have "gains {Mapped u n |u. holds (Asked u n) d} d (snd (dispatch R clk mid topic pl d))"
    by (auto simp: dispatch_def n handler_of_def handle_user_mapping_gain simp del: holds.simps
        split: option.splits json.splits)
  then show ?thesis by (rule gains_mono) (auto simp: n by_message_def)
next
  case False
  then show ?thesis by (intro core_gains dispatch_core) auto
qed

section \<open>Requests\<close>

text \<open>The authenticated user of a request.\<close>

definition caller :: "world \<Rightarrow> request \<Rightarrow> db \<Rightarrow> user result" where
  "caller W rq d = get_current_user (w_libs W) (w_settings W) (w_clk W 0) (rq_authorization rq) d"

lemma with_user_caller: "caller W rq d = Inr u \<Longrightarrow> with_user W rq d k = k u"
  by (simp add: with_user_def caller_def)

lemma path_irrelevant [simp]:
  "caller W (rq\<lparr>rq_path := ps\<rparr>) d = caller W rq d" "query (rq\<lparr>rq_path := ps\<rparr>) k = query rq k"
  "json_object (rq\<lparr>rq_path := ps\<rparr>) = json_object rq" "num_records W (rq\<lparr>rq_path := ps\<rparr>) = num_records W rq"
  "query_req (rq\<lparr>rq_path := ps\<rparr>) k f = query_req rq k f"
  by (simp_all add: caller_def query_def json_object_def num_records_def query_opt_def query_req_def)

lemma with_user_gain:
  "(\<And>u. caller W rq d = Inr u \<Longrightarrow> gains A d (snd (k u))) \<Longrightarrow> gains A d (snd (with_user W rq d k))"
  by (auto simp: with_user_def caller_def split: attempt_splits)

lemmas route_gain = with_user_gain valid_inv [where P = "gains A d" for A d, OF gains_refl]
  as_text_inv [where P = "gains A d" for A d, OF gains_refl] if_inv [where P = "gains A d" for A d]
  attempt_inv [where P = "gains A d" for A d, OF gains_refl]

lemma account_routes_gain:
  "no_gain d (snd (login2 W rq d))" "no_gain d (snd (signup_route W rq d))"
  "no_gain d (snd (confirm_signup_or_update W rq d))" "no_gain d (snd (change_password_route W rq d))"
  "no_gain d (snd (forgot_password W rq d))" "no_gain d (snd (delete_current_user W rq d))"
  by (auto simp: login2_def signup_route_def signup_exchange_def confirm_signup_or_update_def change_password_route_def
      forgot_password_def forgot_password_exchange_def
      delete_current_user_def signup_gain auth_gain delete_user_gain
      intro!: route_gain andthen_inv [where P = "no_gain d" for d] attempt_inv [where P = "no_gain d" for d]
      split: option.splits)

lemma node_routes_gain:
  "no_gain d (snd (put_custom_data W rq d))" "no_gain d (snd (create_group_route W rq d))"
  "no_gain d (snd (delete_user_node_group W rq d))" "no_gain d (snd (delete_user_node W rq d))"
  "no_gain d (snd (revoke_sharing W rq d))"
  by (auto simp: put_custom_data_def create_group_route_def delete_user_node_group_def delete_user_node_def
      revoke_sharing_def group_gain revoke_share_gain unmap_gain intro!: route_gain write_user_gain
      split: option.splits sum.splits)

text \<open>What each of the four routes that give rights may give to whom.\<close>

definition by_asking :: "world \<Rightarrow> request \<Rightarrow> db \<Rightarrow> right set" where
  "by_asking W rq d = {Asked (usr_id u) n |u n payload. caller W rq d = Inr u \<and> json_object rq = Some payload \<and>
     get payload ''node_id'' = JStr n}"

definition by_proof :: "world \<Rightarrow> request \<Rightarrow> db \<Rightarrow> right set" where
  "by_proof W rq d = {Mapped (usr_id u) n |u n. caller W rq d = Inr u \<and> holds (Asked (usr_id u) n) d}"

definition by_sharing :: "world \<Rightarrow> request \<Rightarrow> db \<Rightarrow> right set" where
  "by_sharing W rq d =
     {Invited name n |u name n. caller W rq d = Inr u \<and> holds (Mapped (usr_id u) n) d} \<union>
     {Shared (usr_id u) n |u n. caller W rq d = Inr u \<and> holds (Invited (usr_user_name u) n) d}"

lemma asking_gain:
  "gains (by_asking W rq d) d (snd (put_user_node_mapping W rq d))"
  "gains (by_asking W rq d) d (snd (initiate_mapping W rq d))"
  by (auto simp: put_user_node_mapping_def initiate_mapping_def by_asking_def
      intro!: route_gain gains_mono [OF request_mapping_gain(1)] gains_mono [OF request_mapping_gain(2)])

lemma verify_mapping_gain: "gains (by_proof W rq d) d (snd (verify_mapping W rq d))"
  by (auto simp: verify_mapping_def by_proof_def intro!: route_gain gains_mono [OF verify_challenge_gain])

lemma put_sharing_request_gain: "gains (by_sharing W rq d) d (snd (put_sharing_request W rq d))"
  by (auto simp: put_sharing_request_def by_sharing_def
      intro!: route_gain gains_mono [OF accept_or_decline_gain] gains_mono [OF create_request_gain] split: sum.splits)

lemma core_route_gain: "keeps_core h \<Longrightarrow> gains A d (snd (h W rq d))"
  by (simp add: keeps_core_def core_gains)

section \<open>The route table\<close>

lemma match_lits: "match_path (map Lit xs) ps = Some args \<Longrightarrow> ps = xs"
  by (induction "map Lit xs" ps arbitrary: xs args rule: match_path.induct) (auto split: if_splits)

lemma find_route_entry:
  "find_route es m ps = Some (h, args) \<Longrightarrow> \<exists>t. (m, t, h) \<in> set es \<and> match_path t ps = Some args"
  by (induction es) (auto split: prod.splits option.splits if_splits)

definition user_nodes_path :: "string list \<Rightarrow> string list" where
  "user_nodes_path ps = ''v1'' # ''user'' # ''nodes'' # ps"

definition granting_routes ::
  "(string \<times> string list \<times> handler \<times> (world \<Rightarrow> request \<Rightarrow> db \<Rightarrow> right set)) list" where
  "granting_routes = [
     (''PUT'', user_nodes_path [''mapping''], put_user_node_mapping, by_asking),
     (''POST'', user_nodes_path [''mapping'', ''initiate''], initiate_mapping, by_asking),
     (''POST'', user_nodes_path [''mapping'', ''verify''], verify_mapping, by_proof),
     (''PUT'', user_nodes_path [''sharing'', ''requests''], put_sharing_request, by_sharing)]"

definition by_serving :: "world \<Rightarrow> string \<Rightarrow> string list \<Rightarrow> request \<Rightarrow> db \<Rightarrow> right set" where
  "by_serving W m ps rq d = \<Union> {A W rq d |h A. (m, ps, h, A) \<in> set granting_routes}"

lemma granting_gain:
  "(m, ps, h, A) \<in> set granting_routes \<Longrightarrow> gains (A W rq d) d (snd (h W rq d))"
  by (auto simp: granting_routes_def asking_gain verify_mapping_gain put_sharing_request_gain)

lemma entries_gain:
  "list_all (\<lambda>(m, t, h). (\<forall>W rq d. no_gain d (snd (h W rq d))) \<or>
     (m, t, h) \<in> set (map (\<lambda>(m, ps, h, A). (m, map Lit ps, h)) granting_routes)) app_routes"
  by (simp add: app_routes_def api_router_def v1_router_def include_router_def router_defs granting_routes_def
      user_nodes_path_def account_routes_gain node_routes_gain routes_core [THEN core_route_gain])

lemma serve_gain: "gains (by_serving W m ps rq d) d (snd (serve W m ps rq d))"
proof (cases "find_route app_routes m ps")
  case None
  then show ?thesis by (simp add: serve_def)
next
  case (Some r)
  obtain h args where r: "r = (h, args)" by (cases r)
  obtain t where e: "(m, t, h) \<in> set app_routes" "match_path t ps = Some args"
    using find_route_entry Some r by blast
  let ?rq = "rq\<lparr>rq_path := args\<rparr>"
  have s: "snd (serve W m ps rq d) = snd (h W ?rq d)" by (simp add: serve_def Some r split_beta)
  from e(1) entries_gain consider "\<forall>W rq d. no_gain d (snd (h W rq d))"
    | ps' A where "(m, ps', h, A) \<in> set granting_routes" "t = map Lit ps'"
    by (fastforce simp: list_all_iff)
  then show ?thesis
  proof cases
    case 1
    then show ?thesis unfolding s using gains_mono by blast
  next
    case 2
    have "A W ?rq d = A W rq d"
      using 2(1) by (auto simp: granting_routes_def by_asking_def by_proof_def by_sharing_def caller_def json_object_def)
    then have "gains (A W rq d) d (snd (h W ?rq d))" using granting_gain [OF 2(1), of W ?rq d] by simp
    moreover have "ps = ps'" using match_lits e(2) 2(2) by blast
    ultimately show ?thesis unfolding s using 2(1) by (rule_tac gains_mono) (auto simp: by_serving_def)
  qed
qed

section \<open>Runs\<close>

text \<open>
  An event is a request with the world it sees, a message that a client publishes and the broker's
  webhook allows, or the provisioning of a device.  The ingestor's clock and identifiers are those
  of the world.
\<close>

datatype event =
    Request world string "string list" request
  | Publish world string string "json option"
  | Enrol device_provisioning

inductive step :: "event \<Rightarrow> db \<Rightarrow> db \<Rightarrow> bool" where
  http: "serve W m ps rq d = (out, d') \<Longrightarrow> step (Request W m ps rq) d d'"
| mqtt: "authorise_publish (w_rt W) (w_settings W) (JStr client) (JStr topic) = Inr allow \<Longrightarrow>
    dispatch (w_rt W) (w_clk W) (w_uuid W 0) topic payload d = (out, d') \<Longrightarrow> step (Publish W client topic payload) d d'"
| enrol: "upsert_provisioning row d = Inr d' \<Longrightarrow> step (Enrol row) d d'"

inductive_simps step_simps [simp]:
  "step (Request W m ps rq) d d'" "step (Publish W client topic payload) d d'" "step (Enrol row) d d'"

inductive steps :: "db \<Rightarrow> event list \<Rightarrow> db \<Rightarrow> bool" where
  start: "steps d [] d"
| more: "steps d es d1 \<Longrightarrow> step e d1 d2 \<Longrightarrow> steps d (es @ [e]) d2"

text \<open>The rights an event may create.\<close>

fun justified :: "event \<Rightarrow> db \<Rightarrow> right set" where
  "justified (Request W m ps rq) d = by_serving W m ps rq d"
| "justified (Publish W client topic payload) d = by_message topic d"
| "justified (Enrol row) d = {}"

lemma upsert_provisioning_core: "upsert_provisioning row d = Inr d' \<Longrightarrow> core d' = core d"
  by (drule upsert_provisioning_Inr(2)) (metis core_updates(7))

lemma step_gain: "step e d d' \<Longrightarrow> gains (justified e d) d d'"
proof (induction rule: step.induct)
  case (http W m ps rq d out d')
  then show ?case using serve_gain [of W m ps rq d] by simp
next
  case (mqtt W client topic payload d out d')
  then show ?case using dispatch_gain [of topic d "w_rt W" "w_clk W" "w_uuid W 0" payload] by simp
next
  case (enrol row d d')
  then show ?case by (simp add: core_gains upsert_provisioning_core)
qed

lemma step_ok: "step e d d' \<Longrightarrow> db_ok d \<Longrightarrow> db_ok d'"
proof (induction rule: step.induct)
  case (http W m ps rq d out d')
  then show ?case using serve_ok [of d W m ps rq] by simp
next
  case (mqtt W client topic payload d out d')
  then show ?case using dispatch_ok [of d "w_rt W" "w_clk W" "w_uuid W 0" topic payload] by simp
qed (rule upsert_provisioning_ok)

text \<open>A right that a run creates is created by one of its events.\<close>

lemma steps_created:
  "steps d0 es d \<Longrightarrow> holds r d \<Longrightarrow> \<not> holds r d0 \<Longrightarrow>
     \<exists>es1 e es2 d1. es = es1 @ e # es2 \<and> steps d0 es1 d1 \<and> r \<in> justified e d1"
proof (induction rule: steps.induct)
  case (more d es d1 e d2)
  show ?case
  proof (cases "holds r d1")
    case True
    with more obtain es1 e' es2 d' where "es = es1 @ e' # es2" "steps d es1 d'" "r \<in> justified e' d'" by blast
    then have "es @ [e] = es1 @ e' # (es2 @ [e]) \<and> steps d es1 d' \<and> r \<in> justified e' d'" by simp
    then show ?thesis by blast
  next
    case False
    with step_gain [OF more.hyps(2)] more.prems(1) have "r \<in> justified e d1" by (auto simp: gains_def)
    with more.hyps(1) show ?thesis by blast
  qed
qed simp

lemma justified_IsAdmin: "IsAdmin u \<notin> justified e d"
  by (cases e) (auto simp: by_serving_def by_message_def granting_routes_def by_asking_def by_proof_def by_sharing_def)

lemma justified_Asked:
  assumes "Asked u n \<in> justified e d"
  shows "\<exists>W m ps rq v payload. e = Request W m ps rq \<and>
    (m = ''PUT'' \<and> ps = user_nodes_path [''mapping''] \<or> m = ''POST'' \<and> ps = user_nodes_path [''mapping'', ''initiate'']) \<and>
    caller W rq d = Inr v \<and> usr_id v = u \<and> json_object rq = Some payload \<and> get payload ''node_id'' = JStr n"
  using assms
  by (cases e) (auto simp: by_serving_def by_message_def granting_routes_def by_asking_def by_proof_def by_sharing_def
      simp del: holds.simps)

lemma justified_Mapped: "Mapped u n \<in> justified e d \<Longrightarrow> holds (Asked u n) d"
  by (cases e) (auto simp: by_serving_def by_message_def granting_routes_def by_asking_def by_proof_def by_sharing_def
      simp del: holds.simps)

lemma justified_Shared:
  assumes "Shared u n \<in> justified e d"
  shows "\<exists>W rq v. e = Request W ''PUT'' (user_nodes_path [''sharing'', ''requests'']) rq \<and> caller W rq d = Inr v \<and>
    usr_id v = u \<and> holds (Invited (usr_user_name v) n) d"
  using assms
  by (cases e) (auto simp: by_serving_def by_message_def granting_routes_def by_asking_def by_proof_def by_sharing_def
      simp del: holds.simps)

lemma justified_Invited:
  assumes "Invited nm n \<in> justified e d"
  shows "\<exists>W rq v. e = Request W ''PUT'' (user_nodes_path [''sharing'', ''requests'']) rq \<and> caller W rq d = Inr v \<and>
    holds (Mapped (usr_id v) n) d"
  using assms
  by (cases e) (auto simp: by_serving_def by_message_def granting_routes_def by_asking_def by_proof_def by_sharing_def
      simp del: holds.simps)

section \<open>Example\<close>

text \<open>A run in which ann asks for node \<open>n1\<close> and sends the challenge back.\<close>

definition n1_db :: db where
  "n1_db = member_db\<lparr>nodes := [Node ''n1'' 0]\<rparr>"

definition n1_challenge :: mapping_challenge where
  "n1_challenge = (MappingChallenge 100 ''t0'' 1 ''n1'' ''add'' (5 + minutes 10))\<lparr>mc_challenge := Some ''t1''\<rparr>"

definition asked_db :: db where
  "asked_db = n1_db\<lparr>mapping_challenges := [n1_challenge]\<rparr>"

definition owned_db :: db where
  "owned_db = n1_db\<lparr>user_node_mappings := [\<lparr>unm_id = 100, unm_user_id = 1, unm_node_id = ''n1'',
       unm_role = ''primary'', unm_primary = True\<rparr>],
     mapping_challenges := [n1_challenge\<lparr>mc_status := ''completed'', mc_completed_at := Some 5\<rparr>]\<rparr>"

definition ask_request :: request where
  "ask_request = app_request [] [(''node_id'', JStr ''n1'')]"

definition proof_request :: request where
  "proof_request = app_request [] [(''request_id'', JStr ''t0''), (''challenge_response'', JStr ''t1'')]"

definition ask_event :: event where
  "ask_event = Request sample_world ''POST'' (user_nodes_path [''mapping'', ''initiate'']) ask_request"

definition proof_event :: event where
  "proof_event = Request sample_world ''POST'' (user_nodes_path [''mapping'', ''verify'']) proof_request"

lemma n1_dbs_ok: "db_ok n1_db" "db_ok asked_db" "db_ok owned_db"
  by (simp_all add: db_ok_def keys_ok_def foreign_ok_def asked_db_def owned_db_def n1_db_def n1_challenge_def
      MappingChallenge_def member_db_def member_def empty_db_def clash_free_def clash_defs refs_defs present_def
      User_def Node_def)

lemma member_login:
  "db_ok d \<Longrightarrow> users d = [member] \<Longrightarrow> caller sample_world (app_request q body) d = Inr member"
  using sample_login [of d member] by (simp add: caller_def app_request_def member_def User_def)

lemma mapping_routes:
  "find_route app_routes ''PUT'' (user_nodes_path [''mapping'']) = Some (put_user_node_mapping, [])"
  "find_route app_routes ''POST'' (user_nodes_path [''mapping'', ''initiate'']) = Some (initiate_mapping, [])"
  "find_route app_routes ''POST'' (user_nodes_path [''mapping'', ''verify'']) = Some (verify_mapping, [])"
  "find_route app_routes ''PUT'' (user_nodes_path [''sharing'', ''requests'']) = Some (put_sharing_request, [])"
  by (simp_all add: user_nodes_path_def app_routes_def api_router_def v1_router_def include_router_def router_defs)

lemma sample_tokens: "w_token sample_world 0 = ''t0''" "w_token sample_world 1 = ''t1''" "w_token sample_world (Suc 0) = ''t1''"
  by (simp_all add: sample_world_def nat_str.simps digit_char_def char_of_eq_iff)

lemma ask_step: "step ask_event n1_db asked_db"
proof -
  have "caller sample_world (ask_request\<lparr>rq_path := []\<rparr>) n1_db = Inr member"
    using member_login [OF n1_dbs_ok(1), of "[]" "[(''node_id'', JStr ''n1'')]"]
    by (simp add: n1_db_def member_db_def ask_request_def app_request_def caller_def)
  then show ?thesis
    by (simp add: ask_event_def serve_def mapping_routes initiate_mapping_def with_user_def caller_def)
      (simp add: ask_request_def app_request_def json_object_def get_or_def initiate_challenge_def
        insert_challenge_def insert_row_def challenge_cols_def challenge_refs_def fits_def present_def later_def
        sample_world_def nat_str.simps digit_char_def char_of_eq_iff n1_challenge_def MappingChallenge_def asked_db_def n1_db_def member_db_def
        member_def User_def empty_db_def)
qed

lemma proof_step: "step proof_event asked_db owned_db"
proof -
  have "caller sample_world (proof_request\<lparr>rq_path := []\<rparr>) asked_db = Inr member"
    using member_login [OF n1_dbs_ok(2), of "[]" "[(''request_id'', JStr ''t0''), (''challenge_response'', JStr ''t1'')]"]
    by (simp add: asked_db_def n1_db_def member_db_def proof_request_def app_request_def caller_def)
  then show ?thesis
    by (simp add: proof_event_def serve_def mapping_routes verify_mapping_def with_user_def caller_def)
      (simp add: proof_request_def app_request_def json_object_def get_or_def verify_challenge_def select_def
        ensure_mapping_def find_mapping_def insert_mapping_def insert_row_def mapping_clash_def mapping_cols_def
        mapping_refs_def complete_challenge_def update_where_def compare_digest_str_def is_ascii_def code_point_def
        fits_def present_def later_def sample_world_def n1_challenge_def MappingChallenge_def asked_db_def owned_db_def
        n1_db_def member_db_def member_def User_def Node_def empty_db_def)
qed

lemma mapping_run: "steps n1_db [ask_event, proof_event] owned_db"
  using steps.more [OF steps.more [OF steps.start ask_step] proof_step] by simp

text \<open>And one in which she shares the node with herself.\<close>

definition invite_request :: request where
  "invite_request = app_request [] [(''nodes'', JArr [JStr ''n1'']), (''user_name'', JStr ''ann'')]"

definition accept_request :: request where
  "accept_request = app_request [] [(''request_id'', JStr (str_uuid 100))]"

definition open_invitation_db :: db where
  "open_invitation_db = owned_db\<lparr>node_sharing_requests := [sharing_request 100 ''n1'' 1 ''ann'' 5]\<rparr>"

definition shared_db :: db where
  "shared_db = owned_db\<lparr>node_sharing_requests := [(sharing_request 100 ''n1'' 1 ''ann'' 5)\<lparr>sr_status := ''accepted''\<rparr>],
     node_sharings := [\<lparr>sh_id = 100, sh_node_id = ''n1'', sh_from_user_id = 1, sh_to_user_id = 1, sh_role = ''secondary''\<rparr>]\<rparr>"

definition invite_event :: event where
  "invite_event = Request sample_world ''PUT'' (user_nodes_path [''sharing'', ''requests'']) invite_request"

definition accept_event :: event where
  "accept_event = Request sample_world ''PUT'' (user_nodes_path [''sharing'', ''requests'']) accept_request"

lemma open_invitation_db_ok: "db_ok open_invitation_db"
  by (simp add: db_ok_def keys_ok_def foreign_ok_def open_invitation_db_def owned_db_def n1_db_def n1_challenge_def
      MappingChallenge_def sharing_request_def member_db_def member_def empty_db_def clash_free_def clash_defs refs_defs
      present_def User_def Node_def)

lemma invite_step: "step invite_event owned_db open_invitation_db"
proof -
  have "caller sample_world (invite_request\<lparr>rq_path := []\<rparr>) owned_db = Inr member"
    using member_login [OF n1_dbs_ok(3), of "[]" "[(''nodes'', JArr [JStr ''n1'']), (''user_name'', JStr ''ann'')]"]
    by (simp add: owned_db_def n1_db_def member_db_def invite_request_def app_request_def caller_def)
  then show ?thesis
    by (simp add: invite_event_def serve_def mapping_routes put_sharing_request_def with_user_def caller_def)
      (simp add: invite_request_def app_request_def json_object_def get_or_def has_key_def create_request_def
        find_mapping_def select_def insert_sharing_request_def insert_row_def sharing_request_cols_def
        sharing_request_refs_def sharing_request_def fits_def present_def later_def sample_world_def
        open_invitation_db_def owned_db_def n1_db_def member_db_def member_def User_def Node_def empty_db_def)
qed

lemma accept_step: "step accept_event open_invitation_db shared_db"
proof -
  have "parse_uuid (str_uuid 100) = Inr 100" by (rule parse_str_uuid) simp
  moreover have "caller sample_world (accept_request\<lparr>rq_path := []\<rparr>) open_invitation_db = Inr member"
    using member_login [OF open_invitation_db_ok, of "[]" "[(''request_id'', JStr (str_uuid 100))]"]
    by (simp add: open_invitation_db_def owned_db_def n1_db_def member_db_def accept_request_def app_request_def caller_def)
  ultimately show ?thesis
    by (simp add: accept_event_def serve_def mapping_routes put_sharing_request_def with_user_def caller_def)
      (simp add: accept_request_def app_request_def json_object_def get_or_def has_key_def uuid_of_json_def
        accept_or_decline_def select_def ensure_share_def find_share_def insert_sharing_def insert_row_def
        sharing_clash_def sharing_cols_def sharing_refs_def set_request_status_def update_where_def sharing_request_def
        fits_def present_def later_def sample_world_def resolved_def open_invitation_db_def shared_db_def owned_db_def n1_db_def
        member_db_def member_def User_def Node_def empty_db_def)
qed

lemma sharing_run: "steps owned_db [invite_event, accept_event] shared_db"
  using steps.more [OF steps.more [OF steps.start invite_step] accept_step] by simp

text \<open>The device of a pending legacy request answers.\<close>

definition secret_db :: db where
  "secret_db = n1_db\<lparr>mapping_challenges := [(MappingChallenge 5 ''req'' 1 ''n1'' ''add'' 1000)\<lparr>mc_secret_key := Some ''s3''\<rparr>]\<rparr>"

definition secret_mapped_db :: db where
  "secret_mapped_db = n1_db\<lparr>user_node_mappings := [\<lparr>unm_id = 100, unm_user_id = 1, unm_node_id = ''n1'',
       unm_role = ''primary'', unm_primary = True\<rparr>],
     mapping_challenges := [(MappingChallenge 5 ''req'' 1 ''n1'' ''add'' 1000)\<lparr>mc_secret_key := Some ''s3'',
       mc_status := ''completed'', mc_completed_at := Some 5\<rparr>]\<rparr>"

lemma dispatch_unit: "fst (dispatch R clk mid topic pl d) = Inr ()"
  by (auto simp: dispatch_def split: option.splits json.splits)

lemma secret_step:
  "step (Publish sample_world ''n1'' (node_topic ''n1'' ''user/mapping'') (Some (mapping_message ''n1'' ''s3'')))
     secret_db secret_mapped_db"
proof -
  have "snd (dispatch sample_rt (\<lambda>i. 5) 100 (node_topic ''n1'' ''user/mapping'') (Some (mapping_message ''n1'' ''s3'')) secret_db) =
      secret_mapped_db"
    by (simp add: dispatch_user_mapping pending_secret_def select_def secret_db_def secret_mapped_db_def n1_db_def
        MappingChallenge_def ensure_mapping_def find_mapping_def insert_mapping_def insert_row_def mapping_cols_def
        mapping_refs_def fits_def present_def member_db_def member_def User_def Node_def empty_db_def
        complete_challenge_def update_where_def)
  then have "dispatch (w_rt sample_world) (w_clk sample_world) (w_uuid sample_world 0) (node_topic ''n1'' ''user/mapping'')
      (Some (mapping_message ''n1'' ''s3'')) secret_db = (Inr (), secret_mapped_db)"
    by (simp add: sample_world_def prod_eq_iff dispatch_unit)
  moreover have "node_topic ''n1'' ''user/mapping'' \<noteq> []" "allowed_topic ''n1'' (node_topic ''n1'' ''user/mapping'')"
    by (simp_all add: node_topic_def allowed_topic_node)
  then have "authorise_publish (w_rt sample_world) (w_settings sample_world) (JStr ''n1'')
      (JStr (node_topic ''n1'' ''user/mapping'')) = Inr allow"
    by (simp add: authorise_publish_def is_backend_def allowed_topic_json_def)
  ultimately show ?thesis by (rule step.mqtt [rotated])
qed

end
