(* ===== verification/Policy.thy ===== *)
theory Policy
  imports System "HOL-Library.Multiset"
begin

text \<open>
  What the sharing of nodes promises, without tables: a \<open>policy\<close> says which user owns which node,
  who shared which node with whom, and which requests are open.  \<open>act\<close> lists what the users and the
  devices may do to it, each rule with who does it and what has to be the case.  \<open>policy_of\<close> reads the
  policy off a store; every event of the running system is shown to be one act of the user or the
  device behind it.
\<close>

section \<open>The specification\<close>

text \<open>
  Owners as pairs of user and node; shares as owner, user and node; requests for a node as user and
  node; invitations as owner, user name and node.  The same request may be open several times.
\<close>

record policy =
  p_mapped :: "(uuid \<times> string) set"
  p_shared :: "(uuid \<times> uuid \<times> string) set"
  p_asked :: "(uuid \<times> string option) multiset"
  p_invited :: "(uuid \<times> string \<times> string) multiset"

datatype actor = Account uuid string | Device string | Nobody

inductive act :: "actor \<Rightarrow> policy \<Rightarrow> policy \<Rightarrow> bool" where
  idle: "act a p p"
| ask: "act (Account u nm) p (p\<lparr>p_asked := add_mset (u, Some n) (p_asked p)\<rparr>)"
| own: "(u, Some n) \<in># p_asked p \<Longrightarrow> a = Account u nm \<or> a = Device n \<Longrightarrow>
    act a p (p\<lparr>p_mapped := insert (u, n) (p_mapped p), p_asked := p_asked p - {#(u, Some n)#}\<rparr>)"
| lapse: "(u, Some n) \<in># p_asked p \<Longrightarrow> act (Device n) p (p\<lparr>p_asked := p_asked p - {#(u, Some n)#}\<rparr>)"
| disown: "act (Account u nm) p (p\<lparr>p_mapped := p_mapped p - {(u, n)}\<rparr>)"
| invite: "\<forall>n \<in># ns. (owner, n) \<in> p_mapped p \<Longrightarrow>
    act (Account owner nm) p (p\<lparr>p_invited := p_invited p + image_mset (\<lambda>n. (owner, name, n)) ns\<rparr>)"
| decline: "(owner, nm, n) \<in># p_invited p \<Longrightarrow>
    act (Account u nm) p (p\<lparr>p_invited := p_invited p - {#(owner, nm, n)#}\<rparr>)"
| accept: "(owner, nm, n) \<in># p_invited p \<Longrightarrow>
    act (Account u nm) p (p\<lparr>p_invited := p_invited p - {#(owner, nm, n)#},
      p_shared := (if \<exists>other. (other, u, n) \<in> p_shared p then p_shared p else insert (owner, u, n) (p_shared p))\<rparr>)"
| revoke: "act (Account owner nm) p (p\<lparr>p_shared := p_shared p - {owner} \<times> {u} \<times> set ns\<rparr>)"
| leave: "act (Account u nm) p
    \<lparr>p_mapped = {x \<in> p_mapped p. fst x \<noteq> u}, p_shared = {x \<in> p_shared p. fst x \<noteq> u \<and> fst (snd x) \<noteq> u},
     p_asked = filter_mset (\<lambda>x. fst x \<noteq> u) (p_asked p), p_invited = filter_mset (\<lambda>x. fst x \<noteq> u) (p_invited p)\<rparr>"

definition permitted :: "policy \<Rightarrow> uuid \<Rightarrow> string \<Rightarrow> bool" where
  "permitted p u n \<longleftrightarrow> (u, n) \<in> p_mapped p \<or> (\<exists>owner. (owner, u, n) \<in> p_shared p)"

section \<open>The abstraction\<close>

definition open_asks :: "db \<Rightarrow> mapping_challenge list" where
  "open_asks d = filter (\<lambda>c. mc_status c = ''pending'') (mapping_challenges d)"

definition open_invitations :: "db \<Rightarrow> node_sharing_request list" where
  "open_invitations d = filter (\<lambda>r. sr_status r = ''pending'') (node_sharing_requests d)"

definition ask_of :: "mapping_challenge \<Rightarrow> uuid \<times> string option" where
  "ask_of c = (mc_user_id c, mc_node_id c)"

definition invitation_of :: "node_sharing_request \<Rightarrow> uuid \<times> string \<times> string" where
  "invitation_of r = (sr_from_user_id r, sr_to_user_name r, sr_node_id r)"

definition policy_of :: "db \<Rightarrow> policy" where
  "policy_of d = \<lparr>
     p_mapped = (\<lambda>m. (unm_user_id m, unm_node_id m)) ` set (user_node_mappings d),
     p_shared = (\<lambda>s. (sh_from_user_id s, sh_to_user_id s, sh_node_id s)) ` set (node_sharings d),
     p_asked = mset (map ask_of (open_asks d)),
     p_invited = mset (map invitation_of (open_invitations d))\<rparr>"

fun actor_of :: "event \<Rightarrow> db \<Rightarrow> actor" where
  "actor_of (Request W m ps rq) d =
     (case caller W rq d of Inr u \<Rightarrow> Account (usr_id u) (usr_user_name u) | Inl e \<Rightarrow> Nobody)"
| "actor_of (Publish W client topic payload) d =
     (case split_topic topic of Some (n, suff) \<Rightarrow> Device n | None \<Rightarrow> Nobody)"
| "actor_of (Enrol row) d = Nobody"

lemma permitted_policy: "permitted (policy_of d) u n \<longleftrightarrow> may_access u n d"
  by (auto simp: permitted_def policy_of_def may_access_def is_mapped_def is_shared_def)

lemma mapped_policy: "(u, n) \<in> p_mapped (policy_of d) \<longleftrightarrow> is_mapped u n d"
  by (auto simp: policy_of_def is_mapped_def)

lemma shared_policy: "(\<exists>owner. (owner, u, n) \<in> p_shared (policy_of d)) \<longleftrightarrow> is_shared u n d"
  by (auto simp: policy_of_def is_shared_def)

text \<open>The policy depends on four tables, which \<open>core\<close> includes.\<close>

lemma policy_frame:
  "user_node_mappings d' = user_node_mappings d \<Longrightarrow> node_sharings d' = node_sharings d \<Longrightarrow>
   mapping_challenges d' = mapping_challenges d \<Longrightarrow> node_sharing_requests d' = node_sharing_requests d \<Longrightarrow>
     policy_of d' = policy_of d"
  by (simp add: policy_of_def open_asks_def open_invitations_def)

lemma policy_core: "core d' = core d \<Longrightarrow> policy_of d' = policy_of d"
  by (rule policy_frame) (simp_all add: core_def)

section \<open>Rows that leave the open ones\<close>

context unique_index begin

lemma untouched:
  "(\<And>s. s \<in> set rows \<Longrightarrow> key s \<noteq> k) \<Longrightarrow> update_where (\<lambda>s. key s = k) f rows = rows"
  by (simp add: update_where_def map_idI)

lemma settled:
  assumes "clash_free clash rows" "r \<in> set rows" "P r" "\<And>s. \<not> P (f s)"
  shows "mset (filter P (update_where (\<lambda>s. key s = key r) f rows)) = mset (filter P rows) - {#r#}"
  using assms(1,2)
proof (induction rows)
  case (Cons s rows)
  have later_keys: "key t \<noteq> key s" if "t \<in> set rows" for t
    using Cons.prems(1) that same_key_clash [of s t] by (auto simp: clash_free_def)
  show ?case
  proof (cases "s = r")
    case True
    then show ?thesis using untouched [of rows "key r" f] later_keys assms(3,4) by (simp add: update_where_def)
  next
    case False
    with Cons.prems have r: "r \<in> set rows" "clash_free clash rows" by (auto simp: clash_free_def)
    moreover have "key s \<noteq> key r" using later_keys [OF r(1)] by metis
    moreover have "r \<in># mset (filter P rows)" using r assms(3) by simp
    ultimately show ?thesis using Cons.IH by (simp add: update_where_def add_mset_diff_bothsides)
  qed
qed simp

end

lemma open_ask:
  "c \<in> set (mapping_challenges d) \<Longrightarrow> mc_status c = ''pending'' \<Longrightarrow> ask_of c \<in># p_asked (policy_of d)"
  by (simp add: policy_of_def open_asks_def)

lemma policy_settle_ask:
  assumes "db_ok d" "c \<in> set (mapping_challenges d)" "mc_status c = ''pending''" "\<And>x. mc_status (f x) \<noteq> ''pending''"
  shows "policy_of (d\<lparr>mapping_challenges := update_where (\<lambda>x. mc_id x = mc_id c) f (mapping_challenges d)\<rparr>) =
    policy_of d\<lparr>p_asked := p_asked (policy_of d) - {#ask_of c#}\<rparr>"
  using challenges_by_id.settled [OF challenge_keys [OF assms(1)] assms(2), of "\<lambda>c. mc_status c = ''pending''" f] assms
  by (simp_all add: policy_of_def open_asks_def open_invitations_def image_mset_Diff)

lemma policy_settle_invitation:
  assumes "db_ok d" "r \<in> set (node_sharing_requests d)" "sr_status r = ''pending''" "st \<noteq> ''pending''"
  shows "policy_of (set_request_status (sr_id r) st d) =
    policy_of d\<lparr>p_invited := p_invited (policy_of d) - {#invitation_of r#}\<rparr>"
    "invitation_of r \<in># p_invited (policy_of d)"
  using requests_by_id.settled [OF sharing_request_keys [OF assms(1)] assms(2), of "\<lambda>r. sr_status r = ''pending''"
      "\<lambda>r. r\<lparr>sr_status := st\<rparr>"] assms
  by (simp_all add: set_request_status_def policy_of_def open_asks_def open_invitations_def image_mset_Diff)


section \<open>What the services do\<close>

abbreviation acts :: "actor \<Rightarrow> db \<Rightarrow> db \<Rightarrow> bool" where
  "acts a d d' \<equiv> act a (policy_of d) (policy_of d')"

lemma acts_same: "policy_of d' = policy_of d \<Longrightarrow> acts a d d'"
  by (simp add: act.idle)

lemma ask_acts:
  assumes "insert_challenge (MappingChallenge i rid u n oper t) d = Inr d' \<or>
    insert_challenge ((MappingChallenge i rid u n oper t)\<lparr>mc_challenge := ch\<rparr>) d = Inr d' \<or>
    insert_challenge ((MappingChallenge i rid u n oper t)\<lparr>mc_secret_key := sk\<rparr>) d = Inr d'"
  shows "acts (Account u nm) d d'"
proof -
  have "policy_of d' = policy_of d\<lparr>p_asked := add_mset (u, Some n) (p_asked (policy_of d))\<rparr>"
    using assms
    by (auto simp: insert_challenge_Inr policy_of_def open_asks_def open_invitations_def ask_of_def MappingChallenge_def)
  then show ?thesis by (simp add: act.ask)
qed

lemma request_mapping_acts:
  "acts (Account uid nm) d (snd (request_legacy_mapping clk cid rid uid nid sk oper d))"
  "acts (Account uid nm) d (snd (initiate_challenge clk cid rid chal uid nid d))"
  by (auto simp: request_legacy_mapping_def initiate_challenge_def intro: act.idle ask_acts split: attempt_splits)

lemma complete_acts:
  assumes ok: "db_ok d" and e: "ensure_mapping mid u (Some n) d = Inr d'"
    and c: "c \<in> set (mapping_challenges d)" "mc_status c = ''pending''" "ask_of c = (u, Some n)"
    and a: "a = Account u nm \<or> a = Device n"
  shows "acts a d (complete_challenge c t d')"
proof -
  have f: "d' = d\<lparr>user_node_mappings := user_node_mappings d'\<rparr>" by (rule ensure_mapping_frame [OF e])
  have mc: "mapping_challenges d' = mapping_challenges d" using arg_cong [OF f, of mapping_challenges] by simp
  have "p_mapped (policy_of d') = insert (u, n) (p_mapped (policy_of d))"
    by (rule set_eqI) (auto simp: mapped_policy ensure_mapping_maps [OF e])
  with f have p: "policy_of d' = policy_of d\<lparr>p_mapped := insert (u, n) (p_mapped (policy_of d))\<rparr>"
    by (cases d, cases d') (simp add: policy_of_def open_asks_def open_invitations_def)
  have "policy_of (complete_challenge c t d') =
      policy_of d\<lparr>p_mapped := insert (u, n) (p_mapped (policy_of d)), p_asked := p_asked (policy_of d) - {#(u, Some n)#}\<rparr>"
    using policy_settle_ask [OF ensure_mapping_ok [OF ok e], of c] c p by (simp add: mc complete_challenge_def)
  moreover have "(u, Some n) \<in># p_asked (policy_of d)" using open_ask [OF c(1,2)] c(3) by simp
  ultimately show ?thesis using a by (auto intro: act.own)
qed

lemma verify_challenge_acts:
  assumes ok: "db_ok d"
  shows "acts (Account uid nm) d (snd (verify_challenge clk mid uid rid resp d))"
proof -
  have "acts (Account uid nm) d (complete_challenge row t d')"
    if e: "ensure_mapping mid uid (mc_node_id row) d = Inr d'" and
      row: "select (\<lambda>c. mc_request_id c = rid \<and> mc_user_id c = uid \<and> mc_status c = ''pending'') (mapping_challenges d) = [row]"
    for row t d'
  proof -
    obtain n where "mc_node_id row = Some n" using e by (cases "mc_node_id row") (auto simp: ensure_mapping_def)
    with e select_one [OF row] show ?thesis by (auto simp: ask_of_def intro!: complete_acts [OF ok])
  qed
  then show ?thesis
    by (auto simp: verify_challenge_def intro: act.idle split: attempt_splits option.splits)
qed

lemma expire_acts:
  assumes "db_ok d" "c \<in> set (mapping_challenges d)" "mc_status c = ''pending''" "mc_node_id c = Some n"
  shows "acts (Device n) d (expire_challenge c d)"
  using policy_settle_ask [OF assms(1-3), of "\<lambda>x. x\<lparr>mc_status := ''expired''\<rparr>"] open_ask [OF assms(2,3)] assms(4)
  by (auto simp: expire_challenge_def ask_of_def intro: act.lapse)

lemma handle_user_mapping_acts:
  assumes ok: "db_ok d"
  shows "acts (Device n) d (snd (handle_user_mapping clk mid n v d))"
  using ok
  by (auto simp: handle_user_mapping_def ask_of_def intro: act.idle expire_acts complete_acts dest!: pending_secret_one
      split: json.splits attempt_splits option.splits)

lemma set_request_status_acts:
  assumes "db_ok d" "r \<in> set (node_sharing_requests d)" "sr_status r = ''pending''" "sr_to_user_name r = nm"
    "st \<noteq> ''pending''"
  shows "acts (Account u nm) d (set_request_status (sr_id r) st d)"
  using policy_settle_invitation [OF assms(1-3,5)] assms(4) by (auto simp: invitation_of_def intro: act.decline)

lemma accept_acts:
  assumes ok: "db_ok d" and r: "r \<in> set (node_sharing_requests d)" "sr_status r = ''pending''" "sr_to_user_name r = nm"
    and e: "ensure_share sid u r (set_request_status (sr_id r) ''accepted'' d) = Inr d'"
  shows "acts (Account u nm) d d'"
proof -
  let ?o = "sr_from_user_id r" and ?n = "sr_node_id r" and ?p = "policy_of d"
  let ?a = "set_request_status (sr_id r) ''accepted'' d"
  have p: "policy_of ?a = ?p\<lparr>p_invited := p_invited ?p - {#(?o, nm, ?n)#}\<rparr>" "(?o, nm, ?n) \<in># p_invited ?p"
    using policy_settle_invitation [OF ok r(1,2), of "''accepted''"] r(3) by (simp_all add: invitation_of_def)
  have "policy_of d' = ?p\<lparr>p_invited := p_invited ?p - {#(?o, nm, ?n)#},
      p_shared := (if \<exists>other. (other, u, ?n) \<in> p_shared ?p then p_shared ?p else insert (?o, u, ?n) (p_shared ?p))\<rparr>"
  proof (cases "is_shared u ?n ?a")
    case True
    with e have "d' = ?a" by (auto simp: ensure_share_def find_share_None split: sum.splits option.splits)
    moreover have "\<exists>other. (other, u, ?n) \<in> p_shared ?p" using True shared_policy [of u ?n ?a] p(1) by simp
    ultimately show ?thesis using p(1) by simp
  next
    case False
    then have "insert_sharing \<lparr>sh_id = sid, sh_node_id = ?n, sh_from_user_id = ?o, sh_to_user_id = u,
        sh_role = ''secondary''\<rparr> ?a = Inr d'"
      using e by (simp add: ensure_share_def find_share_None [THEN iffD2])
    then have "policy_of d' = policy_of ?a\<lparr>p_shared := insert (?o, u, ?n) (p_shared (policy_of ?a))\<rparr>"
      by (auto simp: insert_sharing_Inr policy_of_def open_asks_def open_invitations_def)
    moreover have "\<not> (\<exists>other. (other, u, ?n) \<in> p_shared ?p)" using False shared_policy [of u ?n ?a] p(1) by simp
    ultimately show ?thesis using p(1) by simp
  qed
  with p(2) show ?thesis by (simp add: act.accept)
qed

lemma accept_or_decline_acts:
  assumes ok: "db_ok d"
  shows "acts (Account u nm) d (snd (accept_or_decline clk sid u nm rid acc d))"
  using ok
  by (auto simp: accept_or_decline_def intro: act.idle set_request_status_acts accept_acts
      dest!: select_one split: attempt_splits option.splits)

lemma create_request_acts: "acts (Account u nm) d (snd (create_request clk rids u vs v d))"
proof -
  have "acts (Account u nm) d d'"
    if c: "check_owner u vs d = Inr ()" "text_columns vs = Inr nids" "add_requests clk rids 0 u name nids d = Inr d'"
    for name nids d'
  proof -
    let ?rows = "map (\<lambda>(k, n). sharing_request (rids k) n u name (clk k)) (enumerate 0 nids)"
    have "filter (\<lambda>r. sr_status r = ''pending'') ?rows = ?rows"
      by (auto simp: filter_id_conv sharing_request_def)
    moreover have "map invitation_of ?rows = map (\<lambda>n. (u, name, n)) nids"
      by (rule nth_equalityI) (simp_all add: nth_enumerate_eq invitation_of_def sharing_request_def)
    ultimately have "policy_of d' = policy_of d\<lparr>p_invited := p_invited (policy_of d) + mset (map (\<lambda>n. (u, name, n)) nids)\<rparr>"
      by (simp add: add_requests_rows [OF c(3)] policy_of_def open_asks_def open_invitations_def)
    moreover have "\<forall>n \<in> set nids. (u, n) \<in> p_mapped (policy_of d)"
      using check_owner_mapped [OF c(1)] text_columns_Inr [OF c(2)] by (auto simp: mapped_policy)
    ultimately show ?thesis using act.invite [of "mset nids" u "policy_of d" nm name] by simp
  qed
  then show ?thesis by (auto simp: create_request_def intro: act.idle split: attempt_splits)
qed

lemma revoke_loop_policy:
  "revoke_loop owner u ns d = Inr d' \<Longrightarrow> db_ok d \<Longrightarrow>
     policy_of d' = policy_of d\<lparr>p_shared := p_shared (policy_of d) - {owner} \<times> {u} \<times> set ns\<rparr>"
proof (induction ns arbitrary: d)
  case (Cons n ns)
  let ?p = "\<lambda>s. sh_node_id s = n \<and> sh_from_user_id s = owner \<and> sh_to_user_id s = u"
  from Cons.prems(1) consider "revoke_loop owner u ns d = Inr d'" "select ?p (node_sharings d) = []"
    | s where "select ?p (node_sharings d) = [s]"
      "revoke_loop owner u ns (d\<lparr>node_sharings := delete_where (\<lambda>x. sh_id x = sh_id s) (node_sharings d)\<rparr>) = Inr d'"
    by (auto split: sum.splits option.splits)
  then show ?case
  proof cases
    case 1
    then have "(owner, u, n) \<notin> p_shared (policy_of d)" by (auto simp: policy_of_def select_def filter_empty_conv)
    then have "p_shared (policy_of d) - {owner} \<times> {u} \<times> set (n # ns) = p_shared (policy_of d) - {owner} \<times> {u} \<times> set ns"
      by auto
    with Cons.IH [OF 1(1) Cons.prems(2)] show ?thesis by simp
  next
    case 2
    let ?d = "d\<lparr>node_sharings := delete_where (\<lambda>x. sh_id x = sh_id s) (node_sharings d)\<rparr>"
    have s: "s \<in> set (node_sharings d)" "?p s" using select_one [OF 2(1)] by auto
    have "x = s" if "x \<in> set (node_sharings d)" "sh_id x = sh_id s \<or> ?p x" for x
      using that sharings_by_id.row_unique [OF sharing_keys [OF Cons.prems(2)] that(1) s(1)]
        sharings_by_pair.row_unique [OF sharing_keys [OF Cons.prems(2)] that(1) s(1)] s(2) by auto
    then have "p_shared (policy_of ?d) = p_shared (policy_of d) - {(owner, u, n)}"
      using s by (auto simp: policy_of_def)
    then have "policy_of ?d = policy_of d\<lparr>p_shared := p_shared (policy_of d) - {(owner, u, n)}\<rparr>"
      by (simp add: policy_of_def open_asks_def open_invitations_def)
    moreover have "p_shared (policy_of d) - {owner} \<times> {u} \<times> set (n # ns) =
        p_shared (policy_of d) - {(owner, u, n)} - {owner} \<times> {u} \<times> set ns" by auto
    ultimately show ?thesis using Cons.IH [OF 2(2) delete_sharing_ok [OF Cons.prems(2)]] by simp
  qed
qed simp

lemma revoke_share_acts: "db_ok d \<Longrightarrow> acts (Account owner nm) d (snd (revoke_share owner ns name d))"
  by (auto simp: revoke_share_def revoke_loop_policy intro: act.idle act.revoke split: attempt_splits option.splits)

lemma purge_user_policy:
  "policy_of (purge_user u d) = \<lparr>p_mapped = {x \<in> p_mapped (policy_of d). fst x \<noteq> u},
     p_shared = {x \<in> p_shared (policy_of d). fst x \<noteq> u \<and> fst (snd x) \<noteq> u},
     p_asked = filter_mset (\<lambda>x. fst x \<noteq> u) (p_asked (policy_of d)),
     p_invited = filter_mset (\<lambda>x. fst x \<noteq> u) (p_invited (policy_of d))\<rparr>"
proof -
  have t: "user_node_mappings (purge_user u d) = delete_where (\<lambda>m. unm_user_id m = u) (user_node_mappings d)"
    "node_sharings (purge_user u d) = delete_where (\<lambda>s. sh_from_user_id s = u \<or> sh_to_user_id s = u) (node_sharings d)"
    "mapping_challenges (purge_user u d) = delete_where (\<lambda>c. mc_user_id c = u) (mapping_challenges d)"
    "node_sharing_requests (purge_user u d) = delete_where (\<lambda>r. sr_from_user_id r = u) (node_sharing_requests d)"
    by (simp_all add: purge_user_def)
  have f: "mset (map f (filter p (delete_where q xs))) = filter_mset r (mset (map f (filter p xs)))"
    if "\<And>x. q x \<longleftrightarrow> \<not> r (f x)" for f p q r and xs :: "'z list"
    using that by (induction xs) (auto simp: delete_where_def simp del: mset_map mset_filter)
  have g: "f ` set (delete_where q xs) = {x \<in> f ` set xs. r x}" if "\<And>x. q x \<longleftrightarrow> \<not> r (f x)" for f q r and xs :: "'z list"
    using that by auto
  have "p_asked (policy_of (purge_user u d)) = filter_mset (\<lambda>x. fst x \<noteq> u) (p_asked (policy_of d))"
    "p_invited (policy_of (purge_user u d)) = filter_mset (\<lambda>x. fst x \<noteq> u) (p_invited (policy_of d))"
    unfolding policy_of_def policy.select_convs open_asks_def open_invitations_def t
    by (rule f, simp add: ask_of_def invitation_of_def)+
  moreover have "p_mapped (policy_of (purge_user u d)) = {x \<in> p_mapped (policy_of d). fst x \<noteq> u}"
    "p_shared (policy_of (purge_user u d)) = {x \<in> p_shared (policy_of d). fst x \<noteq> u \<and> fst (snd x) \<noteq> u}"
    unfolding policy_of_def policy.select_convs t by (rule g, simp)+
  ultimately show ?thesis by simp
qed

lemma delete_user_acts: "acts (Account u nm) d (delete_user u d)"
proof -
  have "policy_of (cascade_groups gs d) = policy_of d" for gs
    by (rule policy_frame) (simp_all add: cascade_groups_def)
  then show ?thesis unfolding delete_user_def purge_user_policy by (simp only: act.leave)
qed

lemma unmap_acts:
  assumes "db_ok d" "find_mapping u n d = Inr (Some m)"
  shows "acts (Account u nm) d (d\<lparr>user_node_mappings := delete_where (\<lambda>x. unm_id x = unm_id m) (user_node_mappings d)\<rparr>)"
    (is "acts _ d ?d")
proof -
  have m: "m \<in> set (user_node_mappings d)" "unm_user_id m = u" "unm_node_id m = n"
    using find_mapping_Some [OF assms(2)] by auto
  have "x = m" if "x \<in> set (user_node_mappings d)" "unm_id x = unm_id m \<or> unm_user_id x = u \<and> unm_node_id x = n" for x
    using that mappings_by_id.row_unique [OF mapping_keys [OF assms(1)] that(1) m(1)]
      mappings_by_pair.row_unique [OF mapping_keys [OF assms(1)] that(1) m(1)] m(2,3) by auto
  then have "p_mapped (policy_of ?d) = p_mapped (policy_of d) - {(u, n)}" using m by (auto simp: policy_of_def)
  then have "policy_of ?d = policy_of d\<lparr>p_mapped := p_mapped (policy_of d) - {(u, n)}\<rparr>"
    by (simp add: policy_of_def open_asks_def open_invitations_def)
  then show ?thesis by (simp add: act.disown)
qed

section \<open>What the routes and the messages do\<close>

definition requester :: "world \<Rightarrow> request \<Rightarrow> db \<Rightarrow> actor" where
  "requester W rq d = (case caller W rq d of Inr u \<Rightarrow> Account (usr_id u) (usr_user_name u) | Inl e \<Rightarrow> Nobody)"

lemma with_user_acts:
  "(\<And>u. requester W rq d = Account (usr_id u) (usr_user_name u) \<Longrightarrow>
      acts (Account (usr_id u) (usr_user_name u)) d (snd (k u))) \<Longrightarrow>
    acts (requester W rq d) d (snd (with_user W rq d k))"
  by (auto simp: with_user_def caller_def requester_def act.idle split: attempt_splits)

lemmas route_acts = with_user_acts valid_inv [where P = "acts a d" for a d, OF act.idle]
  as_text_inv [where P = "acts a d" for a d, OF act.idle] if_inv [where P = "acts a d" for a d]
  attempt_inv [where P = "acts a d" for a d, OF act.idle] andthen_inv [where P = "acts a d" for a d]

lemma write_user_policy [simp]: "policy_of (write_user u f d) = policy_of d"
  by (rule policy_frame) (simp_all add: write_user_def)

lemma auth_policy:
  "policy_of (snd (signup L clk salt n uid nm pw d)) = policy_of d"
  "policy_of (snd (confirm_signup clk nm code d)) = policy_of d"
  "policy_of (snd (login_password L S clk jti rid nm pw d)) = policy_of d"
  "policy_of (snd (change_password L salt u pw new d)) = policy_of d"
  "policy_of (snd (request_password_reset clk n nm d)) = policy_of d"
  "policy_of (snd (confirm_password_reset L clk salt nm code pw d)) = policy_of d"
proof -
  have new: "insert_user u d = Inr d' \<Longrightarrow> policy_of d' = policy_of d" for u d d'
    by (rule policy_frame) (auto simp: insert_user_Inr)
  show "policy_of (snd (signup L clk salt n uid nm pw d)) = policy_of d"
    by (auto simp: signup_def Let_def dest: new split: attempt_splits)
qed (auto simp: confirm_signup_def login_password_def change_password_def request_password_reset_def
    confirm_password_reset_def Let_def policy_core [OF mint_token_triple_core] split: attempt_splits option.splits)

lemma group_policy:
  "policy_of (snd (create_group gid mids oid nm p t x nds md d)) = policy_of d"
  "policy_of (snd (delete_group oid gid d)) = policy_of d"
proof -
  have ins: "insert_group g d = Inr d' \<Longrightarrow> policy_of d' = policy_of d" for g d d'
    by (rule policy_frame) (auto simp: insert_group_Inr)
  show "policy_of (snd (create_group gid mids oid nm p t x nds md d)) = policy_of d"
    by (auto simp: create_group_def Let_def dest!: add_members_core ins policy_core split: attempt_splits)
  have "policy_of (cascade_groups gs d) = policy_of d" for gs
    by (rule policy_frame) (simp_all add: cascade_groups_def)
  then show "policy_of (snd (delete_group oid gid d)) = policy_of d"
    by (auto simp: delete_group_def split: attempt_splits option.splits)
qed

lemma account_routes_acts:
  "acts (requester W rq d) d (snd (login2 W rq d))" "acts (requester W rq d) d (snd (signup_route W rq d))"
  "acts (requester W rq d) d (snd (confirm_signup_or_update W rq d))"
  "acts (requester W rq d) d (snd (change_password_route W rq d))"
  "acts (requester W rq d) d (snd (forgot_password W rq d))"
  "acts (requester W rq d) d (snd (delete_current_user W rq d))"
  by (auto simp: login2_def signup_route_def signup_exchange_def confirm_signup_or_update_def change_password_route_def
      forgot_password_def forgot_password_exchange_def
      delete_current_user_def auth_policy acts_same delete_user_acts intro!: route_acts
      attempt_inv [where P = "acts a d" for a d] split: option.splits)

lemma node_routes_acts:
  assumes "db_ok d"
  shows "acts (requester W rq d) d (snd (put_custom_data W rq d))"
    "acts (requester W rq d) d (snd (create_group_route W rq d))"
    "acts (requester W rq d) d (snd (delete_user_node_group W rq d))"
    "acts (requester W rq d) d (snd (delete_user_node W rq d))"
    "acts (requester W rq d) d (snd (revoke_sharing W rq d))"
  using assms
  by (auto simp: put_custom_data_def create_group_route_def delete_user_node_group_def delete_user_node_def
      revoke_sharing_def group_policy acts_same revoke_share_acts unmap_acts intro!: route_acts
      split: option.splits sum.splits)

lemma granting_routes_acts:
  assumes "db_ok d"
  shows "acts (requester W rq d) d (snd (put_user_node_mapping W rq d))"
    "acts (requester W rq d) d (snd (initiate_mapping W rq d))"
    "acts (requester W rq d) d (snd (verify_mapping W rq d))"
    "acts (requester W rq d) d (snd (put_sharing_request W rq d))"
  using assms
  by (auto simp: put_user_node_mapping_def initiate_mapping_def verify_mapping_def put_sharing_request_def
      request_mapping_acts verify_challenge_acts accept_or_decline_acts create_request_acts act.idle
      intro!: route_acts split: sum.splits)

lemma core_route_acts: "keeps_core h \<Longrightarrow> acts a d (snd (h W rq d))"
  by (rule acts_same [OF policy_core]) (simp add: keeps_core_def)

lemma entries_acts:
  "list_all (\<lambda>(m, t, h). \<forall>W rq d. db_ok d \<longrightarrow> acts (requester W rq d) d (snd (h W rq d))) app_routes"
  by (simp add: app_routes_def api_router_def v1_router_def include_router_def router_defs account_routes_acts
      node_routes_acts granting_routes_acts routes_core [THEN core_route_acts])

lemma serve_acts:
  assumes "db_ok d"
  shows "acts (requester W rq d) d (snd (serve W m ps rq d))"
proof (cases "find_route app_routes m ps")
  case None
  then show ?thesis by (simp add: serve_def act.idle)
next
  case (Some r)
  obtain h args where r: "r = (h, args)" by (cases r)
  let ?rq = "rq\<lparr>rq_path := args\<rparr>"
  obtain t where "(m, t, h) \<in> set app_routes" using find_route_entry Some r by blast
  with entries_acts assms have "acts (requester W ?rq d) d (snd (h W ?rq d))" by (fastforce simp: list_all_iff)
  then show ?thesis by (simp add: serve_def Some r split_beta requester_def)
qed

lemma dispatch_acts:
  assumes "db_ok d"
  shows "acts (case split_topic topic of Some (n, suff) \<Rightarrow> Device n | None \<Rightarrow> Nobody) d
    (snd (dispatch R clk mid topic pl d))"
proof (cases "\<exists>n. split_topic topic = Some (n, ''user/mapping'')")
  case True
  then obtain n where "split_topic topic = Some (n, ''user/mapping'')" by blast
  with assms show ?thesis
    by (auto simp: dispatch_def handler_of_def handle_user_mapping_acts act.idle split: option.splits json.splits)
next
  case False
  then show ?thesis by (intro acts_same policy_core dispatch_core) auto
qed

section \<open>Properties\<close>

text \<open>
  C1: the running system implements the sharing policy.  Every event on a consistent store, be it a
  request on any route, a message of a device or a provisioning, changes the policy by one act that the
  specification allows to the authenticated user of the request, or to the device of the topic, and
  to nobody else; and the access check lets a user through exactly when the policy permits it.
\<close>

theorem step_implements_policy:
  assumes "db_ok d" "step e d d'"
  shows "act (actor_of e d) (policy_of d) (policy_of d') \<and>
    (\<forall>u n. require_access u n d' = Inr () \<longleftrightarrow> permitted (policy_of d') u n)"
proof
  show "act (actor_of e d) (policy_of d) (policy_of d')"
    using assms(2,1)
  proof (induction rule: step.induct)
    case (http W m ps rq d out d')
    then show ?case using serve_acts [of d W rq m ps] by (simp add: requester_def)
  next
    case (mqtt W client topic payload d out d')
    then show ?case using dispatch_acts [of d topic "w_rt W" "w_clk W" "w_uuid W 0" payload] by simp
  next
    case (enrol row d d')
    then show ?case by (intro acts_same policy_core upsert_provisioning_core)
  qed
  have "db_ok d'" by (rule step_ok [OF assms(2,1)])
  then show "\<forall>u n. require_access u n d' = Inr () \<longleftrightarrow> permitted (policy_of d') u n"
    by (simp add: permitted_policy) (metis node_access.guard_pass node_access.guard_refuse sum.distinct(2))
qed

theorem step_implements_policy_witness:
  "act (Account 1 ''ann'') (policy_of asked_db) (policy_of owned_db) \<and>
    (\<forall>u n. require_access u n owned_db = Inr () \<longleftrightarrow> permitted (policy_of owned_db) u n)"
proof -
  have "caller sample_world proof_request asked_db = Inr member"
    unfolding proof_request_def
    by (rule member_login [OF n1_dbs_ok(2)]) (simp add: asked_db_def n1_db_def member_db_def)
  then have "actor_of proof_event asked_db = Account 1 ''ann''"
    by (simp add: proof_event_def member_def User_def)
  with step_implements_policy [OF n1_dbs_ok(2) proof_step] show ?thesis by simp
qed

end
