(* ===== verification/WellTyped.thy ===== *)
theory WellTyped
  imports System
begin

text \<open>
  The columns that the schema leaves wider than the code means them: states and roles are strings
  of bounded length, and pairs of nullable columns belong together.  \<open>well_typed\<close> says which values
  the rows of accounts, mappings, shares and requests take, and every event keeps it.
\<close>

section \<open>The types of the rows\<close>

definition user_typed :: "user \<Rightarrow> bool" where
  "user_typed u \<longleftrightarrow>
     (usr_status u = ''unconfirmed'' \<or> usr_status u = ''confirmed'' \<and> usr_confirm_code u = None) \<and>
     usr_password_hash u \<noteq> None \<and>
     (usr_confirm_code u = None \<longleftrightarrow> usr_confirm_code_exp u = None) \<and>
     (usr_reset_code u = None \<longleftrightarrow> usr_reset_code_exp u = None)"

text \<open>The two shapes of a mapping request: by secret key or by challenge, for a node, closed or not.\<close>

definition challenge_typed :: "mapping_challenge \<Rightarrow> bool" where
  "challenge_typed c \<longleftrightarrow>
     mc_node_id c \<noteq> None \<and> (mc_secret_key c = None \<longleftrightarrow> mc_challenge c \<noteq> None) \<and>
     (mc_completed_at c = None \<and> (mc_status c = ''pending'' \<or> mc_status c = ''expired'') \<or>
      mc_completed_at c \<noteq> None \<and> mc_status c = ''completed'')"

definition mapping_typed :: "user_node_mapping \<Rightarrow> bool" where
  "mapping_typed m \<longleftrightarrow> unm_role m = ''primary'' \<and> unm_primary m"

definition sharing_typed :: "node_sharing_row \<Rightarrow> bool" where
  "sharing_typed s \<longleftrightarrow> sh_role s = ''secondary''"

definition request_typed :: "node_sharing_request \<Rightarrow> bool" where
  "request_typed r \<longleftrightarrow> sr_status r \<in> {''pending'', ''accepted'', ''declined'', ''expired''}"

definition well_typed :: "db \<Rightarrow> bool" where
  "well_typed d \<longleftrightarrow> list_all user_typed (users d) \<and> list_all challenge_typed (mapping_challenges d) \<and>
     list_all mapping_typed (user_node_mappings d) \<and> list_all sharing_typed (node_sharings d) \<and>
     list_all request_typed (node_sharing_requests d)"

named_theorems typed_ok \<open>operations that keep the types of the rows\<close>

lemma well_typed_core: "core d' = core d \<Longrightarrow> well_typed d' = well_typed d"
  by (simp add: core_def well_typed_def)

lemma well_typed_frame:
  "users d' = users d \<Longrightarrow> mapping_challenges d' = mapping_challenges d \<Longrightarrow>
   user_node_mappings d' = user_node_mappings d \<Longrightarrow> node_sharings d' = node_sharings d \<Longrightarrow>
   node_sharing_requests d' = node_sharing_requests d \<Longrightarrow> well_typed d \<Longrightarrow> well_typed d'"
  by (simp add: well_typed_def)

lemma list_all_update_where:
  "list_all p xs \<Longrightarrow> (\<And>x. x \<in> set xs \<Longrightarrow> q x \<Longrightarrow> p x \<Longrightarrow> p (f x)) \<Longrightarrow> list_all p (update_where q f xs)"
  by (auto simp: update_where_def list_all_iff)

lemma list_all_delete_where: "list_all p xs \<Longrightarrow> list_all p (delete_where q xs)"
  by (auto simp: list_all_iff)

section \<open>Accounts\<close>

lemma write_user_typed:
  assumes "well_typed d" "\<And>v. user_typed v \<Longrightarrow> user_typed (f v)"
  shows "well_typed (write_user u f d)"
  using assms by (auto simp: well_typed_def write_user_def intro: list_all_update_where)

lemma auth_typed [typed_ok]:
  assumes "well_typed d"
  shows "well_typed (snd (signup L clk salt n uid nm pw d))"
    "well_typed (snd (confirm_signup clk nm code d))"
    "well_typed (snd (login_password L S clk jti rid nm pw d))"
    "well_typed (snd (change_password L salt u pw new d))"
    "well_typed (snd (request_password_reset clk n nm d))"
    "well_typed (snd (confirm_password_reset L clk salt nm code pw d))"
proof -
  show "well_typed (snd (signup L clk salt n uid nm pw d))"
    using assms
    by (auto simp: signup_def Let_def insert_user_Inr well_typed_def user_typed_def User_def split: attempt_splits)
  show "well_typed (snd (confirm_signup clk nm code d))"
    using assms by (auto simp: confirm_signup_def Let_def user_typed_def intro!: write_user_typed
        split: attempt_splits option.splits)
  show "well_typed (snd (login_password L S clk jti rid nm pw d))"
    using assms by (auto simp: login_password_def Let_def user_typed_def well_typed_core [OF mint_token_triple_core]
        intro!: write_user_typed split: attempt_splits option.splits)
  show "well_typed (snd (change_password L salt u pw new d))"
    using assms by (auto simp: change_password_def user_typed_def intro!: write_user_typed
        split: attempt_splits option.splits)
  show "well_typed (snd (request_password_reset clk n nm d))"
    using assms by (auto simp: request_password_reset_def Let_def user_typed_def intro!: write_user_typed
        split: attempt_splits option.splits)
  show "well_typed (snd (confirm_password_reset L clk salt nm code pw d))"
    using assms by (auto simp: confirm_password_reset_def Let_def user_typed_def intro!: write_user_typed
        split: attempt_splits option.splits)
qed

lemma delete_user_typed [typed_ok]: "well_typed d \<Longrightarrow> well_typed (delete_user u d)"
  by (simp add: delete_user_def purge_user_def well_typed_def cascade_groups_def list_all_delete_where)

section \<open>Mappings\<close>

lemma ensure_mapping_typed: "ensure_mapping mid u n d = Inr d' \<Longrightarrow> well_typed d \<Longrightarrow> well_typed d'"
  by (auto simp: ensure_mapping_def insert_mapping_Inr well_typed_def mapping_typed_def split: option.splits sum.splits)

lemma complete_challenge_typed: "well_typed d \<Longrightarrow> well_typed (complete_challenge c t d)"
  by (auto simp: complete_challenge_def well_typed_def challenge_typed_def intro!: list_all_update_where)

text \<open>Expiry writes the status only: it is applied to a pending request, and identifiers are unique.\<close>

lemma expire_challenge_typed:
  assumes ok: "db_ok d" and c: "c \<in> set (mapping_challenges d)" "mc_status c = ''pending''" and t: "well_typed d"
  shows "well_typed (expire_challenge c d)"
proof -
  have "mc_status x = ''pending''" if "x \<in> set (mapping_challenges d)" "mc_id x = mc_id c" for x
    using challenges_by_id.row_unique [OF challenge_keys [OF ok] that(1) c(1)] that(2) c(2) by simp
  then have "list_all challenge_typed (mapping_challenges (expire_challenge c d))"
    using t by (auto simp: expire_challenge_def well_typed_def challenge_typed_def intro!: list_all_update_where)
  with t show ?thesis by (simp add: well_typed_def expire_challenge_def)
qed

lemma mapping_typed_ok [typed_ok]:
  assumes "db_ok d" "well_typed d"
  shows "well_typed (snd (request_legacy_mapping clk cid rid uid nid sk oper d))"
    "well_typed (snd (initiate_challenge clk cid rid chal uid nid d))"
    "well_typed (snd (verify_challenge clk mid uid rid resp d))"
    "well_typed (snd (handle_user_mapping clk mid nid v d))"
proof -
  show "well_typed (snd (request_legacy_mapping clk cid rid uid nid sk oper d))"
    "well_typed (snd (initiate_challenge clk cid rid chal uid nid d))"
    using assms by (auto simp: request_legacy_mapping_def initiate_challenge_def insert_challenge_Inr well_typed_def
        challenge_typed_def MappingChallenge_def split: attempt_splits)
  show "well_typed (snd (verify_challenge clk mid uid rid resp d))"
    using assms by (auto simp: verify_challenge_def intro: complete_challenge_typed ensure_mapping_typed
        split: attempt_splits option.splits)
  show "well_typed (snd (handle_user_mapping clk mid nid v d))"
    using assms by (auto simp: handle_user_mapping_def intro: complete_challenge_typed ensure_mapping_typed
        expire_challenge_typed dest!: pending_secret_one split: json.splits attempt_splits option.splits)
qed

section \<open>Sharing and groups\<close>

lemma set_request_status_typed:
  "well_typed d \<Longrightarrow> st \<in> {''accepted'', ''declined'', ''expired''} \<Longrightarrow> well_typed (set_request_status i st d)"
  by (auto simp: set_request_status_def well_typed_def request_typed_def intro!: list_all_update_where)

lemma ensure_share_typed: "ensure_share sid u r d = Inr d' \<Longrightarrow> well_typed d \<Longrightarrow> well_typed d'"
  by (auto simp: ensure_share_def insert_sharing_Inr well_typed_def sharing_typed_def split: option.splits sum.splits)

lemma sharing_typed_ok [typed_ok]:
  assumes "well_typed d"
  shows "well_typed (snd (create_request clk rids u vs v d))"
    "well_typed (snd (accept_or_decline clk sid u nm rid acc d))"
    "well_typed (snd (revoke_share owner ns name d))"
proof -
  show "well_typed (snd (create_request clk rids u vs v d))"
    using assms by (auto simp: create_request_def well_typed_def request_typed_def sharing_request_def list_all_iff
        in_set_enumerate_eq dest!: add_requests_rows split: attempt_splits)
  show "well_typed (snd (accept_or_decline clk sid u nm rid acc d))"
    using assms by (auto simp: accept_or_decline_def intro: set_request_status_typed ensure_share_typed
        split: attempt_splits option.splits)
  have "well_typed d'" if "revoke_loop owner i ns d = Inr d'" for i d'
  proof -
    have "d' = d\<lparr>node_sharings := node_sharings d'\<rparr>" "set (node_sharings d') \<subseteq> set (node_sharings d)"
      using revoke_loop_shrinks [OF that] by auto
    with assms show ?thesis by (cases d, cases d') (auto simp: well_typed_def list_all_iff)
  qed
  with assms show "well_typed (snd (revoke_share owner ns name d))"
    by (auto simp: revoke_share_def split: attempt_splits option.splits)
qed

lemma group_typed [typed_ok]:
  assumes "well_typed d"
  shows "well_typed (snd (create_group gid mids oid nm p t x nds md d))" "well_typed (snd (delete_group oid gid d))"
proof -
  have "well_typed d'" if "insert_group g d = Inr d1" "core d' = core d1" for g d1 d'
    using that(1) assms unfolding well_typed_core [OF that(2)] by (auto simp: insert_group_Inr well_typed_def)
  with assms show "well_typed (snd (create_group gid mids oid nm p t x nds md d))"
    by (auto simp: create_group_def Let_def dest!: add_members_core split: attempt_splits)
  show "well_typed (snd (delete_group oid gid d))"
    using assms
    by (auto simp: delete_group_def cascade_groups_def well_typed_def split: attempt_splits option.splits)
qed

section \<open>Routes and messages\<close>

lemmas route_typed = attempt_inv [where P = well_typed] andthen_inv [where P = well_typed] with_user_inv [where P = well_typed]
  valid_inv [where P = well_typed] as_text_inv [where P = well_typed] if_inv [where P = well_typed]

lemma account_routes_typed:
  assumes "well_typed d"
  shows "well_typed (snd (login2 W rq d))" "well_typed (snd (signup_route W rq d))"
    "well_typed (snd (confirm_signup_or_update W rq d))" "well_typed (snd (change_password_route W rq d))"
    "well_typed (snd (forgot_password W rq d))" "well_typed (snd (delete_current_user W rq d))"
  using assms
  by (auto simp: login2_def signup_route_def signup_exchange_def confirm_signup_or_update_def change_password_route_def
      forgot_password_def forgot_password_exchange_def
      delete_current_user_def typed_ok intro!: route_typed split: option.splits)

lemma node_routes_typed:
  assumes "db_ok d" "well_typed d"
  shows "well_typed (snd (put_custom_data W rq d))" "well_typed (snd (create_group_route W rq d))"
    "well_typed (snd (delete_user_node_group W rq d))" "well_typed (snd (delete_user_node W rq d))"
    "well_typed (snd (revoke_sharing W rq d))" "well_typed (snd (put_user_node_mapping W rq d))"
    "well_typed (snd (initiate_mapping W rq d))" "well_typed (snd (verify_mapping W rq d))"
    "well_typed (snd (put_sharing_request W rq d))"
proof -
  have "well_typed (d\<lparr>user_node_mappings := delete_where q (user_node_mappings d)\<rparr>)" for q
    using assms by (simp add: well_typed_def list_all_delete_where)
  then show "well_typed (snd (delete_user_node W rq d))"
    using assms by (auto simp: delete_user_node_def intro!: route_typed split: option.splits)
  show "well_typed (snd (put_custom_data W rq d))"
    using assms by (auto simp: put_custom_data_def user_typed_def intro!: route_typed write_user_typed split: option.splits)
qed (use assms in \<open>auto simp: create_group_route_def delete_user_node_group_def revoke_sharing_def put_user_node_mapping_def
    initiate_mapping_def verify_mapping_def put_sharing_request_def typed_ok intro!: route_typed
    split: option.splits sum.splits\<close>)

lemma core_route_typed: "keeps_core h \<Longrightarrow> well_typed d \<Longrightarrow> well_typed (snd (h W rq d))"
  by (subst well_typed_core [where d = d]) (simp_all add: keeps_core_def)

lemma entries_typed:
  "list_all (\<lambda>(m, t, h). \<forall>W rq d. db_ok d \<longrightarrow> well_typed d \<longrightarrow> well_typed (snd (h W rq d))) app_routes"
  by (simp add: app_routes_def api_router_def v1_router_def include_router_def router_defs account_routes_typed
      node_routes_typed routes_core [THEN core_route_typed])

lemma serve_typed:
  assumes "db_ok d" "well_typed d"
  shows "well_typed (snd (serve W m ps rq d))"
proof (cases "find_route app_routes m ps")
  case None
  with assms show ?thesis by (simp add: serve_def)
next
  case (Some r)
  obtain h args where r: "r = (h, args)" by (cases r)
  obtain t where "(m, t, h) \<in> set app_routes" using find_route_entry Some r by blast
  with entries_typed assms have "well_typed (snd (h W (rq\<lparr>rq_path := args\<rparr>) d))" by (fastforce simp: list_all_iff)
  then show ?thesis by (simp add: serve_def Some r split_beta)
qed

lemma dispatch_typed:
  assumes "db_ok d" "well_typed d"
  shows "well_typed (snd (dispatch R clk mid topic pl d))"
proof (cases "\<exists>n. split_topic topic = Some (n, ''user/mapping'')")
  case True
  then obtain n where "split_topic topic = Some (n, ''user/mapping'')" by blast
  with assms show ?thesis
    by (auto simp: dispatch_def handler_of_def typed_ok split: option.splits json.splits)
next
  case False
  then have "core (snd (dispatch R clk mid topic pl d)) = core d" by (intro dispatch_core) auto
  from well_typed_core [OF this] assms show ?thesis by simp
qed

lemma step_typed: "step e d d' \<Longrightarrow> db_ok d \<Longrightarrow> well_typed d \<Longrightarrow> well_typed d'"
proof (induction rule: step.induct)
  case (http W m ps rq d out d')
  then show ?case using serve_typed [of d W m ps rq] by simp
next
  case (mqtt W client topic payload d out d')
  then show ?case using dispatch_typed [of d "w_rt W" "w_clk W" "w_uuid W 0" topic payload] by simp
next
  case (enrol row d d')
  then show ?case using well_typed_core [OF upsert_provisioning_core] by blast
qed

section \<open>Properties\<close>

text \<open>
  C5: the rows keep their types.  In every run from a consistent and well-typed store, an account is
  unconfirmed or confirmed and then without a confirmation code, its codes have an expiry exactly
  when they exist, a mapping request has one of its two shapes, is for a node, and has a completion
  time exactly when it is completed, a mapping is primary, a share secondary, and an invitation
  pending, accepted, declined or expired.
\<close>

theorem run_typed:
  assumes "steps d0 es d" "db_ok d0" "well_typed d0"
  shows "well_typed d"
proof -
  have "db_ok d \<and> well_typed d"
    using assms by (induction rule: steps.induct) (auto intro: step_ok step_typed)
  then show ?thesis by simp
qed

theorem run_typed_witness: "well_typed shared_db"
proof (rule run_typed [OF sharing_run n1_dbs_ok(3)])
  show "well_typed owned_db"
    by (simp add: well_typed_def owned_db_def n1_db_def n1_challenge_def MappingChallenge_def member_db_def member_def
        User_def empty_db_def user_typed_def challenge_typed_def mapping_typed_def)
qed

end
