(* ===== verification/GenPki.thy ===== *)
theory GenPki
  imports Pki
begin

text \<open>
  \<open>scripts/gen_pki.py\<close>: the test authority and the two server certificates, written to files that
  the backend, the broker and the ingress mount.  A run returns the exception that ended it, if
  one did, with the files written until then, in order.
\<close>

section \<open>The script\<close>

type_synonym files = "(string \<times> string) list"

definition server_template ::
  "certificate \<Rightarrow> string \<Rightarrow> string \<Rightarrow> (string \<times> string) list \<Rightarrow> nat \<Rightarrow> datetime \<Rightarrow> cert_template" where
  "server_template icert cn key names serial now = \<lparr>
     ct_subject = [(''CN'', cn)], ct_issuer = ct_subject (crt_template icert), ct_public_key = key,
     ct_serial = serial, ct_not_before = now - minutes 1, ct_not_after = now + days (365 * 5),
     ct_ca = False, ct_path_length = None,
     ct_key_usage = [''digital_signature'', ''key_encipherment'', ''key_agreement''],
     ct_ext_key_usage = [''server_auth''], ct_alt_names = names,
     ct_subject_key_id = Some key, ct_authority_key_id = Some (ct_public_key (crt_template icert))\<rparr>"

definition broker_names :: "(string \<times> string) list" where
  "broker_names = [(''DNS'', ''vernemq''), (''DNS'', ''localhost''), (''IP'', ''127.0.0.1'')]"

definition ingress_names :: "(string \<times> string) list" where
  "ingress_names = [(''DNS'', ''api.local''), (''DNS'', ''claim.local''), (''DNS'', ''node.local''),
     (''DNS'', ''localhost''), (''IP'', ''127.0.0.1'')]"

record key_draws =
  kd_root :: string
  kd_inter :: string
  kd_server :: string
  kd_nginx :: string

definition root_name :: x509_name where
  "root_name = distinguished_name ''FR'' ''ESP RainMaker Self-Hosted'' ''ESP RainMaker Root CA''"

definition inter_name :: x509_name where
  "inter_name = distinguished_name ''FR'' ''ESP RainMaker Self-Hosted'' ''ESP RainMaker Intermediate CA''"

definition gen_pki :: "x509_lib \<Rightarrow> datetime \<Rightarrow> key_draws \<Rightarrow> (nat \<Rightarrow> nat) \<Rightarrow> (string + unit) \<times> files" where
  "gen_pki X now K serial =
     (case sign_cert X (ca_template root_name root_name (public_key X (kd_root K)) (serial 0) now (365 * 20) 1)
             (kd_root K) of
        Inl e \<Rightarrow> (Inl e, [])
      | Inr root_cert \<Rightarrow>
          let out = [(''ca-root.pem'', crt_pem root_cert), (''ca-root.key'', private_pem X (kd_root K))]
          in case sign_cert X (ca_template inter_name root_name (public_key X (kd_inter K)) (serial 1) now (365 * 10) 0)
                    (kd_root K) of
               Inl e \<Rightarrow> (Inl e, out)
             | Inr inter_cert \<Rightarrow>
                 let out = out @ [(''ca-intermediate.pem'', crt_pem inter_cert),
                       (''ca-intermediate.key'', private_pem X (kd_inter K)),
                       (''ca-chain.pem'', crt_pem inter_cert @ crt_pem root_cert)]
                 in case sign_cert X (server_template inter_cert ''vernemq'' (public_key X (kd_server K)) broker_names
                           (serial 2) now) (kd_inter K) of
                      Inl e \<Rightarrow> (Inl e, out)
                    | Inr server_cert \<Rightarrow>
                        let out = out @ [(''server.pem'', crt_pem server_cert),
                              (''server.key'', private_pem X (kd_server K))]
                        in case sign_cert X (server_template inter_cert ''rainmaker-ingress''
                                  (public_key X (kd_nginx K)) ingress_names (serial 3) now) (kd_inter K) of
                             Inl e \<Rightarrow> (Inl e, out)
                           | Inr nginx_cert \<Rightarrow>
                               (Inr (), out @ [(''nginx.pem'', crt_pem nginx_cert),
                                  (''nginx.key'', private_pem X (kd_nginx K)),
                                  (''nginx-chain.pem'', crt_pem nginx_cert @ crt_pem inter_cert)]))"

section \<open>Reading the files back\<close>

text \<open>
  What the library documents of its PEM functions, and a directory that holds the files: reading
  a path below it yields the file.
\<close>

definition pem_faithful :: "x509_lib \<Rightarrow> bool" where
  "pem_faithful X \<longleftrightarrow> (\<forall>t k c. sign_cert X t k = Inr c \<longrightarrow> load_cert X (crt_pem c) = Inr c) \<and>
     (\<forall>k. load_key X (private_pem X k) = Inr (True, k))"

definition mounted :: "x509_lib \<Rightarrow> string \<Rightarrow> files \<Rightarrow> bool" where
  "mounted X dir fs \<longleftrightarrow> list_all (\<lambda>(name, content). read_file X (dir @ name) = Inr content) fs"

definition mounted_settings :: "string \<Rightarrow> settings \<Rightarrow> settings" where
  "mounted_settings dir S = S\<lparr>pki_ca_cert_path := Some (dir @ ''ca-intermediate.pem''),
     pki_ca_key_path := Some (dir @ ''ca-intermediate.key''),
     pki_ca_root_cert_path := Some (dir @ ''ca-root.pem'')\<rparr>"

lemma gen_pki_Inr:
  assumes "gen_pki X now K serial = (Inr (), fs)"
  obtains root_cert inter_cert server_cert nginx_cert where
    "sign_cert X (ca_template root_name root_name (public_key X (kd_root K)) (serial 0) now (365 * 20) 1)
       (kd_root K) = Inr root_cert"
    "sign_cert X (ca_template inter_name root_name (public_key X (kd_inter K)) (serial 1) now (365 * 10) 0)
       (kd_root K) = Inr inter_cert"
    "sign_cert X (server_template inter_cert ''vernemq'' (public_key X (kd_server K)) broker_names (serial 2) now)
       (kd_inter K) = Inr server_cert"
    "sign_cert X (server_template inter_cert ''rainmaker-ingress'' (public_key X (kd_nginx K)) ingress_names
       (serial 3) now) (kd_inter K) = Inr nginx_cert"
    "fs = [(''ca-root.pem'', crt_pem root_cert), (''ca-root.key'', private_pem X (kd_root K)),
       (''ca-intermediate.pem'', crt_pem inter_cert), (''ca-intermediate.key'', private_pem X (kd_inter K)),
       (''ca-chain.pem'', crt_pem inter_cert @ crt_pem root_cert), (''server.pem'', crt_pem server_cert),
       (''server.key'', private_pem X (kd_server K)), (''nginx.pem'', crt_pem nginx_cert),
       (''nginx.key'', private_pem X (kd_nginx K)), (''nginx-chain.pem'', crt_pem nginx_cert @ crt_pem inter_cert)]"
  using assms by (auto simp: gen_pki_def Let_def split: sum.split_asm)

lemma server_certified:
  assumes X: "x509_faithful X"
    and rcert: "sign_cert X (ca_template rn rn (public_key X rk) rs t0 (365 * 20) 1) rk = Inr rcert"
    and icert: "sign_cert X (ca_template iname rn (public_key X ik) is t0 (365 * 10) 0) rk = Inr icert"
    and leaf: "sign_cert X (server_template icert cn key names ss t0) ik = Inr cert"
  shows "path_ok 0 [cert, icert, rcert] \<and> lives_inside cert icert \<and> lives_inside icert rcert"
proof -
  note f = faithful_cert [OF X rcert] faithful_cert [OF X icert] faithful_cert [OF X leaf]
  have "path_ok 0 [cert, icert, rcert]"
    by (rule authority_path [OF X rcert icert leaf]) (simp add: server_template_def f(11) ca_template_def)
  moreover have "lives_inside cert icert" "lives_inside icert rcert"
    by (auto simp: lives_inside_def f ca_template_def server_template_def intro!: whole_second_mono)
  ultimately show ?thesis by blast
qed

section \<open>Properties\<close>

text \<open>
  C26: the generated files are an authority the backend can use.  After a run of the script at
  \<open>t0\<close>, the certificates in \<open>server.pem\<close> and \<open>nginx.pem\<close> have valid paths to the generated root, and
  a backend whose settings point at the files loads the root and the intermediate, and signs device
  certificates with valid paths to the same root, which end with the intermediate or before as long
  as its ten years are not over within the validity of a device certificate (five years by default).
\<close>

theorem generated_authority:
  assumes X: "x509_faithful X" "pem_faithful X" and gen: "gen_pki X t0 K serial = (Inr (), fs)"
    and mnt: "mounted X dir fs"
    and sign: "sign_device_csr X (mounted_settings dir S) now bits csr nid None = Inr (pem, ser, nb, na)"
    and time: "t0 \<le> now" "now + days (cert_validity_days S) \<le> t0 + days 3650"
  shows "\<exists>cert icert rcert server nginx.
    load_root_cert X (mounted_settings dir S) = Inr rcert \<and>
    load_intermediate_ca X (mounted_settings dir S) = Inr (icert, kd_inter K) \<and>
    pem = crt_pem cert @ crt_pem icert \<and>
    path_ok 0 [cert, icert, rcert] \<and> path_ok 0 [server, icert, rcert] \<and> path_ok 0 [nginx, icert, rcert] \<and>
    lives_inside cert icert \<and> lives_inside server icert \<and> lives_inside nginx icert \<and>
    map_of fs ''server.pem'' = Some (crt_pem server) \<and>
    map_of fs ''nginx-chain.pem'' = Some (crt_pem nginx @ crt_pem icert)"
proof (rule gen_pki_Inr [OF gen])
  fix rcert icert server nginx
  assume r: "sign_cert X (ca_template root_name root_name (public_key X (kd_root K)) (serial 0) t0 (365 * 20) 1)
       (kd_root K) = Inr rcert"
    and i: "sign_cert X (ca_template inter_name root_name (public_key X (kd_inter K)) (serial 1) t0 (365 * 10) 0)
       (kd_root K) = Inr icert"
    and s: "sign_cert X (server_template icert ''vernemq'' (public_key X (kd_server K)) broker_names (serial 2) t0)
       (kd_inter K) = Inr server"
    and n: "sign_cert X (server_template icert ''rainmaker-ingress'' (public_key X (kd_nginx K)) ingress_names
       (serial 3) t0) (kd_inter K) = Inr nginx"
    and fs: "fs = [(''ca-root.pem'', crt_pem rcert), (''ca-root.key'', private_pem X (kd_root K)),
       (''ca-intermediate.pem'', crt_pem icert), (''ca-intermediate.key'', private_pem X (kd_inter K)),
       (''ca-chain.pem'', crt_pem icert @ crt_pem rcert), (''server.pem'', crt_pem server),
       (''server.key'', private_pem X (kd_server K)), (''nginx.pem'', crt_pem nginx),
       (''nginx.key'', private_pem X (kd_nginx K)), (''nginx-chain.pem'', crt_pem nginx @ crt_pem icert)]"
  have rl: "load_root_cert X (mounted_settings dir S) = Inr rcert"
    and il: "load_intermediate_ca X (mounted_settings dir S) = Inr (icert, kd_inter K)"
    using mnt X(2) r i
    by (auto simp: load_root_cert_def load_intermediate_ca_def read_cert_def mounted_settings_def mounted_def fs
        pem_faithful_def)
  have "\<exists>cert. pem = crt_pem cert @ crt_pem icert \<and> path_ok 0 [cert, icert, rcert] \<and> lives_inside cert icert \<and>
    lives_inside icert rcert \<and> ct_subject (crt_template cert) = [(''CN'', nid)] \<and> \<not> ct_ca (crt_template cert)"
    by (rule device_certified [OF X(1) il r i sign time(1)]) (use time in \<open>simp_all add: mounted_settings_def\<close>)
  with rl il server_certified [OF X(1) r i s] server_certified [OF X(1) r i n] show ?thesis
    by (auto simp: fs)
qed

text \<open>A library that signs the five certificates of one run and reads them back.\<close>

definition issue :: "cert_template \<Rightarrow> string \<Rightarrow> string \<Rightarrow> certificate" where
  "issue t k p = \<lparr>crt_template = t\<lparr>ct_not_before := whole_second (ct_not_before t),
     ct_not_after := whole_second (ct_not_after t)\<rparr>, crt_signed_by = ''pub-'' @ k, crt_pem = p\<rparr>"

definition root0 :: cert_template where
  "root0 = ca_template root_name root_name ''pub-r'' 0 0 (365 * 20) 1"

definition inter0 :: cert_template where
  "inter0 = ca_template inter_name root_name ''pub-i'' 1 0 (365 * 10) 0"

definition icert0 :: certificate where
  "icert0 = issue inter0 ''r'' ''I''"

definition issued :: "(string \<times> certificate) list" where
  "issued = [(''r'', issue root0 ''r'' ''R''), (''r'', icert0),
     (''i'', issue (server_template icert0 ''vernemq'' ''pub-s'' broker_names 2 0) ''i'' ''S''),
     (''i'', issue (server_template icert0 ''rainmaker-ingress'' ''pub-n'' ingress_names 3 0) ''i'' ''N''),
     (''i'', issue (device_template icert0 ''key'' 5 0 1825 ''n1'') ''i'' ''D'')]"

definition lookup_cert :: "(string \<times> certificate \<Rightarrow> bool) \<Rightarrow> string + certificate" where
  "lookup_cert p = (case filter p issued of [] \<Rightarrow> Inl ''Unable to load PEM file'' | c # cs \<Rightarrow> Inr (snd c))"

definition disk_x509 :: x509_lib where
  "disk_x509 = \<lparr>
     load_csr = (\<lambda>csr. Inr (True, ''key'')),
     read_file = (\<lambda>path. case map_of [(''/ca-root.pem'', ''R''), (''/ca-root.key'', ''KEY:r''),
         (''/ca-intermediate.pem'', ''I''), (''/ca-intermediate.key'', ''KEY:i''), (''/ca-chain.pem'', ''IR''),
         (''/server.pem'', ''S''), (''/server.key'', ''KEY:s''), (''/nginx.pem'', ''N''), (''/nginx.key'', ''KEY:n''),
         (''/nginx-chain.pem'', ''NI'')] path of None \<Rightarrow> Inl ''No such file'' | Some c \<Rightarrow> Inr c),
     load_cert = (\<lambda>pem. lookup_cert (\<lambda>p. crt_pem (snd p) = pem)),
     load_key = (\<lambda>pem. Inr (True, drop 4 pem)),
     public_key = (\<lambda>k. ''pub-'' @ k), private_pem = (\<lambda>k. ''KEY:'' @ k),
     sign_cert = (\<lambda>t k. lookup_cert (\<lambda>p. fst p = k \<and> crt_signed_by (snd p) = ''pub-'' @ k \<and>
       crt_template (snd p) = crt_template (issue t k []))),
     cached_chain = Inl ''none''\<rparr>"

definition keys0 :: key_draws where
  "keys0 = \<lparr>kd_root = ''r'', kd_inter = ''i'', kd_server = ''s'', kd_nginx = ''n''\<rparr>"

lemma lookup_cert_Inr: "lookup_cert p = Inr c \<Longrightarrow> \<exists>k. (k, c) \<in> set issued \<and> p (k, c)"
proof -
  assume "lookup_cert p = Inr c"
  then obtain k cs where "filter p issued = (k, c) # cs" by (auto simp: lookup_cert_def split: list.split_asm)
  then have "(k, c) \<in> set (filter p issued)" by simp
  then show ?thesis by auto
qed

lemma issue_pem [simp]: "crt_pem (issue t k p) = p" "crt_pem icert0 = ''I''"
  by (simp_all add: issue_def icert0_def)

lemma filter_key: "distinct (map f xs) \<Longrightarrow> x \<in> set xs \<Longrightarrow> filter (\<lambda>y. f y = f x) xs = [x]"
  by (induction xs) (auto simp: filter_empty_conv image_iff)

lemma issued_pems: "map (\<lambda>p. crt_pem (snd p)) issued = [''R'', ''I'', ''S'', ''N'', ''D'']"
  by (simp add: issued_def)

lemma lookup_pem: "(k, c) \<in> set issued \<Longrightarrow> lookup_cert (\<lambda>p. crt_pem (snd p) = crt_pem c) = Inr c"
  using filter_key [of "\<lambda>p. crt_pem (snd p)" issued "(k, c)"]
  by (simp add: issued_pems lookup_cert_def)

lemma disk_faithful: "x509_faithful disk_x509" "pem_faithful disk_x509"
proof -
  show "x509_faithful disk_x509"
    by (auto simp: x509_faithful_def disk_x509_def issue_def dest!: lookup_cert_Inr)
  show "pem_faithful disk_x509"
    by (auto simp: pem_faithful_def disk_x509_def lookup_pem dest!: lookup_cert_Inr)
qed

lemma disk_run:
  "gen_pki disk_x509 0 keys0 id = (Inr (), [(''ca-root.pem'', ''R''), (''ca-root.key'', ''KEY:r''),
     (''ca-intermediate.pem'', ''I''), (''ca-intermediate.key'', ''KEY:i''), (''ca-chain.pem'', ''IR''),
     (''server.pem'', ''S''), (''server.key'', ''KEY:s''), (''nginx.pem'', ''N''), (''nginx.key'', ''KEY:n''),
     (''nginx-chain.pem'', ''NI'')])"
  by (simp add: gen_pki_def disk_x509_def keys0_def lookup_cert_def issued_def issue_def icert0_def root0_def
      inter0_def root_name_def inter_name_def distinguished_name_def ca_template_def server_template_def
      device_template_def)

lemma disk_sign:
  "sign_device_csr disk_x509 (mounted_settings ''/'' default_settings) 0 5 ''CSR'' ''n1'' None =
     Inr (''DI'', ''5'', whole_second (- minutes 1), whole_second (days 1825))"
  by (simp add: sign_device_csr_def load_intermediate_ca_def read_cert_def mounted_settings_def disk_x509_def
      lookup_cert_def issued_def issue_def icert0_def root0_def inter0_def root_name_def inter_name_def
      distinguished_name_def ca_template_def server_template_def device_template_def default_settings_def
      odd_serial_def hex_str.simps hex_char_def char_of_eq_iff)

theorem generated_authority_witness:
  "\<exists>cert icert rcert server nginx.
    load_root_cert disk_x509 (mounted_settings ''/'' default_settings) = Inr rcert \<and>
    load_intermediate_ca disk_x509 (mounted_settings ''/'' default_settings) = Inr (icert, ''i'') \<and>
    ''DI'' = crt_pem cert @ crt_pem icert \<and>
    path_ok 0 [cert, icert, rcert] \<and> path_ok 0 [server, icert, rcert] \<and> path_ok 0 [nginx, icert, rcert] \<and>
    lives_inside cert icert \<and> lives_inside server icert \<and> lives_inside nginx icert"
  using generated_authority [OF disk_faithful disk_run _ disk_sign]
  by (simp add: mounted_def disk_x509_def [THEN arg_cong, of read_file] keys0_def
      default_settings_def [THEN arg_cong, of cert_validity_days]) blast

end
