(* ===== verification/Migrations.thy ===== *)
theory Migrations
  imports Config
begin

text \<open>
  The schema as code: the five migrations under \<open>alembic/versions\<close>, the declarative classes under
  \<open>app/models\<close> with \<open>app/db/base.py\<close>, and \<open>alembic/env.py\<close>.  A migration is the list of its \<open>op\<close> calls;
  \<open>run_ddl\<close> runs such a list on a schema with the checks that PostgreSQL makes of each (names, columns and
  referenced keys exist, no relation is created twice, no referenced table is dropped).  A class is the list of its
  columns; \<open>table_of\<close> is the table that the shared metadata has for it.
\<close>

section \<open>Schemas\<close>

datatype sql_type = TUuid | TVarchar int | TText | TBoolean | TInteger | TBigInteger | TFloat | TTimestamptz
  | TBytea | TJson | TJsonb | TInherited

record foreign_key =
  fk_name :: string
  fk_table :: string
  fk_column :: string
  fk_on_delete_cascade :: bool

record sql_column =
  col_name :: string
  col_type :: sql_type
  col_nullable :: bool
  col_primary_key :: bool
  col_default :: "string option"
  col_fk :: "foreign_key option"

record sql_table =
  tbl_name :: string
  tbl_columns :: "sql_column list"
  tbl_uniques :: "(string \<times> string list) list"

record sql_index =
  ix_name :: string
  ix_table :: string
  ix_columns :: "string list"
  ix_unique :: bool

record schema =
  sch_tables :: "sql_table list"
  sch_indexes :: "sql_index list"
  sch_extensions :: "string list"
  sch_hypertables :: "string list"

definition empty_schema :: schema where
  "empty_schema = \<lparr>sch_tables = [], sch_indexes = [], sch_extensions = [], sch_hypertables = []\<rparr>"

definition Nullable :: "string \<Rightarrow> sql_type \<Rightarrow> sql_column" where
  "Nullable n ty = \<lparr>col_name = n, col_type = ty, col_nullable = True, col_primary_key = False, col_default = None, col_fk = None\<rparr>"

definition NotNull :: "string \<Rightarrow> sql_type \<Rightarrow> sql_column" where
  "NotNull n ty = (Nullable n ty)\<lparr>col_nullable := False\<rparr>"

definition Pkey :: "string \<Rightarrow> sql_type \<Rightarrow> sql_column" where
  "Pkey n ty = (NotNull n ty)\<lparr>col_primary_key := True\<rparr>"

definition cascade :: "string \<Rightarrow> string \<Rightarrow> string \<Rightarrow> foreign_key" where
  "cascade n t c = \<lparr>fk_name = n, fk_table = t, fk_column = c, fk_on_delete_cascade = True\<rparr>"

section \<open>Running migrations\<close>

datatype ddl =
    CreateTable sql_table
  | CreateIndex string string "string list" bool
  | DropTable string
  | CreateExtension string
  | CreateHypertable string string

datatype ddl_error = DuplicateRelation | DuplicateColumn | UndefinedTable | UndefinedColumn | InvalidForeignKey
  | DependentObjectsStillExist | UndefinedFile | UndefinedFunction | BadPartitioning | IdentifierError

text \<open>Tables, indexes and the indexes of keys share one name space; the name of a primary key is that of the naming convention.\<close>

definition primary_key :: "sql_table \<Rightarrow> string list" where
  "primary_key t = map col_name (filter col_primary_key (tbl_columns t))"

definition pk_name :: "string \<Rightarrow> string" where
  "pk_name t = ''pk_'' @ t"

definition table_relations :: "sql_table \<Rightarrow> string list" where
  "table_relations t = tbl_name t # (if primary_key t = [] then [] else [pk_name (tbl_name t)]) @ map fst (tbl_uniques t)"

definition relation_names :: "schema \<Rightarrow> string list" where
  "relation_names s = concat (map table_relations (sch_tables s)) @ map ix_name (sch_indexes s)"

definition column_names :: "sql_table \<Rightarrow> string list" where
  "column_names t = map col_name (tbl_columns t)"

definition keys_of :: "sql_table \<Rightarrow> string list list" where
  "keys_of t = (if primary_key t = [] then [] else [primary_key t]) @ map snd (tbl_uniques t)"

definition table_fks :: "sql_table \<Rightarrow> foreign_key list" where
  "table_fks t = List.map_filter col_fk (tbl_columns t)"

definition lookup_table :: "string \<Rightarrow> sql_table list \<Rightarrow> sql_table option" where
  "lookup_table n ts = find (\<lambda>t. tbl_name t = n) ts"

definition fk_target :: "sql_table list \<Rightarrow> foreign_key \<Rightarrow> ddl_error option" where
  "fk_target ts k = (case lookup_table (fk_table k) ts of
       None \<Rightarrow> Some UndefinedTable
     | Some t \<Rightarrow> if [fk_column k] \<in> set (keys_of t) then None else Some InvalidForeignKey)"

definition identifiers_ok :: "string list \<Rightarrow> bool" where
  "identifiers_ok ns = list_all (\<lambda>n. length n \<le> 63) ns"

definition create_table :: "sql_table \<Rightarrow> schema \<Rightarrow> ddl_error + schema" where
  "create_table t s =
     (if \<not> identifiers_ok (table_relations t @ column_names t @ map fk_name (table_fks t)) then Inl IdentifierError
      else if \<not> distinct (table_relations t) \<or> set (table_relations t) \<inter> set (relation_names s) \<noteq> {} then Inl DuplicateRelation
      else if \<not> distinct (column_names t) then Inl DuplicateColumn
      else if \<not> list_all (\<lambda>u. set (snd u) \<subseteq> set (column_names t)) (tbl_uniques t) then Inl UndefinedColumn
      else case List.map_filter (fk_target (sch_tables s @ [t])) (table_fks t) of
        e # _ \<Rightarrow> Inl e
      | [] \<Rightarrow> Inr (s\<lparr>sch_tables := sch_tables s @ [t]\<rparr>))"

definition create_index :: "string \<Rightarrow> string \<Rightarrow> string list \<Rightarrow> bool \<Rightarrow> schema \<Rightarrow> ddl_error + schema" where
  "create_index n tn cs u s =
     (if \<not> identifiers_ok [n] then Inl IdentifierError
      else case lookup_table tn (sch_tables s) of
        None \<Rightarrow> Inl UndefinedTable
      | Some t \<Rightarrow>
          if n \<in> set (relation_names s) then Inl DuplicateRelation
          else if \<not> set cs \<subseteq> set (column_names t) then Inl UndefinedColumn
          else Inr (s\<lparr>sch_indexes := sch_indexes s @ [\<lparr>ix_name = n, ix_table = tn, ix_columns = cs, ix_unique = u\<rparr>]\<rparr>))"

definition drop_table :: "string \<Rightarrow> schema \<Rightarrow> ddl_error + schema" where
  "drop_table n s =
     (if lookup_table n (sch_tables s) = None then Inl UndefinedTable
      else if list_ex (\<lambda>t. tbl_name t \<noteq> n \<and> list_ex (\<lambda>k. fk_table k = n) (table_fks t)) (sch_tables s)
      then Inl DependentObjectsStillExist
      else Inr (s\<lparr>sch_tables := filter (\<lambda>t. tbl_name t \<noteq> n) (sch_tables s),
                sch_indexes := filter (\<lambda>i. ix_table i \<noteq> n) (sch_indexes s),
                sch_hypertables := filter (\<lambda>h. h \<noteq> n) (sch_hypertables s)\<rparr>))"

text \<open>\<open>CREATE EXTENSION IF NOT EXISTS\<close>; which extensions the server has installed is a parameter.\<close>

definition create_extension :: "(string \<Rightarrow> bool) \<Rightarrow> string \<Rightarrow> schema \<Rightarrow> ddl_error + schema" where
  "create_extension installed e s =
     (if e \<in> set (sch_extensions s) then Inr s
      else if installed e then Inr (s\<lparr>sch_extensions := sch_extensions s @ [e]\<rparr>)
      else Inl UndefinedFile)"

text \<open>\<open>create_hypertable(..., if_not_exists => TRUE)\<close>: every unique key has to contain the time column.\<close>

definition unique_keys :: "schema \<Rightarrow> sql_table \<Rightarrow> string list list" where
  "unique_keys s t = keys_of t @ map ix_columns (filter (\<lambda>i. ix_table i = tbl_name t \<and> ix_unique i) (sch_indexes s))"

definition create_hypertable :: "string \<Rightarrow> string \<Rightarrow> schema \<Rightarrow> ddl_error + schema" where
  "create_hypertable n c s =
     (if ''timescaledb'' \<notin> set (sch_extensions s) then Inl UndefinedFunction
      else case lookup_table n (sch_tables s) of
        None \<Rightarrow> Inl UndefinedTable
      | Some t \<Rightarrow>
          if c \<notin> set (column_names t) then Inl UndefinedColumn
          else if n \<in> set (sch_hypertables s) then Inr s
          else if \<not> list_all (\<lambda>k. c \<in> set k) (unique_keys s t) then Inl BadPartitioning
          else Inr (s\<lparr>sch_hypertables := sch_hypertables s @ [n]\<rparr>))"

fun run_op :: "(string \<Rightarrow> bool) \<Rightarrow> ddl \<Rightarrow> schema \<Rightarrow> ddl_error + schema" where
  "run_op installed (CreateTable t) s = create_table t s"
| "run_op installed (CreateIndex n tn cs u) s = create_index n tn cs u s"
| "run_op installed (DropTable n) s = drop_table n s"
| "run_op installed (CreateExtension e) s = create_extension installed e s"
| "run_op installed (CreateHypertable n c) s = create_hypertable n c s"

fun run_ddl :: "(string \<Rightarrow> bool) \<Rightarrow> ddl list \<Rightarrow> schema \<Rightarrow> ddl_error + schema" where
  "run_ddl installed [] s = Inr s"
| "run_ddl installed (p # ps) s = (case run_op installed p s of Inl e \<Rightarrow> Inl e | Inr s' \<Rightarrow> run_ddl installed ps s')"

section \<open>The migrations\<close>

subsection \<open>\<open>0001_init.py\<close>\<close>

definition users_table :: sql_table where
  "users_table = \<lparr>tbl_name = ''users'', tbl_columns = [
     Pkey ''id'' TUuid,
     NotNull ''user_name'' (TVarchar 254),
     NotNull ''email'' (TVarchar 254),
     Nullable ''password_hash'' (TVarchar 255),
     Nullable ''phone_number'' (TVarchar 32),
     Nullable ''full_name'' (TVarchar 255),
     (NotNull ''status'' (TVarchar 32))\<lparr>col_default := Some ''unconfirmed''\<rparr>,
     (NotNull ''is_super_admin'' TBoolean)\<lparr>col_default := Some ''false''\<rparr>,
     (NotNull ''is_admin'' TBoolean)\<lparr>col_default := Some ''false''\<rparr>,
     (NotNull ''mfa_enabled'' TBoolean)\<lparr>col_default := Some ''false''\<rparr>,
     (NotNull ''custom_data'' TJsonb)\<lparr>col_default := Some ''{}''\<rparr>,
     Nullable ''confirm_code'' (TVarchar 16),
     Nullable ''confirm_code_exp'' TTimestamptz,
     Nullable ''reset_code'' (TVarchar 16),
     Nullable ''reset_code_exp'' TTimestamptz,
     Nullable ''login_otp'' (TVarchar 16),
     Nullable ''login_otp_exp'' TTimestamptz,
     Nullable ''last_login_at'' TTimestamptz,
     (NotNull ''created_at'' TTimestamptz)\<lparr>col_default := Some ''now()''\<rparr>,
     (NotNull ''updated_at'' TTimestamptz)\<lparr>col_default := Some ''now()''\<rparr>],
     tbl_uniques = [(''uq_users_user_name_ci'', [''user_name''])]\<rparr>"

definition refresh_tokens_table :: sql_table where
  "refresh_tokens_table = \<lparr>tbl_name = ''refresh_tokens'', tbl_columns = [
     Pkey ''id'' TUuid,
     (NotNull ''user_id'' TUuid)\<lparr>col_fk := Some (cascade ''fk_refresh_tokens_user_id_users'' ''users'' ''id'')\<rparr>,
     NotNull ''jti'' (TVarchar 64),
     NotNull ''expires_at'' TTimestamptz,
     Nullable ''revoked_at'' TTimestamptz,
     Nullable ''user_agent'' (TVarchar 512),
     Nullable ''ip_address'' (TVarchar 64),
     (NotNull ''created_at'' TTimestamptz)\<lparr>col_default := Some ''now()''\<rparr>,
     (NotNull ''updated_at'' TTimestamptz)\<lparr>col_default := Some ''now()''\<rparr>],
     tbl_uniques = []\<rparr>"

definition nodes_table :: sql_table where
  "nodes_table = \<lparr>tbl_name = ''nodes'', tbl_columns = [
     Pkey ''node_id'' (TVarchar 64),
     Nullable ''node_type'' (TVarchar 64),
     Nullable ''fw_version'' (TVarchar 64),
     Nullable ''model'' (TVarchar 64),
     Nullable ''project_name'' (TVarchar 128),
     Nullable ''platform'' (TVarchar 32),
     Nullable ''mac_addr'' (TVarchar 32),
     Nullable ''last_seen_at'' TTimestamptz,
     (NotNull ''online'' TBoolean)\<lparr>col_default := Some ''false''\<rparr>,
     Nullable ''registration_ts'' TTimestamptz,
     (NotNull ''tags'' TJsonb)\<lparr>col_default := Some ''[]''\<rparr>,
     (NotNull ''metadata'' TJsonb)\<lparr>col_default := Some ''{}''\<rparr>,
     (NotNull ''created_at'' TTimestamptz)\<lparr>col_default := Some ''now()''\<rparr>,
     (NotNull ''updated_at'' TTimestamptz)\<lparr>col_default := Some ''now()''\<rparr>],
     tbl_uniques = []\<rparr>"

definition node_certificates_table :: sql_table where
  "node_certificates_table = \<lparr>tbl_name = ''node_certificates'', tbl_columns = [
     Pkey ''serial'' (TVarchar 64),
     NotNull ''node_id'' (TVarchar 64),
     NotNull ''cert_pem'' TText,
     NotNull ''cn'' (TVarchar 128),
     NotNull ''not_before'' TTimestamptz,
     NotNull ''not_after'' TTimestamptz,
     (NotNull ''revoked'' TBoolean)\<lparr>col_default := Some ''false''\<rparr>,
     Nullable ''revoked_at'' TTimestamptz,
     (NotNull ''policies'' TJsonb)\<lparr>col_default := Some ''[]''\<rparr>,
     (NotNull ''created_at'' TTimestamptz)\<lparr>col_default := Some ''now()''\<rparr>,
     (NotNull ''updated_at'' TTimestamptz)\<lparr>col_default := Some ''now()''\<rparr>],
     tbl_uniques = []\<rparr>"

definition node_configs_table :: sql_table where
  "node_configs_table = \<lparr>tbl_name = ''node_configs'', tbl_columns = [
     (Pkey ''node_id'' (TVarchar 64))\<lparr>col_fk := Some (cascade ''fk_node_configs_node_id_nodes'' ''nodes'' ''node_id'')\<rparr>,
     Nullable ''config_version'' (TVarchar 32),
     (NotNull ''payload'' TJsonb)\<lparr>col_default := Some ''{}''\<rparr>,
     (NotNull ''created_at'' TTimestamptz)\<lparr>col_default := Some ''now()''\<rparr>,
     (NotNull ''updated_at'' TTimestamptz)\<lparr>col_default := Some ''now()''\<rparr>],
     tbl_uniques = []\<rparr>"

definition node_params_shadow_table :: sql_table where
  "node_params_shadow_table = \<lparr>tbl_name = ''node_params_shadow'', tbl_columns = [
     (Pkey ''node_id'' (TVarchar 64))\<lparr>col_fk := Some (cascade ''fk_node_params_shadow_node_id_nodes'' ''nodes'' ''node_id'')\<rparr>,
     (NotNull ''payload'' TJsonb)\<lparr>col_default := Some ''{}''\<rparr>,
     (NotNull ''created_at'' TTimestamptz)\<lparr>col_default := Some ''now()''\<rparr>,
     (NotNull ''updated_at'' TTimestamptz)\<lparr>col_default := Some ''now()''\<rparr>],
     tbl_uniques = []\<rparr>"

definition node_attributes_table :: sql_table where
  "node_attributes_table = \<lparr>tbl_name = ''node_attributes'', tbl_columns = [
     Pkey ''id'' TInteger,
     (NotNull ''node_id'' (TVarchar 64))\<lparr>col_fk := Some (cascade ''fk_node_attributes_node_id_nodes'' ''nodes'' ''node_id'')\<rparr>,
     NotNull ''name'' (TVarchar 128),
     Nullable ''value'' TText],
     tbl_uniques = [(''uq_node_attribute'', [''node_id'', ''name''])]\<rparr>"

definition user_node_mappings_table :: sql_table where
  "user_node_mappings_table = \<lparr>tbl_name = ''user_node_mappings'', tbl_columns = [
     Pkey ''id'' TUuid,
     (NotNull ''user_id'' TUuid)\<lparr>col_fk := Some (cascade ''fk_user_node_mappings_user_id_users'' ''users'' ''id'')\<rparr>,
     (NotNull ''node_id'' (TVarchar 64))\<lparr>col_fk := Some (cascade ''fk_user_node_mappings_node_id_nodes'' ''nodes'' ''node_id'')\<rparr>,
     (NotNull ''role'' (TVarchar 16))\<lparr>col_default := Some ''primary''\<rparr>,
     (NotNull ''primary'' TBoolean)\<lparr>col_default := Some ''true''\<rparr>,
     (NotNull ''metadata'' TJsonb)\<lparr>col_default := Some ''{}''\<rparr>,
     (NotNull ''created_at'' TTimestamptz)\<lparr>col_default := Some ''now()''\<rparr>,
     (NotNull ''updated_at'' TTimestamptz)\<lparr>col_default := Some ''now()''\<rparr>],
     tbl_uniques = [(''uq_user_node'', [''user_id'', ''node_id''])]\<rparr>"

definition mapping_challenges_table :: sql_table where
  "mapping_challenges_table = \<lparr>tbl_name = ''mapping_challenges'', tbl_columns = [
     Pkey ''id'' TUuid,
     NotNull ''request_id'' (TVarchar 64),
     (NotNull ''user_id'' TUuid)\<lparr>col_fk := Some (cascade ''fk_mapping_challenges_user_id_users'' ''users'' ''id'')\<rparr>,
     Nullable ''node_id'' (TVarchar 64),
     Nullable ''secret_key'' (TVarchar 128),
     Nullable ''challenge'' (TVarchar 256),
     Nullable ''challenge_response'' (TVarchar 512),
     (NotNull ''status'' (TVarchar 32))\<lparr>col_default := Some ''pending''\<rparr>,
     (NotNull ''operation'' (TVarchar 16))\<lparr>col_default := Some ''add''\<rparr>,
     NotNull ''expires_at'' TTimestamptz,
     Nullable ''completed_at'' TTimestamptz,
     (NotNull ''created_at'' TTimestamptz)\<lparr>col_default := Some ''now()''\<rparr>,
     (NotNull ''updated_at'' TTimestamptz)\<lparr>col_default := Some ''now()''\<rparr>],
     tbl_uniques = []\<rparr>"

definition upgrade_0001 :: "ddl list" where
  "upgrade_0001 = [
     CreateExtension ''uuid-ossp'',
     CreateExtension ''pgcrypto'',
     CreateTable users_table,
     CreateIndex ''ix_users_user_name'' ''users'' [''user_name''] True,
     CreateIndex ''ix_users_email'' ''users'' [''email''] False,
     CreateIndex ''ix_users_email_lower'' ''users'' [''email''] False,
     CreateTable refresh_tokens_table,
     CreateIndex ''ix_refresh_tokens_user_id'' ''refresh_tokens'' [''user_id''] False,
     CreateIndex ''ix_refresh_tokens_jti'' ''refresh_tokens'' [''jti''] True,
     CreateTable nodes_table,
     CreateIndex ''ix_nodes_mac_addr'' ''nodes'' [''mac_addr''] False,
     CreateTable node_certificates_table,
     CreateIndex ''ix_node_certificates_node_id'' ''node_certificates'' [''node_id''] False,
     CreateIndex ''ix_node_cert_active'' ''node_certificates'' [''node_id'', ''revoked''] False,
     CreateTable node_configs_table,
     CreateTable node_params_shadow_table,
     CreateTable node_attributes_table,
     CreateTable user_node_mappings_table,
     CreateIndex ''ix_user_node_node'' ''user_node_mappings'' [''node_id''] False,
     CreateTable mapping_challenges_table,
     CreateIndex ''ix_mapping_challenges_request_id'' ''mapping_challenges'' [''request_id''] True,
     CreateIndex ''ix_mapping_challenges_node_id'' ''mapping_challenges'' [''node_id''] False,
     CreateIndex ''ix_mapping_challenges_secret_key'' ''mapping_challenges'' [''secret_key''] False]"

definition downgrade_0001 :: "ddl list" where
  "downgrade_0001 = [
     DropTable ''mapping_challenges'',
     DropTable ''user_node_mappings'',
     DropTable ''node_attributes'',
     DropTable ''node_params_shadow'',
     DropTable ''node_configs'',
     DropTable ''node_certificates'',
     DropTable ''nodes'',
     DropTable ''refresh_tokens'',
     DropTable ''users'']"

subsection \<open>\<open>0002_claiming.py\<close>\<close>

definition device_provisioning_table :: sql_table where
  "device_provisioning_table = \<lparr>tbl_name = ''device_provisioning'', tbl_columns = [
     Pkey ''mac_addr'' (TVarchar 32),
     NotNull ''platform'' (TVarchar 32),
     NotNull ''hmac_key'' TBytea,
     (NotNull ''created_at'' TTimestamptz)\<lparr>col_default := Some ''now()''\<rparr>,
     (NotNull ''updated_at'' TTimestamptz)\<lparr>col_default := Some ''now()''\<rparr>],
     tbl_uniques = []\<rparr>"

definition claim_challenges_table :: sql_table where
  "claim_challenges_table = \<lparr>tbl_name = ''claim_challenges'', tbl_columns = [
     Pkey ''id'' TUuid,
     Nullable ''auth_id'' (TVarchar 64),
     NotNull ''mac_addr'' (TVarchar 32),
     NotNull ''platform'' (TVarchar 32),
     NotNull ''node_id'' (TVarchar 64),
     Nullable ''user_id'' TUuid,
     Nullable ''challenge'' TBytea,
     (NotNull ''status'' (TVarchar 32))\<lparr>col_default := Some ''pending''\<rparr>,
     NotNull ''mode'' (TVarchar 16),
     (NotNull ''attempts'' TInteger)\<lparr>col_default := Some ''0''\<rparr>,
     NotNull ''expires_at'' TTimestamptz,
     Nullable ''verified_at'' TTimestamptz,
     (NotNull ''created_at'' TTimestamptz)\<lparr>col_default := Some ''now()''\<rparr>,
     (NotNull ''updated_at'' TTimestamptz)\<lparr>col_default := Some ''now()''\<rparr>],
     tbl_uniques = []\<rparr>"

definition upgrade_0002 :: "ddl list" where
  "upgrade_0002 = [
     CreateTable device_provisioning_table,
     CreateTable claim_challenges_table,
     CreateIndex ''ix_claim_challenges_auth_id'' ''claim_challenges'' [''auth_id''] True,
     CreateIndex ''ix_claim_challenges_mac_addr'' ''claim_challenges'' [''mac_addr''] False,
     CreateIndex ''ix_claim_challenges_node_id'' ''claim_challenges'' [''node_id''] False,
     CreateIndex ''ix_claim_challenges_user_id'' ''claim_challenges'' [''user_id''] False]"

definition downgrade_0002 :: "ddl list" where
  "downgrade_0002 = [
     DropTable ''claim_challenges'',
     DropTable ''device_provisioning'']"

subsection \<open>\<open>0003_ota.py\<close>\<close>

definition ota_images_table :: sql_table where
  "ota_images_table = \<lparr>tbl_name = ''ota_images'', tbl_columns = [
     Pkey ''id'' TUuid,
     NotNull ''name'' (TVarchar 128),
     NotNull ''fw_version'' (TVarchar 64),
     Nullable ''model'' (TVarchar 64),
     (NotNull ''file_size'' TInteger)\<lparr>col_default := Some ''0''\<rparr>,
     Nullable ''file_md5'' (TVarchar 64),
     Nullable ''file_sha256'' (TVarchar 128),
     NotNull ''storage_key'' (TVarchar 512),
     (NotNull ''status'' (TVarchar 32))\<lparr>col_default := Some ''staged''\<rparr>,
     (NotNull ''metadata'' TJsonb)\<lparr>col_default := Some ''{}''\<rparr>,
     (NotNull ''created_at'' TTimestamptz)\<lparr>col_default := Some ''now()''\<rparr>,
     (NotNull ''updated_at'' TTimestamptz)\<lparr>col_default := Some ''now()''\<rparr>],
     tbl_uniques = []\<rparr>"

definition ota_jobs_table :: sql_table where
  "ota_jobs_table = \<lparr>tbl_name = ''ota_jobs'', tbl_columns = [
     Pkey ''id'' TUuid,
     (NotNull ''image_id'' TUuid)\<lparr>col_fk := Some (cascade ''fk_ota_jobs_image_id_ota_images'' ''ota_images'' ''id'')\<rparr>,
     NotNull ''name'' (TVarchar 128),
     (NotNull ''status'' (TVarchar 32))\<lparr>col_default := Some ''pending''\<rparr>,
     (NotNull ''rollout_policy'' TJsonb)\<lparr>col_default := Some ''{}''\<rparr>,
     Nullable ''scheduled_at'' TTimestamptz,
     Nullable ''started_at'' TTimestamptz,
     Nullable ''completed_at'' TTimestamptz,
     Nullable ''created_by'' TUuid,
     (NotNull ''created_at'' TTimestamptz)\<lparr>col_default := Some ''now()''\<rparr>,
     (NotNull ''updated_at'' TTimestamptz)\<lparr>col_default := Some ''now()''\<rparr>],
     tbl_uniques = []\<rparr>"

definition ota_job_nodes_table :: sql_table where
  "ota_job_nodes_table = \<lparr>tbl_name = ''ota_job_nodes'', tbl_columns = [
     Pkey ''id'' TUuid,
     (NotNull ''job_id'' TUuid)\<lparr>col_fk := Some (cascade ''fk_ota_job_nodes_job_id_ota_jobs'' ''ota_jobs'' ''id'')\<rparr>,
     (NotNull ''node_id'' (TVarchar 64))\<lparr>col_fk := Some (cascade ''fk_ota_job_nodes_node_id_nodes'' ''nodes'' ''node_id'')\<rparr>,
     (NotNull ''status'' (TVarchar 32))\<lparr>col_default := Some ''pending''\<rparr>,
     (NotNull ''progress'' TInteger)\<lparr>col_default := Some ''0''\<rparr>,
     Nullable ''additional_info'' (TVarchar 512),
     Nullable ''last_update'' TTimestamptz,
     (NotNull ''created_at'' TTimestamptz)\<lparr>col_default := Some ''now()''\<rparr>,
     (NotNull ''updated_at'' TTimestamptz)\<lparr>col_default := Some ''now()''\<rparr>],
     tbl_uniques = [(''uq_ota_job_node'', [''job_id'', ''node_id''])]\<rparr>"

definition upgrade_0003 :: "ddl list" where
  "upgrade_0003 = [
     CreateTable ota_images_table,
     CreateIndex ''ix_ota_images_fw_version'' ''ota_images'' [''fw_version''] False,
     CreateTable ota_jobs_table,
     CreateIndex ''ix_ota_jobs_status'' ''ota_jobs'' [''status''] False,
     CreateTable ota_job_nodes_table,
     CreateIndex ''ix_ota_job_nodes_node_id'' ''ota_job_nodes'' [''node_id''] False,
     CreateIndex ''ix_ota_job_nodes_status'' ''ota_job_nodes'' [''status''] False]"

definition downgrade_0003 :: "ddl list" where
  "downgrade_0003 = [
     DropTable ''ota_job_nodes'',
     DropTable ''ota_jobs'',
     DropTable ''ota_images'']"

subsection \<open>\<open>0004_sharing_groups.py\<close>\<close>

definition node_sharing_table :: sql_table where
  "node_sharing_table = \<lparr>tbl_name = ''node_sharing'', tbl_columns = [
     Pkey ''id'' TUuid,
     (NotNull ''node_id'' (TVarchar 64))\<lparr>col_fk := Some (cascade ''fk_node_sharing_node_id_nodes'' ''nodes'' ''node_id'')\<rparr>,
     (NotNull ''from_user_id'' TUuid)\<lparr>col_fk := Some (cascade ''fk_node_sharing_from_user_id_users'' ''users'' ''id'')\<rparr>,
     (NotNull ''to_user_id'' TUuid)\<lparr>col_fk := Some (cascade ''fk_node_sharing_to_user_id_users'' ''users'' ''id'')\<rparr>,
     (NotNull ''role'' (TVarchar 16))\<lparr>col_default := Some ''secondary''\<rparr>,
     (NotNull ''created_at'' TTimestamptz)\<lparr>col_default := Some ''now()''\<rparr>,
     (NotNull ''updated_at'' TTimestamptz)\<lparr>col_default := Some ''now()''\<rparr>],
     tbl_uniques = [(''uq_node_sharing_node_user'', [''node_id'', ''to_user_id''])]\<rparr>"

definition node_sharing_requests_table :: sql_table where
  "node_sharing_requests_table = \<lparr>tbl_name = ''node_sharing_requests'', tbl_columns = [
     Pkey ''id'' TUuid,
     (NotNull ''node_id'' (TVarchar 64))\<lparr>col_fk := Some (cascade ''fk_node_sharing_req_node_id_nodes'' ''nodes'' ''node_id'')\<rparr>,
     (NotNull ''from_user_id'' TUuid)\<lparr>col_fk := Some (cascade ''fk_node_sharing_req_from_user_id'' ''users'' ''id'')\<rparr>,
     NotNull ''to_user_name'' (TVarchar 254),
     (NotNull ''status'' (TVarchar 32))\<lparr>col_default := Some ''pending''\<rparr>,
     NotNull ''expires_at'' TTimestamptz,
     (NotNull ''created_at'' TTimestamptz)\<lparr>col_default := Some ''now()''\<rparr>,
     (NotNull ''updated_at'' TTimestamptz)\<lparr>col_default := Some ''now()''\<rparr>],
     tbl_uniques = []\<rparr>"

definition node_groups_table :: sql_table where
  "node_groups_table = \<lparr>tbl_name = ''node_groups'', tbl_columns = [
     Pkey ''id'' TUuid,
     (NotNull ''owner_id'' TUuid)\<lparr>col_fk := Some (cascade ''fk_node_groups_owner_id_users'' ''users'' ''id'')\<rparr>,
     (Nullable ''parent_id'' TUuid)\<lparr>col_fk := Some (cascade ''fk_node_groups_parent_id'' ''node_groups'' ''id'')\<rparr>,
     NotNull ''name'' (TVarchar 128),
     Nullable ''type'' (TVarchar 64),
     (NotNull ''mutually_exclusive'' TBoolean)\<lparr>col_default := Some ''false''\<rparr>,
     (NotNull ''metadata'' TJsonb)\<lparr>col_default := Some ''{}''\<rparr>,
     (NotNull ''created_at'' TTimestamptz)\<lparr>col_default := Some ''now()''\<rparr>,
     (NotNull ''updated_at'' TTimestamptz)\<lparr>col_default := Some ''now()''\<rparr>],
     tbl_uniques = []\<rparr>"

definition node_group_nodes_table :: sql_table where
  "node_group_nodes_table = \<lparr>tbl_name = ''node_group_nodes'', tbl_columns = [
     Pkey ''id'' TUuid,
     (NotNull ''group_id'' TUuid)\<lparr>col_fk := Some (cascade ''fk_node_group_nodes_group_id'' ''node_groups'' ''id'')\<rparr>,
     (NotNull ''node_id'' (TVarchar 64))\<lparr>col_fk := Some (cascade ''fk_node_group_nodes_node_id'' ''nodes'' ''node_id'')\<rparr>],
     tbl_uniques = [(''uq_node_group_node'', [''group_id'', ''node_id''])]\<rparr>"

definition upgrade_0004 :: "ddl list" where
  "upgrade_0004 = [
     CreateTable node_sharing_table,
     CreateIndex ''ix_node_sharing_to_user'' ''node_sharing'' [''to_user_id''] False,
     CreateTable node_sharing_requests_table,
     CreateIndex ''ix_node_sharing_req_to_user_name'' ''node_sharing_requests'' [''to_user_name''] False,
     CreateIndex ''ix_node_sharing_req_status'' ''node_sharing_requests'' [''status''] False,
     CreateTable node_groups_table,
     CreateIndex ''ix_node_groups_owner_id'' ''node_groups'' [''owner_id''] False,
     CreateIndex ''ix_node_groups_parent_id'' ''node_groups'' [''parent_id''] False,
     CreateTable node_group_nodes_table]"

definition downgrade_0004 :: "ddl list" where
  "downgrade_0004 = [
     DropTable ''node_group_nodes'',
     DropTable ''node_groups'',
     DropTable ''node_sharing_requests'',
     DropTable ''node_sharing'']"

subsection \<open>\<open>0005_automations_tsdata.py\<close>\<close>

definition automations_table :: sql_table where
  "automations_table = \<lparr>tbl_name = ''automations'', tbl_columns = [
     Pkey ''id'' TUuid,
     (NotNull ''user_id'' TUuid)\<lparr>col_fk := Some (cascade ''fk_automations_user_id_users'' ''users'' ''id'')\<rparr>,
     NotNull ''name'' (TVarchar 128),
     (NotNull ''enabled'' TBoolean)\<lparr>col_default := Some ''true''\<rparr>,
     (NotNull ''event_operator'' (TVarchar 8))\<lparr>col_default := Some ''and''\<rparr>,
     (NotNull ''events'' TJsonb)\<lparr>col_default := Some ''[]''\<rparr>,
     (NotNull ''actions'' TJsonb)\<lparr>col_default := Some ''[]''\<rparr>,
     (NotNull ''metadata'' TJsonb)\<lparr>col_default := Some ''{}''\<rparr>,
     (NotNull ''created_at'' TTimestamptz)\<lparr>col_default := Some ''now()''\<rparr>,
     (NotNull ''updated_at'' TTimestamptz)\<lparr>col_default := Some ''now()''\<rparr>],
     tbl_uniques = []\<rparr>"

definition tsdata_table :: sql_table where
  "tsdata_table = \<lparr>tbl_name = ''tsdata'', tbl_columns = [
     NotNull ''ts'' TTimestamptz,
     NotNull ''node_id'' (TVarchar 64),
     NotNull ''device_name'' (TVarchar 64),
     NotNull ''param_name'' (TVarchar 64),
     NotNull ''data_type'' (TVarchar 16),
     Nullable ''value_int'' TBigInteger,
     Nullable ''value_float'' TFloat,
     Nullable ''value_bool'' TBoolean,
     Nullable ''value_str'' TText],
     tbl_uniques = []\<rparr>"

definition upgrade_0005 :: "ddl list" where
  "upgrade_0005 = [
     CreateTable automations_table,
     CreateIndex ''ix_automations_user_id'' ''automations'' [''user_id''] False,
     CreateIndex ''ix_automations_enabled'' ''automations'' [''enabled''] False,
     CreateTable tsdata_table,
     CreateIndex ''ix_tsdata_node_id_ts'' ''tsdata'' [''node_id'', ''ts''] False,
     CreateIndex ''ix_tsdata_node_param_ts'' ''tsdata'' [''node_id'', ''device_name'', ''param_name'', ''ts''] False,
     CreateExtension ''timescaledb'',
     CreateHypertable ''tsdata'' ''ts'']"

definition downgrade_0005 :: "ddl list" where
  "downgrade_0005 = [
     DropTable ''tsdata'',
     DropTable ''automations'']"

subsection \<open>The chain of revisions\<close>

record script =
  revision :: string
  down_revision :: "string option"
  upgrade :: "ddl list"
  downgrade :: "ddl list"

definition scripts :: "script list" where
  "scripts = [
     \<lparr>revision = ''0001'', down_revision = None, upgrade = upgrade_0001, downgrade = downgrade_0001\<rparr>,
     \<lparr>revision = ''0002'', down_revision = Some ''0001'', upgrade = upgrade_0002, downgrade = downgrade_0002\<rparr>,
     \<lparr>revision = ''0003'', down_revision = Some ''0002'', upgrade = upgrade_0003, downgrade = downgrade_0003\<rparr>,
     \<lparr>revision = ''0004'', down_revision = Some ''0003'', upgrade = upgrade_0004, downgrade = downgrade_0004\<rparr>,
     \<lparr>revision = ''0005'', down_revision = Some ''0004'', upgrade = upgrade_0005, downgrade = downgrade_0005\<rparr>]"

text \<open>
  The revisions after a given one, along \<open>down_revision\<close>.  The fuel is the number of scripts: a chain that
  takes each script at most once is no longer.
\<close>

fun revisions_after :: "nat \<Rightarrow> string option \<Rightarrow> script list" where
  "revisions_after 0 v = []"
| "revisions_after (Suc k) v = (case find (\<lambda>m. down_revision m = v) scripts of
     None \<Rightarrow> [] | Some m \<Rightarrow> m # revisions_after k (Some (revision m)))"

definition pending_revisions :: "string option \<Rightarrow> script list" where
  "pending_revisions v = revisions_after (length scripts) v"

text \<open>
  \<open>alembic upgrade head\<close> and \<open>alembic downgrade v\<close> with \<open>env.py\<close>: all scripts run in one transaction
  (\<open>context.begin_transaction\<close>), so an error leaves the version and the schema as they were.
\<close>

definition run_migrations ::
  "(string \<Rightarrow> bool) \<Rightarrow> ddl list \<Rightarrow> string option \<Rightarrow> string option \<times> schema \<Rightarrow> (ddl_error + unit) \<times> string option \<times> schema" where
  "run_migrations installed ps target vs = (case run_ddl installed ps (snd vs) of
       Inl e \<Rightarrow> (Inl e, vs)
     | Inr s \<Rightarrow> (Inr (), target, s))"

definition upgrade_head ::
  "(string \<Rightarrow> bool) \<Rightarrow> string option \<times> schema \<Rightarrow> (ddl_error + unit) \<times> string option \<times> schema" where
  "upgrade_head installed vs =
     (let ms = pending_revisions (fst vs)
      in run_migrations installed (concat (map upgrade ms)) (if ms = [] then fst vs else Some (revision (last ms))) vs)"

definition downgrade_to ::
  "(string \<Rightarrow> bool) \<Rightarrow> string option \<Rightarrow> string option \<times> schema \<Rightarrow> (ddl_error + unit) \<times> string option \<times> schema" where
  "downgrade_to installed target vs =
     run_migrations installed (concat (map downgrade (rev (pending_revisions target)))) target vs"

text \<open>The database that the scripts run on: that of \<open>sqlalchemy.url\<close> if it is given, else that of the settings, with the synchronous driver.\<close>

fun py_replace :: "string \<Rightarrow> string \<Rightarrow> string \<Rightarrow> string" where
  "py_replace old new [] = []"
| "py_replace old new (c # cs) =
     (if old \<noteq> [] \<and> prefix old (c # cs) then new @ py_replace old new (drop (length old - 1) cs)
      else c # py_replace old new cs)"

definition sync_database_url :: "settings \<Rightarrow> string" where
  "sync_database_url S = py_replace ''+asyncpg'' ''+psycopg'' (database_url S)"

definition migration_url :: "string option \<Rightarrow> settings \<Rightarrow> string" where
  "migration_url main_option S = (case main_option of
       None \<Rightarrow> sync_database_url S
     | Some url \<Rightarrow> if url = [] then sync_database_url S else url)"

section \<open>The declarative classes\<close>

record orm_column = sql_column +
  oc_unique :: bool
  oc_index :: bool

record orm_class =
  oc_tablename :: string
  oc_columns :: "orm_column list"
  oc_uniques :: "(string \<times> string list) list"
  oc_indexes :: "(string \<times> string list) list"

definition with_flags :: "sql_column \<Rightarrow> bool \<Rightarrow> bool \<Rightarrow> orm_column" where
  "with_flags c u i = sql_column.extend c \<lparr>oc_unique = u, oc_index = i\<rparr>"

abbreviation mapped :: "sql_column \<Rightarrow> orm_column" where "mapped c \<equiv> with_flags c False False"
abbreviation mapped_unique :: "sql_column \<Rightarrow> orm_column" where "mapped_unique c \<equiv> with_flags c True False"
abbreviation mapped_index :: "sql_column \<Rightarrow> orm_column" where "mapped_index c \<equiv> with_flags c False True"
abbreviation mapped_unique_index :: "sql_column \<Rightarrow> orm_column" where "mapped_unique_index c \<equiv> with_flags c True True"

text \<open>The naming convention of the metadata.\<close>

definition convention_fk :: "string \<Rightarrow> string \<Rightarrow> string \<Rightarrow> string" where
  "convention_fk t c r = ''fk_'' @ t @ ''_'' @ c @ ''_'' @ r"

definition convention_ix :: "string \<Rightarrow> string \<Rightarrow> string" where
  "convention_ix t c = ''ix_'' @ t @ ''_'' @ c"

definition convention_uq :: "string \<Rightarrow> string \<Rightarrow> string" where
  "convention_uq t c = ''uq_'' @ t @ ''_'' @ c"

definition timestamp_mixin :: "orm_column list" where
  "timestamp_mixin = [
     mapped ((NotNull ''created_at'' TTimestamptz)\<lparr>col_default := Some ''now()''\<rparr>),
     mapped ((NotNull ''updated_at'' TTimestamptz)\<lparr>col_default := Some ''now()''\<rparr>)]"

definition Automation_class :: orm_class where
  "Automation_class = \<lparr>oc_tablename = ''automations'', oc_columns = [
     mapped (Pkey ''id'' TUuid),
     mapped_index ((NotNull ''user_id'' TUuid)\<lparr>col_fk := Some (cascade (convention_fk ''automations'' ''user_id'' ''users'') ''users'' ''id'')\<rparr>),
     mapped (NotNull ''name'' (TVarchar 128)),
     mapped_index (NotNull ''enabled'' TBoolean),
     mapped (NotNull ''event_operator'' (TVarchar 8)),
     mapped (NotNull ''events'' TJson),
     mapped (NotNull ''actions'' TJson),
     mapped (NotNull ''metadata'' TJson)] @ timestamp_mixin,
     oc_uniques = [], oc_indexes = []\<rparr>"

definition DeviceProvisioning_class :: orm_class where
  "DeviceProvisioning_class = \<lparr>oc_tablename = ''device_provisioning'', oc_columns = [
     mapped (Pkey ''mac_addr'' (TVarchar 32)),
     mapped (NotNull ''platform'' (TVarchar 32)),
     mapped (NotNull ''hmac_key'' TBytea)] @ timestamp_mixin,
     oc_uniques = [], oc_indexes = []\<rparr>"

definition ClaimChallenge_class :: orm_class where
  "ClaimChallenge_class = \<lparr>oc_tablename = ''claim_challenges'', oc_columns = [
     mapped (Pkey ''id'' TUuid),
     mapped_unique (Nullable ''auth_id'' (TVarchar 64)),
     mapped_index (NotNull ''mac_addr'' (TVarchar 32)),
     mapped (NotNull ''platform'' (TVarchar 32)),
     mapped_index (NotNull ''node_id'' (TVarchar 64)),
     mapped_index (Nullable ''user_id'' TUuid),
     mapped (Nullable ''challenge'' TBytea),
     mapped (NotNull ''status'' (TVarchar 32)),
     mapped (NotNull ''mode'' (TVarchar 16)),
     mapped (NotNull ''attempts'' TInteger),
     mapped (NotNull ''expires_at'' TTimestamptz),
     mapped (Nullable ''verified_at'' TTimestamptz)] @ timestamp_mixin,
     oc_uniques = [], oc_indexes = []\<rparr>"

definition Node_class :: orm_class where
  "Node_class = \<lparr>oc_tablename = ''nodes'', oc_columns = [
     mapped (Pkey ''node_id'' (TVarchar 64)),
     mapped (Nullable ''node_type'' (TVarchar 64)),
     mapped (Nullable ''fw_version'' (TVarchar 64)),
     mapped (Nullable ''model'' (TVarchar 64)),
     mapped (Nullable ''project_name'' (TVarchar 128)),
     mapped (Nullable ''platform'' (TVarchar 32)),
     mapped_index (Nullable ''mac_addr'' (TVarchar 32)),
     mapped (Nullable ''last_seen_at'' TTimestamptz),
     mapped (NotNull ''online'' TBoolean),
     mapped (Nullable ''registration_ts'' TTimestamptz),
     mapped (NotNull ''tags'' TJson),
     mapped (NotNull ''metadata'' TJson)] @ timestamp_mixin,
     oc_uniques = [], oc_indexes = []\<rparr>"

definition NodeAttribute_class :: orm_class where
  "NodeAttribute_class = \<lparr>oc_tablename = ''node_attributes'', oc_columns = [
     mapped (Pkey ''id'' TInteger),
     mapped ((NotNull ''node_id'' TInherited)\<lparr>col_fk := Some (cascade (convention_fk ''node_attributes'' ''node_id'' ''nodes'') ''nodes'' ''node_id'')\<rparr>),
     mapped (NotNull ''name'' (TVarchar 128)),
     mapped (Nullable ''value'' TText)],
     oc_uniques = [(''uq_node_attribute'', [''node_id'', ''name''])], oc_indexes = []\<rparr>"

definition NodeConfig_class :: orm_class where
  "NodeConfig_class = \<lparr>oc_tablename = ''node_configs'', oc_columns = [
     mapped ((Pkey ''node_id'' TInherited)\<lparr>col_fk := Some (cascade (convention_fk ''node_configs'' ''node_id'' ''nodes'') ''nodes'' ''node_id'')\<rparr>),
     mapped (Nullable ''config_version'' (TVarchar 32)),
     mapped (NotNull ''payload'' TJson)] @ timestamp_mixin,
     oc_uniques = [], oc_indexes = []\<rparr>"

definition NodeParamsShadow_class :: orm_class where
  "NodeParamsShadow_class = \<lparr>oc_tablename = ''node_params_shadow'', oc_columns = [
     mapped ((Pkey ''node_id'' TInherited)\<lparr>col_fk := Some (cascade (convention_fk ''node_params_shadow'' ''node_id'' ''nodes'') ''nodes'' ''node_id'')\<rparr>),
     mapped (NotNull ''payload'' TJson)] @ timestamp_mixin,
     oc_uniques = [], oc_indexes = []\<rparr>"

definition NodeCertificate_class :: orm_class where
  "NodeCertificate_class = \<lparr>oc_tablename = ''node_certificates'', oc_columns = [
     mapped (Pkey ''serial'' (TVarchar 64)),
     mapped_index (NotNull ''node_id'' (TVarchar 64)),
     mapped (NotNull ''cert_pem'' TText),
     mapped (NotNull ''cn'' (TVarchar 128)),
     mapped (NotNull ''not_before'' TTimestamptz),
     mapped (NotNull ''not_after'' TTimestamptz),
     mapped (NotNull ''revoked'' TBoolean),
     mapped (Nullable ''revoked_at'' TTimestamptz),
     mapped (NotNull ''policies'' TJson)] @ timestamp_mixin,
     oc_uniques = [], oc_indexes = [(''ix_node_cert_active'', [''node_id'', ''revoked''])]\<rparr>"

definition OtaImage_class :: orm_class where
  "OtaImage_class = \<lparr>oc_tablename = ''ota_images'', oc_columns = [
     mapped (Pkey ''id'' TUuid),
     mapped (NotNull ''name'' (TVarchar 128)),
     mapped_index (NotNull ''fw_version'' (TVarchar 64)),
     mapped (Nullable ''model'' (TVarchar 64)),
     mapped (NotNull ''file_size'' TInteger),
     mapped (Nullable ''file_md5'' (TVarchar 64)),
     mapped (Nullable ''file_sha256'' (TVarchar 128)),
     mapped (NotNull ''storage_key'' (TVarchar 512)),
     mapped (NotNull ''status'' (TVarchar 32)),
     mapped (NotNull ''metadata'' TJson)] @ timestamp_mixin,
     oc_uniques = [], oc_indexes = []\<rparr>"

definition OtaJob_class :: orm_class where
  "OtaJob_class = \<lparr>oc_tablename = ''ota_jobs'', oc_columns = [
     mapped (Pkey ''id'' TUuid),
     mapped ((NotNull ''image_id'' TUuid)\<lparr>col_fk := Some (cascade (convention_fk ''ota_jobs'' ''image_id'' ''ota_images'') ''ota_images'' ''id'')\<rparr>),
     mapped (NotNull ''name'' (TVarchar 128)),
     mapped_index (NotNull ''status'' (TVarchar 32)),
     mapped (NotNull ''rollout_policy'' TJson),
     mapped (Nullable ''scheduled_at'' TTimestamptz),
     mapped (Nullable ''started_at'' TTimestamptz),
     mapped (Nullable ''completed_at'' TTimestamptz),
     mapped (Nullable ''created_by'' TUuid)] @ timestamp_mixin,
     oc_uniques = [], oc_indexes = []\<rparr>"

definition OtaJobNode_class :: orm_class where
  "OtaJobNode_class = \<lparr>oc_tablename = ''ota_job_nodes'', oc_columns = [
     mapped (Pkey ''id'' TUuid),
     mapped ((NotNull ''job_id'' TUuid)\<lparr>col_fk := Some (cascade (convention_fk ''ota_job_nodes'' ''job_id'' ''ota_jobs'') ''ota_jobs'' ''id'')\<rparr>),
     mapped_index ((NotNull ''node_id'' TInherited)\<lparr>col_fk := Some (cascade (convention_fk ''ota_job_nodes'' ''node_id'' ''nodes'') ''nodes'' ''node_id'')\<rparr>),
     mapped_index (NotNull ''status'' (TVarchar 32)),
     mapped (NotNull ''progress'' TInteger),
     mapped (Nullable ''additional_info'' (TVarchar 512)),
     mapped (Nullable ''last_update'' TTimestamptz)] @ timestamp_mixin,
     oc_uniques = [(''uq_ota_job_node'', [''job_id'', ''node_id''])], oc_indexes = []\<rparr>"

definition NodeSharing_class :: orm_class where
  "NodeSharing_class = \<lparr>oc_tablename = ''node_sharing'', oc_columns = [
     mapped (Pkey ''id'' TUuid),
     mapped ((NotNull ''node_id'' TInherited)\<lparr>col_fk := Some (cascade (convention_fk ''node_sharing'' ''node_id'' ''nodes'') ''nodes'' ''node_id'')\<rparr>),
     mapped ((NotNull ''from_user_id'' TUuid)\<lparr>col_fk := Some (cascade (convention_fk ''node_sharing'' ''from_user_id'' ''users'') ''users'' ''id'')\<rparr>),
     mapped_index ((NotNull ''to_user_id'' TUuid)\<lparr>col_fk := Some (cascade (convention_fk ''node_sharing'' ''to_user_id'' ''users'') ''users'' ''id'')\<rparr>),
     mapped (NotNull ''role'' (TVarchar 16))] @ timestamp_mixin,
     oc_uniques = [(''uq_node_sharing_node_user'', [''node_id'', ''to_user_id''])], oc_indexes = []\<rparr>"

definition NodeSharingRequest_class :: orm_class where
  "NodeSharingRequest_class = \<lparr>oc_tablename = ''node_sharing_requests'', oc_columns = [
     mapped (Pkey ''id'' TUuid),
     mapped ((NotNull ''node_id'' TInherited)\<lparr>col_fk := Some (cascade (convention_fk ''node_sharing_requests'' ''node_id'' ''nodes'') ''nodes'' ''node_id'')\<rparr>),
     mapped ((NotNull ''from_user_id'' TUuid)\<lparr>col_fk := Some (cascade (convention_fk ''node_sharing_requests'' ''from_user_id'' ''users'') ''users'' ''id'')\<rparr>),
     mapped_index (NotNull ''to_user_name'' (TVarchar 254)),
     mapped_index (NotNull ''status'' (TVarchar 32)),
     mapped (NotNull ''expires_at'' TTimestamptz)] @ timestamp_mixin,
     oc_uniques = [], oc_indexes = []\<rparr>"

definition NodeGroup_class :: orm_class where
  "NodeGroup_class = \<lparr>oc_tablename = ''node_groups'', oc_columns = [
     mapped (Pkey ''id'' TUuid),
     mapped_index ((NotNull ''owner_id'' TUuid)\<lparr>col_fk := Some (cascade (convention_fk ''node_groups'' ''owner_id'' ''users'') ''users'' ''id'')\<rparr>),
     mapped_index ((Nullable ''parent_id'' TUuid)\<lparr>col_fk := Some (cascade (convention_fk ''node_groups'' ''parent_id'' ''node_groups'') ''node_groups'' ''id'')\<rparr>),
     mapped (NotNull ''name'' (TVarchar 128)),
     mapped (Nullable ''type'' (TVarchar 64)),
     mapped (NotNull ''mutually_exclusive'' TBoolean),
     mapped (NotNull ''metadata'' TJson)] @ timestamp_mixin,
     oc_uniques = [], oc_indexes = []\<rparr>"

definition NodeGroupNode_class :: orm_class where
  "NodeGroupNode_class = \<lparr>oc_tablename = ''node_group_nodes'', oc_columns = [
     mapped (Pkey ''id'' TUuid),
     mapped ((NotNull ''group_id'' TUuid)\<lparr>col_fk := Some (cascade (convention_fk ''node_group_nodes'' ''group_id'' ''node_groups'') ''node_groups'' ''id'')\<rparr>),
     mapped ((NotNull ''node_id'' TInherited)\<lparr>col_fk := Some (cascade (convention_fk ''node_group_nodes'' ''node_id'' ''nodes'') ''nodes'' ''node_id'')\<rparr>)],
     oc_uniques = [(''uq_node_group_node'', [''group_id'', ''node_id''])], oc_indexes = []\<rparr>"

definition User_class :: orm_class where
  "User_class = \<lparr>oc_tablename = ''users'', oc_columns = [
     mapped (Pkey ''id'' TUuid),
     mapped_unique_index (NotNull ''user_name'' (TVarchar 254)),
     mapped_index (NotNull ''email'' (TVarchar 254)),
     mapped (Nullable ''password_hash'' (TVarchar 255)),
     mapped (Nullable ''phone_number'' (TVarchar 32)),
     mapped (Nullable ''full_name'' (TVarchar 255)),
     mapped (NotNull ''status'' (TVarchar 32)),
     mapped (NotNull ''is_super_admin'' TBoolean),
     mapped (NotNull ''is_admin'' TBoolean),
     mapped (NotNull ''mfa_enabled'' TBoolean),
     mapped (NotNull ''custom_data'' TJson),
     mapped (Nullable ''confirm_code'' (TVarchar 16)),
     mapped (Nullable ''confirm_code_exp'' TTimestamptz),
     mapped (Nullable ''reset_code'' (TVarchar 16)),
     mapped (Nullable ''reset_code_exp'' TTimestamptz),
     mapped (Nullable ''login_otp'' (TVarchar 16)),
     mapped (Nullable ''login_otp_exp'' TTimestamptz),
     mapped (Nullable ''last_login_at'' TTimestamptz)] @ timestamp_mixin,
     oc_uniques = [(''uq_users_user_name_ci'', [''user_name''])], oc_indexes = [(''ix_users_email_lower'', [''email''])]\<rparr>"

definition RefreshToken_class :: orm_class where
  "RefreshToken_class = \<lparr>oc_tablename = ''refresh_tokens'', oc_columns = [
     mapped (Pkey ''id'' TUuid),
     mapped_index ((NotNull ''user_id'' TUuid)\<lparr>col_fk := Some (cascade (convention_fk ''refresh_tokens'' ''user_id'' ''users'') ''users'' ''id'')\<rparr>),
     mapped_unique_index (NotNull ''jti'' (TVarchar 64)),
     mapped (NotNull ''expires_at'' TTimestamptz),
     mapped (Nullable ''revoked_at'' TTimestamptz),
     mapped (Nullable ''user_agent'' (TVarchar 512)),
     mapped (Nullable ''ip_address'' (TVarchar 64))] @ timestamp_mixin,
     oc_uniques = [], oc_indexes = []\<rparr>"

definition UserNodeMapping_class :: orm_class where
  "UserNodeMapping_class = \<lparr>oc_tablename = ''user_node_mappings'', oc_columns = [
     mapped (Pkey ''id'' TUuid),
     mapped ((NotNull ''user_id'' TUuid)\<lparr>col_fk := Some (cascade (convention_fk ''user_node_mappings'' ''user_id'' ''users'') ''users'' ''id'')\<rparr>),
     mapped ((NotNull ''node_id'' TInherited)\<lparr>col_fk := Some (cascade (convention_fk ''user_node_mappings'' ''node_id'' ''nodes'') ''nodes'' ''node_id'')\<rparr>),
     mapped (NotNull ''role'' (TVarchar 16)),
     mapped (NotNull ''primary'' TBoolean),
     mapped (NotNull ''metadata'' TJson)] @ timestamp_mixin,
     oc_uniques = [(''uq_user_node'', [''user_id'', ''node_id''])], oc_indexes = [(''ix_user_node_node'', [''node_id''])]\<rparr>"

definition MappingChallenge_class :: orm_class where
  "MappingChallenge_class = \<lparr>oc_tablename = ''mapping_challenges'', oc_columns = [
     mapped (Pkey ''id'' TUuid),
     mapped_unique_index (NotNull ''request_id'' (TVarchar 64)),
     mapped ((NotNull ''user_id'' TUuid)\<lparr>col_fk := Some (cascade (convention_fk ''mapping_challenges'' ''user_id'' ''users'') ''users'' ''id'')\<rparr>),
     mapped_index (Nullable ''node_id'' (TVarchar 64)),
     mapped_index (Nullable ''secret_key'' (TVarchar 128)),
     mapped (Nullable ''challenge'' (TVarchar 256)),
     mapped (Nullable ''challenge_response'' (TVarchar 512)),
     mapped (NotNull ''status'' (TVarchar 32)),
     mapped (NotNull ''operation'' (TVarchar 16)),
     mapped (NotNull ''expires_at'' TTimestamptz),
     mapped (Nullable ''completed_at'' TTimestamptz)] @ timestamp_mixin,
     oc_uniques = [], oc_indexes = []\<rparr>"

definition metadata_classes :: "orm_class list" where
  "metadata_classes = [Automation_class, DeviceProvisioning_class, ClaimChallenge_class, Node_class, NodeAttribute_class,
     NodeConfig_class, NodeParamsShadow_class, NodeCertificate_class, OtaImage_class, OtaJob_class,
     OtaJobNode_class, NodeSharing_class, NodeSharingRequest_class, NodeGroup_class, NodeGroupNode_class,
     User_class, RefreshToken_class, UserNodeMapping_class, MappingChallenge_class]"

text \<open>A column that is declared by its foreign key alone has the type of the column that it refers to.\<close>

definition inherited_type :: "orm_column \<Rightarrow> sql_type" where
  "inherited_type c = (case col_type c of
       TInherited \<Rightarrow>
         (case col_fk c of
            None \<Rightarrow> TInherited
          | Some k \<Rightarrow> (case find (\<lambda>cl. oc_tablename cl = fk_table k) metadata_classes of
              None \<Rightarrow> TInherited
            | Some cl \<Rightarrow> (case find (\<lambda>d. col_name d = fk_column k) (oc_columns cl) of
                None \<Rightarrow> TInherited | Some d \<Rightarrow> col_type d)))
     | ty \<Rightarrow> ty)"

definition class_columns :: "orm_class \<Rightarrow> sql_column list" where
  "class_columns cl = map (\<lambda>c. (sql_column.truncate c)\<lparr>col_type := inherited_type c\<rparr>) (oc_columns cl)"

text \<open>\<open>unique=True\<close> is a constraint, with \<open>index=True\<close> a unique index; \<open>index=True\<close> alone is an index.\<close>

definition table_of :: "orm_class \<Rightarrow> sql_table" where
  "table_of cl = \<lparr>tbl_name = oc_tablename cl, tbl_columns = class_columns cl,
     tbl_uniques = oc_uniques cl @ map (\<lambda>c. (convention_uq (oc_tablename cl) (col_name c), [col_name c]))
       (filter (\<lambda>c. oc_unique c \<and> \<not> oc_index c) (oc_columns cl))\<rparr>"

definition indexes_of :: "orm_class \<Rightarrow> sql_index list" where
  "indexes_of cl =
     map (\<lambda>i. \<lparr>ix_name = fst i, ix_table = oc_tablename cl, ix_columns = snd i, ix_unique = False\<rparr>) (oc_indexes cl) @
     map (\<lambda>c. \<lparr>ix_name = convention_ix (oc_tablename cl) (col_name c), ix_table = oc_tablename cl,
               ix_columns = [col_name c], ix_unique = oc_unique c\<rparr>) (filter oc_index (oc_columns cl))"

section \<open>What migrations leave\<close>

definition table_names :: "schema \<Rightarrow> string list" where
  "table_names s = map tbl_name (sch_tables s)"

text \<open>A schema whose foreign keys, indexes and hypertables are on tables that it has.\<close>

definition schema_closed :: "schema \<Rightarrow> bool" where
  "schema_closed s \<longleftrightarrow>
     list_all (\<lambda>t. list_all (\<lambda>k. fk_table k \<in> set (table_names s)) (table_fks t)) (sch_tables s) \<and>
     list_all (\<lambda>i. ix_table i \<in> set (table_names s)) (sch_indexes s) \<and>
     list_all (\<lambda>h. h \<in> set (table_names s)) (sch_hypertables s)"

fun created_tables :: "ddl list \<Rightarrow> sql_table list" where
  "created_tables [] = []"
| "created_tables (CreateTable t # ps) = t # created_tables ps"
| "created_tables (p # ps) = created_tables ps"

fun created_indexes :: "ddl list \<Rightarrow> sql_index list" where
  "created_indexes [] = []"
| "created_indexes (CreateIndex n tn cs u # ps) =
     \<lparr>ix_name = n, ix_table = tn, ix_columns = cs, ix_unique = u\<rparr> # created_indexes ps"
| "created_indexes (p # ps) = created_indexes ps"

abbreviation created :: "ddl list \<Rightarrow> string list" where
  "created ps \<equiv> map tbl_name (created_tables ps)"

text \<open>Scripts that create tables, and indexes and hypertables on their own tables only.\<close>

fun builds_up :: "string list \<Rightarrow> ddl list \<Rightarrow> bool" where
  "builds_up ns [] = True"
| "builds_up ns (CreateTable t # ps) = builds_up (ns @ [tbl_name t]) ps"
| "builds_up ns (CreateIndex n tn cs u # ps) = (tn \<in> set ns \<and> builds_up ns ps)"
| "builds_up ns (DropTable n # ps) = False"
| "builds_up ns (CreateExtension e # ps) = builds_up ns ps"
| "builds_up ns (CreateHypertable n c # ps) = (n \<in> set ns \<and> builds_up ns ps)"

lemma created_append [simp]: "created_tables (ps @ qs) = created_tables ps @ created_tables qs"
  by (induction ps rule: created_tables.induct) simp_all

lemma builds_up_mono: "builds_up ns ps \<Longrightarrow> set ns \<subseteq> set ms \<Longrightarrow> builds_up ms ps"
proof (induction ns ps arbitrary: ms rule: builds_up.induct)
  case (2 ns t ps)
  have "set (ns @ [tbl_name t]) \<subseteq> set (ms @ [tbl_name t])" using "2.prems"(2) by auto
  with 2 show ?case by (simp del: set_append)
qed auto

lemma builds_up_append: "builds_up ns ps \<Longrightarrow> builds_up [] qs \<Longrightarrow> builds_up ns (ps @ qs)"
  by (induction ns ps rule: builds_up.induct) (auto intro: builds_up_mono [of "[]"])

lemma lookup_table_None: "lookup_table n ts = None \<longleftrightarrow> n \<notin> tbl_name ` set ts"
  by (auto simp: lookup_table_def find_None_iff)

lemma lookup_table_Some: "lookup_table n ts = Some t \<Longrightarrow> n \<in> tbl_name ` set ts"
  using lookup_table_None [of n ts] by fastforce

lemma table_name_taken: "t \<in> set (sch_tables s) \<Longrightarrow> tbl_name t \<in> set (relation_names s)"
  by (force simp: relation_names_def table_relations_def)

lemma create_table_Inr:
  assumes "create_table t s = Inr s'"
  shows "s' = s\<lparr>sch_tables := sch_tables s @ [t]\<rparr>" "tbl_name t \<notin> tbl_name ` set (sch_tables s)"
    "\<forall>k \<in> set (table_fks t). fk_table k \<in> insert (tbl_name t) (tbl_name ` set (sch_tables s))"
proof -
  have t: "tbl_name t \<in> set (table_relations t)" by (simp add: table_relations_def)
  from assms have rel: "set (table_relations t) \<inter> set (relation_names s) = {}"
    and fks: "List.map_filter (fk_target (sch_tables s @ [t])) (table_fks t) = []"
    and s': "s' = s\<lparr>sch_tables := sch_tables s @ [t]\<rparr>"
    by (auto simp: create_table_def split: if_split_asm list.split_asm)
  show "s' = s\<lparr>sch_tables := sch_tables s @ [t]\<rparr>" by (rule s')
  show "tbl_name t \<notin> tbl_name ` set (sch_tables s)" using rel t table_name_taken by fastforce
  have "fk_target (sch_tables s @ [t]) k = None" if "k \<in> set (table_fks t)" for k
    using fks that by (auto simp: List.map_filter_def filter_empty_conv)
  then show "\<forall>k \<in> set (table_fks t). fk_table k \<in> insert (tbl_name t) (tbl_name ` set (sch_tables s))"
    using lookup_table_Some by (fastforce simp: fk_target_def split: option.split_asm)
qed

text \<open>
  A schema that is another one with tables on top, each of which refers to tables below it; the indexes and
  hypertables are those below and some on the new tables.
\<close>

definition layered :: "string set \<Rightarrow> sql_table list \<Rightarrow> bool" where
  "layered ns ts \<longleftrightarrow> (\<forall>i < length ts. tbl_name (ts ! i) \<notin> ns \<union> tbl_name ` set (take i ts) \<and>
     (\<forall>k \<in> set (table_fks (ts ! i)). fk_table k \<in> ns \<union> tbl_name ` set (take (Suc i) ts)))"

definition on_top :: "schema \<Rightarrow> sql_table list \<Rightarrow> schema \<Rightarrow> bool" where
  "on_top base ts s \<longleftrightarrow> sch_tables s = sch_tables base @ ts \<and> layered (set (table_names base)) ts \<and>
     filter (\<lambda>i. ix_table i \<notin> tbl_name ` set ts) (sch_indexes s) = sch_indexes base \<and>
     filter (\<lambda>h. h \<notin> tbl_name ` set ts) (sch_hypertables s) = sch_hypertables base"

lemma layered_snoc:
  "layered ns (ts @ [t]) \<longleftrightarrow> layered ns ts \<and> tbl_name t \<notin> ns \<union> tbl_name ` set ts \<and>
     (\<forall>k \<in> set (table_fks t). fk_table k \<in> ns \<union> tbl_name ` set (ts @ [t]))"
  by (auto simp: layered_def nth_append less_Suc_eq)

lemma layered_fks: "layered ns ts \<Longrightarrow> t \<in> set ts \<Longrightarrow> k \<in> set (table_fks t) \<Longrightarrow> fk_table k \<in> ns \<union> tbl_name ` set ts"
  by (induction ts rule: rev_induct) (auto simp: layered_snoc)

lemma filter_fresh:
  assumes "filter (\<lambda>x. f x \<notin> N) xs = ys" "\<forall>y \<in> set ys. f y \<in> M" "n \<notin> M"
  shows "filter (\<lambda>x. f x \<notin> insert n N) xs = ys"
proof -
  have "filter (\<lambda>x. f x \<notin> insert n N) xs = filter (\<lambda>x. f x \<noteq> n) (filter (\<lambda>x. f x \<notin> N) xs)"
    by (simp add: conj_commute)
  also have "\<dots> = ys" using assms by (auto simp: filter_id_conv)
  finally show ?thesis .
qed

lemma drop_top:
  assumes top: "on_top base (ts @ [t]) s" and closed: "schema_closed base"
  shows "\<exists>s'. drop_table (tbl_name t) s = Inr s' \<and> on_top base ts s' \<and> sch_extensions s' = sch_extensions s"
proof -
  let ?n = "tbl_name t" and ?ns = "set (table_names base)"
  let ?s = "s\<lparr>sch_tables := filter (\<lambda>t. tbl_name t \<noteq> ?n) (sch_tables s),
    sch_indexes := filter (\<lambda>i. ix_table i \<noteq> ?n) (sch_indexes s), sch_hypertables := filter (\<lambda>h. h \<noteq> ?n) (sch_hypertables s)\<rparr>"
  have tables: "sch_tables s = sch_tables base @ ts @ [t]" and lay: "layered ?ns ts"
    and fresh: "?n \<notin> ?ns \<union> tbl_name ` set ts"
    using top by (auto simp: on_top_def layered_snoc)
  have "fk_table k \<noteq> ?n" if "u \<in> set (sch_tables base @ ts)" "k \<in> set (table_fks u)" for u k
  proof -
    have "fk_table k \<in> ?ns \<union> tbl_name ` set ts"
      using that closed layered_fks [OF lay, of u k] by (auto simp: schema_closed_def list_all_iff)
    with fresh show ?thesis by metis
  qed
  then have "drop_table ?n s = Inr ?s"
    by (auto simp: drop_table_def lookup_table_None tables list_ex_iff)
  moreover have "filter (\<lambda>t. tbl_name t \<noteq> ?n) (sch_tables s) = sch_tables base @ ts"
  proof -
    have "\<forall>u \<in> set (sch_tables base @ ts). tbl_name u \<noteq> ?n" using fresh by (auto simp: table_names_def) (metis imageI)+
    then have "filter (\<lambda>u. tbl_name u \<noteq> ?n) (sch_tables base @ ts) = sch_tables base @ ts" by (simp only: filter_id_conv)
    then show ?thesis by (simp add: tables)
  qed
  then have "on_top base ts ?s"
    using top lay by (auto simp: on_top_def conj_commute intro!: arg_cong2 [of _ _ _ _ filter])
  ultimately show ?thesis by simp
qed

lemma create_on_top:
  assumes closed: "schema_closed base" and top: "on_top base ts s" and new: "create_table t s = Inr s'"
  shows "on_top base (ts @ [t]) s'"
proof -
  note t = create_table_Inr [OF new]
  let ?ns = "set (table_names base)"
  have tables: "sch_tables s = sch_tables base @ ts" using top by (simp add: on_top_def)
  have fresh: "tbl_name t \<notin> ?ns" using t(2) by (auto simp: tables table_names_def)
  have "filter (\<lambda>i. ix_table i \<notin> insert (tbl_name t) (tbl_name ` set ts)) (sch_indexes s) = sch_indexes base"
    using top closed by (intro filter_fresh [OF _ _ fresh]) (auto simp: on_top_def schema_closed_def list_all_iff)
  moreover have "filter (\<lambda>h. h \<notin> insert (tbl_name t) (tbl_name ` set ts)) (sch_hypertables s) = sch_hypertables base"
    using top closed by (intro filter_fresh [where f = "\<lambda>h. h", OF _ _ fresh]) (auto simp: on_top_def schema_closed_def list_all_iff)
  moreover have "layered ?ns (ts @ [t])"
    using top t(2,3) by (auto simp: on_top_def layered_snoc tables table_names_def)
  ultimately show ?thesis by (simp add: on_top_def t(1) tables)
qed

lemma run_on_top:
  assumes "schema_closed base"
  shows "builds_up (map tbl_name ts) ps \<Longrightarrow> on_top base ts s \<Longrightarrow> run_ddl installed ps s = Inr s' \<Longrightarrow>
    \<exists>us. on_top base (ts @ us) s' \<and> us = created_tables ps"
proof (induction ps arbitrary: ts s)
  case Nil
  then show ?case by (auto intro: exI [of _ "[]"])
next
  case (Cons p ps)
  obtain s1 where one: "run_op installed p s = Inr s1" and rest: "run_ddl installed ps s1 = Inr s'"
    using Cons.prems(3) by (auto split: sum.split_asm)
  show ?case
  proof (cases "\<exists>t. p = CreateTable t")
    case True
    then obtain t where t: "p = CreateTable t" ..
    have "on_top base (ts @ [t]) s1"
      using one Cons.prems(2) assms by (auto simp: t dest: create_on_top)
    from Cons.IH [OF _ this rest] Cons.prems(1) obtain us where
      "on_top base ((ts @ [t]) @ us) s'" "us = created_tables ps" unfolding t by auto
    then show ?thesis unfolding t by (intro exI [of _ "t # us"]) simp
  next
    case False
    have "on_top base ts s1" "created_tables (p # ps) = created_tables ps" "builds_up (map tbl_name ts) ps"
      using one Cons.prems(1,2) False
      by (cases p; auto simp: on_top_def create_index_def create_extension_def create_hypertable_def
          split: if_split_asm option.split_asm)+
    with Cons.IH [OF _ _ rest] show ?thesis by simp
  qed
qed

lemma drop_all:
  assumes "schema_closed base"
  shows "on_top base ts s \<Longrightarrow>
    run_ddl installed (map DropTable (rev (map tbl_name ts))) s = Inr (base\<lparr>sch_extensions := sch_extensions s\<rparr>)"
proof (induction ts arbitrary: s rule: rev_induct)
  case Nil
  then show ?case by (simp add: on_top_def)
next
  case (snoc t ts)
  from drop_top [OF snoc.prems assms] obtain s' where
    "drop_table (tbl_name t) s = Inr s'" "on_top base ts s'" "sch_extensions s' = sch_extensions s" by blast
  with snoc.IH show ?case by simp
qed

lemma on_top_refl [simp]: "on_top s [] s"
  by (simp add: on_top_def layered_def)

lemma undo_ddl:
  assumes "schema_closed s" "builds_up [] ps" "run_ddl installed ps s = Inr s'"
  shows "run_ddl installed (map DropTable (rev (created ps))) s' = Inr (s\<lparr>sch_extensions := sch_extensions s'\<rparr>)"
proof -
  have "on_top s (created_tables ps) s'"
    using run_on_top [of s "[]" ps s installed s'] assms by auto
  from drop_all [OF assms(1) this, of installed] show ?thesis .
qed

text \<open>Each script of the repository only builds up, and its \<open>downgrade\<close> drops what it created, last first.\<close>

lemma scripts_undone:
  "list_all (\<lambda>m. builds_up [] (upgrade m) \<and> downgrade m = map DropTable (rev (created (upgrade m)))) scripts"
  by code_simp

lemma revisions_after_scripts: "set (revisions_after k v) \<subseteq> set scripts"
proof (induction k v rule: revisions_after.induct)
  case (2 k v)
  show ?case
  proof (cases "find (\<lambda>m. down_revision m = v) scripts")
    case (Some m)
    then have "m \<in> set scripts" by (auto simp: find_Some_iff)
    with 2 [OF Some] Some show ?thesis by simp
  qed simp
qed simp

lemma scripts_undone_list:
  assumes "set ms \<subseteq> set scripts"
  shows "builds_up [] (concat (map upgrade ms))"
    "concat (map downgrade (rev ms)) = map DropTable (rev (created (concat (map upgrade ms))))"
  using assms scripts_undone
  by (induction ms) (auto simp: list_all_iff intro: builds_up_append)

section \<open>Properties\<close>

text \<open>
  C28: the migrations can be undone.  Whatever consistent schema and revision \<open>alembic upgrade head\<close> starts from,
  downgrading to that revision afterwards succeeds and gives back every table, index and hypertable of
  the schema as it was; only the extensions stay.  The scripts drop their tables in an order that no
  foreign key forbids.
\<close>

theorem migrations_undone:
  assumes "schema_closed s" and up: "upgrade_head installed (v, s) = (Inr (), w, s')"
  shows "downgrade_to installed v (w, s') = (Inr (), v, s\<lparr>sch_extensions := sch_extensions s'\<rparr>)"
proof -
  have run: "run_ddl installed (concat (map upgrade (pending_revisions v))) s = Inr s'"
    using up by (auto simp: upgrade_head_def run_migrations_def Let_def split: sum.split_asm)
  have ms: "set (pending_revisions v) \<subseteq> set scripts"
    by (simp add: pending_revisions_def revisions_after_scripts)
  show ?thesis
    using undo_ddl [OF assms(1) scripts_undone_list(1) [OF ms] run]
    by (simp add: downgrade_to_def run_migrations_def scripts_undone_list(2) [OF ms])
qed

text \<open>
  What of a table the application relies on: its columns with their types, nullability and references, its
  unique keys and its indexes, each without its name.  A \<open>JSON\<close> column of the models is \<open>jsonb\<close> in the
  migrations, which takes the same documents.
\<close>

definition column_shape :: "sql_column \<Rightarrow> string \<times> sql_type \<times> bool \<times> bool \<times> (string \<times> string \<times> bool) option" where
  "column_shape c = (col_name c, if col_type c = TJson then TJsonb else col_type c, col_nullable c, col_primary_key c,
     map_option (\<lambda>k. (fk_table k, fk_column k, fk_on_delete_cascade k)) (col_fk c))"

definition index_columns :: "bool \<Rightarrow> string \<Rightarrow> sql_index list \<Rightarrow> string list list" where
  "index_columns u n is = map ix_columns (filter (\<lambda>i. ix_table i = n \<and> ix_unique i = u) is)"

definition agrees :: "sql_index list \<Rightarrow> sql_table \<Rightarrow> orm_class \<Rightarrow> bool" where
  "agrees is t cl \<longleftrightarrow>
     set (map column_shape (tbl_columns t)) = set (map column_shape (class_columns cl)) \<and>
     set (keys_of t @ index_columns True (tbl_name t) is) =
       set (keys_of (table_of cl) @ index_columns True (tbl_name t) (indexes_of cl)) \<and>
     set (index_columns False (tbl_name t) is) = set (index_columns False (tbl_name t) (indexes_of cl))"

text \<open>The scripts ask for three extensions.\<close>

fun extensions_of :: "ddl list \<Rightarrow> string list" where
  "extensions_of [] = []"
| "extensions_of (CreateExtension e # ps) = e # extensions_of ps"
| "extensions_of (p # ps) = extensions_of ps"

lemma run_ddl_installed:
  "\<forall>e \<in> set (extensions_of ps). installed e = installed' e \<Longrightarrow> run_ddl installed ps s = run_ddl installed' ps s"
proof (induction ps arbitrary: s)
  case (Cons p ps)
  then have "run_op installed p s = run_op installed' p s" by (cases p) (auto simp: create_extension_def)
  moreover have "\<forall>e \<in> set (extensions_of ps). installed e = installed' e" using Cons.prems by (cases p) auto
  ultimately show ?case using Cons.IH by (simp split: sum.split)
qed simp

definition all_upgrades :: "ddl list" where
  "all_upgrades = concat (map upgrade scripts)"

fun hypertables_of :: "ddl list \<Rightarrow> string list" where
  "hypertables_of [] = []"
| "hypertables_of (CreateHypertable n c # ps) = n # hypertables_of ps"
| "hypertables_of (p # ps) = hypertables_of ps"

definition add_new :: "string list \<Rightarrow> string list \<Rightarrow> string list" where
  "add_new xs ys = fold (\<lambda>y xs. if y \<in> set xs then xs else xs @ [y]) ys xs"

lemma add_new_simps [simp]: "add_new xs [] = xs"
  "add_new xs (y # ys) = add_new (if y \<in> set xs then xs else xs @ [y]) ys"
  by (simp_all add: add_new_def)

text \<open>The schema that a script gives when it succeeds can be read off the script.\<close>

definition schema_after :: "ddl list \<Rightarrow> schema \<Rightarrow> schema" where
  "schema_after ps s = \<lparr>sch_tables = sch_tables s @ created_tables ps, sch_indexes = sch_indexes s @ created_indexes ps,
     sch_extensions = add_new (sch_extensions s) (extensions_of ps),
     sch_hypertables = add_new (sch_hypertables s) (hypertables_of ps)\<rparr>"

lemma run_op_after:
  assumes "run_op installed p s = Inr s1" "\<And>n. p \<noteq> DropTable n"
  shows "schema_after ps s1 = schema_after (p # ps) s"
  using assms by (cases p) (auto simp: schema_after_def create_index_def create_extension_def create_hypertable_def
      dest!: create_table_Inr(1) split: if_split_asm option.split_asm)

lemma run_after: "builds_up ns ps \<Longrightarrow> run_ddl installed ps s = Inr s' \<Longrightarrow> s' = schema_after ps s"
proof (induction ps arbitrary: ns s)
  case Nil
  then show ?case by (simp add: schema_after_def)
next
  case (Cons p ps)
  obtain s1 where s1: "run_op installed p s = Inr s1" "run_ddl installed ps s1 = Inr s'"
    using Cons.prems(2) by (auto split: sum.split_asm)
  obtain ms where "builds_up ms ps" and p: "\<And>n. p \<noteq> DropTable n" using Cons.prems(1) by (cases p) auto
  with Cons.IH [OF _ s1(2)] run_op_after [OF s1(1), of ps] show ?case by simp
qed

lemma run_ddl_append: "run_ddl installed (ps @ qs) s = (case run_ddl installed ps s of Inl e \<Rightarrow> Inl e | Inr s' \<Rightarrow> run_ddl installed qs s')"
  by (induction ps arbitrary: s) (auto split: sum.split)

lemma created_concat: "created_tables (concat pss) = concat (map created_tables pss)"
  by (induction pss) simp_all

definition schema_at :: "nat \<Rightarrow> schema" where
  "schema_at k = schema_after (concat (map upgrade (take k scripts))) empty_schema"

abbreviation head_schema :: schema where
  "head_schema \<equiv> schema_at 5"

lemma scripts_run_1: "\<not> isl (run_ddl (\<lambda>e. True) upgrade_0001 (schema_at 0))"
  by code_simp

lemma scripts_run_2: "\<not> isl (run_ddl (\<lambda>e. True) upgrade_0002 (schema_at 1))"
  by code_simp

lemma scripts_run_3: "\<not> isl (run_ddl (\<lambda>e. True) upgrade_0003 (schema_at 2))"
  by code_simp

lemma scripts_run_4: "\<not> isl (run_ddl (\<lambda>e. True) upgrade_0004 (schema_at 3))"
  by code_simp

lemma scripts_run_5: "\<not> isl (run_ddl (\<lambda>e. True) upgrade_0005 (schema_at 4))"
  by code_simp

lemmas scripts_run = scripts_run_1 scripts_run_2 scripts_run_3 scripts_run_4 scripts_run_5

lemma schema_after_append: "schema_after qs (schema_after ps s) = schema_after (ps @ qs) s"
proof -
  have ix: "created_indexes (ps @ qs) = created_indexes ps @ created_indexes qs"
    by (induction ps rule: created_indexes.induct) simp_all
  have ex: "extensions_of (ps @ qs) = extensions_of ps @ extensions_of qs"
    by (induction ps rule: extensions_of.induct) simp_all
  have hy: "hypertables_of (ps @ qs) = hypertables_of ps @ hypertables_of qs"
    by (induction ps rule: hypertables_of.induct) simp_all
  show ?thesis by (simp add: schema_after_def ix ex hy add_new_def)
qed

lemma script_step:
  assumes "k < 5" "\<not> isl (run_ddl (\<lambda>e. True) (upgrade (scripts ! k)) (schema_at k))"
  shows "run_ddl (\<lambda>e. True) (upgrade (scripts ! k)) (schema_at k) = Inr (schema_at (Suc k))"
proof -
  have len: "k < length scripts" using assms(1) by (simp add: scripts_def)
  obtain s where s: "run_ddl (\<lambda>e. True) (upgrade (scripts ! k)) (schema_at k) = Inr s"
    using assms(2) by (cases "run_ddl (\<lambda>e. True) (upgrade (scripts ! k)) (schema_at k)") auto
  have "builds_up [] (upgrade (scripts ! k))" using scripts_undone len by (simp add: list_all_length)
  from run_after [OF this s] have "s = schema_at (Suc k)"
    using len by (simp add: schema_at_def take_Suc_conv_app_nth schema_after_append)
  with s show ?thesis by simp
qed

lemma head_runs: "run_ddl (\<lambda>e. True) all_upgrades empty_schema = Inr head_schema"
proof -
  have five: "scripts = [scripts ! 0, scripts ! 1, scripts ! 2, scripts ! 3, scripts ! 4]" by (simp add: scripts_def)
  have zero: "schema_at 0 = empty_schema" by (simp add: schema_at_def schema_after_def empty_schema_def)
  have all: "all_upgrades = upgrade (scripts ! 0) @ upgrade (scripts ! 1) @ upgrade (scripts ! 2) @ upgrade (scripts ! 3) @ upgrade (scripts ! 4)"
    unfolding all_upgrades_def by (subst five) simp
  have step: "run_ddl (\<lambda>e. True) (upgrade (scripts ! k)) (schema_at k) = Inr (schema_at (Suc k))" if "k < 5" for k
    using that scripts_run by (intro script_step) (auto simp: less_Suc_eq numeral_eq_Suc scripts_def)
  show ?thesis unfolding all
    using step [of 0] step [of 1] step [of 2] step [of 3] step [of 4] by (simp add: run_ddl_append zero numeral_eq_Suc)
qed

lemma all_extensions: "extensions_of all_upgrades = [''uuid-ossp'', ''pgcrypto'', ''timescaledb'']"
  by code_simp

lemma from_scratch: "pending_revisions None = scripts" "scripts \<noteq> []" "revision (last scripts) = ''0005''"
  by code_simp+

lemmas upgrade_defs =
  scripts_def upgrade_0001_def upgrade_0002_def upgrade_0003_def upgrade_0004_def upgrade_0005_def

lemma all_tables: "created_tables all_upgrades = [
     users_table, refresh_tokens_table, nodes_table, node_certificates_table, node_configs_table,
     node_params_shadow_table, node_attributes_table, user_node_mappings_table, mapping_challenges_table, device_provisioning_table,
     claim_challenges_table, ota_images_table, ota_jobs_table, ota_job_nodes_table, node_sharing_table,
     node_sharing_requests_table, node_groups_table, node_group_nodes_table, automations_table, tsdata_table]"
  by (simp add: all_upgrades_def upgrade_defs)

lemma head_parts: "sch_tables head_schema = created_tables all_upgrades" "sch_indexes head_schema = created_indexes all_upgrades"
proof -
  have "take 5 scripts = scripts" by (simp add: scripts_def)
  then show "sch_tables head_schema = created_tables all_upgrades" "sch_indexes head_schema = created_indexes all_upgrades"
    by (simp_all only: schema_at_def schema_after_def all_upgrades_def empty_schema_def) simp_all
qed

lemmas table_defs =
  users_table_def refresh_tokens_table_def nodes_table_def node_certificates_table_def node_configs_table_def
  node_params_shadow_table_def node_attributes_table_def user_node_mappings_table_def mapping_challenges_table_def device_provisioning_table_def
  claim_challenges_table_def ota_images_table_def ota_jobs_table_def ota_job_nodes_table_def node_sharing_table_def
  node_sharing_requests_table_def node_groups_table_def node_group_nodes_table_def automations_table_def tsdata_table_def

lemmas column_defs = Pkey_def NotNull_def Nullable_def cascade_def

lemma table_name_simps [simp]:
  "tbl_name users_table = ''users''"
  "tbl_name refresh_tokens_table = ''refresh_tokens''"
  "tbl_name nodes_table = ''nodes''"
  "tbl_name node_certificates_table = ''node_certificates''"
  "tbl_name node_configs_table = ''node_configs''"
  "tbl_name node_params_shadow_table = ''node_params_shadow''"
  "tbl_name node_attributes_table = ''node_attributes''"
  "tbl_name user_node_mappings_table = ''user_node_mappings''"
  "tbl_name mapping_challenges_table = ''mapping_challenges''"
  "tbl_name device_provisioning_table = ''device_provisioning''"
  "tbl_name claim_challenges_table = ''claim_challenges''"
  "tbl_name ota_images_table = ''ota_images''"
  "tbl_name ota_jobs_table = ''ota_jobs''"
  "tbl_name ota_job_nodes_table = ''ota_job_nodes''"
  "tbl_name node_sharing_table = ''node_sharing''"
  "tbl_name node_sharing_requests_table = ''node_sharing_requests''"
  "tbl_name node_groups_table = ''node_groups''"
  "tbl_name node_group_nodes_table = ''node_group_nodes''"
  "tbl_name automations_table = ''automations''"
  "tbl_name tsdata_table = ''tsdata''"
  by (simp_all add: users_table_def refresh_tokens_table_def nodes_table_def node_certificates_table_def node_configs_table_def node_params_shadow_table_def node_attributes_table_def user_node_mappings_table_def mapping_challenges_table_def device_provisioning_table_def claim_challenges_table_def ota_images_table_def ota_jobs_table_def ota_job_nodes_table_def node_sharing_table_def node_sharing_requests_table_def node_groups_table_def node_group_nodes_table_def automations_table_def tsdata_table_def)

lemma class_name_simps [simp]:
  "oc_tablename Automation_class = ''automations''"
  "oc_tablename DeviceProvisioning_class = ''device_provisioning''"
  "oc_tablename ClaimChallenge_class = ''claim_challenges''"
  "oc_tablename Node_class = ''nodes''"
  "oc_tablename NodeAttribute_class = ''node_attributes''"
  "oc_tablename NodeConfig_class = ''node_configs''"
  "oc_tablename NodeParamsShadow_class = ''node_params_shadow''"
  "oc_tablename NodeCertificate_class = ''node_certificates''"
  "oc_tablename OtaImage_class = ''ota_images''"
  "oc_tablename OtaJob_class = ''ota_jobs''"
  "oc_tablename OtaJobNode_class = ''ota_job_nodes''"
  "oc_tablename NodeSharing_class = ''node_sharing''"
  "oc_tablename NodeSharingRequest_class = ''node_sharing_requests''"
  "oc_tablename NodeGroup_class = ''node_groups''"
  "oc_tablename NodeGroupNode_class = ''node_group_nodes''"
  "oc_tablename User_class = ''users''"
  "oc_tablename RefreshToken_class = ''refresh_tokens''"
  "oc_tablename UserNodeMapping_class = ''user_node_mappings''"
  "oc_tablename MappingChallenge_class = ''mapping_challenges''"
  by (simp_all add: Automation_class_def DeviceProvisioning_class_def ClaimChallenge_class_def Node_class_def NodeAttribute_class_def NodeConfig_class_def NodeParamsShadow_class_def NodeCertificate_class_def OtaImage_class_def OtaJob_class_def OtaJobNode_class_def NodeSharing_class_def NodeSharingRequest_class_def NodeGroup_class_def NodeGroupNode_class_def User_class_def RefreshToken_class_def UserNodeMapping_class_def MappingChallenge_class_def)

lemma classes_agree_1:
  "agrees (created_indexes all_upgrades) automations_table Automation_class"
  "agrees (created_indexes all_upgrades) device_provisioning_table DeviceProvisioning_class"
  "agrees (created_indexes all_upgrades) claim_challenges_table ClaimChallenge_class"
  "agrees (created_indexes all_upgrades) nodes_table Node_class"
  "agrees (created_indexes all_upgrades) node_attributes_table NodeAttribute_class"
  by code_simp+

lemma classes_agree_2:
  "agrees (created_indexes all_upgrades) node_configs_table NodeConfig_class"
  "agrees (created_indexes all_upgrades) node_params_shadow_table NodeParamsShadow_class"
  "agrees (created_indexes all_upgrades) node_certificates_table NodeCertificate_class"
  "agrees (created_indexes all_upgrades) ota_images_table OtaImage_class"
  "agrees (created_indexes all_upgrades) ota_jobs_table OtaJob_class"
  by code_simp+

lemma classes_agree_3:
  "agrees (created_indexes all_upgrades) ota_job_nodes_table OtaJobNode_class"
  "agrees (created_indexes all_upgrades) node_sharing_table NodeSharing_class"
  "agrees (created_indexes all_upgrades) node_sharing_requests_table NodeSharingRequest_class"
  "agrees (created_indexes all_upgrades) node_groups_table NodeGroup_class"
  "agrees (created_indexes all_upgrades) node_group_nodes_table NodeGroupNode_class"
  by code_simp+

lemma classes_agree_4:
  "agrees (created_indexes all_upgrades) users_table User_class"
  "agrees (created_indexes all_upgrades) refresh_tokens_table RefreshToken_class"
  "agrees (created_indexes all_upgrades) user_node_mappings_table UserNodeMapping_class"
  "agrees (created_indexes all_upgrades) mapping_challenges_table MappingChallenge_class"
  by code_simp+

lemmas classes_agree = classes_agree_1 classes_agree_2 classes_agree_3 classes_agree_4

lemma head_agrees:
  "list_all (\<lambda>cl. case lookup_table (oc_tablename cl) (sch_tables head_schema) of
     Some t \<Rightarrow> agrees (sch_indexes head_schema) t cl | None \<Rightarrow> False) metadata_classes"
  by (simp add: metadata_classes_def head_parts all_tables lookup_table_def classes_agree)

lemma head_tables: "set (table_names head_schema) = insert ''tsdata'' (oc_tablename ` set metadata_classes)"
  by (auto simp: table_names_def head_parts all_tables metadata_classes_def)

text \<open>
  C27: the migrations and the models agree.  On an empty database whose server has the three extensions,
  \<open>alembic upgrade head\<close> succeeds, and every table of the declarative classes is then there with the same
  columns, types, nullability, references, unique keys and indexes (up to names, and \<open>jsonb\<close> for
  \<open>JSON\<close>); the only other table is \<open>tsdata\<close>, which the code reads and writes in SQL.
\<close>

theorem models_migrated:
  assumes "installed ''uuid-ossp''" "installed ''pgcrypto''" "installed ''timescaledb''"
  shows "\<exists>s. upgrade_head installed (None, empty_schema) = (Inr (), Some ''0005'', s) \<and>
    set (table_names s) = insert ''tsdata'' (oc_tablename ` set metadata_classes) \<and>
    (\<forall>cl \<in> set metadata_classes. \<exists>t. lookup_table (oc_tablename cl) (sch_tables s) = Some t \<and> agrees (sch_indexes s) t cl)"
proof -
  have "run_ddl installed all_upgrades empty_schema = Inr head_schema"
    using run_ddl_installed [of all_upgrades installed "\<lambda>e. True" empty_schema] head_runs assms
    by (simp add: all_extensions)
  then have "upgrade_head installed (None, empty_schema) = (Inr (), Some ''0005'', head_schema)"
    by (simp add: upgrade_head_def run_migrations_def Let_def from_scratch flip: all_upgrades_def)
  then show ?thesis using head_agrees head_tables
    by (fastforce simp: list_all_iff split: option.split_asm)
qed

theorem models_migrated_witness:
  "\<exists>s. upgrade_head (\<lambda>e. e \<noteq> ''postgis'') (None, empty_schema) = (Inr (), Some ''0005'', s) \<and>
    set (table_names s) = insert ''tsdata'' (oc_tablename ` set metadata_classes) \<and>
    (\<forall>cl \<in> set metadata_classes. \<exists>t. lookup_table (oc_tablename cl) (sch_tables s) = Some t \<and> agrees (sch_indexes s) t cl)"
  by (rule models_migrated) simp_all

lemma scratch_upgrade: "upgrade_head (\<lambda>e. True) (None, empty_schema) = (Inr (), Some ''0005'', head_schema)"
  by (simp add: upgrade_head_def run_migrations_def Let_def from_scratch head_runs flip: all_upgrades_def)

theorem migrations_undone_witness:
  "downgrade_to (\<lambda>e. True) None (Some ''0005'', head_schema) =
     (Inr (), None, empty_schema\<lparr>sch_extensions := sch_extensions head_schema\<rparr>)"
  by (rule migrations_undone [OF _ scratch_upgrade]) (simp add: schema_closed_def empty_schema_def)

end
