(* ===== verification/Constraints.thy ===== *)
theory Constraints
  imports Migrations Schema
begin

text \<open>
  The store of the development against the schema that the migrations create.  The components work on typed
  tables whose unique keys and references are the relations of \<open>Schema\<close>; here a table is read as rows of
  column values, and the integrity of the store is compared with the keys and foreign keys that the
  schema at the last revision declares.
\<close>

section \<open>Rows of values\<close>

datatype sql_value = Null | VUuid uuid | VText string

type_synonym sql_row = "string \<Rightarrow> sql_value"

definition row_of :: "(string \<times> sql_value) list \<Rightarrow> sql_row" where
  "row_of cs = (\<lambda>c. case map_of cs c of Some v \<Rightarrow> v | None \<Rightarrow> Null)"

definition text_or_null :: "string option \<Rightarrow> sql_value" where
  "text_or_null t = (case t of None \<Rightarrow> Null | Some s \<Rightarrow> VText s)"

definition uuid_or_null :: "uuid option \<Rightarrow> sql_value" where
  "uuid_or_null t = (case t of None \<Rightarrow> Null | Some s \<Rightarrow> VUuid s)"

text \<open>The columns of each table that take part in a key or a reference.\<close>

definition user_row :: "user \<Rightarrow> sql_row" where
  "user_row r = row_of [(''id'', VUuid (usr_id r)), (''user_name'', VText (usr_user_name r))]"

definition refresh_token_row :: "refresh_token \<Rightarrow> sql_row" where
  "refresh_token_row r = row_of [(''id'', VUuid (rt_id r)), (''user_id'', VUuid (rt_user_id r)), (''jti'', VText (rt_jti r))]"

definition node_row :: "node \<Rightarrow> sql_row" where
  "node_row r = row_of [(''node_id'', VText (nd_node_id r))]"

definition certificate_row :: "node_certificate \<Rightarrow> sql_row" where
  "certificate_row r = row_of [(''serial'', VText (cert_serial r))]"

definition config_row :: "node_config \<Rightarrow> sql_row" where
  "config_row r = row_of [(''node_id'', VText (cfg_node_id r))]"

definition shadow_row :: "node_params_shadow \<Rightarrow> sql_row" where
  "shadow_row r = row_of [(''node_id'', VText (shadow_node_id r))]"

definition mapping_row :: "user_node_mapping \<Rightarrow> sql_row" where
  "mapping_row r = row_of [(''id'', VUuid (unm_id r)), (''user_id'', VUuid (unm_user_id r)), (''node_id'', VText (unm_node_id r))]"

definition challenge_row :: "mapping_challenge \<Rightarrow> sql_row" where
  "challenge_row r = row_of [(''id'', VUuid (mc_id r)), (''request_id'', VText (mc_request_id r)), (''user_id'', VUuid (mc_user_id r))]"

definition provisioning_row :: "device_provisioning \<Rightarrow> sql_row" where
  "provisioning_row r = row_of [(''mac_addr'', VText (dp_mac_addr r))]"

definition claim_row :: "claim_challenge \<Rightarrow> sql_row" where
  "claim_row r = row_of [(''id'', VUuid (cc_id r)), (''auth_id'', text_or_null (cc_auth_id r))]"

definition image_row :: "ota_image \<Rightarrow> sql_row" where
  "image_row r = row_of [(''id'', VUuid (img_id r))]"

definition job_row :: "ota_job \<Rightarrow> sql_row" where
  "job_row r = row_of [(''id'', VUuid (job_id r)), (''image_id'', VUuid (job_image_id r))]"

definition job_node_row :: "ota_job_node \<Rightarrow> sql_row" where
  "job_node_row r = row_of [(''id'', VUuid (jn_id r)), (''job_id'', VUuid (jn_job_id r)), (''node_id'', VText (jn_node_id r))]"

definition sharing_row :: "node_sharing_row \<Rightarrow> sql_row" where
  "sharing_row r = row_of [(''id'', VUuid (sh_id r)), (''node_id'', VText (sh_node_id r)), (''from_user_id'', VUuid (sh_from_user_id r)), (''to_user_id'', VUuid (sh_to_user_id r))]"

definition sharing_request_row :: "node_sharing_request \<Rightarrow> sql_row" where
  "sharing_request_row r = row_of [(''id'', VUuid (sr_id r)), (''node_id'', VText (sr_node_id r)), (''from_user_id'', VUuid (sr_from_user_id r))]"

definition group_row :: "node_group \<Rightarrow> sql_row" where
  "group_row r = row_of [(''id'', VUuid (grp_id r)), (''owner_id'', VUuid (grp_owner_id r)), (''parent_id'', uuid_or_null (grp_parent_id r))]"

definition group_node_row :: "node_group_node \<Rightarrow> sql_row" where
  "group_node_row r = row_of [(''id'', VUuid (gn_id r)), (''group_id'', VUuid (gn_group_id r)), (''node_id'', VText (gn_node_id r))]"

definition automation_row :: "automation \<Rightarrow> sql_row" where
  "automation_row r = row_of [(''id'', VUuid (au_id r)), (''user_id'', VUuid (au_user_id r))]"

text \<open>The store as tables of rows; nothing in the code writes \<open>node_attributes\<close>, and \<open>tsdata\<close> has no key.\<close>

definition db_rows :: "db \<Rightarrow> string \<Rightarrow> sql_row list" where
  "db_rows d n = (case map_of [
     (''users'', map user_row (users d)),
     (''refresh_tokens'', map refresh_token_row (refresh_tokens d)),
     (''nodes'', map node_row (nodes d)),
     (''node_certificates'', map certificate_row (node_certificates d)),
     (''node_configs'', map config_row (node_configs d)),
     (''node_params_shadow'', map shadow_row (node_params_shadows d)),
     (''user_node_mappings'', map mapping_row (user_node_mappings d)),
     (''mapping_challenges'', map challenge_row (mapping_challenges d)),
     (''device_provisioning'', map provisioning_row (device_provisionings d)),
     (''claim_challenges'', map claim_row (claim_challenges d)),
     (''ota_images'', map image_row (ota_images d)),
     (''ota_jobs'', map job_row (ota_jobs d)),
     (''ota_job_nodes'', map job_node_row (ota_job_nodes d)),
     (''node_sharing'', map sharing_row (node_sharings d)),
     (''node_sharing_requests'', map sharing_request_row (node_sharing_requests d)),
     (''node_groups'', map group_row (node_groups d)),
     (''node_group_nodes'', map group_node_row (node_group_nodes d)),
     (''automations'', map automation_row (automations d))] n of Some rows \<Rightarrow> rows | None \<Rightarrow> [])"

section \<open>What a schema demands\<close>

text \<open>Two rows break a unique key when they agree on all its columns and none is null.\<close>

definition same_on :: "string list \<Rightarrow> sql_row \<Rightarrow> sql_row \<Rightarrow> bool" where
  "same_on k a b \<longleftrightarrow> list_all (\<lambda>c. a c \<noteq> Null \<and> a c = b c) k"

definition keys_hold :: "schema \<Rightarrow> sql_table \<Rightarrow> sql_row list \<Rightarrow> bool" where
  "keys_hold s t rows \<longleftrightarrow> list_all (\<lambda>k. clash_free (same_on k) rows) (unique_keys s t)"

definition reference_holds :: "(string \<Rightarrow> sql_row list) \<Rightarrow> sql_row \<Rightarrow> sql_column \<Rightarrow> bool" where
  "reference_holds tables r c = (case col_fk c of
       None \<Rightarrow> True
     | Some k \<Rightarrow> r (col_name c) = Null \<or> list_ex (\<lambda>p. p (fk_column k) = r (col_name c)) (tables (fk_table k)))"

definition references_hold :: "sql_table \<Rightarrow> (string \<Rightarrow> sql_row list) \<Rightarrow> bool" where
  "references_hold t tables \<longleftrightarrow> list_all (\<lambda>r. list_all (reference_holds tables r) (tbl_columns t)) (tables (tbl_name t))"

definition satisfies :: "schema \<Rightarrow> (string \<Rightarrow> sql_row list) \<Rightarrow> bool" where
  "satisfies s tables \<longleftrightarrow> list_all (\<lambda>t. keys_hold s t (tables (tbl_name t)) \<and> references_hold t tables) (sch_tables s)"

lemma clash_free_map: "clash_free c (map f rows) = clash_free (\<lambda>a b. c (f a) (f b)) rows"
  by (simp add: clash_free_def sorted_wrt_map)

lemma clash_free_disj: "clash_free (\<lambda>a b. P a b \<or> Q a b) rows \<longleftrightarrow> clash_free P rows \<and> clash_free Q rows"
  by (induction rows) (auto simp: clash_free_def)

lemma or_null_simps [simp]:
  "text_or_null None = Null" "text_or_null (Some s) = VText s" "uuid_or_null None = Null" "uuid_or_null (Some i) = VUuid i"
  by (simp_all add: text_or_null_def uuid_or_null_def)

lemma or_null_eq [simp]:
  "text_or_null a = Null \<longleftrightarrow> a = None" "text_or_null a = text_or_null b \<longleftrightarrow> a = b"
  "uuid_or_null u = Null \<longleftrightarrow> u = None" "VUuid i = uuid_or_null u \<longleftrightarrow> u = Some i"
  by (auto simp: text_or_null_def uuid_or_null_def split: option.splits)

lemma present_row: "present key rows k \<longleftrightarrow> (\<exists>r \<in> set rows. key r = k)"
  "present_opt key rows ko \<longleftrightarrow> ko = None \<or> (\<exists>r \<in> set rows. ko = Some (key r))"
  by (auto simp: present_def present_opt_def split: option.splits)

lemmas row_simps = row_of_def same_on_def clash_free_map
lemmas row_defs =
  user_row_def refresh_token_row_def node_row_def certificate_row_def config_row_def shadow_row_def mapping_row_def challenge_row_def provisioning_row_def claim_row_def image_row_def job_row_def job_node_row_def sharing_row_def sharing_request_row_def group_row_def group_node_row_def automation_row_def

section \<open>The schema at the last revision\<close>

lemma unique_indexes:
  "map (\<lambda>i. (ix_table i, ix_columns i)) (filter ix_unique (created_indexes all_upgrades)) =
     [(''users'', [''user_name'']), (''refresh_tokens'', [''jti'']), (''mapping_challenges'', [''request_id'']),
      (''claim_challenges'', [''auth_id''])]"
  by (simp add: all_upgrades_def upgrade_defs)

lemma head_unique_keys:
  "unique_keys head_schema t = keys_of t @ map snd (filter (\<lambda>i. fst i = tbl_name t)
     [(''users'', [''user_name'']), (''refresh_tokens'', [''jti'']), (''mapping_challenges'', [''request_id'']),
      (''claim_challenges'', [''auth_id''])])"
  unfolding unique_indexes [symmetric] by (simp add: unique_keys_def head_parts filter_map comp_def conj_commute)

lemma head_keys:
  "unique_keys head_schema users_table = [[''id''], [''user_name''], [''user_name'']]"
  "unique_keys head_schema refresh_tokens_table = [[''id''], [''jti'']]"
  "unique_keys head_schema nodes_table = [[''node_id'']]"
  "unique_keys head_schema node_certificates_table = [[''serial'']]"
  "unique_keys head_schema node_configs_table = [[''node_id'']]"
  "unique_keys head_schema node_params_shadow_table = [[''node_id'']]"
  "unique_keys head_schema node_attributes_table = [[''id''], [''node_id'', ''name'']]"
  "unique_keys head_schema user_node_mappings_table = [[''id''], [''user_id'', ''node_id'']]"
  "unique_keys head_schema mapping_challenges_table = [[''id''], [''request_id'']]"
  "unique_keys head_schema device_provisioning_table = [[''mac_addr'']]"
  "unique_keys head_schema claim_challenges_table = [[''id''], [''auth_id'']]"
  "unique_keys head_schema ota_images_table = [[''id'']]"
  "unique_keys head_schema ota_jobs_table = [[''id'']]"
  "unique_keys head_schema ota_job_nodes_table = [[''id''], [''job_id'', ''node_id'']]"
  "unique_keys head_schema node_sharing_table = [[''id''], [''node_id'', ''to_user_id'']]"
  "unique_keys head_schema node_sharing_requests_table = [[''id'']]"
  "unique_keys head_schema node_groups_table = [[''id'']]"
  "unique_keys head_schema node_group_nodes_table = [[''id''], [''group_id'', ''node_id'']]"
  "unique_keys head_schema automations_table = [[''id'']]"
  "unique_keys head_schema tsdata_table = []"
  by (simp_all add: head_unique_keys keys_of_def primary_key_def
      table_defs column_defs)

lemma db_rows_simps:
  "db_rows d ''users'' = map user_row (users d)"
  "db_rows d ''refresh_tokens'' = map refresh_token_row (refresh_tokens d)"
  "db_rows d ''nodes'' = map node_row (nodes d)"
  "db_rows d ''node_certificates'' = map certificate_row (node_certificates d)"
  "db_rows d ''node_configs'' = map config_row (node_configs d)"
  "db_rows d ''node_params_shadow'' = map shadow_row (node_params_shadows d)"
  "db_rows d ''user_node_mappings'' = map mapping_row (user_node_mappings d)"
  "db_rows d ''mapping_challenges'' = map challenge_row (mapping_challenges d)"
  "db_rows d ''device_provisioning'' = map provisioning_row (device_provisionings d)"
  "db_rows d ''claim_challenges'' = map claim_row (claim_challenges d)"
  "db_rows d ''ota_images'' = map image_row (ota_images d)"
  "db_rows d ''ota_jobs'' = map job_row (ota_jobs d)"
  "db_rows d ''ota_job_nodes'' = map job_node_row (ota_job_nodes d)"
  "db_rows d ''node_sharing'' = map sharing_row (node_sharings d)"
  "db_rows d ''node_sharing_requests'' = map sharing_request_row (node_sharing_requests d)"
  "db_rows d ''node_groups'' = map group_row (node_groups d)"
  "db_rows d ''node_group_nodes'' = map group_node_row (node_group_nodes d)"
  "db_rows d ''automations'' = map automation_row (automations d)"
  "db_rows d ''node_attributes'' = []" "db_rows d ''tsdata'' = []"
  by (simp_all add: db_rows_def)

lemma keys_migrated:
  "keys_hold head_schema users_table (db_rows d ''users'') \<longleftrightarrow> clash_free user_clash (users d)"
  "keys_hold head_schema refresh_tokens_table (db_rows d ''refresh_tokens'') \<longleftrightarrow> clash_free refresh_token_clash (refresh_tokens d)"
  "keys_hold head_schema nodes_table (db_rows d ''nodes'') \<longleftrightarrow> clash_free node_clash (nodes d)"
  "keys_hold head_schema node_certificates_table (db_rows d ''node_certificates'') \<longleftrightarrow> clash_free certificate_clash (node_certificates d)"
  "keys_hold head_schema node_configs_table (db_rows d ''node_configs'') \<longleftrightarrow> clash_free config_clash (node_configs d)"
  "keys_hold head_schema node_params_shadow_table (db_rows d ''node_params_shadow'') \<longleftrightarrow> clash_free shadow_clash (node_params_shadows d)"
  "keys_hold head_schema user_node_mappings_table (db_rows d ''user_node_mappings'') \<longleftrightarrow> clash_free mapping_clash (user_node_mappings d)"
  "keys_hold head_schema mapping_challenges_table (db_rows d ''mapping_challenges'') \<longleftrightarrow> clash_free challenge_clash (mapping_challenges d)"
  "keys_hold head_schema device_provisioning_table (db_rows d ''device_provisioning'') \<longleftrightarrow> clash_free provisioning_clash (device_provisionings d)"
  "keys_hold head_schema claim_challenges_table (db_rows d ''claim_challenges'') \<longleftrightarrow> clash_free claim_clash (claim_challenges d)"
  "keys_hold head_schema ota_images_table (db_rows d ''ota_images'') \<longleftrightarrow> clash_free image_clash (ota_images d)"
  "keys_hold head_schema ota_jobs_table (db_rows d ''ota_jobs'') \<longleftrightarrow> clash_free job_clash (ota_jobs d)"
  "keys_hold head_schema ota_job_nodes_table (db_rows d ''ota_job_nodes'') \<longleftrightarrow> clash_free job_node_clash (ota_job_nodes d)"
  "keys_hold head_schema node_sharing_table (db_rows d ''node_sharing'') \<longleftrightarrow> clash_free sharing_clash (node_sharings d)"
  "keys_hold head_schema node_sharing_requests_table (db_rows d ''node_sharing_requests'') \<longleftrightarrow> clash_free sharing_request_clash (node_sharing_requests d)"
  "keys_hold head_schema node_groups_table (db_rows d ''node_groups'') \<longleftrightarrow> clash_free group_clash (node_groups d)"
  "keys_hold head_schema node_group_nodes_table (db_rows d ''node_group_nodes'') \<longleftrightarrow> clash_free group_node_clash (node_group_nodes d)"
  "keys_hold head_schema automations_table (db_rows d ''automations'') \<longleftrightarrow> clash_free automation_clash (automations d)"
  by (simp_all add: keys_hold_def head_keys db_rows_simps row_simps row_defs clash_defs [abs_def] clash_free_disj)

lemma references_migrated:
  "references_hold users_table (db_rows d) \<longleftrightarrow> (\<forall>r \<in> set (users d). user_refs d r)"
  "references_hold refresh_tokens_table (db_rows d) \<longleftrightarrow> (\<forall>r \<in> set (refresh_tokens d). refresh_token_refs d r)"
  "references_hold nodes_table (db_rows d) \<longleftrightarrow> (\<forall>r \<in> set (nodes d). node_refs d r)"
  "references_hold node_certificates_table (db_rows d) \<longleftrightarrow> (\<forall>r \<in> set (node_certificates d). certificate_refs d r)"
  "references_hold node_configs_table (db_rows d) \<longleftrightarrow> (\<forall>r \<in> set (node_configs d). config_refs d r)"
  "references_hold node_params_shadow_table (db_rows d) \<longleftrightarrow> (\<forall>r \<in> set (node_params_shadows d). shadow_refs d r)"
  "references_hold user_node_mappings_table (db_rows d) \<longleftrightarrow> (\<forall>r \<in> set (user_node_mappings d). mapping_refs d r)"
  "references_hold mapping_challenges_table (db_rows d) \<longleftrightarrow> (\<forall>r \<in> set (mapping_challenges d). challenge_refs d r)"
  "references_hold device_provisioning_table (db_rows d) \<longleftrightarrow> (\<forall>r \<in> set (device_provisionings d). provisioning_refs d r)"
  "references_hold claim_challenges_table (db_rows d) \<longleftrightarrow> (\<forall>r \<in> set (claim_challenges d). claim_refs d r)"
  "references_hold ota_images_table (db_rows d) \<longleftrightarrow> (\<forall>r \<in> set (ota_images d). image_refs d r)"
  "references_hold ota_jobs_table (db_rows d) \<longleftrightarrow> (\<forall>r \<in> set (ota_jobs d). job_refs d r)"
  "references_hold ota_job_nodes_table (db_rows d) \<longleftrightarrow> (\<forall>r \<in> set (ota_job_nodes d). job_node_refs d r)"
  "references_hold node_sharing_table (db_rows d) \<longleftrightarrow> (\<forall>r \<in> set (node_sharings d). sharing_refs d r)"
  "references_hold node_sharing_requests_table (db_rows d) \<longleftrightarrow> (\<forall>r \<in> set (node_sharing_requests d). sharing_request_refs d r)"
  "references_hold node_groups_table (db_rows d) \<longleftrightarrow> (\<forall>r \<in> set (node_groups d). group_refs d r)"
  "references_hold node_group_nodes_table (db_rows d) \<longleftrightarrow> (\<forall>r \<in> set (node_group_nodes d). group_node_refs d r)"
  "references_hold automations_table (db_rows d) \<longleftrightarrow> (\<forall>r \<in> set (automations d). automation_refs d r)"
  by (simp_all add: references_hold_def reference_holds_def db_rows_simps table_defs column_defs list_all_iff list_ex_iff
      row_of_def row_defs refs_defs present_row)

section \<open>Properties\<close>

text \<open>
  C6: the integrity of the store is that of the migrated schema.  A store is consistent in the sense of
  the development, which every request and every message preserves, exactly when its tables satisfy every
  primary key, unique constraint, unique index and foreign key of the schema that the five
  migrations create.
\<close>

theorem integrity_migrated: "db_ok d \<longleftrightarrow> satisfies head_schema (db_rows d)"
proof -
  have attributes: "keys_hold head_schema node_attributes_table (db_rows d ''node_attributes'')"
      "references_hold node_attributes_table (db_rows d)"
      "keys_hold head_schema tsdata_table (db_rows d ''tsdata'')" "references_hold tsdata_table (db_rows d)"
    by (simp_all add: keys_hold_def references_hold_def db_rows_simps list_all_iff)
  show ?thesis
    unfolding satisfies_def head_parts all_tables db_ok_def keys_ok_def foreign_ok_def
    by (simp add: keys_migrated references_migrated attributes user_refs_def node_refs_def certificate_refs_def
        provisioning_refs_def claim_refs_def image_refs_def conj_ac)
qed

end
