(* ===== verification/Races.thy ===== *)
theory Races
  imports Claim NodeMapping NodeSvc
begin

text \<open>
  Requests that overlap.  The services read rows, decide, and write at the commit; between the two the
  database, at its default isolation level, lets other transactions commit.  An operation is split into
  what it reads and what it then writes (\<open>two_phase\<close>), and \<open>overlap\<close> runs two operations that both read
  before either writes.  Operations whose reads the other does not disturb behave as if run in turn;
  for those on the same rows the consequences are stated one by one.
\<close>

section \<open>Two phases\<close>

locale two_phase =
  fixes operation :: "db \<Rightarrow> 'r result \<times> db" and reads :: "db \<Rightarrow> 'x result" and writes :: "'x \<Rightarrow> db \<Rightarrow> 'r result \<times> db"
  assumes phases: "operation d = attempt d (reads d) (\<lambda>x. writes x d)"
begin

text \<open>A read that is as it would be now is as good as a read now.\<close>

lemma undisturbed: "reads d' = reads d \<Longrightarrow> attempt d' (reads d) (\<lambda>x. writes x d') = operation d'"
  by (simp add: phases)

end

definition overlap ::
  "(db \<Rightarrow> 'x result) \<Rightarrow> ('x \<Rightarrow> db \<Rightarrow> 'r result \<times> db) \<Rightarrow> (db \<Rightarrow> 'y result) \<Rightarrow> ('y \<Rightarrow> db \<Rightarrow> 's result \<times> db) \<Rightarrow>
     db \<Rightarrow> ('r result \<times> 's result) \<times> db"
where
  "overlap r1 w1 r2 w2 d =
     (case attempt d (r1 d) (\<lambda>x. w1 x d) of (a, d1) \<Rightarrow>
        case attempt d1 (r2 d) (\<lambda>y. w2 y d1) of (b, d2) \<Rightarrow> ((a, b), d2))"

definition in_turn ::
  "(db \<Rightarrow> 'r result \<times> db) \<Rightarrow> (db \<Rightarrow> 's result \<times> db) \<Rightarrow> db \<Rightarrow> ('r result \<times> 's result) \<times> db" where
  "in_turn f g d = (case f d of (a, d1) \<Rightarrow> case g d1 of (b, d2) \<Rightarrow> ((a, b), d2))"

text \<open>Operations on rows found by a key, which leave what is found under other keys.\<close>

locale keyed_phases =
  fixes operation :: "'k \<Rightarrow> 'a \<Rightarrow> db \<Rightarrow> 'r result \<times> db" and reads :: "'k \<Rightarrow> db \<Rightarrow> 'x result"
    and writes :: "'k \<Rightarrow> 'a \<Rightarrow> 'x \<Rightarrow> db \<Rightarrow> 'r result \<times> db"
  assumes keyed: "operation k a d = attempt d (reads k d) (\<lambda>x. writes k a x d)"
    and unseen: "k \<noteq> l \<Longrightarrow> reads l (snd (operation k a d)) = reads l d"

sublocale keyed_phases \<subseteq> each: two_phase "operation k a" "reads k" "writes k a" for k a
  by unfold_locales (rule keyed)

context keyed_phases begin

lemma overlap_in_turn:
  assumes "k \<noteq> l"
  shows "overlap (reads k) (writes k a) (reads l) (writes l b) d = in_turn (operation k a) (operation l b) d"
proof -
  obtain r d1 where r: "operation k a d = (r, d1)" by (cases "operation k a d")
  with unseen [OF assms, of a d] have "reads l d1 = reads l d" by simp
  from each.undisturbed [OF this, of b] show ?thesis
    by (simp add: overlap_def in_turn_def r flip: keyed)
qed

end

section \<open>Reports\<close>

definition read_shadow :: "string \<Rightarrow> db \<Rightarrow> node_params_shadow option result" where
  "read_shadow node_id d = scalar_one_or_none (select (\<lambda>s. shadow_node_id s = node_id) (node_params_shadows d))"

text \<open>
  The flush compares the merged payload with the payload that was read: when they are \<open>==\<close> it writes nothing, and
  \<open>db.refresh\<close> loads the row as it is by then.
\<close>

definition write_shadow ::
  "string \<Rightarrow> dict \<Rightarrow> node_params_shadow option \<Rightarrow> db \<Rightarrow> node_params_shadow result \<times> db" where
  "write_shadow node_id params existing d =
     (case existing of
        None \<Rightarrow>
          let row = \<lparr>shadow_node_id = node_id, shadow_payload = params\<rparr>
          in attempt d (insert_shadow row d) (\<lambda>d'. (Inr row, d'))
      | Some s \<Rightarrow>
          let row = s\<lparr>shadow_payload := merge_params (shadow_payload s) params\<rparr>
          in if dict_eq (shadow_payload row) (shadow_payload s)
             then (Inr (case first (select (\<lambda>x. shadow_node_id x = node_id) (node_params_shadows d)) of
                     None \<Rightarrow> s | Some x \<Rightarrow> x), d)
             else if \<not> shadow_cols row then (Inl (Uncaught DataError), d)
             else (Inr row, d\<lparr>node_params_shadows := update_where (\<lambda>x. shadow_node_id x = shadow_node_id s)
               (\<lambda>x. x\<lparr>shadow_payload := shadow_payload row\<rparr>) (node_params_shadows d)\<rparr>))"

lemma read_shadow_other:
  assumes "n \<noteq> m"
  shows "read_shadow m (snd (upsert_params_shadow n ps d)) = read_shadow m d"
  using assms
  by (auto simp: read_shadow_def upsert_params_shadow_def Let_def insert_shadow_Inr select_snoc_key select_update_key
      dest!: select_one split: attempt_splits option.splits)

interpretation params_report: keyed_phases upsert_params_shadow read_shadow write_shadow
proof
  show "upsert_params_shadow n ps d = attempt d (read_shadow n d) (\<lambda>x. write_shadow n ps x d)" for n ps d
  proof (cases "select (\<lambda>s. shadow_node_id s = n) (node_params_shadows d)")
    case (Cons s ss)
    then show ?thesis
      by (cases ss) (auto simp: upsert_params_shadow_def read_shadow_def write_shadow_def Let_def dest: select_one)
  qed (simp add: upsert_params_shadow_def read_shadow_def write_shadow_def)
qed (rule read_shadow_other)

text \<open>Two reports for one node, the second of which changes what it read: its write is that of the earlier read.\<close>

lemma overlapping_reports:
  assumes ok: "db_ok d" and sh: "shadow_of n d = Some old"
    and st: "storable (JObj (merge_params old ps))" "storable (JObj (merge_params old qs))"
    and new: "\<not> dict_eq (merge_params old qs) old"
  shows "\<exists>a b d'. overlap (read_shadow n) (write_shadow n ps) (read_shadow n) (write_shadow n qs) d = ((Inr a, Inr b), d') \<and>
    shadow_of n d' = Some (merge_params old qs)"
proof -
  let ?sel = "\<lambda>d. select (\<lambda>s. shadow_node_id s = n) (node_params_shadows d)"
  obtain s where s: "?sel d = [s]" "shadow_payload s = old"
  proof -
    from sh obtain s where "first (?sel d) = Some s" "shadow_payload s = old" by (auto simp: shadow_of_def)
    moreover have "s \<in> set (?sel d)" using calculation(1) first_Some_in by fastforce
    ultimately show thesis using that [of s] shadows_by_node.select_key [OF shadow_keys [OF ok], of s] by simp
  qed
  have id: "shadow_node_id s = n" using select_one [OF s(1)] by simp
  have read: "read_shadow n d = Inr (Some s)" by (simp add: read_shadow_def s(1))
  show ?thesis
    using st new
    by (cases "dict_eq (merge_params old ps) old")
      (simp_all add: overlap_def read write_shadow_def id s shadow_cols_def shadow_of_def select_update_key Let_def)
qed

section \<open>Mapping verifications\<close>

definition read_request ::
  "(nat \<Rightarrow> datetime) \<Rightarrow> uuid \<Rightarrow> string \<Rightarrow> json \<Rightarrow> db \<Rightarrow> (mapping_challenge \<times> user_node_mapping option) result" where
  "read_request clk user_id request_id challenge_response d =
     (case scalar_one_or_none (select (\<lambda>c. mc_request_id c = request_id \<and> mc_user_id c = user_id \<and>
             mc_status c = ''pending'') (mapping_challenges d)) of
        Inl e \<Rightarrow> Inl e
      | Inr None \<Rightarrow> Inl (invalid_request ''Mapping request not found or already used'')
      | Inr (Some row) \<Rightarrow>
          if mc_expires_at row < clk 0 then Inl (invalid_request ''Mapping request expired'')
          else (case mc_challenge row of
            None \<Rightarrow> Inl (invalid_request ''Mapping not in challenge-response mode'')
          | Some chal \<Rightarrow>
              (case lift_exc (compare_digest_json chal challenge_response) of
                 Inl e \<Rightarrow> Inl e
               | Inr same \<Rightarrow>
                   if \<not> same then Inl (invalid_request ''Invalid challenge_response'')
                   else (case mc_node_id row of
                     None \<Rightarrow> Inr (row, None)
                   | Some nid \<Rightarrow>
                       (case find_mapping user_id nid d of Inl e \<Rightarrow> Inl e | Inr existing \<Rightarrow> Inr (row, existing))))))"

definition write_mapping ::
  "datetime \<Rightarrow> uuid \<Rightarrow> uuid \<Rightarrow> string \<Rightarrow> mapping_challenge \<times> user_node_mapping option \<Rightarrow> db \<Rightarrow> dict result \<times> db" where
  "write_mapping now mid user_id request_id found d =
     attempt d (case mc_node_id (fst found) of
         None \<Rightarrow> Inl (Uncaught IntegrityError)
       | Some nid \<Rightarrow>
           if snd found \<noteq> None then Inr d
           else insert_mapping \<lparr>unm_id = mid, unm_user_id = user_id, unm_node_id = nid,
                  unm_role = ''primary'', unm_primary = True\<rparr> d) (\<lambda>d'.
       (Inr [(''request_id'', JStr request_id), (''request_status'', JStr ''completed'')],
        complete_challenge (fst found) now d'))"

interpretation verification: two_phase "verify_challenge clk mid u rid resp" "read_request clk u rid resp"
    "write_mapping (clk 1) mid u rid" for clk mid u rid resp
proof
  show "verify_challenge clk mid u rid resp d = attempt d (read_request clk u rid resp d) (\<lambda>x. write_mapping (clk 1) mid u rid x d)" for d
    by (auto simp: verify_challenge_def read_request_def write_mapping_def ensure_mapping_def attempt_def
        split: sum.splits option.splits)
qed

lemma read_request_Inr:
  assumes "read_request clk u rid resp d = Inr (c, m)" "mc_node_id c = Some n"
  shows "select (\<lambda>c. mc_request_id c = rid \<and> mc_user_id c = u \<and> mc_status c = ''pending'') (mapping_challenges d) = [c]"
    "find_mapping u n d = Inr m"
  using assms by (auto simp: read_request_def split: sum.split_asm option.split_asm if_split_asm)

section \<open>Claims\<close>

definition read_claim ::
  "claim_libs \<Rightarrow> (nat \<Rightarrow> datetime) \<Rightarrow> string \<Rightarrow> json \<Rightarrow> db \<Rightarrow> (claim_challenge \<times> bool) result" where
  "read_claim C clk auth_id challenge_response d =
     (case scalar_one_or_none (select (\<lambda>c. cc_auth_id c = Some auth_id) (claim_challenges d)) of
        Inl e \<Rightarrow> Inl e
      | Inr None \<Rightarrow> Inl (invalid_request ''Unknown auth_id'')
      | Inr (Some row) \<Rightarrow>
          if cc_mode row \<noteq> ''self'' then Inl (invalid_request ''Unknown auth_id'')
          else if cc_status row \<noteq> ''pending'' then Inl (invalid_request ''Challenge already used'')
          else if cc_expires_at row < clk 0 then Inl (invalid_request ''Challenge expired'')
          else (case find_provisioning (cc_mac_addr row) d of
            Inl e \<Rightarrow> Inl e
          | Inr None \<Rightarrow> Inl (invalid_request ''Device provisioning missing'')
          | Inr (Some p) \<Rightarrow>
              (case b64decode_json challenge_response of
                 Inl _ \<Rightarrow> Inl (invalid_request ''Invalid challenge_response encoding'')
               | Inr got \<Rightarrow> Inr (row, hmac_sha256 C (dp_hmac_key p) (message_of row) = got))))"

definition write_claimed ::
  "claim_libs \<Rightarrow> settings \<Rightarrow> (nat \<Rightarrow> datetime) \<Rightarrow> nat \<Rightarrow> string \<Rightarrow> claim_challenge \<times> bool \<Rightarrow> db \<Rightarrow> dict result \<times> db" where
  "write_claimed C S clk bits csr_pem found d =
     (let row = fst found in
      if \<not> snd found
      then if int4 (cc_attempts row + 1)
           then (Inl (invalid_request ''Invalid challenge_response''),
                 write_claim row (\<lambda>c. c\<lparr>cc_attempts := cc_attempts row + 1\<rparr>) d)
           else (Inl (Uncaught DataError), d)
      else issue_certificate C S clk 2 bits (cc_node_id row) csr_pem (write_claim row (mark_verified (clk 1)) d))"

interpretation self_claim: two_phase "verify_self_claim C S clk bits auth resp csr" "read_claim C clk auth resp"
    "write_claimed C S clk bits csr" for C S clk bits auth resp csr
proof
  show "verify_self_claim C S clk bits auth resp csr d =
      attempt d (read_claim C clk auth resp d) (\<lambda>x. write_claimed C S clk bits csr x d)" for d
    by (auto simp: verify_self_claim_def read_claim_def write_claimed_def attempt_def Let_def
        split: sum.splits option.splits)
qed

text \<open>\<open>_issue_certificate\<close>: the CSR is signed and the node looked up, then the rows are written.\<close>

definition read_issue ::
  "claim_libs \<Rightarrow> settings \<Rightarrow> (nat \<Rightarrow> datetime) \<Rightarrow> nat \<Rightarrow> nat \<Rightarrow> string \<Rightarrow> string \<Rightarrow> db \<Rightarrow>
     ((string \<times> string \<times> datetime \<times> datetime) \<times> node option) result" where
  "read_issue C S clk i bits node_id csr_pem d =
     (case sign_device_csr (x509 C) S (clk i) bits csr_pem node_id None of
        Inl e \<Rightarrow> Inl (invalid_request (''CSR signing failed: '' @ e))
      | Inr signed \<Rightarrow> map_sum id (Pair signed) (scalar_one_or_none (select (\<lambda>n. nd_node_id n = node_id) (nodes d))))"

definition write_issue ::
  "settings \<Rightarrow> datetime \<Rightarrow> string \<Rightarrow> (string \<times> string \<times> datetime \<times> datetime) \<times> node option \<Rightarrow> db \<Rightarrow> dict result \<times> db" where
  "write_issue S now node_id found d =
     (case found of ((chain_pem, serial, not_before, not_after), node) \<Rightarrow>
        attempt d (if node = None then insert_node (Node node_id now) d else Inr d) (\<lambda>d1.
        attempt d (insert_certificate
          \<lparr>cert_serial = serial, cert_node_id = node_id, cert_pem = chain_pem, cert_cn = node_id,
           cert_not_before = not_before, cert_not_after = not_after, cert_revoked = False\<rparr> d1) (\<lambda>d2.
          (Inr [(''certificate'', JStr chain_pem), (''mqtt_host'', JStr (broker_host S)),
                (''mqtt_cred_host'', JStr (broker_host S))], d2))))"

lemma attempt_mapped: "attempt d (map_sum id f r) k = attempt d r (\<lambda>x. k (f x))"
  by (simp add: attempt_def split: sum.split)

interpretation issuing: two_phase "issue_certificate C S clk i bits nid csr" "read_issue C S clk i bits nid csr"
    "write_issue S (clk (i + 1)) nid" for C S clk i bits nid csr
proof
  show "issue_certificate C S clk i bits nid csr d =
      attempt d (read_issue C S clk i bits nid csr d) (\<lambda>x. write_issue S (clk (i + 1)) nid x d)" for d
    by (auto simp: issue_certificate_def read_issue_def write_issue_def attempt_mapped simp del: One_nat_def split: sum.split)
qed

text \<open>What a successful verification has read, and what an issued certificate needed.\<close>

lemma read_claim_good:
  assumes "db_ok d" "verify_self_claim C S clk bits auth resp csr d = (Inr out, d')"
  obtains row where "read_claim C clk auth resp d = Inr (row, True)" "cc_auth_id row = Some auth" "row \<in> set (claim_challenges d)"
    "issue_certificate C S clk 2 bits (cc_node_id row) csr (write_claim row (mark_verified (clk 1)) d) = (Inr out, d')"
proof (rule verify_self_claim_Inr [OF assms(2)])
  fix row p
  assume row: "row \<in> set (claim_challenges d)" "cc_auth_id row = Some auth" "cc_mode row = ''self''"
      "cc_status row = ''pending''" "clk 0 \<le> cc_expires_at row"
    and p: "p \<in> set (device_provisionings d)" "dp_mac_addr p = cc_mac_addr row"
    and dec: "b64decode_json resp = Inr (hmac_sha256 C (dp_hmac_key p) (message_of row))"
    and iss: "issue_certificate C S clk 2 bits (cc_node_id row) csr (write_claim row (mark_verified (clk 1)) d) = (Inr out, d')"
  have "read_claim C clk auth resp d = Inr (row, True)"
    using row dec find_provisioning_known [OF assms(1) p(1)] p(2)
    by (simp add: read_claim_def select_auth [OF assms(1)])
  with row iss show thesis by (intro that)
qed

lemma issue_certificate_needs:
  assumes "issue_certificate C S clk i bits nid csr d = (Inr out, d')"
  obtains q where "sign_device_csr (x509 C) S (clk i) bits csr nid None = Inr q" "fits 64 nid"
    "\<forall>c \<in> set (node_certificates d). cert_serial c \<noteq> hex_str (odd_serial bits)"
proof (cases "sign_device_csr (x509 C) S (clk i) bits csr nid None")
  case (Inl e)
  with assms show thesis by (simp add: issue_certificate_def)
next
  case (Inr q)
  obtain chain serial nb na where q: "q = (chain, serial, nb, na)" by (cases q)
  have serial: "serial = hex_str (odd_serial bits)" by (rule sign_device_csr_Inr [OF Inr [unfolded q]])
  from assms Inr q obtain x d1 where x: "(if x = (None :: node option) then insert_node (Node nid (clk (i + 1))) d else Inr d) = Inr d1"
    and ins: "insert_certificate \<lparr>cert_serial = serial, cert_node_id = nid, cert_pem = chain,
      cert_cn = nid, cert_not_before = nb, cert_not_after = na, cert_revoked = False\<rparr> d1 = Inr d'"
    by (auto simp: issue_certificate_def elim!: attempt_InrE)
  have d1: "node_certificates d1 = node_certificates d" using x by (auto simp: insert_node_Inr split: if_split_asm)
  show thesis
    by (rule that [OF Inr]) (use ins d1 serial in \<open>auto simp: insert_certificate_Inr certificate_cols_def certificate_clash_def\<close>)
qed

section \<open>Properties\<close>

definition fan_on :: dict where
  "fan_on = [(''Fan'', JObj [(''Power'', JBool True)])]"

text \<open>
  Reports of different nodes may overlap.  When the parameter reports of two nodes are handled at the
  same time, so that both read the shadows before either writes, both are answered and the store is
  left as if the second had been handled after the first.
\<close>

theorem reports_apart:
  assumes "n \<noteq> m"
  shows "overlap (read_shadow n) (write_shadow n ps) (read_shadow m) (write_shadow m qs) d =
    in_turn (upsert_params_shadow n ps) (upsert_params_shadow m qs) d"
  by (rule params_report.overlap_in_turn [OF assms])

theorem reports_apart_witness:
  "overlap (read_shadow ''n1'') (write_shadow ''n1'' light_off) (read_shadow ''n2'') (write_shadow ''n2'' light_off) shadow_db =
    in_turn (upsert_params_shadow ''n1'' light_off) (upsert_params_shadow ''n2'' light_off) shadow_db"
  by (rule reports_apart) simp

text \<open>
  C23: overlapping reports of one node lose parameters.  When two reports for one node overlap, on two
  replicas of the ingestor or over HTTPS and MQTT, both are answered as stored; but when the second changes anything of
  the shadow that both have read, a parameter that the first reports with a new value, of a
  device that the second does not mention, has its old value in the shadow.  Handled in turn, it would have the
  reported one.
\<close>

theorem report_lost:
  assumes ok: "db_ok d" "present nd_node_id (nodes d) n" and sh: "shadow_of n d = Some old"
    and st: "storable (JObj (merge_params old ps))" "storable (JObj (merge_params old qs))"
      "storable (JObj (merge_params (merge_params old ps) qs))" "storable (JObj ps)" "storable (JObj qs)"
    and ps: "params_ok ps" "map_of ps dev = Some (JObj r)" "map_of r p = Some v"
    and news: "\<not> rel_option py_eq (Some v) (param_of old dev p)"
    and qs: "params_ok qs" "map_of qs dev = None" and change: "\<not> dict_eq (merge_params old qs) old"
  shows "\<exists>a b d1 c e d2 sh1 sh2.
    overlap (read_shadow n) (write_shadow n ps) (read_shadow n) (write_shadow n qs) d = ((Inr a, Inr b), d1) \<and>
    shadow_of n d1 = Some sh1 \<and> param_of sh1 dev p = param_of old dev p \<and>
    in_turn (upsert_params_shadow n ps) (upsert_params_shadow n qs) d = ((Inr c, Inr e), d2) \<and>
    shadow_of n d2 = Some sh2 \<and> param_of sh2 dev p = Some v"
proof -
  obtain a b d1 where race: "overlap (read_shadow n) (write_shadow n ps) (read_shadow n) (write_shadow n qs) d = ((Inr a, Inr b), d1)"
      "shadow_of n d1 = Some (merge_params old qs)"
    using overlapping_reports [OF ok(1) sh st(1,2) change] by blast
  have v: "param_of (merge_params old ps) dev p = Some v" by (simp add: param_of_merge [OF ps(1)] ps(2,3))
  have changed: "\<not> dict_eq (merge_params old ps) old" using dict_eq_param_of [of _ old dev p] v news by metis
  obtain c e1 where one: "upsert_params_shadow n ps d = (Inr c, e1)"
    using update_shadow_exists [OF ok, of ps] st(1,4) sh by auto
  have s1: "shadow_of n e1 = Some (merge_params old ps)"
    using shadow_upsert [OF one, of n] sh changed by (simp add: assigned_dict_def)
  have "db_ok e1" using upsert_params_shadow_ok [OF ok(1), of n ps] one by simp
  moreover have "present nd_node_id (nodes e1) n"
    using ok(2) arg_cong [OF shadow_upsert_frame [OF one], of nodes] by simp
  ultimately obtain e d2 where two: "upsert_params_shadow n qs e1 = (Inr e, d2)"
    using update_shadow_exists [of e1 n qs] st(3,5) s1 by auto
  let ?sh2 = "assigned_dict (merge_params old ps) (merge_params (merge_params old ps) qs)"
  have "shadow_of n d2 = Some ?sh2" using shadow_upsert [OF two, of n] s1 by simp
  moreover have "param_of ?sh2 dev p = Some v"
    by (simp add: assigned_dict_def param_of_merge [OF qs(1)] qs(2) v)
  moreover have "param_of (merge_params old qs) dev p = param_of old dev p"
    by (simp add: param_of_merge [OF qs(1)] qs(2))
  ultimately show ?thesis using race one two by (auto simp: in_turn_def)
qed

theorem report_lost_witness:
  "\<exists>a b d1 c e d2 sh1 sh2.
    overlap (read_shadow ''n1'') (write_shadow ''n1'' light_off) (read_shadow ''n1'') (write_shadow ''n1'' fan_on) shadow_db = ((Inr a, Inr b), d1) \<and>
    shadow_of ''n1'' d1 = Some sh1 \<and> param_of sh1 ''Light'' ''Power'' = Some (JBool True) \<and>
    in_turn (upsert_params_shadow ''n1'' light_off) (upsert_params_shadow ''n1'' fan_on) shadow_db = ((Inr c, Inr e), d2) \<and>
    shadow_of ''n1'' d2 = Some sh2 \<and> param_of sh2 ''Light'' ''Power'' = Some (JBool False)"
proof -
  let ?old = "[(''Light'', JObj [(''Power'', JBool True), (''Level'', JInt 5)])]"
  have old: "param_of ?old ''Light'' ''Power'' = Some (JBool True)" by (simp add: param_of_def)
  show ?thesis
    by (rule report_lost [OF shadow_db_ok, where old = ?old and dev = "''Light''" and p = "''Power''" and
          r = "[(''Power'', JBool False)]", unfolded old])
      (simp_all add: shadow_db_def shadow_of_def select_def present_def Node_def light_off_def fan_on_def
        merge_value_def get_or_def params_ok_def dict_ok_def dict_eq_def has_key_def)
qed

text \<open>
  C22: a mapping request that is verified twice at the same time gives one mapping.  When two verifications of
  a request, each of which would succeed alone and create the mapping, overlap, the first is answered
  and the second ends in an \<open>IntegrityError\<close> (500) of the unique constraint; the store is as the first
  leaves it.
\<close>

theorem double_verification:
  assumes ok: "db_ok d" and one: "verify_challenge clk mid u rid resp d = (Inr out, d1)"
    and two: "verify_challenge clk' mid' u rid resp' d = (Inr out', d2)"
    and new: "user_node_mappings d1 \<noteq> user_node_mappings d"
  shows "overlap (read_request clk u rid resp) (write_mapping (clk 1) mid u rid)
      (read_request clk' u rid resp') (write_mapping (clk' 1) mid' u rid) d =
    ((Inr out, Inl (Uncaught IntegrityError)), d1)"
proof -
  obtain c m where r1: "read_request clk u rid resp d = Inr (c, m)" and w1: "write_mapping (clk 1) mid u rid (c, m) d = (Inr out, d1)"
    using one unfolding verification.phases by (cases "read_request clk u rid resp d") auto
  obtain c' m' where r2: "read_request clk' u rid resp' d = Inr (c', m')"
      and w2: "write_mapping (clk' 1) mid' u rid (c', m') d = (Inr out', d2)"
    using two unfolding verification.phases by (cases "read_request clk' u rid resp' d") auto
  obtain n where n: "mc_node_id c = Some n" using w1 by (cases "mc_node_id c") (auto simp: write_mapping_def)
  obtain n' where n': "mc_node_id c' = Some n'" using w2 by (cases "mc_node_id c'") (auto simp: write_mapping_def)
  have same: "c' = c" "n' = n" "m' = m"
    using read_request_Inr [OF r1 n] read_request_Inr [OF r2 n'] n n' by auto
  let ?row = "\<lambda>i. \<lparr>unm_id = i, unm_user_id = u, unm_node_id = n, unm_role = ''primary'', unm_primary = True\<rparr>"
  obtain e where e: "insert_mapping (?row mid) d = Inr e" "d1 = complete_challenge c (clk 1) e" and m: "m = None"
    using w1 new n by (cases m) (auto simp: write_mapping_def complete_challenge_def elim!: attempt_InrE)
  have "insert_mapping (?row mid') d1 = Inl (Uncaught IntegrityError)"
  proof -
    have "mapping_clash (?row mid) (?row mid')" by (simp add: mapping_clash_def)
    moreover have "?row mid \<in> set (user_node_mappings d1)" using e by (auto simp: insert_mapping_Inr complete_challenge_def)
    moreover have "mapping_cols (?row mid')" using w2 n by (auto simp: write_mapping_def same m insert_mapping_Inr elim!: attempt_InrE)
    ultimately show ?thesis by (auto simp: insert_mapping_def insert_row_def)
  qed
  then have "write_mapping (clk' 1) mid' u rid (c, None) d1 = (Inl (Uncaught IntegrityError), d1)"
    by (simp add: write_mapping_def n)
  with w1 show ?thesis by (simp add: overlap_def r1 r2 same m)
qed

theorem double_verification_witness:
  "overlap (read_request (\<lambda>i. 60) 2 ''req'' (JStr ''tok'')) (write_mapping 60 11 2 ''req'')
      (read_request (\<lambda>i. 60) 2 ''req'' (JStr ''tok'')) (write_mapping 60 11 2 ''req'') pending_mapping_db =
    ((Inr [(''request_id'', JStr ''req''), (''request_status'', JStr ''completed'')], Inl (Uncaught IntegrityError)), mapped_db)"
  by (rule double_verification [OF pending_mapping_db_ok mapped_db_step mapped_db_step])
    (simp add: mapped_db_def verify_challenge_def pending_mapping_db_def access_db_def empty_db_def
      select_def MappingChallenge_def compare_digest_str_def is_ascii_def code_point_def
      ensure_mapping_def find_mapping_def insert_mapping_def insert_row_def mapping_clash_def
      mapping_cols_def mapping_refs_def fits_def present_def User_def Node_def complete_challenge_def)

text \<open>
  C21: a claim challenge can be used twice at the same time.  When two verifications of a self-claim challenge, each of which
  would succeed alone, both read the challenge before either marks it, and the second looks up the node after the first
  has committed, both are answered with a certificate for the node of the challenge and both
  certificates are kept, neither revoked; in turn, the second would be refused as already used.  (When the second looks
  up an unregistered node before the first has committed it, \<open>new_node_issued_once\<close> applies.)
\<close>

theorem claim_used_twice:
  assumes ok: "db_ok d" and one: "verify_self_claim C S clk bits auth resp csr d = (Inr out, d1)"
    and two: "verify_self_claim C S clk' bits' auth resp' csr' d = (Inr out', d2)"
    and serials: "bits' < 2 ^ 128" "hex_str (odd_serial bits) \<noteq> hex_str (odd_serial bits')"
  shows "\<exists>out'' d' cert cert'. overlap (read_claim C clk auth resp) (write_claimed C S clk bits csr)
      (read_claim C clk' auth resp') (write_claimed C S clk' bits' csr') d = ((Inr out, Inr out''), d') \<and>
    node_certificates d' = node_certificates d @ [cert, cert'] \<and> cert_cn cert = cert_cn cert' \<and>
    \<not> cert_revoked cert \<and> \<not> cert_revoked cert' \<and> get out ''certificate'' = JStr (cert_pem cert) \<and>
    get out'' ''certificate'' = JStr (cert_pem cert')"
proof -
  obtain row where r1: "read_claim C clk auth resp d = Inr (row, True)" and row: "cc_auth_id row = Some auth" "row \<in> set (claim_challenges d)"
    and i1: "issue_certificate C S clk 2 bits (cc_node_id row) csr (write_claim row (mark_verified (clk 1)) d) = (Inr out, d1)"
    by (rule read_claim_good [OF ok one])
  obtain row' where r2: "read_claim C clk' auth resp' d = Inr (row', True)" and row': "cc_auth_id row' = Some auth" "row' \<in> set (claim_challenges d)"
    and i2: "issue_certificate C S clk' 2 bits' (cc_node_id row') csr' (write_claim row' (mark_verified (clk' 1)) d) = (Inr out', d2)"
    by (rule read_claim_good [OF ok two])
  have same: "row' = row" using select_auth [OF ok row(2,1)] select_auth [OF ok row'(2,1)] by simp
  let ?w = "write_claim row (mark_verified (clk' 1)) d1"
  obtain cert extra where cert: "cert_cn cert = cc_node_id row" "\<not> cert_revoked cert" "cert_serial cert = hex_str (odd_serial bits)"
      "get out ''certificate'' = JStr (cert_pem cert)" "node_certificates d1 = node_certificates d @ [cert]"
    by (rule issue_certificate_Inr [OF i1]) auto
  have okw: "db_ok ?w" using verify_self_claim_ok [OF ok, of C S clk bits auth resp csr] one by (auto intro!: write_claim_ok)
  obtain q where sign: "sign_device_csr (x509 C) S (clk' 2) bits' csr' (cc_node_id row) None = Inr q" and fit: "fits 64 (cc_node_id row)"
    and fresh: "\<forall>c \<in> set (node_certificates d). cert_serial c \<noteq> hex_str (odd_serial bits')"
    by (rule issue_certificate_needs [OF i2 [unfolded same]]) auto
  obtain out'' d' where i3: "issue_certificate C S clk' 2 bits' (cc_node_id row) csr' ?w = (Inr out'', d')"
    using issue_certificate_total [OF okw _ fit serials(1)] sign fresh cert(3,5) serials(2) by (cases q) force
  obtain cert' extra' where "cert_cn cert' = cc_node_id row" "\<not> cert_revoked cert'"
      "get out'' ''certificate'' = JStr (cert_pem cert')" "node_certificates d' = node_certificates d1 @ [cert']"
    by (rule issue_certificate_Inr [OF i3]) auto
  with cert i1 i3 show ?thesis
    by (intro exI [of _ out''] exI [of _ d'] exI [of _ cert] exI [of _ cert'])
      (simp add: overlap_def r1 r2 same write_claimed_def)
qed

text \<open>
  The lookup of the node in \<open>_issue_certificate\<close> is a read of its own.  When two certificates for a node that is not
  registered are issued so that both look up the node before either commits, the second insertion of the node violates
  its primary key: that request ends in an \<open>IntegrityError\<close> and only the first certificate is kept.
\<close>

lemma new_node_issued_once:
  assumes ok: "db_ok d" and one: "issue_certificate C S clk i bits nid csr d = (Inr out, d1)"
    and two: "issue_certificate C S clk' i' bits' nid csr' d = (Inr out', d2)"
    and new: "\<not> present nd_node_id (nodes d) nid"
  shows "overlap (read_issue C S clk i bits nid csr) (write_issue S (clk (i + 1)) nid)
      (read_issue C S clk' i' bits' nid csr') (write_issue S (clk' (i' + 1)) nid) d =
    ((Inr out, Inl (Uncaught IntegrityError)), d1)"
proof -
  have none: "select (\<lambda>n. nd_node_id n = nid) (nodes d) = []"
    using new by (auto simp: select_def filter_empty_conv present_def)
  obtain q where r1: "read_issue C S clk i bits nid csr d = Inr (q, None)"
    and w1: "write_issue S (clk (i + 1)) nid (q, None) d = (Inr out, d1)"
    using one none unfolding issuing.phases by (auto simp: read_issue_def attempt_def split: sum.splits)
  obtain q' where r2: "read_issue C S clk' i' bits' nid csr' d = Inr (q', None)"
    using two none unfolding issuing.phases by (auto simp: read_issue_def attempt_def split: sum.splits)
  have "Node nid (clk (i + 1)) \<in> set (nodes d1)" "fits 64 nid"
    using w1 by (auto simp: write_issue_def insert_node_Inr insert_certificate_Inr node_cols_def Node_def
        elim!: attempt_InrE split: prod.split_asm)
  then have "insert_node (Node nid (clk' (i' + 1))) d1 = Inl (Uncaught IntegrityError)"
    by (force simp: insert_node_def insert_row_def node_cols_def node_clash_def Node_def)
  then have "write_issue S (clk' (i' + 1)) nid (q', None) d1 = (Inl (Uncaught IntegrityError), d1)"
    by (simp add: write_issue_def split: prod.split)
  with w1 show ?thesis by (simp add: overlap_def r1 r2)
qed

lemma sample_sign_seven:
  "sign_device_csr sample_x509 default_settings t 7 ''CSR'' nid None =
     Inr (''CERT:'' @ nid @ '';CERT:ESP RainMaker Intermediate CA;'', ''7'', whole_second (t - minutes 1),
       whole_second (t + days 1825))"
  by (simp add: sign_device_csr_def sample_x509_def plain_x509_def load_intermediate_ca_def ephemeral_chain_def
      sample_sign_cert_def ca_template_def distinguished_name_def device_template_def default_settings_def Let_def
      odd_serial_def hex_str.simps hex_char_def char_of_eq_iff)

lemma second_claim:
  "verify_self_claim sample_claim_libs default_settings (\<lambda>i. 9) 7 ''a1'' (JStr ''BwEC'') ''CSR'' challenged_db =
     (Inr [(''certificate'', JStr ''CERT:ab12;CERT:ESP RainMaker Intermediate CA;''), (''mqtt_host'', JStr (broker_host default_settings)),
        (''mqtt_cred_host'', JStr (broker_host default_settings))],
      snd (verify_self_claim sample_claim_libs default_settings (\<lambda>i. 9) 7 ''a1'' (JStr ''BwEC'') ''CSR'' challenged_db))"
  by (simp add: verify_self_claim_def challenged_db_def claim_db_def empty_db_def select_def
      claim_row_def ClaimChallenge_def find_provisioning_def message_of_def sample_claim_libs_def
      b64decode_sample issue_certificate_def sample_sign_seven insert_node_def insert_certificate_def
      insert_row_def node_cols_def node_refs_def certificate_cols_def certificate_refs_def fits_def
      Node_def write_claim_def)

theorem claim_used_twice_witness:
  "\<exists>out'' d' cert cert'. overlap (read_claim sample_claim_libs (\<lambda>i. 9) ''a1'' (JStr ''BwEC'')) (write_claimed sample_claim_libs default_settings (\<lambda>i. 9) 5 ''CSR'')
      (read_claim sample_claim_libs (\<lambda>i. 9) ''a1'' (JStr ''BwEC'')) (write_claimed sample_claim_libs default_settings (\<lambda>i. 9) 7 ''CSR'') challenged_db =
      ((Inr [(''certificate'', JStr ''CERT:ab12;CERT:ESP RainMaker Intermediate CA;''), (''mqtt_host'', JStr (broker_host default_settings)),
        (''mqtt_cred_host'', JStr (broker_host default_settings))], Inr out''), d') \<and>
    node_certificates d' = node_certificates challenged_db @ [cert, cert'] \<and> cert_cn cert = cert_cn cert' \<and>
    \<not> cert_revoked cert \<and> \<not> cert_revoked cert' \<and>
    get [(''certificate'', JStr ''CERT:ab12;CERT:ESP RainMaker Intermediate CA;''), (''mqtt_host'', JStr (broker_host default_settings)),
        (''mqtt_cred_host'', JStr (broker_host default_settings))] ''certificate'' = JStr (cert_pem cert) \<and>
    get out'' ''certificate'' = JStr (cert_pem cert')"
  by (rule claim_used_twice [OF challenged_db_ok claimed_db_step second_claim])
    (simp_all add: odd_serial_def hex_str.simps hex_char_def char_of_eq_iff)

end
