(* ===== verification/AccountFlow.thy ===== *)
theory AccountFlow
  imports RouteTable
begin

text \<open>
  The account flows over HTTP and mail: what a person does who signs up or has forgotten the
  password, with the code read off the message that was sent.
\<close>

section \<open>Requests\<close>

definition account_request :: "dict \<Rightarrow> request" where
  "account_request body = \<lparr>rq_authorization = None, rq_client_cn = None, rq_path = [], rq_query = [],
     rq_body = Some (JObj body)\<rparr>"

definition token_request :: "string \<Rightarrow> request" where
  "token_request tok = \<lparr>rq_authorization = Some tok, rq_client_cn = None, rq_path = [], rq_query = [], rq_body = None\<rparr>"

text \<open>The code is what follows the colon of the message.\<close>

definition code_in :: "email \<Rightarrow> string" where
  "code_in m = drop 2 (dropWhile (\<lambda>c. c \<noteq> CHR '':'') (em_body m))"

lemma code_in_simps [simp]:
  "code_in \<lparr>em_from = a, em_to = b, em_subject = s, em_body = ''Your confirmation code is: '' @ code\<rparr> = code"
  "code_in \<lparr>em_from = a, em_to = b, em_subject = s, em_body = ''Your password reset code is: '' @ code\<rparr> = code"
  by (simp_all add: code_in_def)

lemma account_routes:
  "find_route app_routes ''POST'' [''v1'', ''user2''] = Some (signup_route, [])"
  "find_route app_routes ''PUT'' [''v1'', ''user2''] = Some (confirm_signup_or_update, [])"
  "find_route app_routes ''POST'' [''v1'', ''login2''] = Some (login2, [])"
  "find_route app_routes ''PUT'' [''v1'', ''forgotpassword2''] = Some (forgot_password, [])"
  "find_route app_routes ''GET'' [''v1'', ''user2''] = Some (get_current_user_profile, [])"
  by (simp_all add: app_routes_def api_router_def v1_router_def include_router_def router_defs)

lemma account_body [simp]: "json_object (account_request p) = Some p" "rq_path (account_request p) = []"
  by (simp_all add: account_request_def json_object_def)

lemma account_path [simp]: "(account_request p)\<lparr>rq_path := []\<rparr> = account_request p"
  "(token_request t)\<lparr>rq_path := []\<rparr> = token_request t"
  by (simp_all add: account_request_def token_request_def)

section \<open>Signing up\<close>

lemma signup_mails:
  assumes ok: "db_ok d" and new: "\<forall>u \<in> set (users d). usr_user_name u \<noteq> nm \<and> usr_id u \<noteq> w_uuid W 0"
    and h: "hash_password (w_libs W) (w_salt W) pw = Inr h" "fits 255 h" "w_code W < 1000000"
    and body: "bounded 3 254 nm" "bounded 8 128 pw"
    and mail: "env (w_settings W) \<noteq> ''test''" "\<not> many_lines (email_from (w_settings W))" "\<not> many_lines nm"
  shows "\<exists>u m. signup_exchange W (account_request [(''user_name'', JStr nm), (''password'', JStr pw)]) d =
      (Inr (SuccessResponse ''Confirmation code sent'', [m]), d\<lparr>users := users d @ [u]\<rparr>) \<and>
    em_to m = nm \<and> code_in m = generate_code (w_code W) \<and> db_ok (d\<lparr>users := users d @ [u]\<rparr>) \<and>
    usr_id u = w_uuid W 0 \<and> usr_user_name u = nm \<and> usr_password_hash u = Some h \<and> usr_status u = ''unconfirmed'' \<and>
    usr_confirm_code u = Some (generate_code (w_code W)) \<and> usr_confirm_code_exp u = Some (w_clk W 0 + hours 24) \<and>
    role_of u = ''user''"
proof -
  have fit: "fits 254 nm" using body(1) by (simp add: fits_def bounded_def)
  have found: "find_user_by_name nm d = Inr None" using new by (simp add: find_user_None)
  obtain u d' where s: "signup (w_libs W) (w_clk W) (w_salt W) (w_code W) (w_uuid W 0) nm pw d =
        (Inr (u, generate_code (w_code W)), d')" "d' = d\<lparr>users := users d @ [u]\<rparr>"
      "usr_id u = w_uuid W 0" "usr_user_name u = nm" "usr_password_hash u = Some h" "usr_status u = ''unconfirmed''"
      "usr_confirm_code u = Some (generate_code (w_code W))" "usr_confirm_code_exp u = Some (w_clk W 0 + hours 24)"
    using signup_fresh [OF ok new h(1) fit h(2,3)] by blast
  have "role_of u = ''user''"
    using s(1) found h(1) by (auto simp: signup_def Let_def role_of_def User_def split: attempt_splits)
  moreover have "db_ok d'" using signup_ok [OF ok] s(1) by (metis snd_conv)
  ultimately show ?thesis
    using s body by (intro exI [of _ u]) (simp add: code_in_def signup_exchange_def SignUpRequest_def str_field_def get_or_def send_confirmation_email_def
        send_mail_sent [OF mail])
qed

lemma login2_serves:
  assumes "nm \<noteq> []" "pw \<noteq> []"
  shows "serve W ''POST'' [''v1'', ''login2''] (account_request [(''user_name'', JStr nm), (''password'', JStr pw)]) d =
    (case login_password (w_libs W) (w_settings W) (w_clk W) (w_token W) (w_uuid W 0) nm pw d of
       (r, d') \<Rightarrow> (Answer (map_sum id LoginResponse r), d'))"
proof -
  have b: "Option.bind (json_object (account_request [(''user_name'', JStr nm), (''password'', JStr pw)])) LoginRequest =
      Some \<lparr>lr_user_name = Some nm, lr_password = Some pw, lr_refreshtoken = None\<rparr>"
    by (simp add: LoginRequest_def opt_field_def get_or_def)
  show ?thesis
    unfolding serve_def account_routes option.case prod.case account_path login2_def b
    using assms
    by (cases "login_password (w_libs W) (w_settings W) (w_clk W) (w_token W) (w_uuid W 0) nm pw d";
        cases "fst (login_password (w_libs W) (w_settings W) (w_clk W) (w_token W) (w_uuid W 0) nm pw d)")
      (auto simp: str_truthy_def)
qed

lemma profile_serves:
  assumes "get_current_user (w_libs W) (w_settings W) (w_clk W 0) (Some tok) d = Inr u"
  shows "serve W ''GET'' [''v1'', ''user2''] (token_request tok) d = (Answer (Inr (UserResponse u)), d)"
  unfolding serve_def account_routes using assms
  by (simp add: get_current_user_profile_def with_user_def token_request_def)

lemma confirm_serves:
  assumes "confirm_signup (w_clk W) nm code d = (Inr u, d')" "bounded 4 16 code"
  shows "serve W ''PUT'' [''v1'', ''user2'']
      (account_request [(''user_name'', JStr nm), (''verification_code'', JStr code)]) d =
    (Answer (Inr (SuccessResponse ''User confirmed'')), d')"
  unfolding serve_def account_routes using assms
  by (simp add: confirm_signup_or_update_def has_key_def ConfirmSignUpRequest_def str_field_def get_or_def)

text \<open>
  What a login that succeeds draws: a refresh token that PyJWT decodes again and whose identifier is new, and the
  claims and text of its access token.
\<close>

definition login_draws :: "world \<Rightarrow> uuid \<Rightarrow> db \<Rightarrow> bool" where
  "login_draws W uid d \<longleftrightarrow>
     jwt_accepts (w_libs W) (w_settings W) (token_claims (str_uuid uid) Refresh (w_clk W 3)
       (w_clk W 3 + seconds (refresh_token_ttl_seconds (w_settings W))) (w_token W 2) []) (w_clk W 4) \<and>
     fits 64 (w_token W 2) \<and> (\<forall>r \<in> set (refresh_tokens d). rt_jti r \<noteq> w_token W 2 \<and> rt_id r \<noteq> w_uuid W 0)"

definition login_claims :: "world \<Rightarrow> uuid \<Rightarrow> string \<Rightarrow> dict" where
  "login_claims W uid role = token_claims (str_uuid uid) Access (w_clk W 1)
     (w_clk W 1 + seconds (access_token_ttl_seconds (w_settings W))) (w_token W 0) [(''role'', JStr role)]"

definition login_token :: "world \<Rightarrow> uuid \<Rightarrow> string \<Rightarrow> string" where
  "login_token W uid role =
     jwt_encode (w_libs W) (login_claims W uid role) (secret_key (w_settings W)) (jwt_algorithm (w_settings W))"

lemma login_password_draws:
  assumes ok: "db_ok d" and u: "u \<in> set (users d)" "usr_status u = ''confirmed''" "usr_password_hash u = Some h"
    and pw: "verify_password (w_libs W) pw h = Inr True" and draws: "login_draws W (usr_id u) d"
  shows "\<exists>idt refresh d'. login_password (w_libs W) (w_settings W) (w_clk W) (w_token W) (w_uuid W 0) (usr_user_name u) pw d =
      (Inr (login_token W (usr_id u) (role_of u), idt, refresh, access_token_ttl_seconds (w_settings W)), d') \<and>
    u\<lparr>usr_last_login_at := Some (w_clk W 0)\<rparr> \<in> set (users d') \<and> db_ok d'"
proof -
  obtain acc idt refresh d' where l: "login_password (w_libs W) (w_settings W) (w_clk W) (w_token W) (w_uuid W 0)
      (usr_user_name u) pw d = (Inr (acc, idt, refresh, access_token_ttl_seconds (w_settings W)), d')"
    "u\<lparr>usr_last_login_at := Some (w_clk W 0)\<rparr> \<in> set (users d')"
    using login_password_success [where L = "w_libs W" and S = "w_settings W" and clk = "w_clk W" and jti = "w_token W"
        and rid = "w_uuid W 0", OF ok u pw] draws unfolding login_draws_def by blast
  have "acc = login_token W (usr_id u) (role_of u)"
    using login_password_tokens [OF ok u(1) l(1)]
    by (simp add: login_token_def login_claims_def mint_token_def Let_def access_claims_def)
  moreover have "db_ok d'" using login_password_ok [OF ok] l(1) by (metis snd_conv)
  ultimately show ?thesis using l by blast
qed

lemma login_token_user:
  assumes "db_ok d" "u \<in> set (users d)" "usr_status u = ''confirmed''" "usr_id u < 2 ^ 128"
    and "jwt_accepts (w_libs W) (w_settings W) (login_claims W (usr_id u) role) t"
    and "login_token W (usr_id u) role \<noteq> []" "py_strip (login_token W (usr_id u) role) = login_token W (usr_id u) role"
      "\<not> startswith (py_lower (login_token W (usr_id u) role)) ''bearer ''"
  shows "get_current_user (w_libs W) (w_settings W) t (Some (login_token W (usr_id u) role)) d = Inr u"
proof (rule payload_user [OF assms(1-4) extract_raw [OF assms(6-8)]])
  have mint: "mint_token (w_libs W) (w_settings W) (str_uuid (usr_id u)) Access [(''role'', JStr role)] None (w_clk W 1)
      (w_token W 0) = (login_token W (usr_id u) role, w_clk W 1 + seconds (access_token_ttl_seconds (w_settings W)))"
    by (simp add: mint_token_def Let_def login_token_def login_claims_def)
  show "decode_token (w_libs W) (w_settings W) (login_token W (usr_id u) role) (Some Access) t =
      Inr (login_claims W (usr_id u) role)"
    using decode_minted [OF _ _ mint assms(5) [unfolded login_claims_def], of Access]
    by (simp add: dict_ok_def login_claims_def)
  show "get (login_claims W (usr_id u) role) ''sub'' = JStr (str_uuid (usr_id u))"
    unfolding login_claims_def by (rule get_token_claims(2)) (simp_all add: dict_ok_def)
qed

text \<open>
  C29: an account is made over HTTP and mail.  From any consistent store, a signup under a fresh name is
  answered and mails one message to that name; the password does not log in until the code in the
  message is sent back within 24 hours; from then on it does, and the access token of the login
  shows the profile of the account.
\<close>

theorem account_over_http:
  fixes W1 W2 W3 W4 :: world and nm pw :: string
  defines "creds \<equiv> account_request [(''user_name'', JStr nm), (''password'', JStr pw)]"
    and "tok \<equiv> login_token W3 (w_uuid W1 0) ''user''"
  assumes ok: "db_ok d" and new: "\<forall>u \<in> set (users d). usr_user_name u \<noteq> nm \<and> usr_id u \<noteq> w_uuid W1 0"
    and h: "hash_password (w_libs W1) (w_salt W1) pw = Inr h" "fits 255 h" "verify_password (w_libs W3) pw h = Inr True"
    and draws: "w_code W1 < 1000000" "w_uuid W1 0 < 2 ^ 128" "login_draws W3 (w_uuid W1 0) d"
    and body: "bounded 3 254 nm" "bounded 8 128 pw"
    and mail: "env (w_settings W1) \<noteq> ''test''" "\<not> many_lines (email_from (w_settings W1))" "\<not> many_lines nm"
    and time: "w_clk W2 0 \<le> w_clk W1 0 + hours 24"
    and token: "jwt_accepts (w_libs W3) (w_settings W3) (login_claims W3 (w_uuid W1 0) ''user'') (w_clk W4 0)"
      "tok \<noteq> []" "py_strip tok = tok" "\<not> startswith (py_lower tok) ''bearer ''"
    and same: "w_libs W4 = w_libs W3" "w_settings W4 = w_settings W3"
  shows "\<exists>d1 m d2 idt refresh d3 u.
    signup_exchange W1 creds d = (Inr (SuccessResponse ''Confirmation code sent'', [m]), d1) \<and> em_to m = nm \<and>
    serve W1 ''POST'' [''v1'', ''user2''] creds d = (Answer (Inr (SuccessResponse ''Confirmation code sent'')), d1) \<and>
    serve W3 ''POST'' [''v1'', ''login2''] creds d1 =
      (Answer (Inl (rainmaker 401 INVALID_CREDENTIALS ''User not confirmed'')), d1) \<and>
    serve W2 ''PUT'' [''v1'', ''user2'']
        (account_request [(''user_name'', JStr nm), (''verification_code'', JStr (code_in m))]) d1 =
      (Answer (Inr (SuccessResponse ''User confirmed'')), d2) \<and>
    serve W3 ''POST'' [''v1'', ''login2''] creds d2 =
      (Answer (Inr (LoginResponse (tok, idt, refresh, access_token_ttl_seconds (w_settings W3)))), d3) \<and>
    serve W4 ''GET'' [''v1'', ''user2''] (token_request tok) d3 = (Answer (Inr (UserResponse u)), d3) \<and>
    usr_id u = w_uuid W1 0 \<and> usr_user_name u = nm"
proof -
  obtain u m d1 where x: "signup_exchange W1 creds d = (Inr (SuccessResponse ''Confirmation code sent'', [m]), d1)"
    and d1: "d1 = d\<lparr>users := users d @ [u]\<rparr>" "db_ok d1" and m: "em_to m = nm" "code_in m = generate_code (w_code W1)"
    and u: "usr_id u = w_uuid W1 0" "usr_user_name u = nm" "usr_password_hash u = Some h" "usr_status u = ''unconfirmed''"
      "usr_confirm_code u = Some (code_in m)" "usr_confirm_code_exp u = Some (w_clk W1 0 + hours 24)" "role_of u = ''user''"
    using signup_mails [OF ok new h(1,2) draws(1) body mail] unfolding creds_def by metis
  have u1: "u \<in> set (users d1)" using d1(1) by simp
  have asked: "serve W1 ''POST'' [''v1'', ''user2''] creds d = (Answer (Inr (SuccessResponse ''Confirmation code sent'')), d1)"
    using x by (simp add: serve_def account_routes signup_route_def creds_def)
  have named: "nm \<noteq> []" "pw \<noteq> []" using body by (auto simp: bounded_def)
  note login = login2_serves [OF named, folded creds_def]
  have early: "serve W3 ''POST'' [''v1'', ''login2''] creds d1 =
      (Answer (Inl (rainmaker 401 INVALID_CREDENTIALS ''User not confirmed'')), d1)"
    unfolding login using find_user_Some [OF d1(2), of nm u] u1 u h(3) by (simp add: login_password_def)
  let ?u = "u\<lparr>usr_status := ''confirmed'', usr_confirm_code := None, usr_confirm_code_exp := None\<rparr>"
  obtain d2 where c: "confirm_signup (w_clk W2) nm (code_in m) d1 = (Inr ?u, d2)" "?u \<in> set (users d2)" "db_ok d2"
      "refresh_tokens d2 = refresh_tokens d1"
    using confirm_signup_pending [where clk = "w_clk W2", OF d1(2) u1 u(5,6) time] m(2) generate_code_ascii u(2) by auto
  have len: "bounded 4 16 (code_in m)" using m(2) generate_code_length [OF draws(1)] by (simp add: bounded_def)
  have role: "role_of ?u = ''user''" using u(7) by (simp add: role_of_def split: if_splits)
  have d2: "login_draws W3 (usr_id ?u) d2" using draws(3) c(4) d1(1) u(1) by (simp add: login_draws_def)
  obtain idt refresh d3 where l: "login_password (w_libs W3) (w_settings W3) (w_clk W3) (w_token W3) (w_uuid W3 0) nm pw d2 =
      (Inr (tok, idt, refresh, access_token_ttl_seconds (w_settings W3)), d3)"
    "?u\<lparr>usr_last_login_at := Some (w_clk W3 0)\<rparr> \<in> set (users d3)" "db_ok d3"
    using login_password_draws [OF c(3,2) _ _ h(3) d2] u(1-3) unfolding role by (auto simp: tok_def)
  have "get_current_user (w_libs W3) (w_settings W3) (w_clk W4 0) (Some tok) d3 =
      Inr (?u\<lparr>usr_last_login_at := Some (w_clk W3 0)\<rparr>)"
    using login_token_user [OF l(3,2), of W3 "''user''" "w_clk W4 0"] u(1) draws(2) token by (simp add: tok_def)
  from profile_serves [of W4 tok d3, unfolded same, OF this]
  show ?thesis using x m(1) asked early confirm_serves [OF c(1) len] l(1) u(1,2) by (fastforce simp: login)
qed

definition flow_libs :: libs where
  "flow_libs = (sample_libs [])\<lparr>
     jwt_encode := (\<lambda>c k a. if get c ''token_use'' = JStr ''access'' then ''acc'' else ''ref''),
     jwt_decode := (\<lambda>t k a now. Inr (if t = ''acc''
       then token_claims (str_uuid 100) Access 5 (5 + seconds 3600) ''t'' [(''role'', JStr ''user'')]
       else token_claims (str_uuid 100) Refresh 5 (5 + seconds 2592000) ''t'' []))\<rparr>"

definition flow_world :: world where
  "flow_world = sample_world\<lparr>w_libs := flow_libs, w_token := (\<lambda>i. ''t'')\<rparr>"

lemma flow_token: "login_token flow_world 100 ''user'' = ''acc''"
  by (simp add: login_token_def flow_world_def flow_libs_def sample_world_def login_claims_def get_token_claims dict_ok_def)

theorem account_over_http_witness:
  "\<exists>d1 m d2 idt refresh d3 u.
    signup_exchange flow_world (account_request [(''user_name'', JStr ''ann''), (''password'', JStr ''secret-pw'')]) empty_db =
      (Inr (SuccessResponse ''Confirmation code sent'', [m]), d1) \<and> em_to m = ''ann'' \<and>
    serve flow_world ''POST'' [''v1'', ''user2'']
      (account_request [(''user_name'', JStr ''ann''), (''password'', JStr ''secret-pw'')]) empty_db =
      (Answer (Inr (SuccessResponse ''Confirmation code sent'')), d1) \<and>
    serve flow_world ''POST'' [''v1'', ''login2'']
      (account_request [(''user_name'', JStr ''ann''), (''password'', JStr ''secret-pw'')]) d1 =
      (Answer (Inl (rainmaker 401 INVALID_CREDENTIALS ''User not confirmed'')), d1) \<and>
    serve flow_world ''PUT'' [''v1'', ''user2'']
        (account_request [(''user_name'', JStr ''ann''), (''verification_code'', JStr (code_in m))]) d1 =
      (Answer (Inr (SuccessResponse ''User confirmed'')), d2) \<and>
    serve flow_world ''POST'' [''v1'', ''login2'']
      (account_request [(''user_name'', JStr ''ann''), (''password'', JStr ''secret-pw'')]) d2 =
      (Answer (Inr (LoginResponse (login_token flow_world (w_uuid flow_world 0) ''user'', idt, refresh,
        access_token_ttl_seconds (w_settings flow_world)))), d3) \<and>
    serve flow_world ''GET'' [''v1'', ''user2''] (token_request (login_token flow_world (w_uuid flow_world 0) ''user'')) d3 =
      (Answer (Inr (UserResponse u)), d3) \<and>
    usr_id u = w_uuid flow_world 0 \<and> usr_user_name u = ''ann''"
proof (rule account_over_http [where h = "''h:secret-pw''"])
  have uid: "w_uuid flow_world 0 = 100" by (simp add: flow_world_def sample_world_def)
  show "login_token flow_world (w_uuid flow_world 0) ''user'' \<noteq> []"
    "py_strip (login_token flow_world (w_uuid flow_world 0) ''user'') = login_token flow_world (w_uuid flow_world 0) ''user''"
    "\<not> startswith (py_lower (login_token flow_world (w_uuid flow_world 0) ''user'')) ''bearer ''"
    by (simp_all add: uid flow_token py_strip_def is_space_def code_point_def py_lower_def lower_char_def startswith_def)
  show "\<not> many_lines ''ann''" "\<not> many_lines (email_from (w_settings flow_world))"
    by (simp_all add: many_lines_def is_linebreak_def code_point_def flow_world_def sample_world_def default_settings_def)
  show "login_draws flow_world (w_uuid flow_world 0) empty_db"
    by (simp add: login_draws_def jwt_accepts_def flow_world_def sample_world_def flow_libs_def default_settings_def
        get_token_claims dict_ok_def fits_def empty_db_def)
  show "jwt_accepts (w_libs flow_world) (w_settings flow_world) (login_claims flow_world (w_uuid flow_world 0) ''user'')
      (w_clk flow_world 0)"
    by (simp add: jwt_accepts_def flow_world_def sample_world_def flow_libs_def default_settings_def login_claims_def
        get_token_claims dict_ok_def)
qed (simp_all add: flow_world_def sample_world_def default_settings_def flow_libs_def sample_libs_def hash_password_def
    verify_password_def bounded_def fits_def empty_db_def db_ok_empty [unfolded empty_db_def])

section \<open>A forgotten password\<close>

definition reset_request :: "string \<Rightarrow> request" where
  "reset_request nm = account_request [(''user_name'', JStr nm)]"

definition redeem_request :: "string \<Rightarrow> string \<Rightarrow> string \<Rightarrow> request" where
  "redeem_request nm code pw =
     account_request [(''user_name'', JStr nm), (''verification_code'', JStr code), (''password'', JStr pw)]"

text \<open>The answer to a request for a code does not depend on the accounts.\<close>

lemma reset_asked:
  assumes ok: "db_ok d" and mail: "env (w_settings W) = ''test'' \<or> \<not> many_lines (email_from (w_settings W)) \<and> \<not> many_lines nm"
  shows "fst (serve W ''PUT'' [''v1'', ''forgotpassword2''] (reset_request nm) d) =
    Answer (Inr (SuccessResponse ''Reset code sent''))"
proof -
  obtain found where "find_user_by_name nm d = Inr found" using find_user_total [OF ok] by blast
  moreover obtain ms where "send_reset_email (w_settings W) nm (generate_code (w_code W)) = Inr ms"
    using mail send_mail_returns unfolding send_reset_email_def by blast
  ultimately show ?thesis
    by (cases found) (simp_all add: reset_request_def serve_def account_routes forgot_password_def forgot_password_exchange_def
        ForgotPasswordRequest_def str_field_def opt_field_def get_or_def str_truthy_def request_password_reset_def Let_def)
qed

lemma reset_mails:
  assumes ok: "db_ok d" and u: "u \<in> set (users d)" "usr_user_name u = nm"
    and mail: "env (w_settings W) \<noteq> ''test''" "\<not> many_lines (email_from (w_settings W))" "\<not> many_lines nm"
  shows "\<exists>m. forgot_password_exchange W (reset_request nm) d =
      (Inr (SuccessResponse ''Reset code sent'', [m]),
       write_user u (\<lambda>u. u\<lparr>usr_reset_code := Some (code_in m), usr_reset_code_exp := Some (w_clk W 0 + hours 1)\<rparr>) d) \<and>
    em_to m = nm \<and> code_in m = generate_code (w_code W)"
proof -
  have "find_user_by_name nm d = Inr (Some u)" using ok u by (simp add: find_user_Some)
  then show ?thesis
    by (simp add: reset_request_def forgot_password_exchange_def code_in_def ForgotPasswordRequest_def str_field_def opt_field_def
        get_or_def str_truthy_def request_password_reset_def Let_def send_reset_email_def send_mail_sent [OF mail])
qed

lemma written:
  assumes "db_ok d" "u \<in> set (users d)" "\<And>u. usr_id (f u) = usr_id u" "\<And>u. usr_user_name (f u) = usr_user_name u"
  shows "db_ok (write_user u f d)" "f u \<in> set (users (write_user u f d))"
    "find_user_by_name (usr_user_name u) (write_user u f d) = Inr (Some (f u))"
  using assms by (simp_all add: write_user_ok write_user_in find_after_write)

lemma redeem_serves:
  assumes "code \<noteq> []" "bounded 8 128 pw"
  shows "serve W ''PUT'' [''v1'', ''forgotpassword2''] (redeem_request nm code pw) d =
    (case confirm_password_reset (w_libs W) (w_clk W) (w_salt W) nm code pw d of
       (r, d') \<Rightarrow> (Answer (map_sum id (\<lambda>_. SuccessResponse ''Password reset'') r), d'))"
proof -
  have pw: "pw \<noteq> []" using assms(2) by (auto simp: bounded_def)
  have b: "Option.bind (json_object (redeem_request nm code pw)) ForgotPasswordRequest = Some (nm, Some code, Some pw)"
    using assms(2) by (simp add: redeem_request_def ForgotPasswordRequest_def str_field_def opt_field_def get_or_def)
  have p: "(redeem_request nm code pw)\<lparr>rq_path := []\<rparr> = redeem_request nm code pw" by (simp add: redeem_request_def)
  show ?thesis
    unfolding serve_def account_routes option.case prod.case p forgot_password_def forgot_password_exchange_def b
    using assms(1) pw
    by (cases "confirm_password_reset (w_libs W) (w_clk W) (w_salt W) nm code pw d";
        cases "fst (confirm_password_reset (w_libs W) (w_clk W) (w_salt W) nm code pw d)")
      (auto simp: str_truthy_def)
qed

text \<open>
  C30: a forgotten password is replaced by mail.  Whoever asks for a reset gets the same answer whether the
  account exists or not; when it does, one message goes to its address, and its code, sent back within
  the hour with a new password, makes the new password log in and the old one a 401.  The code is
  then spent.  The refresh tokens of the account stay as they were.
\<close>

theorem reset_over_http:
  fixes W1 W2 W3 :: world and nm old new :: string
  defines "forgot \<equiv> [''v1'', ''forgotpassword2'']"
    and "creds \<equiv> \<lambda>pw. account_request [(''user_name'', JStr nm), (''password'', JStr pw)]"
  assumes ok: "db_ok d" and u: "u \<in> set (users d)" "usr_status u = ''confirmed''" "usr_user_name u = nm" "nm \<noteq> []"
    and h: "hash_password (w_libs W2) (w_salt W2) new = Inr h" "verify_password (w_libs W3) new h = Inr True"
      "verify_password (w_libs W3) old h = Inr False"
    and draws: "w_code W1 < 1000000" "login_draws W3 (usr_id u) d"
    and body: "bounded 8 128 new" "old \<noteq> []"
    and mail: "env (w_settings W1) \<noteq> ''test''" "\<not> many_lines (email_from (w_settings W1))" "\<not> many_lines nm"
    and time: "w_clk W2 0 \<le> w_clk W1 0 + hours 1"
  shows "(\<forall>name. \<not> many_lines name \<longrightarrow> fst (serve W1 ''PUT'' forgot (reset_request name) d) =
      Answer (Inr (SuccessResponse ''Reset code sent''))) \<and>
    (\<exists>m d1 d2 toks d3.
      forgot_password_exchange W1 (reset_request nm) d = (Inr (SuccessResponse ''Reset code sent'', [m]), d1) \<and> em_to m = nm \<and>
      serve W2 ''PUT'' forgot (redeem_request nm (code_in m) new) d1 = (Answer (Inr (SuccessResponse ''Password reset'')), d2) \<and>
      serve W3 ''POST'' [''v1'', ''login2''] (creds old) d2 = (Answer (Inl (unauthorized ''Invalid credentials'')), d2) \<and>
      serve W3 ''POST'' [''v1'', ''login2''] (creds new) d2 = (Answer (Inr (LoginResponse toks)), d3) \<and>
      serve W2 ''PUT'' forgot (redeem_request nm (code_in m) new) d2 =
        (Answer (Inl (rainmaker 400 INVALID_REQUEST ''Invalid or expired code'')), d2) \<and>
      refresh_tokens d2 = refresh_tokens d)"
proof -
  obtain m d1 where x: "forgot_password_exchange W1 (reset_request nm) d = (Inr (SuccessResponse ''Reset code sent'', [m]), d1)"
    and d1: "d1 = write_user u (\<lambda>u. u\<lparr>usr_reset_code := Some (code_in m), usr_reset_code_exp := Some (w_clk W1 0 + hours 1)\<rparr>) d"
    and m: "em_to m = nm" "code_in m = generate_code (w_code W1)"
    using reset_mails [OF ok u(1,3) mail] by blast
  let ?u = "u\<lparr>usr_reset_code := Some (code_in m), usr_reset_code_exp := Some (w_clk W1 0 + hours 1)\<rparr>"
  let ?f = "\<lambda>u::user. u\<lparr>usr_password_hash := Some h, usr_reset_code := None, usr_reset_code_exp := None\<rparr>"
  have ok1: "db_ok d1" "?u \<in> set (users d1)" "find_user_by_name nm d1 = Inr (Some ?u)"
    using written [OF ok u(1), of "\<lambda>u. u\<lparr>usr_reset_code := Some (code_in m), usr_reset_code_exp := Some (w_clk W1 0 + hours 1)\<rparr>"]
      u(3) by (simp_all add: d1)
  let ?d2 = "write_user ?u ?f d1"
  have code: "code_in m \<noteq> []" "is_ascii (code_in m)"
    using m(2) generate_code_length [OF draws(1)] generate_code_ascii by auto
  have reset: "confirm_password_reset (w_libs W2) (w_clk W2) (w_salt W2) nm (code_in m) new d1 = (Inr (), ?d2)"
    using ok1(3) time code(2) h(1) by (simp add: confirm_password_reset_def Let_def)
  have ok2: "db_ok ?d2" "?f ?u \<in> set (users ?d2)" "find_user_by_name nm ?d2 = Inr (Some (?f ?u))"
    using written [OF ok1(1,2), of ?f] u(3) by simp_all
  have old: "login_password (w_libs W3) (w_settings W3) (w_clk W3) (w_token W3) (w_uuid W3 0) nm old ?d2 =
      (Inl (unauthorized ''Invalid credentials''), ?d2)"
    using ok2(3) h(3) by (simp add: login_password_def)
  obtain toks d3 where new: "login_password (w_libs W3) (w_settings W3) (w_clk W3) (w_token W3) (w_uuid W3 0) nm new ?d2 = (Inr toks, d3)"
    using login_password_draws [OF ok2(1,2) _ _ h(2)] u draws(2) d1 by (auto simp: login_draws_def)
  have again: "confirm_password_reset (w_libs W2) (w_clk W2) (w_salt W2) nm (code_in m) new ?d2 =
      (Inl (rainmaker 400 INVALID_REQUEST ''Invalid or expired code''), ?d2)"
    using reset_single_use [OF ok1(1) reset] by blast
  have "new \<noteq> []" using body(1) by (auto simp: bounded_def)
  then have "serve W3 ''POST'' [''v1'', ''login2''] (creds old) ?d2 = (Answer (Inl (unauthorized ''Invalid credentials'')), ?d2)"
    "serve W3 ''POST'' [''v1'', ''login2''] (creds new) ?d2 = (Answer (Inr (LoginResponse toks)), d3)"
    unfolding creds_def using login2_serves [OF u(4)] body(2) old new by auto
  moreover have "serve W2 ''PUT'' forgot (redeem_request nm (code_in m) new) d1 = (Answer (Inr (SuccessResponse ''Password reset'')), ?d2)"
    "serve W2 ''PUT'' forgot (redeem_request nm (code_in m) new) ?d2 =
        (Answer (Inl (rainmaker 400 INVALID_REQUEST ''Invalid or expired code'')), ?d2)"
    unfolding forgot_def redeem_serves [OF code(1) body(1)] reset again by simp_all
  moreover have "refresh_tokens ?d2 = refresh_tokens d" by (simp add: d1)
  ultimately show ?thesis using x m(1) reset_asked [OF ok] mail(2) unfolding forgot_def by blast
qed

definition forgetful :: user where
  "forgetful = (User 100 ''ann'' ''ann'')\<lparr>usr_password_hash := Some ''h:old-secret'', usr_status := ''confirmed''\<rparr>"

theorem reset_over_http_witness:
  "\<exists>m d1 d2 toks d3.
    forgot_password_exchange flow_world (reset_request ''ann'') (empty_db\<lparr>users := [forgetful]\<rparr>) =
      (Inr (SuccessResponse ''Reset code sent'', [m]), d1) \<and> em_to m = ''ann'' \<and>
    serve flow_world ''PUT'' [''v1'', ''forgotpassword2''] (redeem_request ''ann'' (code_in m) ''new-secret'') d1 =
      (Answer (Inr (SuccessResponse ''Password reset'')), d2) \<and>
    serve flow_world ''POST'' [''v1'', ''login2'']
      (account_request [(''user_name'', JStr ''ann''), (''password'', JStr ''old-secret'')]) d2 =
      (Answer (Inl (unauthorized ''Invalid credentials'')), d2) \<and>
    serve flow_world ''POST'' [''v1'', ''login2'']
      (account_request [(''user_name'', JStr ''ann''), (''password'', JStr ''new-secret'')]) d2 =
      (Answer (Inr (LoginResponse toks)), d3) \<and>
    serve flow_world ''PUT'' [''v1'', ''forgotpassword2''] (redeem_request ''ann'' (code_in m) ''new-secret'') d2 =
      (Answer (Inl (rainmaker 400 INVALID_REQUEST ''Invalid or expired code'')), d2) \<and>
    refresh_tokens d2 = refresh_tokens (empty_db\<lparr>users := [forgetful]\<rparr>)"
proof (rule reset_over_http [where u = forgetful and h = "''h:new-secret''", THEN conjunct2])
  show "db_ok (empty_db\<lparr>users := [forgetful]\<rparr>)"
    by (simp add: db_ok_def keys_ok_def foreign_ok_def empty_db_def clash_free_def)
  show "\<not> many_lines ''ann''" "\<not> many_lines (email_from (w_settings flow_world))"
    by (simp_all add: many_lines_def is_linebreak_def code_point_def flow_world_def sample_world_def default_settings_def)
  show "login_draws flow_world (usr_id forgetful) (empty_db\<lparr>users := [forgetful]\<rparr>)"
    by (simp add: login_draws_def jwt_accepts_def flow_world_def sample_world_def flow_libs_def default_settings_def
        get_token_claims dict_ok_def fits_def empty_db_def forgetful_def User_def)
qed (simp_all add: forgetful_def User_def flow_world_def sample_world_def default_settings_def flow_libs_def sample_libs_def
    hash_password_def verify_password_def bounded_def)

end
