(* ===== verification/Entrypoints.thy ===== *)
theory Entrypoints
  imports FakeNode
begin

text \<open>
  \<open>app/entrypoints/\<close>: the processes around the services.  \<open>authz_app\<close> is the small application that
  serves only the broker's webhooks; \<open>ingestor_topic\<close> and \<open>ingestor\<close> are what the MQTT ingestor
  subscribes to and what it does with the messages it is given, \<open>run_ingestor\<close> its loop, with the connections
  that it loses and opens again.  Which messages a subscription is
  given is up to the broker: \<open>delivers\<close> is a parameter, and \<open>mqtt_matching\<close> the matching of topic filters
  that the MQTT standard documents.
\<close>

section \<open>The webhook application\<close>

definition authz_healthz :: handler where
  "authz_healthz W rq d = (Inr [(''status'', JStr ''ok'')], d)"

definition authz_app :: "entry list" where
  "authz_app = [(''GET'', [Lit ''healthz''], authz_healthz)] @ vmq_authz_router"

definition create_authz_app :: fastapi_app where
  "create_authz_app = \<lparr>app_title = ''rainmaker-vmq-authz'', docs_url = None, redoc_url = None, openapi_url = None,
     app_cors = None, app_entries = authz_app\<rparr>"

definition serve_from :: "entry list \<Rightarrow> world \<Rightarrow> string \<Rightarrow> string list \<Rightarrow> request \<Rightarrow> db \<Rightarrow> outcome \<times> db" where
  "serve_from es W m ps rq d =
     (case find_route es m ps of
        Some (h, args) \<Rightarrow> (case h W (rq\<lparr>rq_path := args\<rparr>) d of (r, d') \<Rightarrow> (Answer r, d'))
      | None \<Rightarrow> (if path_known es ps then MethodNotAllowed else NoSuchRoute, d))"

lemma serve_from_app: "serve_from app_routes = serve"
  by (intro ext) (simp add: serve_from_def serve_def)

text \<open>The broker may call either application.\<close>

lemma authz_app_agrees:
  "list_all (\<lambda>(m, t, h). \<forall>ps W rq d. match_path t ps \<noteq> None \<longrightarrow> serve_from authz_app W m ps rq d = serve W m ps rq d)
     vmq_authz_router"
proof -
  have lit: "match_path (map Lit xs) ps \<noteq> None \<Longrightarrow> ps = xs" for xs ps
    by (induction "map Lit xs" ps arbitrary: xs rule: match_path.induct) (auto split: if_splits)
  note lits = lit [of "[''auth'', ''on_register'']", simplified] lit [of "[''auth'', ''on_publish'']", simplified]
    lit [of "[''auth'', ''on_subscribe'']", simplified] lit [of "[''on_client_online'']", simplified]
    lit [of "[''on_client_offline'']", simplified]
  show ?thesis
    unfolding vmq_authz_router_def serve_from_def serve_def
    by (auto dest!: lits simp: authz_app_def app_routes_def api_router_def router_defs)
qed

section \<open>The ingestor\<close>

definition ingestor_topic :: "(string \<rightharpoonup> string) \<Rightarrow> string" where
  "ingestor_topic E =
     (let use_shared = py_lower (case E ''RM_MQTT_SHARED_SUB'' of None \<Rightarrow> ''true'' | Some v \<Rightarrow> v) = ''true'';
          share_group = (case E ''RM_MQTT_SHARED_SUB_GROUP'' of None \<Rightarrow> ''ingestor'' | Some g \<Rightarrow> g)
      in if use_shared then ''$share/'' @ share_group @ ''/node/+/#'' else ''node/+/#'')"

text \<open>
  An exception is logged and the session rolled back, which leaves what was committed before it: the store that
  \<open>dispatch\<close> gives.  The \<open>i\<close>-th message sees the clock \<open>clk i\<close> and draws the identifier \<open>ids i\<close>.
\<close>

primrec ingestor ::
  "pyrt \<Rightarrow> (nat \<Rightarrow> nat \<Rightarrow> datetime) \<Rightarrow> (nat \<Rightarrow> uuid) \<Rightarrow> nat \<Rightarrow> (string \<times> json option) list \<Rightarrow> db \<Rightarrow> db" where
  "ingestor R clk ids i [] d = d"
| "ingestor R clk ids i (m # ms) d = ingestor R clk ids (Suc i) ms (snd (dispatch R (clk i) (ids i) (fst m) (snd m) d))"

lemma ingestor_snoc:
  "ingestor R clk ids i (ms @ [m]) d =
     snd (dispatch R (clk (i + length ms)) (ids (i + length ms)) (fst m) (snd m) (ingestor R clk ids i ms d))"
  by (induction ms arbitrary: i d) simp_all

lemma ingestor_ok: "db_ok d \<Longrightarrow> db_ok (ingestor R clk ids i ms d)"
  by (induction ms arbitrary: i d) (simp_all add: dispatch_ok)

text \<open>
  The loop around it.  What the broker makes of the connection is a sequence of events: the client
  gets its connection, hands on a message, or raises an \<open>MqttError\<close>, while it connects, subscribes or
  waits.  What the process does in turn is a sequence of actions.
\<close>

record mqtt_client =
  mq_hostname :: string
  mq_port :: int
  mq_username :: string
  mq_password :: string
  mq_identifier :: string
  mq_clean_session :: bool

datatype broker_event = Opened | Incoming string "json option" | MqttError

datatype ingestor_action = Connect mqtt_client | Subscribe string nat | Sleep nat

definition ingestor_client :: "settings \<Rightarrow> string \<Rightarrow> mqtt_client" where
  "ingestor_client S hostname =
     \<lparr>mq_hostname = mqtt_broker_host S, mq_port = mqtt_broker_port S, mq_username = mqtt_internal_user S,
      mq_password = mqtt_internal_password S, mq_identifier = ''rainmaker-backend-ingestor-'' @ hostname,
      mq_clean_session = False\<rparr>"

record ingestor_state =
  in_open :: bool
  in_seen :: nat
  in_done :: "ingestor_action list"
  in_db :: db

definition start_ingestor :: "settings \<Rightarrow> string \<Rightarrow> db \<Rightarrow> ingestor_state" where
  "start_ingestor S hostname d =
     \<lparr>in_open = False, in_seen = 0, in_done = [Connect (ingestor_client S hostname)], in_db = d\<rparr>"

fun ingestor_event ::
  "pyrt \<Rightarrow> settings \<Rightarrow> (string \<rightharpoonup> string) \<Rightarrow> string \<Rightarrow> (nat \<Rightarrow> nat \<Rightarrow> datetime) \<Rightarrow> (nat \<Rightarrow> uuid) \<Rightarrow>
     broker_event \<Rightarrow> ingestor_state \<Rightarrow> ingestor_state" where
  "ingestor_event R S E hostname clk ids Opened s =
     (if in_open s then s else s\<lparr>in_open := True, in_done := in_done s @ [Subscribe (ingestor_topic E) 1]\<rparr>)"
| "ingestor_event R S E hostname clk ids (Incoming topic payload) s =
     (if \<not> in_open s then s
      else s\<lparr>in_seen := Suc (in_seen s),
             in_db := snd (dispatch R (clk (in_seen s)) (ids (in_seen s)) topic payload (in_db s))\<rparr>)"
| "ingestor_event R S E hostname clk ids MqttError s =
     s\<lparr>in_open := False, in_done := in_done s @ [Sleep 5, Connect (ingestor_client S hostname)]\<rparr>"

definition run_ingestor ::
  "pyrt \<Rightarrow> settings \<Rightarrow> (string \<rightharpoonup> string) \<Rightarrow> string \<Rightarrow> (nat \<Rightarrow> nat \<Rightarrow> datetime) \<Rightarrow> (nat \<Rightarrow> uuid) \<Rightarrow>
     broker_event list \<Rightarrow> db \<Rightarrow> ingestor_state" where
  "run_ingestor R S E hostname clk ids evs d =
     fold (ingestor_event R S E hostname clk ids) evs (start_ingestor S hostname d)"

text \<open>The messages that reach an open connection.\<close>

fun received :: "bool \<Rightarrow> broker_event list \<Rightarrow> (string \<times> json option) list" where
  "received b [] = []"
| "received b (Opened # evs) = received True evs"
| "received b (Incoming t p # evs) = (if b then (t, p) # received b evs else received b evs)"
| "received b (MqttError # evs) = received False evs"

lemma fold_ingestor_db:
  "in_db (fold (ingestor_event R S E hostname clk ids) evs s) =
     ingestor R clk ids (in_seen s) (received (in_open s) evs) (in_db s)"
proof (induction evs arbitrary: s)
  case (Cons e evs)
  then show ?case by (cases e) simp_all
qed simp

text \<open>
  Lost connections are harmless to what is stored: the loop goes on whatever the broker does, and the store is
  that of the received messages handled one after the other.
\<close>

lemma run_ingestor_db:
  "in_db (run_ingestor R S E hostname clk ids evs d) = ingestor R clk ids 0 (received False evs) d"
  by (simp add: run_ingestor_def start_ingestor_def fold_ingestor_db)

text \<open>After any events the process waits for a connection it asked for, or is subscribed on an open one.\<close>

lemma run_ingestor_last:
  "last (in_done (run_ingestor R S E hostname clk ids evs d)) =
     (if in_open (run_ingestor R S E hostname clk ids evs d) then Subscribe (ingestor_topic E) 1
      else Connect (ingestor_client S hostname))"
proof (induction evs rule: rev_induct)
  case (snoc e evs)
  then show ?case by (cases e) (simp_all add: run_ingestor_def)
qed (simp add: run_ingestor_def start_ingestor_def)

section \<open>Subscriptions\<close>

abbreviation levels :: "string \<Rightarrow> string list" where
  "levels \<equiv> py_split_all (CHR ''/'')"

lemmas levels_split = py_split_all_here [where c = "CHR ''/''"]

lemma levels_topic: "CHR ''/'' \<notin> set n \<Longrightarrow> levels (node_topic n suff) = ''node'' # n # levels suff"
  using levels_split [of "''node''" "n @ CHR ''/'' # suff"] levels_split [of n suff] by (simp add: node_topic_def)

fun filter_matches :: "string list \<Rightarrow> string list \<Rightarrow> bool" where
  "filter_matches [] [] = True"
| "filter_matches (f # fs) [] = (f = ''#'' \<and> fs = [])"
| "filter_matches [] (t # ts) = False"
| "filter_matches (f # fs) (t # ts) =
     (f = ''#'' \<and> fs = [] \<or> (f = ''+'' \<or> f = t) \<and> filter_matches fs ts)"

text \<open>A shared subscription carries its group in front of the filter.\<close>

definition unshared :: "string list \<Rightarrow> string list" where
  "unshared fs = (case fs of s # g # rest \<Rightarrow> if s = ''$share'' then rest else fs | _ \<Rightarrow> fs)"

definition mqtt_matching :: "(string \<Rightarrow> string \<Rightarrow> bool) \<Rightarrow> bool" where
  "mqtt_matching delivers \<longleftrightarrow>
     (\<forall>f t. hd (levels t) = ''node'' \<longrightarrow> delivers f t = filter_matches (unshared (levels f)) (levels t))"

definition topic_entry :: "string \<Rightarrow> json" where
  "topic_entry f = JObj [(''topic'', JStr f), (''qos'', JInt 1)]"

text \<open>What the running device subscribes to.\<close>

lemma check_topics_allow:
  "check_topics R (JStr u) (map topic_entry fs) = Inr allow \<longleftrightarrow> (\<forall>f \<in> set fs. allowed_topic u f)"
  by (induction fs) (auto simp: topic_entry_def get_or_def allowed_topic_json_def allow_def refuse_def)

lemma subscribe_allow:
  "u \<noteq> mqtt_internal_user S \<Longrightarrow> u \<noteq> [] \<Longrightarrow>
     authorise_subscribe R S (JStr u) (JArr (map topic_entry fs)) = Inr allow \<longleftrightarrow> (\<forall>f \<in> set fs. allowed_topic u f)"
  by (cases fs) (simp_all add: authorise_subscribe_def is_backend_def check_topics_allow flip: list.map)

section \<open>Properties\<close>

text \<open>What \<open>run\<close> publishes and subscribes to is what the webhooks let the node do.\<close>

lemma cmd_run_allowed:
  assumes run: "cmd_run dir E = Inr (link, out, subs)" and n: "load_device dir = Inr n" "n \<noteq> []" "n \<noteq> mqtt_internal_user S"
  shows "ln_identifier link = n" "\<forall>m \<in> set out. authorise_publish R S (JStr n) (JStr (fst m)) = Inr allow"
    "authorise_subscribe R S (JStr n) (JArr (map topic_entry subs)) = Inr allow"
proof -
  have link: "ln_identifier link = n" "out = boot n initial_state" "subs = subscriptions n"
    using run n(1) by (auto simp: cmd_run_def split: sum.splits)
  then show "ln_identifier link = n" by simp
  have "authorise_publish R S (JStr n) (JStr (node_topic n suff)) = Inr allow" for suff
    using n by (intro publish_own) (auto simp: allowed_topic_node, simp add: node_topic_def)
  then show "\<forall>m \<in> set out. authorise_publish R S (JStr n) (JStr (fst m)) = Inr allow" by (simp add: link boot_def)
  show "authorise_subscribe R S (JStr n) (JArr (map topic_entry subs)) = Inr allow"
    unfolding link subscribe_allow [OF n(3,2)] by (auto simp: subscriptions_def allowed_topic_node)
qed

text \<open>
  Messages find their way.  For a node whose name has no slash, the broker's webhook lets the device
  subscribe to what it subscribes to, a parameter write of the backend is delivered to one of
  these subscriptions, and everything under the node's prefix is delivered to the ingestor, with a
  shared subscription (whose group has no slash) or without.
\<close>

theorem delivery:
  assumes M: "mqtt_matching delivers" and n: "n \<noteq> []" "CHR ''/'' \<notin> set n" "n \<noteq> mqtt_internal_user S"
    and g: "\<And>g. E ''RM_MQTT_SHARED_SUB_GROUP'' = Some g \<Longrightarrow> CHR ''/'' \<notin> set g"
  shows "authorise_subscribe R S (JStr n) (JArr (map topic_entry (subscriptions n))) = Inr allow \<and>
    list_ex (\<lambda>f. delivers f (node_topic n ''params/remote'')) (subscriptions n) \<and>
    delivers (ingestor_topic E) (node_topic n suff)"
proof (intro conjI)
  show "authorise_subscribe R S (JStr n) (JArr (map topic_entry (subscriptions n))) = Inr allow"
    unfolding subscribe_allow [OF n(3,1)] by (auto simp: subscriptions_def allowed_topic_node)
  have d: "delivers f (node_topic n s) = filter_matches (unshared (levels f)) (''node'' # n # levels s)" for f s
    using M levels_topic [OF n(2)] by (simp add: mqtt_matching_def)
  have refl: "filter_matches ts ts" for ts by (induction ts) auto
  show "list_ex (\<lambda>f. delivers f (node_topic n ''params/remote'')) (subscriptions n)"
    by (simp add: subscriptions_def d levels_topic [OF n(2)] unshared_def refl)
  have flt: "levels ''node/+/#'' = [''node'', ''+'', ''#'']"
    using levels_split [of "''node''" "''+/#''"] levels_split [of "''+''" "''#''"] by (simp add: py_split_all_def)
  have plain: "unshared (levels ''node/+/#'') = [''node'', ''+'', ''#'']" by (simp add: unshared_def flt)
  have shared: "unshared (levels (''$share/'' @ g @ ''/node/+/#'')) = [''node'', ''+'', ''#'']" if "CHR ''/'' \<notin> set g" for g
    using levels_split [of "''$share''" "g @ ''/node/+/#''"] levels_split [OF that, of "''node/+/#''"] flt
    by (simp add: unshared_def)
  have "CHR ''/'' \<notin> set (case E ''RM_MQTT_SHARED_SUB_GROUP'' of None \<Rightarrow> ''ingestor'' | Some g \<Rightarrow> g)"
    using g by (auto split: option.split)
  then have "unshared (levels (ingestor_topic E)) = [''node'', ''+'', ''#'']"
    unfolding ingestor_topic_def Let_def by (split if_split) (simp only: shared plain simp_thms)
  then show "delivers (ingestor_topic E) (node_topic n suff)"
    unfolding d by (cases "levels suff") simp_all
qed


text \<open>
  The condition on wildcards is needed.  A client named \<open>+\<close> may subscribe to \<open>node/+/#\<close>, and is then
  delivered every message of every node, the parameters its owners write among them.
\<close>

theorem wildcard_eavesdrops:
  assumes "mqtt_matching delivers" "mqtt_internal_user S \<noteq> ''+''" "CHR ''/'' \<notin> set n"
  shows "authorise_subscribe R S (JStr ''+'') (JArr [topic_entry ''node/+/#'']) = Inr allow \<and>
    delivers ''node/+/#'' (node_topic n suff)"
proof
  show "authorise_subscribe R S (JStr ''+'') (JArr [topic_entry ''node/+/#'']) = Inr allow"
    using subscribe_allow [of "''+''" S R "[''node/+/#'']"] assms(2) by (simp add: allowed_topic_def startswith_def)
  have "levels ''node/+/#'' = [''node'', ''+'', ''#'']"
    using levels_split [of "''node''" "''+/#''"] levels_split [of "''+''" "''#''"] by (simp add: py_split_all_def)
  then show "delivers ''node/+/#'' (node_topic n suff)"
    using assms(1) levels_topic [OF assms(3)]
    by (cases "levels suff") (auto simp: mqtt_matching_def unshared_def)
qed

text \<open>The matching of the standard.\<close>

definition standard_delivers :: "string \<Rightarrow> string \<Rightarrow> bool" where
  "standard_delivers f t \<longleftrightarrow> filter_matches (unshared (levels f)) (levels t)"

lemma standard_matching: "mqtt_matching standard_delivers"
  by (simp add: mqtt_matching_def standard_delivers_def)

theorem delivery_witness:
  "authorise_subscribe sample_rt default_settings (JStr ''n1'') (JArr (map topic_entry (subscriptions ''n1''))) = Inr allow \<and>
    list_ex (\<lambda>f. standard_delivers f (node_topic ''n1'' ''params/remote'')) (subscriptions ''n1'') \<and>
    standard_delivers (ingestor_topic (\<lambda>_. None)) (node_topic ''n1'' ''config'')"
  by (rule delivery [OF standard_matching]) (simp_all add: default_settings_def)


theorem wildcard_eavesdrops_witness:
  "authorise_subscribe sample_rt default_settings (JStr ''+'') (JArr [topic_entry ''node/+/#'']) = Inr allow \<and>
    standard_delivers ''node/+/#'' (node_topic ''n1'' ''params/remote'')"
  by (rule wildcard_eavesdrops [OF standard_matching]) (simp_all add: default_settings_def)

end
