(* ===== verification/PyJson.thy ===== *)
theory PyJson
  imports PyNum
begin

text \<open>
  Python's \<open>json.dumps\<close> and \<open>json.loads\<close> with their defaults, and UTF-8: how the values of \<open>Json\<close> travel as
  the bytes of an MQTT payload.  The scanner is the one of \<open>json.scanner\<close> and \<open>json.decoder\<close>.  A scanner takes
  the text that is left and gives a value with the text after it.  \<open>room\<close> is what is left of the interpreter's
  recursion limit, which each array and each object uses one of; \<open>n\<close> is fuel, and \<open>loads_fuel\<close> shows that twice the length
  of the text is enough.
\<close>

datatype json_error =
    JSONDecodeError
  | UnicodeDecodeError
  | NumberError \<comment> \<open>the \<open>ValueError\<close> of \<open>int\<close> and of \<open>float\<close>\<close>
  | RecursionLimit
  | NotLatin1 \<comment> \<open>a code point that \<open>char\<close> does not have; no error of the program\<close>
  | OutOfFuel

type_synonym 'a scan = "json_error + 'a \<times> string"

section \<open>\<open>json.dumps\<close>\<close>

definition hex4_str :: "nat \<Rightarrow> string" where
  "hex4_str n = map hex_char [n div 4096 mod 16, n div 256 mod 16, n div 16 mod 16, n mod 16]"

definition escape_char :: "char \<Rightarrow> string" where
  "escape_char c =
     (if c = CHR 0x22 then [CHR 0x5C, CHR 0x22]
      else if c = CHR 0x5C then [CHR 0x5C, CHR 0x5C]
      else if c = CHR 0x0A then [CHR 0x5C, CHR ''n'']
      else if c = CHR 0x0D then [CHR 0x5C, CHR ''r'']
      else if c = CHR 0x09 then [CHR 0x5C, CHR ''t'']
      else if c = CHR 0x0C then [CHR 0x5C, CHR ''f'']
      else if c = CHR 0x08 then [CHR 0x5C, CHR ''b'']
      else if 32 \<le> code_point c \<and> code_point c \<le> 126 then [c]
      else CHR 0x5C # CHR ''u'' # hex4_str (code_point c))"

definition dump_str :: "string \<Rightarrow> string" where
  "dump_str s = CHR 0x22 # concat (map escape_char s) @ [CHR 0x22]"

fun commas :: "string list \<Rightarrow> string" where
  "commas [] = []"
| "commas [s] = s"
| "commas (s # ss) = s @ '', '' @ commas ss"

fun dump_float :: "pyrt \<Rightarrow> pyfloat \<Rightarrow> string" where
  "dump_float R NaN = ''NaN''"
| "dump_float R PosInf = ''Infinity''"
| "dump_float R NegInf = ''-Infinity''"
| "dump_float R f = repr_json R (JFloat f)"

fun dump :: "pyrt \<Rightarrow> json \<Rightarrow> string" where
  "dump R JNull = ''null''"
| "dump R (JBool b) = (if b then ''true'' else ''false'')"
| "dump R (JInt i) = int_str i"
| "dump R (JFloat f) = dump_float R f"
| "dump R (JStr s) = dump_str s"
| "dump R (JArr xs) = ''['' @ commas (map (dump R) xs) @ '']''"
| "dump R (JObj d) = ''{'' @ commas (map (\<lambda>p. dump_str (fst p) @ '': '' @ dump R (snd p)) d) @ ''}''"

text \<open>Nesting within the recursion limit, and integers that \<open>repr\<close> prints.\<close>

fun nested :: "nat \<Rightarrow> json \<Rightarrow> bool" where
  "nested room (JArr xs) = (0 < room \<and> list_all (nested (room - 1)) xs)"
| "nested room (JObj d) = (0 < room \<and> list_all (\<lambda>p. nested (room - 1) (snd p)) d)"
| "nested room v = True"

fun ints_short :: "json \<Rightarrow> bool" where
  "ints_short (JInt i) = (\<not> too_many_digits (int_str i))"
| "ints_short (JArr xs) = list_all ints_short xs"
| "ints_short (JObj d) = list_all (\<lambda>p. ints_short (snd p)) d"
| "ints_short v = True"

definition dumps :: "pyrt \<Rightarrow> nat \<Rightarrow> json \<Rightarrow> json_error + string" where
  "dumps R room v =
     (if \<not> nested room v then Inl RecursionLimit
      else if \<not> ints_short v then Inl NumberError
      else Inr (dump R v))"

section \<open>\<open>json.loads\<close>\<close>

definition is_json_space :: "char \<Rightarrow> bool" where
  "is_json_space c \<longleftrightarrow> c \<in> {CHR '' '', CHR 0x09, CHR 0x0A, CHR 0x0D}"

abbreviation skip_space :: "string \<Rightarrow> string" where
  "skip_space \<equiv> dropWhile is_json_space"

text \<open>\<open>scanstring\<close>, after the opening quote.\<close>

definition unescape :: "char \<Rightarrow> char option" where
  "unescape e =
     map_of [(CHR 0x22, CHR 0x22), (CHR 0x5C, CHR 0x5C), (CHR ''/'', CHR ''/''), (CHR ''b'', CHR 0x08),
       (CHR ''f'', CHR 0x0C), (CHR ''n'', CHR 0x0A), (CHR ''r'', CHR 0x0D), (CHR ''t'', CHR 0x09)] e"

definition hex4_val :: "char \<Rightarrow> char \<Rightarrow> char \<Rightarrow> char \<Rightarrow> nat option" where
  "hex4_val a b c d =
     (case (hex_digit a, hex_digit b, hex_digit c, hex_digit d) of
        (Some w, Some x, Some y, Some z) \<Rightarrow> Some (4096 * w + 256 * x + 16 * y + z)
      | _ \<Rightarrow> None)"

definition prepend :: "char \<Rightarrow> string scan \<Rightarrow> string scan" where
  "prepend c r = map_sum id (\<lambda>(s, rest). (c # s, rest)) r"

fun scanstring :: "string \<Rightarrow> string scan" where
  "scanstring [] = Inl JSONDecodeError"
| "scanstring (c # s) =
     (if c = CHR 0x22 then Inr ([], s)
      else if c = CHR 0x5C then
        (case s of
           [] \<Rightarrow> Inl JSONDecodeError
         | e # t \<Rightarrow>
             if e = CHR ''u'' then
               (case t of
                  h1 # h2 # h3 # h4 # r \<Rightarrow>
                    (case hex4_val h1 h2 h3 h4 of
                       None \<Rightarrow> Inl JSONDecodeError
                     | Some n \<Rightarrow> if 255 < n then Inl NotLatin1 else prepend (char_of n) (scanstring r))
                | _ \<Rightarrow> Inl JSONDecodeError)
             else (case unescape e of
                 None \<Rightarrow> Inl JSONDecodeError
               | Some x \<Rightarrow> prepend x (scanstring t)))
      else if code_point c < 32 then Inl JSONDecodeError
      else prepend c (scanstring s))"

text \<open>\<open>NUMBER_RE\<close>: the text of a number, whether it has a fraction or an exponent, and what follows.\<close>

definition dec :: "char \<Rightarrow> bool" where
  "dec c \<longleftrightarrow> dec_digit c \<noteq> None"

definition int_part :: "string \<Rightarrow> (string \<times> string) option" where
  "int_part s =
     (case s of
        [] \<Rightarrow> None
      | c # r \<Rightarrow>
          if c = CHR ''0'' then Some ([c], r)
          else if dec c then Some (takeWhile dec s, dropWhile dec s)
          else None)"

definition frac_part :: "string \<Rightarrow> string \<times> string" where
  "frac_part s =
     (case s of
        c # r \<Rightarrow> if c = CHR ''.'' \<and> takeWhile dec r \<noteq> [] then (c # takeWhile dec r, dropWhile dec r) else ([], s)
      | [] \<Rightarrow> ([], s))"

definition exp_part :: "string \<Rightarrow> string \<times> string" where
  "exp_part s =
     (case s of
        e # r \<Rightarrow>
          if e = CHR ''e'' \<or> e = CHR ''E'' then
            let sign = (case r of c # _ \<Rightarrow> if c = CHR ''-'' \<or> c = CHR ''+'' then [c] else [] | [] \<Rightarrow> []);
                t = drop (length sign) r
            in if takeWhile dec t \<noteq> [] then (e # sign @ takeWhile dec t, dropWhile dec t) else ([], s)
          else ([], s)
      | [] \<Rightarrow> ([], s))"

definition number_body :: "string \<Rightarrow> (string \<times> bool \<times> string) option" where
  "number_body s =
     (case int_part s of
        None \<Rightarrow> None
      | Some (i, s2) \<Rightarrow>
          (case frac_part s2 of (f, s3) \<Rightarrow>
          (case exp_part s3 of (e, s4) \<Rightarrow> Some (i @ f @ e, f \<noteq> [] \<or> e \<noteq> [], s4))))"

definition number_token :: "string \<Rightarrow> (string \<times> bool \<times> string) option" where
  "number_token s =
     (case s of
        c # r \<Rightarrow> if c = CHR ''-'' then map_option (\<lambda>(tok, rest). (c # tok, rest)) (number_body r) else number_body s
      | [] \<Rightarrow> None)"

definition scan_number :: "pyrt \<Rightarrow> string \<Rightarrow> json scan" where
  "scan_number R s =
     (case number_token s of
        None \<Rightarrow> Inl JSONDecodeError
      | Some (tok, is_float, r) \<Rightarrow>
          if is_float then (case float_of_str R tok of Inl e \<Rightarrow> Inl NumberError | Inr f \<Rightarrow> Inr (JFloat f, r))
          else (case int_10 tok of Inl e \<Rightarrow> Inl NumberError | Inr i \<Rightarrow> Inr (JInt i, r)))"

definition words :: "(string \<times> json) list" where
  "words = [(''null'', JNull), (''true'', JBool True), (''false'', JBool False), (''NaN'', JFloat NaN),
     (''Infinity'', JFloat PosInf), (''-Infinity'', JFloat NegInf)]"

definition scan_atom :: "pyrt \<Rightarrow> string \<Rightarrow> json scan" where
  "scan_atom R s =
     (case List.find (\<lambda>w. prefix (fst w) s) words of
        Some w \<Rightarrow> Inr (snd w, drop (length (fst w)) s)
      | None \<Rightarrow> scan_number R s)"

fun scan_once :: "pyrt \<Rightarrow> nat \<Rightarrow> nat \<Rightarrow> string \<Rightarrow> json scan"
  and scan_items :: "pyrt \<Rightarrow> nat \<Rightarrow> nat \<Rightarrow> string \<Rightarrow> json list scan"
  and scan_pairs :: "pyrt \<Rightarrow> nat \<Rightarrow> nat \<Rightarrow> dict \<Rightarrow> string \<Rightarrow> dict scan" where
  "scan_once R 0 room s = Inl OutOfFuel"
| "scan_once R (Suc n) room s =
     (case s of
        [] \<Rightarrow> Inl JSONDecodeError
      | c # r \<Rightarrow>
          if c = CHR 0x22 then map_sum id (map_prod JStr id) (scanstring r)
          else if c = CHR ''{'' then
            if room = 0 then Inl RecursionLimit
            else (case skip_space r of
                [] \<Rightarrow> Inl JSONDecodeError
              | b # q \<Rightarrow> if b = CHR ''}'' then Inr (JObj [], q)
                         else map_sum id (map_prod JObj id) (scan_pairs R n (room - 1) [] (b # q)))
          else if c = CHR ''['' then
            if room = 0 then Inl RecursionLimit
            else (case skip_space r of
                [] \<Rightarrow> Inl JSONDecodeError
              | b # q \<Rightarrow> if b = CHR '']'' then Inr (JArr [], q)
                         else map_sum id (map_prod JArr id) (scan_items R n (room - 1) (b # q)))
          else scan_atom R s)"
| "scan_items R 0 room s = Inl OutOfFuel"
| "scan_items R (Suc n) room s =
     (case scan_once R n room s of
        Inl e \<Rightarrow> Inl e
      | Inr (v, r) \<Rightarrow>
          (case skip_space r of
             [] \<Rightarrow> Inl JSONDecodeError
           | b # q \<Rightarrow>
               if b = CHR '']'' then Inr ([v], q)
               else if b = CHR '','' then map_sum id (map_prod (Cons v) id) (scan_items R n room (skip_space q))
               else Inl JSONDecodeError))"
| "scan_pairs R 0 room acc s = Inl OutOfFuel"
| "scan_pairs R (Suc n) room acc s =
     (case s of
        [] \<Rightarrow> Inl JSONDecodeError
      | c # r \<Rightarrow>
          if c \<noteq> CHR 0x22 then Inl JSONDecodeError
          else (case scanstring r of
              Inl e \<Rightarrow> Inl e
            | Inr (k, r1) \<Rightarrow>
                (case skip_space r1 of
                   [] \<Rightarrow> Inl JSONDecodeError
                 | a # r2 \<Rightarrow>
                     if a \<noteq> CHR '':'' then Inl JSONDecodeError
                     else (case scan_once R n room (skip_space r2) of
                         Inl e \<Rightarrow> Inl e
                       | Inr (v, r3) \<Rightarrow>
                           (case skip_space r3 of
                              [] \<Rightarrow> Inl JSONDecodeError
                            | b # q \<Rightarrow>
                                if b = CHR ''}'' then Inr (AList.update k v acc, q)
                                else if b = CHR '','' then scan_pairs R n room (AList.update k v acc) (skip_space q)
                                else Inl JSONDecodeError)))))"

definition loads :: "pyrt \<Rightarrow> nat \<Rightarrow> string \<Rightarrow> json_error + json" where
  "loads R room s =
     (case scan_once R (2 * Suc (length s)) room (skip_space s) of
        Inl e \<Rightarrow> Inl e
      | Inr (v, r) \<Rightarrow> if skip_space r = [] then Inr v else Inl JSONDecodeError)"

section \<open>UTF-8\<close>

text \<open>\<open>bytes.decode()\<close>: code points, or nothing when the bytes are not UTF-8; a well-formed sequence is that of the Unicode standard.\<close>

definition continues :: "nat \<Rightarrow> bool" where
  "continues b \<longleftrightarrow> 128 \<le> b \<and> b < 192"

definition point :: "nat \<Rightarrow> nat list option \<Rightarrow> nat list option" where
  "point n r = map_option (Cons n) r"

fun utf8_decode :: "bytes \<Rightarrow> nat list option" where
  "utf8_decode [] = Some []"
| "utf8_decode (b # s) =
     (if b < 128 then point b (utf8_decode s)
      else if 194 \<le> b \<and> b < 224 then
        (case s of
           c # r \<Rightarrow> if continues c then point ((b - 192) * 64 + (c - 128)) (utf8_decode r) else None
         | [] \<Rightarrow> None)
      else if 224 \<le> b \<and> b < 240 then
        (case s of
           c # d # r \<Rightarrow>
             if continues c \<and> continues d \<and> (b = 224 \<longrightarrow> 160 \<le> c) \<and> (b = 237 \<longrightarrow> c < 160)
             then point ((b - 224) * 4096 + (c - 128) * 64 + (d - 128)) (utf8_decode r) else None
         | _ \<Rightarrow> None)
      else if 240 \<le> b \<and> b < 245 then
        (case s of
           c # d # e # r \<Rightarrow>
             if continues c \<and> continues d \<and> continues e \<and> (b = 240 \<longrightarrow> 144 \<le> c) \<and> (b = 244 \<longrightarrow> c < 144)
             then point ((b - 240) * 262144 + (c - 128) * 4096 + (d - 128) * 64 + (e - 128)) (utf8_decode r) else None
         | _ \<Rightarrow> None)
      else None)"

text \<open>\<open>str.encode()\<close> of Latin-1 text.\<close>

definition utf8_char :: "char \<Rightarrow> bytes" where
  "utf8_char c = (let n = code_point c in if n < 128 then [n] else [192 + n div 64, 128 + n mod 64])"

definition utf8_encode :: "string \<Rightarrow> bytes" where
  "utf8_encode s = concat (map utf8_char s)"

definition decode_text :: "bytes \<Rightarrow> json_error + string" where
  "decode_text bs =
     (case utf8_decode bs of
        None \<Rightarrow> Inl UnicodeDecodeError
      | Some ns \<Rightarrow> if list_all (\<lambda>n. n < 256) ns then Inr (map char_of ns) else Inl NotLatin1)"

section \<open>Tokens read back\<close>

lemma code_point_less: "code_point c < 256"
  unfolding code_point_def by (rule nat_of_char_less_256)

lemma char_of_code_point [simp]: "char_of (code_point c) = c"
  by (simp add: code_point_def)

lemma hex4_digits:
  assumes "n < 65536"
  shows "4096 * (n div 4096 mod 16) + 256 * (n div 256 mod 16) + 16 * (n div 16 mod 16) + n mod 16 = (n::nat)"
proof -
  have "n = 16 * (n div 16) + n mod 16" "n div 16 = 16 * (n div 256) + n div 16 mod 16"
    "n div 256 = 16 * (n div 4096) + n div 256 mod 16"
    using div_mult2_eq [of n 16 16] div_mult2_eq [of n 256 16] by simp_all
  moreover have "n div 4096 < 16" using assms by (simp add: less_mult_imp_div_less)
  moreover have "m = 16 * a + w \<Longrightarrow> a = 16 * b + x \<Longrightarrow> b = 16 * c + y \<Longrightarrow>
      4096 * c + 256 * y + 16 * x + w = m" for m a b c w x y :: nat by simp
  ultimately show ?thesis by (metis mod_less)
qed

lemma hex4_val_str:
  assumes "n < 65536" "hex4_str n = [a, b, c, d]"
  shows "hex4_val a b c d = Some n"
proof -
  have "hex4_val a b c d = Some (4096 * (n div 4096 mod 16) + 256 * (n div 256 mod 16) + 16 * (n div 16 mod 16) + n mod 16)"
    using assms(2) by (auto simp: hex4_str_def hex4_val_def)
  then show ?thesis by (simp only: hex4_digits [OF assms(1)])
qed

lemma scanstring_escape: "scanstring (escape_char c @ t) = prepend c (scanstring t)"
proof -
  obtain h1 h2 h3 h4 where h: "hex4_str (code_point c) = [h1, h2, h3, h4]" by (simp add: hex4_str_def)
  have "hex4_val h1 h2 h3 h4 = Some (code_point c)" using hex4_val_str [OF _ h] code_point_less [of c] by simp
  with h code_point_less [of c] show ?thesis
    by (auto simp: escape_char_def unescape_def)
qed

lemma scanstring_dump: "scanstring (concat (map escape_char s) @ CHR 0x22 # r) = Inr (s, r)"
  by (induction s) (simp_all add: scanstring_escape prepend_def del: scanstring.simps(2), simp)

text \<open>What may follow a number.\<close>

definition stops :: "string \<Rightarrow> bool" where
  "stops r \<longleftrightarrow> r = [] \<or> \<not> dec (hd r) \<and> hd r \<notin> set ''.eE+-''"

lemma takeWhile_stops [simp]: "stops r \<Longrightarrow> takeWhile dec r = []"
  by (cases r) (auto simp: stops_def)

lemma dropWhile_stops [simp]: "stops r \<Longrightarrow> dropWhile dec r = r"
  by (cases r) (auto simp: stops_def)

lemma span_stops [simp]:
  "stops r \<Longrightarrow> takeWhile dec (s @ r) = takeWhile dec s" "stops r \<Longrightarrow> dropWhile dec (s @ r) = dropWhile dec s @ r"
  by (induction s) auto

lemma stops_Cons: "stops (c # r) \<longleftrightarrow> \<not> dec c \<and> c \<notin> set ''.eE+-''"
  by (simp add: stops_def)

lemma int_part_append: "int_part s = Some (i, s') \<Longrightarrow> stops r \<Longrightarrow> int_part (s @ r) = Some (i, s' @ r)"
  using span_stops [of r s] by (auto simp: int_part_def split: list.splits if_splits)

lemma frac_part_stops: "stops r \<Longrightarrow> frac_part r = ([], r)"
  by (cases r) (auto simp: frac_part_def stops_Cons)

lemma frac_part_append: "frac_part s = (f, s') \<Longrightarrow> stops r \<Longrightarrow> frac_part (s @ r) = (f, s' @ r)"
  by (cases s) (auto simp: frac_part_stops, auto simp: frac_part_def split: if_splits)

lemma exp_part_stops: "stops r \<Longrightarrow> exp_part r = ([], r)"
  by (cases r) (auto simp: exp_part_def stops_Cons)

lemma exp_part_append:
  assumes "exp_part s = (e, s')" "stops r"
  shows "exp_part (s @ r) = (e, s' @ r)"
proof (cases s)
  case (Cons a t)
  show ?thesis
  proof (cases t)
    case Nil
    with Cons assms show ?thesis
      by (cases r) (auto simp: exp_part_def stops_Cons Let_def split: if_splits)
  next
    case (Cons b u)
    then show ?thesis using \<open>s = a # t\<close> assms span_stops [OF assms(2), of t]
      by (auto simp: exp_part_def Let_def split: if_splits)
  qed
qed (use assms in \<open>simp add: exp_part_stops, simp add: exp_part_def\<close>)

lemma number_body_append:
  assumes "number_body s = Some (tok, b, s')" "stops r"
  shows "number_body (s @ r) = Some (tok, b, s' @ r)"
proof -
  obtain i s2 where i: "int_part s = Some (i, s2)" using assms(1) by (auto simp: number_body_def split: option.splits)
  obtain f s3 where f: "frac_part s2 = (f, s3)" by (cases "frac_part s2")
  obtain e s4 where e: "exp_part s3 = (e, s4)" by (cases "exp_part s3")
  show ?thesis
    using assms i f e int_part_append [OF i assms(2)] frac_part_append [OF f assms(2)] exp_part_append [OF e assms(2)]
    by (simp add: number_body_def)
qed

lemma number_token_append:
  assumes "number_token s = Some (tok, b, s')" "stops r"
  shows "number_token (s @ r) = Some (tok, b, s' @ r)"
  using assms number_body_append [where r = r]
  by (cases s) (fastforce simp: number_token_def split: if_splits)+

lemma nat_str_head: "\<exists>c s. nat_str n = c # s \<and> dec c \<and> (c = CHR ''0'' \<longrightarrow> n = 0 \<and> s = [])"
proof (induction n rule: nat_str.induct)
  case (1 n)
  show ?case
  proof (cases "n < 10")
    case True
    moreover have "digit_char n = CHR ''0'' \<Longrightarrow> n = 0"
      using digit_char_dec [OF True] by (auto simp: dec_digit_def code_point_def)
    ultimately show ?thesis by (subst nat_str.simps) (auto simp: dec_def digit_char_dec)
  next
    case False
    then obtain c s where "nat_str (n div 10) = c # s" "dec c" "c = CHR ''0'' \<longrightarrow> n div 10 = 0 \<and> s = []" using 1 by blast
    with False show ?thesis by (subst nat_str.simps) auto
  qed
qed

lemma number_body_nat: "number_body (nat_str n) = Some (nat_str n, False, [])"
proof -
  obtain c s where c: "nat_str n = c # s" "dec c" "c = CHR ''0'' \<longrightarrow> n = 0 \<and> s = []" using nat_str_head by blast
  have "takeWhile dec (nat_str n) = nat_str n" "dropWhile dec (nat_str n) = []"
    using nat_str_dec [of n] by (auto simp: list_all_iff dec_def takeWhile_eq_all_conv)
  then have "int_part (nat_str n) = Some (nat_str n, [])" using c by (auto simp: int_part_def)
  then show ?thesis by (simp add: number_body_def frac_part_def exp_part_def)
qed

lemma number_token_int: "number_token (int_str i) = Some (int_str i, False, [])"
proof (cases "i < 0")
  case False
  obtain c s where c: "nat_str (nat i) = c # s" "dec c" using nat_str_head by blast
  then have "c \<noteq> CHR ''-''" by (auto simp: dec_def dec_digit_def code_point_def)
  with False c(1) number_body_nat [of "nat i"] show ?thesis by (simp add: number_token_def int_str_def)
qed (simp add: number_token_def int_str_def number_body_nat)


lemma dec_code_point: "dec c \<longleftrightarrow> 48 \<le> code_point c \<and> code_point c \<le> 57"
  by (auto simp: dec_def dec_digit_def Let_def)

lemma int_10_str:
  assumes "\<not> too_many_digits (int_str i)"
  shows "int_10 (int_str i) = Inr i"
proof -
  have ns: "\<not> is_space c" if "c \<in> set (int_str i)" for c
    using that nat_str_dec [of "nat i"] nat_str_dec [of "nat (- i)"]
    by (auto simp: int_str_def list_all_iff is_space_def code_point_def dec_digit_def Let_def split: if_splits)
  obtain c s where c: "nat_str (nat \<bar>i\<bar>) = c # s" "dec c" using nat_str_head by blast
  then have "c \<noteq> CHR ''_''" "c \<noteq> CHR ''-''" "c \<noteq> CHR ''+''" by (auto simp: dec_code_point code_point_def)
  moreover have "\<not> too_many_digits (nat_str (nat \<bar>i\<bar>))"
    using assms by (auto simp: int_str_def too_many_digits_def dec_digit_def code_point_def abs_if split: if_splits)
  moreover have st: "py_strip (int_str i) = int_str i" by (intro py_strip_none ballI ns)
  moreover have "int_str i = (if i < 0 then CHR ''-'' # c # s else c # s)"
    using c(1) by (auto simp: int_str_def abs_if split: if_splits)
  ultimately show ?thesis
    using c(1) dec_scan_nat_str [of "nat \<bar>i\<bar>"]
    by (cases "i < 0") (simp_all add: int_10_def startswith_def Let_def del: dec_scan.simps)
qed

section \<open>Values read back\<close>

text \<open>
  What the round trip asks of a value: the keys of an object are distinct, and \<open>repr\<close> of a finite float is a number with a
  fraction or an exponent that \<open>float\<close> reads back.
\<close>

definition float_text :: "pyrt \<Rightarrow> pyfloat \<Rightarrow> bool" where
  "float_text R f \<longleftrightarrow> (let t = repr_json R (JFloat f) in
     number_token t = Some (t, True, []) \<and> float_of_str R t = Inr f \<and> is_ascii t)"

fun clean :: "pyrt \<Rightarrow> json \<Rightarrow> bool" where
  "clean R (JFloat (Fin x)) = float_text R (Fin x)"
| "clean R (JArr xs) = list_all (clean R) xs"
| "clean R (JObj d) = (distinct (map fst d) \<and> list_all (\<lambda>p. clean R (snd p)) d)"
| "clean R v = True"

lemma number_token_head:
  assumes "number_token s = Some x"
  shows "\<exists>c t. s = c # t \<and> (dec c \<or> c = CHR ''-'' \<and> (\<exists>b u. t = b # u \<and> dec b))"
proof -
  have body: "\<exists>c t. s = c # t \<and> dec c" if "number_body s \<noteq> None" for s
  proof -
    from that have "int_part s \<noteq> None" by (cases "int_part s") (simp_all add: number_body_def)
    then show ?thesis by (cases s) (auto simp: int_part_def dec_code_point code_point_def split: if_splits)
  qed
  show ?thesis
  proof (cases s)
    case (Cons c t)
    with assms body [of t] body [of s] show ?thesis by (cases "c = CHR ''-''") (auto simp: number_token_def)
  qed (use assms in \<open>simp add: number_token_def\<close>)
qed

lemma scan_atom_number:
  assumes "number_token s = Some (s, b, [])" "stops r"
  shows "scan_atom R (s @ r) = (if b then (case float_of_str R s of Inl e \<Rightarrow> Inl NumberError | Inr f \<Rightarrow> Inr (JFloat f, r))
     else (case int_10 s of Inl e \<Rightarrow> Inl NumberError | Inr i \<Rightarrow> Inr (JInt i, r)))"
proof -
  have "List.find (\<lambda>w. prefix (fst w) (s @ r)) words = None"
    using number_token_head [OF assms(1)] by (auto simp: words_def find_None_iff dec_code_point code_point_def)
  then show ?thesis using number_token_append [OF assms] by (simp add: scan_atom_def scan_number_def)
qed

lemma scan_once_number:
  assumes "number_token s = Some y"
  shows "scan_once R (Suc n) room (s @ r) = scan_atom R (s @ r)"
  using number_token_head [OF assms] by (auto simp: dec_code_point code_point_def)

lemma scan_once_float:
  assumes "clean R (JFloat f)" "stops r"
  shows "scan_once R (Suc n) room (dump_float R f @ r) = Inr (JFloat f, r)"
proof (cases f)
  case (Fin x)
  with assms(1) have "number_token (repr_json R (JFloat f)) = Some (repr_json R (JFloat f), True, [])"
    "float_of_str R (repr_json R (JFloat f)) = Inr f" by (auto simp: float_text_def Let_def)
  with Fin scan_once_number [OF this(1)] scan_atom_number [OF this(1) assms(2), of R] show ?thesis by simp
qed (simp_all add: scan_atom_def words_def)

lemma scan_once_int:
  assumes "ints_short (JInt i)" "stops r"
  shows "scan_once R (Suc n) room (int_str i @ r) = Inr (JInt i, r)"
  using scan_once_number [OF number_token_int] scan_atom_number [OF number_token_int assms(2)] int_10_str assms(1) by simp

lemma dump_head:
  assumes "clean R v"
  shows "\<exists>c s. dump R v = c # s \<and> \<not> is_json_space c \<and> c \<noteq> CHR '']''"
proof -
  have n: "\<exists>c t. s = c # t \<and> \<not> is_json_space c \<and> c \<noteq> CHR '']''" if "number_token s = Some y" for s y
    using number_token_head [OF that] by (auto simp: is_json_space_def dec_code_point code_point_def)
  show ?thesis
  proof (cases v)
    case (JFloat f)
    with assms n show ?thesis by (cases f) (auto simp: is_json_space_def float_text_def Let_def)
  qed (use n number_token_int in \<open>auto simp: is_json_space_def dump_str_def\<close>)
qed


lemma skip_dump: "clean R v \<Longrightarrow> skip_space (dump R v @ r) = dump R v @ r"
  using dump_head by fastforce

lemma skip_here [simp]: "\<not> is_json_space c \<Longrightarrow> skip_space (c # s) = c # s"
  by simp

lemma json_marks [simp]:
  "is_json_space (CHR '' '')" "\<not> is_json_space (CHR '','')" "\<not> is_json_space (CHR '']'')" "\<not> is_json_space (CHR ''}'')"
  "\<not> is_json_space (CHR '':'')" "\<not> is_json_space (CHR 0x22)"
  "stops (CHR '','' # s)" "stops (CHR '']'' # s)" "stops (CHR ''}'' # s)" "stops []"
  by (simp_all add: is_json_space_def stops_def dec_code_point code_point_def)

definition reads_back :: "pyrt \<Rightarrow> nat \<Rightarrow> json \<Rightarrow> bool" where
  "reads_back R room v \<longleftrightarrow> (\<forall>n r. length (dump R v) \<le> n \<longrightarrow> stops r \<longrightarrow> scan_once R n room (dump R v @ r) = Inr (v, r))"

lemma reads_backI:
  assumes "\<And>m r. stops r \<Longrightarrow> scan_once R (Suc m) room (dump R v @ r) = Inr (v, r)" "dump R v \<noteq> []"
  shows "reads_back R room v"
proof (unfold reads_back_def, intro allI impI)
  fix n r assume "length (dump R v) \<le> n" "stops r"
  then show "scan_once R n room (dump R v @ r) = Inr (v, r)" using assms by (cases n) auto
qed

lemma scan_items_dump:
  assumes "xs \<noteq> []" "list_all (clean R) xs" "list_all (reads_back R room) xs" "length (commas (map (dump R) xs)) < n"
  shows "scan_items R n room (commas (map (dump R) xs) @ CHR '']'' # r) = Inr (xs, r)"
  using assms
proof (induction xs arbitrary: n)
  case (Cons x xs)
  obtain m where n: "n = Suc m" using Cons.prems(4) by (cases n) auto
  show ?case
  proof (cases xs)
    case Nil
    with Cons.prems n show ?thesis by (simp add: reads_back_def)
  next
    case (Cons y ys)
    let ?t = "commas (map (dump R) xs) @ CHR '']'' # r"
    have "skip_space ?t = ?t" using skip_dump [of R y] Cons Cons.prems(2) by (cases ys) simp_all
    moreover have "scan_once R m room (dump R x @ CHR '','' # CHR '' '' # ?t) = Inr (x, CHR '','' # CHR '' '' # ?t)"
      using Cons.prems Cons n by (auto simp: reads_back_def)
    moreover have "scan_items R m room ?t = Inr (xs, r)" using Cons.IH Cons.prems Cons n by simp
    ultimately show ?thesis using Cons n by simp
  qed
qed simp

abbreviation dump_pair :: "pyrt \<Rightarrow> string \<times> json \<Rightarrow> string" where
  "dump_pair R p \<equiv> dump_str (fst p) @ '': '' @ dump R (snd p)"

lemma update_new: "k \<notin> fst ` set acc \<Longrightarrow> AList.update k v acc = acc @ [(k, v)]"
  by (induction acc) auto

lemma scan_pairs_dump:
  assumes "d \<noteq> []" "list_all (\<lambda>p. clean R (snd p)) d" "list_all (\<lambda>p. reads_back R room (snd p)) d"
    and "distinct (map fst (acc @ d))" "length (commas (map (dump_pair R) d)) < n"
  shows "scan_pairs R n room acc (commas (map (dump_pair R) d) @ CHR ''}'' # r) = Inr (acc @ d, r)"
  using assms
proof (induction d arbitrary: n acc)
  case (Cons p d)
  obtain m where n: "n = Suc m" using Cons.prems(5) by (cases n) auto
  obtain k v where p: "p = (k, v)" by (cases p)
  have k: "AList.update k v acc = acc @ [(k, v)]" using Cons.prems(4) p by (intro update_new) auto
  have c: "clean R v" and b: "reads_back R room v" using Cons.prems p by auto
  show ?case
  proof (cases d)
    case Nil
    with Cons.prems n p k c b show ?thesis
      by (simp add: dump_str_def scanstring_dump skip_dump reads_back_def del: scanstring.simps)
  next
    case (Cons q e)
    let ?t = "commas (map (dump_pair R) d) @ CHR ''}'' # r"
    have skip: "skip_space ?t = ?t" using Cons by (cases e) (simp_all add: dump_str_def)
    have one: "scan_once R m room (dump R v @ CHR '','' # CHR '' '' # ?t) = Inr (v, CHR '','' # CHR '' '' # ?t)"
      using Cons.prems(5) Cons n p b by (auto simp: reads_back_def)
    have rest: "scan_pairs R m room (acc @ [(k, v)]) ?t = Inr ((acc @ [(k, v)]) @ d, r)"
      using Cons.prems Cons n p by (intro Cons.IH) auto
    have "commas (map (dump_pair R) (p # d)) @ CHR ''}'' # r =
        CHR 0x22 # concat (map escape_char k) @ CHR 0x22 # CHR '':'' # CHR '' '' # dump R v @ CHR '','' # CHR '' '' # ?t"
      using Cons p by (simp add: dump_str_def)
    then show ?thesis
      using k c one rest skip n p by (simp add: scanstring_dump skip_dump del: scanstring.simps)
  qed
qed simp

lemma scan_dump: "clean R v \<Longrightarrow> nested room v \<Longrightarrow> ints_short v \<Longrightarrow> reads_back R room v"
proof (induction v arbitrary: room)
  case (JStr s)
  show ?case by (rule reads_backI) (simp_all add: dump_str_def scanstring_dump del: scanstring.simps)
next
  case (JInt i)
  show ?case
    using dump_head [OF JInt.prems(1)] scan_once_int [OF JInt.prems(3)]
    by (intro reads_backI) (auto simp del: scan_once.simps)
next
  case (JFloat f)
  show ?case
    using dump_head [OF JFloat.prems(1)] scan_once_float [OF JFloat.prems(1)]
    by (intro reads_backI) (auto simp del: scan_once.simps)
next
  case (JArr xs)
  show ?case
  proof (unfold reads_back_def, intro allI impI)
    fix n r assume len: "length (dump R (JArr xs)) \<le> n"
    then obtain m where n: "n = Suc m" by (cases n) auto
    have all: "list_all (clean R) xs" "list_all (reads_back R (room - 1)) xs" "0 < room"
      using JArr by (auto simp: list_all_iff)
    show "scan_once R n room (dump R (JArr xs) @ r) = Inr (JArr xs, r)"
    proof (cases xs)
      case (Cons x ys)
      have "\<exists>c t. commas (map (dump R) xs) @ CHR '']'' # r = c # t \<and> \<not> is_json_space c \<and> c \<noteq> CHR '']''"
        using dump_head [of R x] Cons all(1) by (cases ys) auto
      then obtain c t where t: "commas (map (dump R) xs) @ CHR '']'' # r = c # t" "\<not> is_json_space c" "c \<noteq> CHR '']''" by blast
      have "scan_items R m (room - 1) (c # t) = Inr (xs, r)"
        using scan_items_dump [OF _ all(1,2), of m r] len n Cons t(1) by simp
      then show ?thesis using all(3) t n by simp
    qed (use all(3) n in simp)
  qed
next
  case (JObj d)
  show ?case
  proof (unfold reads_back_def, intro allI impI)
    fix n r assume len: "length (dump R (JObj d)) \<le> n"
    then obtain m where n: "n = Suc m" by (cases n) auto
    have "reads_back R (room - 1) (snd p)" if "p \<in> set d" for p
    proof -
      have "clean R (snd p)" "nested (room - 1) (snd p)" "ints_short (snd p)"
        using JObj.prems that by (auto simp: list_all_iff)
      then show ?thesis using JObj.IH [OF that] by (cases p) simp
    qed
    then have all: "list_all (\<lambda>p. clean R (snd p)) d" "list_all (\<lambda>p. reads_back R (room - 1) (snd p)) d" "0 < room"
      "distinct (map fst d)"
      using JObj.prems by (auto simp: list_all_iff)
    show "scan_once R n room (dump R (JObj d) @ r) = Inr (JObj d, r)"
    proof (cases d)
      case (Cons p e)
      obtain t where t: "commas (map (dump_pair R) d) @ CHR ''}'' # r = CHR 0x22 # t"
        using Cons by (cases e) (simp_all add: dump_str_def)
      have "scan_pairs R m (room - 1) [] (CHR 0x22 # t) = Inr (d, r)"
        using scan_pairs_dump [OF _ all(1,2), of "[]" m r] all(4) len n Cons t by simp
      then show ?thesis using all(3) t n by simp
    qed (use all(3) n in simp)
  qed
next
  case (JBool b)
  show ?case by (cases b; rule reads_backI) (simp_all add: scan_atom_def words_def)
qed (auto simp: scan_atom_def words_def intro!: reads_backI)

text \<open>What \<open>json.dumps\<close> prints \<open>json.loads\<close> reads back.\<close>

lemma loads_dumps:
  assumes "clean R v" "dumps R room v = Inr t"
  shows "loads R room t = Inr v"
proof -
  have t: "t = dump R v" and rb: "reads_back R room v" using assms scan_dump by (auto simp: dumps_def split: if_splits)
  have "scan_once R (2 * Suc (length t)) room (t @ []) = Inr (v, [])"
    using rb [unfolded reads_back_def, rule_format, of "2 * Suc (length t)" "[]"] by (simp add: t del: scan_once.simps)
  then show ?thesis using skip_dump [OF assms(1), of "[]"] by (simp add: loads_def t del: scan_once.simps)
qed

section \<open>Enough fuel\<close>

text \<open>A scanner consumes its token, so that the length of the text bounds the number of calls.\<close>

definition consumes :: "string \<Rightarrow> 'a scan \<Rightarrow> bool" where
  "consumes s x \<longleftrightarrow> (case x of Inl e \<Rightarrow> e \<noteq> OutOfFuel | Inr (v, r) \<Rightarrow> length r < length s)"

lemma consumes_simps [simp]:
  "consumes s (Inl e) \<longleftrightarrow> e \<noteq> OutOfFuel" "consumes s (Inr (v, r)) \<longleftrightarrow> length r < length s"
  by (simp_all add: consumes_def)

lemma consumes_map [simp]: "consumes s (map_sum id (map_prod f id) x) = consumes s x"
  by (auto simp: consumes_def split: sum.split)

lemma consumes_shorter: "consumes t x \<Longrightarrow> length t \<le> length s \<Longrightarrow> consumes s x"
  by (auto simp: consumes_def split: sum.split)

lemma skip_length: "length (skip_space s) \<le> length s"
  by (rule length_dropWhile_le)

lemma consumes_prepend: "consumes t x \<Longrightarrow> length t \<le> length s \<Longrightarrow> consumes s (prepend c x)"
  by (cases x) (auto simp: prepend_def)

lemma scanstring_consumes: "consumes s (scanstring s)"
proof (induction s rule: scanstring.induct)
  case (2 c s)
  consider "c = CHR 0x22" | "c = CHR 0x5C" | "c \<noteq> CHR 0x22" "c \<noteq> CHR 0x5C" by blast
  then show ?case
  proof cases
    case 2
    show ?thesis
    proof (cases s)
      case (Cons e t)
      show ?thesis
      proof (cases "e = CHR ''u''")
        case True
        consider "t = []" | a where "t = [a]" | a b where "t = [a, b]" | a b c where "t = [a, b, c]"
          | a b c d r where "t = a # b # c # d # r"
          by (cases t; cases "tl t"; cases "tl (tl t)"; cases "tl (tl (tl t))") auto
        then show ?thesis
        proof cases
          case (5 h1 h2 h3 h4 r)
          have "consumes r (scanstring r)" if "hex4_val h1 h2 h3 h4 = Some n" "\<not> 255 < n" for n
            using "2.IH"(1) [OF _ \<open>c = CHR 0x5C\<close> Cons True 5 refl refl refl that] \<open>c = CHR 0x5C\<close> by simp
          then show ?thesis using \<open>c = CHR 0x5C\<close> Cons True 5
            by (auto intro!: consumes_prepend [of r] split: option.split)
        qed (use \<open>c = CHR 0x5C\<close> Cons True in simp_all)
      next
        case False
        show ?thesis using "2.IH"(2) \<open>c = CHR 0x5C\<close> Cons False
          by (auto intro!: consumes_prepend split: option.split)
      qed
    qed (use \<open>c = CHR 0x5C\<close> in simp)
  qed (use 2 in \<open>auto intro!: consumes_prepend\<close>)
qed simp


lemma number_body_consumes:
  assumes "number_body s = Some (tok, b, r)"
  shows "length r < length s"
proof -
  obtain i s2 where i: "int_part s = Some (i, s2)" using assms by (cases "int_part s") (auto simp: number_body_def)
  obtain f s3 where f: "frac_part s2 = (f, s3)" by (cases "frac_part s2")
  obtain e where e: "exp_part s3 = (e, r)" using assms i f by (cases "exp_part s3") (simp add: number_body_def)
  have "length s2 < length s"
    using i by (cases s) (auto simp: int_part_def dec_code_point code_point_def le_imp_less_Suc length_dropWhile_le split: if_splits)
  moreover have "length s3 \<le> length s2"
    using f by (cases s2) (auto simp: frac_part_def le_SucI length_dropWhile_le split: if_splits)
  moreover have "length r \<le> length s3"
  proof (cases s3)
    case (Cons a t)
    have "length (dropWhile dec (drop k t)) \<le> Suc (length t)" for k
      using length_dropWhile_le [of dec "drop k t"] by simp
    then show ?thesis using e Cons by (auto simp: exp_part_def Let_def split: if_splits)
  qed (use e in \<open>simp add: exp_part_def\<close>)
  ultimately show ?thesis by simp
qed

lemma scan_atom_consumes: "consumes s (scan_atom R s)"
proof (cases "List.find (\<lambda>w. prefix (fst w) s) words")
  case None
  have "length r < length s" if "number_token s = Some (tok, b, r)" for tok b r
    using that number_body_consumes
    by (cases s) (fastforce simp: number_token_def split: if_splits)+
  with None show ?thesis
    by (cases "number_token s") (auto simp: scan_atom_def scan_number_def split: sum.split)
next
  case (Some w)
  then have "w \<in> set words" "prefix (fst w) s" by (auto simp: find_Some_iff)
  then have "fst w \<noteq> []" "s \<noteq> []" by (auto simp: words_def)
  with Some show ?thesis by (simp add: scan_atom_def)
qed


lemma scan_once_step:
  assumes items: "\<And>t m. length t < length s \<Longrightarrow> 2 * length t + 1 < m \<Longrightarrow> consumes t (scan_items R m (room - 1) t)"
    and pairs: "\<And>t m. length t < length s \<Longrightarrow> 2 * length t + 1 < m \<Longrightarrow> consumes t (scan_pairs R m (room - 1) [] t)"
    and n: "2 * length s < n"
  shows "consumes s (scan_once R n room s)"
proof (cases s)
  case (Cons c r)
  obtain m where m: "n = Suc m" using n by (cases n) auto
  have r: "consumes s (scanstring r)" using consumes_shorter [OF scanstring_consumes [of r]] Cons by simp
  have len: "length (skip_space r) < length s" using skip_length [of r] Cons by simp
  have i: "consumes s (scan_items R m (room - 1) (skip_space r))" "consumes s (scan_pairs R m (room - 1) [] (skip_space r))"
    using consumes_shorter [OF items [OF len]] consumes_shorter [OF pairs [OF len]] len n m by auto
  have "length q < length s" if "skip_space r = b # q" for b q using len that by simp
  with r i Cons m scan_atom_consumes [of s R] show ?thesis
    by (auto split: list.split)
qed (use n in \<open>cases n; simp\<close>)

lemma scan_items_step:
  assumes once: "\<And>m. 2 * length s < m \<Longrightarrow> consumes s (scan_once R m room s)"
    and items: "\<And>t m. length t < length s \<Longrightarrow> 2 * length t + 1 < m \<Longrightarrow> consumes t (scan_items R m room t)"
    and n: "2 * length s + 1 < n"
  shows "consumes s (scan_items R n room s)"
proof -
  obtain m where m: "n = Suc m" using n by (cases n) auto
  have c: "consumes s (scan_once R m room s)" using once n m by simp
  show ?thesis
  proof (cases "scan_once R m room s")
    case (Inr x)
    obtain v r where x: "x = (v, r)" by (cases x)
    have r: "length r < length s" using c Inr x by simp
    show ?thesis
    proof (cases "skip_space r")
      case (Cons b q)
      have q: "length q < length s" using skip_length [of r] r Cons by simp
      have "consumes (skip_space q) (scan_items R m room (skip_space q))"
        using items [of "skip_space q" m] skip_length [of q] q n m by simp
      then have "consumes s (scan_items R m room (skip_space q))" using skip_length [of q] q by (elim consumes_shorter) simp
      then show ?thesis using Inr x m Cons q by simp
    qed (use Inr x m in \<open>simp del: dropWhile_eq_Nil_conv\<close>)
  qed (use c m in simp)
qed

lemma scan_pairs_step:
  assumes once: "\<And>t m. length t < length s \<Longrightarrow> 2 * length t < m \<Longrightarrow> consumes t (scan_once R m room t)"
    and pairs: "\<And>t m acc. length t < length s \<Longrightarrow> 2 * length t + 1 < m \<Longrightarrow> consumes t (scan_pairs R m room acc t)"
    and n: "2 * length s + 1 < n"
  shows "consumes s (scan_pairs R n room acc s)"
proof (cases s)
  case (Cons c r)
  obtain m where m: "n = Suc m" using n by (cases n) auto
  show ?thesis
  proof (cases "scanstring r")
    case (Inl e)
    then show ?thesis using scanstring_consumes [of r] Cons m by simp
  next
    case (Inr x)
    obtain k r1 where x: "x = (k, r1)" by (cases x)
    have r1: "length r1 < length s" using scanstring_consumes [of r] Inr x Cons by simp
    show ?thesis
    proof (cases "skip_space r1")
      case Nil
      then show ?thesis using Cons Inr x m by (simp del: dropWhile_eq_Nil_conv)
    next
      case c2: (Cons a r2)
      let ?t = "skip_space r2"
      have t: "length ?t < length s" using skip_length [of r1] skip_length [of r2] r1 c2 by simp
      have o: "consumes ?t (scan_once R m room ?t)" using once [OF t] t n m by simp
      show ?thesis
      proof (cases "scan_once R m room ?t")
        case (Inl e)
        then show ?thesis using o Cons \<open>scanstring r = Inr x\<close> x c2 m by simp
      next
        case v: (Inr y)
        obtain v r3 where y: "y = (v, r3)" by (cases y)
        have r3: "length r3 < length s" using o v y t by simp
        show ?thesis
        proof (cases "skip_space r3")
          case Nil
          then show ?thesis using Cons Inr x c2 v y m by (simp del: dropWhile_eq_Nil_conv)
        next
          case c3: (Cons b q)
          have q: "length q < length s" using skip_length [of r3] r3 c3 by simp
          have "consumes (skip_space q) (scan_pairs R m room (AList.update k v acc) (skip_space q))"
            using pairs [of "skip_space q" m] skip_length [of q] q n m by simp
          then have "consumes s (scan_pairs R m room (AList.update k v acc) (skip_space q))"
            using skip_length [of q] q by (elim consumes_shorter) simp
          then show ?thesis using Cons Inr x c2 v y c3 q m by (cases "c = CHR 0x22") simp_all
        qed
      qed
    qed
  qed
qed (use n in \<open>cases n; simp\<close>)

lemma scan_consumes:
  "(\<forall>n room. 2 * length s < n \<longrightarrow> consumes s (scan_once R n room s)) \<and>
   (\<forall>n room. 2 * length s + 1 < n \<longrightarrow> consumes s (scan_items R n room s)) \<and>
   (\<forall>n room acc. 2 * length s + 1 < n \<longrightarrow> consumes s (scan_pairs R n room acc s))"
proof (induction "length s" arbitrary: s rule: less_induct)
  case less
  have once: "consumes s (scan_once R n room s)" if "2 * length s < n" for n room
    using that less by (intro scan_once_step) auto
  then show ?case using less scan_items_step [of s R] scan_pairs_step [of s R] by blast
qed

lemma loads_fuel: "loads R room s \<noteq> Inl OutOfFuel"
proof -
  have "consumes (skip_space s) (scan_once R (2 * Suc (length s)) room (skip_space s))"
    using scan_consumes [of "skip_space s" R] skip_length [of s] by (auto simp del: scan_once.simps)
  then show ?thesis
    by (auto simp: loads_def consumes_def simp del: scan_once.simps split: sum.splits if_splits)
qed

section \<open>Text read back\<close>

lemma utf8_char_decode: "utf8_decode (utf8_char c @ bs) = point (code_point c) (utf8_decode bs)"
proof (cases "code_point c < 128")
  case False
  let ?n = "code_point c"
  have n: "?n < 256" by (rule code_point_less)
  have "?n div 64 = 2 \<or> ?n div 64 = 3" using False n by linarith
  moreover have "continues (128 + ?n mod 64)" by (simp add: continues_def)
  moreover have "?n div 64 * 64 + ?n mod 64 = ?n" by simp
  moreover have "utf8_char c = [192 + ?n div 64, 128 + ?n mod 64]" using False by (simp add: utf8_char_def Let_def)
  ultimately show ?thesis by (elim disjE) simp_all
qed (simp add: utf8_char_def Let_def)

lemma utf8_encode_decode: "utf8_decode (utf8_encode s) = Some (map code_point s)"
  by (induction s) (simp_all add: utf8_encode_def utf8_char_decode point_def del: utf8_decode.simps(2))

lemma decode_encoded: "decode_text (utf8_encode s) = Inr s"
  by (simp add: decode_text_def utf8_encode_decode list_all_iff code_point_less comp_def)

end
