(* ===== verification/Wire.thy ===== *)
theory Wire
  imports Entrypoints PyJson
begin

text \<open>
  MQTT payloads as bytes: what \<open>publish_node_topic\<close> and the device make of a value, and what \<open>_parse_payload\<close> of
  \<open>app/mqtt/router.py\<close> and the loop of \<open>scripts/fake_node.py\<close> make of the bytes.  \<open>R\<close> is what CPython prints and
  parses of floats, \<open>room\<close> its recursion limit.  Strings of the model have characters up to U+00FF.  Text with others
  is \<open>NotLatin1\<close>, which is no error of the program: it marks payloads of which the model says nothing, and what is
  stated of errors leaves it out.
\<close>

section \<open>Encoding and decoding\<close>

definition encode_payload :: "pyrt \<Rightarrow> nat \<Rightarrow> json \<Rightarrow> json_error + bytes" where
  "encode_payload R room v = map_sum id utf8_encode (dumps R room v)"

definition decode_payload :: "pyrt \<Rightarrow> nat \<Rightarrow> bytes \<Rightarrow> json_error + json" where
  "decode_payload R room bs = (case decode_text bs of Inl e \<Rightarrow> Inl e | Inr t \<Rightarrow> loads R room t)"

text \<open>The value, or nothing when \<open>json.loads(payload.decode())\<close> raises (or the text is beyond the model).\<close>

definition payload_of :: "pyrt \<Rightarrow> nat \<Rightarrow> bytes \<Rightarrow> json option" where
  "payload_of R room bs = (case decode_payload R room bs of Inl e \<Rightarrow> None | Inr v \<Rightarrow> Some v)"

text \<open>\<open>_parse_payload\<close>: text that is no JSON is \<open>None\<close>; other exceptions leave it.\<close>

definition parse_payload :: "pyrt \<Rightarrow> nat \<Rightarrow> bytes \<Rightarrow> json_error + json option" where
  "parse_payload R room bs =
     (case decode_payload R room bs of
        Inr v \<Rightarrow> Inr (Some v)
      | Inl UnicodeDecodeError \<Rightarrow> Inr None
      | Inl JSONDecodeError \<Rightarrow> Inr None
      | Inl e \<Rightarrow> Inl e)"

definition dispatch_message ::
  "pyrt \<Rightarrow> nat \<Rightarrow> (nat \<Rightarrow> datetime) \<Rightarrow> uuid \<Rightarrow> string \<Rightarrow> bytes \<Rightarrow> db \<Rightarrow> (json_error + unit) \<times> db" where
  "dispatch_message R room clk mid topic bs d =
     (case split_topic topic of
        None \<Rightarrow> (Inr (), d)
      | Some _ \<Rightarrow>
          (case parse_payload R room bs of
             Inl e \<Rightarrow> (Inl e, d)
           | Inr payload \<Rightarrow> (Inr (), snd (dispatch R clk mid topic payload d))))"

definition publish_bytes :: "pyrt \<Rightarrow> nat \<Rightarrow> string \<Rightarrow> string \<Rightarrow> json \<Rightarrow> json_error + string \<times> bytes" where
  "publish_bytes R room node_id suff payload =
     map_sum id (Pair (fst (publish_node_topic node_id suff payload)))
       (encode_payload R room (snd (publish_node_topic node_id suff payload)))"

section \<open>The device\<close>

primrec encode_all :: "pyrt \<Rightarrow> nat \<Rightarrow> message list \<Rightarrow> json_error + (string \<times> bytes) list" where
  "encode_all R room [] = Inr []"
| "encode_all R room (m # ms) =
     (case encode_payload R room (snd m) of
        Inl e \<Rightarrow> Inl e
      | Inr bs \<Rightarrow> map_sum id (Cons (fst m, bs)) (encode_all R room ms))"

definition on_bytes ::
  "pyrt \<Rightarrow> nat \<Rightarrow> (json \<Rightarrow> bool) \<Rightarrow> int \<Rightarrow> string \<Rightarrow> string \<Rightarrow> bytes \<Rightarrow> device_state \<Rightarrow>
     pyexc + (json_error + (string \<times> bytes) list) \<times> device_state" where
  "on_bytes R room download now node_id topic bs st =
     map_sum id (map_prod (encode_all R room) id)
       (on_message download now node_id topic (payload_of R room bs) st)"

definition ingest_bytes :: "pyrt \<Rightarrow> nat \<Rightarrow> (nat \<Rightarrow> datetime) \<Rightarrow> uuid \<Rightarrow> string \<times> bytes \<Rightarrow> db \<Rightarrow> db" where
  "ingest_bytes R room clk mid m d = snd (dispatch_message R room clk mid (fst m) (snd m) d)"

section \<open>Codecs\<close>

text \<open>What a sender and a receiver rely on: the values the sender may send come out of the receiver as they were.\<close>

locale codec =
  fixes enc :: "'a \<Rightarrow> 'e + 'b" and dec :: "'b \<Rightarrow> 'e + 'a" and sound :: "'a \<Rightarrow> bool"
  assumes dec_enc: "sound v \<Longrightarrow> enc v = Inr b \<Longrightarrow> dec b = Inr v"
begin

lemma unambiguous: "sound v \<Longrightarrow> sound w \<Longrightarrow> enc v = Inr b \<Longrightarrow> enc w = Inr b \<Longrightarrow> v = w"
  by (metis dec_enc sum.inject(2))

end

locale layered = outer: codec enc dec sound
  for enc :: "'a \<Rightarrow> 'e + 'b" and dec :: "'b \<Rightarrow> 'e + 'a" and sound :: "'a \<Rightarrow> bool" +
  fixes wrap :: "'b \<Rightarrow> 'c" and unwrap :: "'c \<Rightarrow> 'e + 'b"
  assumes unwrap_wrap: "unwrap (wrap b) = Inr b"
begin

lemma through: "sound v \<Longrightarrow> map_sum id wrap (enc v) = Inr c \<Longrightarrow>
    (case unwrap c of Inl e \<Rightarrow> Inl e | Inr b \<Rightarrow> dec b) = Inr v"
  by (cases "enc v") (auto simp: unwrap_wrap dest: outer.dec_enc)

end

sublocale layered \<subseteq> composed: codec "\<lambda>v. map_sum id wrap (enc v)" "\<lambda>c. case unwrap c of Inl e \<Rightarrow> Inl e | Inr b \<Rightarrow> dec b" sound
  by unfold_locales (rule through)

interpretation json_text: codec "dumps R room" "loads R room" "clean R"
  by unfold_locales (rule loads_dumps)

interpretation json_bytes: layered "dumps R room" "loads R room" "clean R" utf8_encode decode_text
  by unfold_locales (rule decode_encoded)

lemma decode_encoded_payload:
  assumes "clean R v" "encode_payload R room v = Inr bs"
  shows "decode_payload R room bs = Inr v"
  using json_bytes.through assms unfolding encode_payload_def decode_payload_def by blast

lemma dispatch_encoded:
  assumes "clean R v" "encode_payload R room v = Inr bs"
  shows "dispatch_message R room clk mid topic bs d = (Inr (), snd (dispatch R clk mid topic (Some v) d))"
  using decode_encoded_payload [OF assms]
  by (simp add: dispatch_message_def parse_payload_def dispatch_def split: option.split)

text \<open>The store becomes that of a message whose payload is the decoded value, or nothing.\<close>

lemma dispatch_bytes:
  assumes "decode_payload R room bs \<noteq> Inl NotLatin1"
  shows "snd (dispatch_message R room clk mid topic bs d) = snd (dispatch R clk mid topic (payload_of R room bs) d)"
proof (cases "decode_payload R room bs")
  case (Inl e)
  then show ?thesis
    using assms by (cases e) (auto simp: dispatch_message_def parse_payload_def payload_of_def dispatch_def split: option.split)
qed (auto simp: dispatch_message_def parse_payload_def payload_of_def dispatch_def split: option.split)

text \<open>
  C9: payloads survive the wire.  The bytes that \<open>json.dumps(v).encode()\<close> gives are read back as the same value, so the router
  does with them what it does with the value.  Bytes for which \<open>json.loads(payload.decode())\<close> raises (they are no
  UTF-8, no JSON, too deeply nested, or hold a number that \<open>int\<close> or \<open>float\<close> refuses) are found out without end of fuel and change nothing; text
  with characters that the model does not have is left out.
\<close>

theorem payload_roundtrip:
  assumes "clean R v" "encode_payload R room v = Inr bs"
  shows "parse_payload R room bs = Inr (Some v) \<and>
    dispatch_message R room clk mid topic bs d = (Inr (), snd (dispatch R clk mid topic (Some v) d)) \<and>
    (\<forall>junk e. decode_payload R room junk = Inl e \<and> e \<noteq> NotLatin1 \<longrightarrow>
       e \<noteq> OutOfFuel \<and> snd (dispatch_message R room clk mid topic junk d) = d)"
proof -
  have "e \<noteq> OutOfFuel \<and> snd (dispatch_message R room clk mid topic junk d) = d"
    if "decode_payload R room junk = Inl e" "e \<noteq> NotLatin1" for junk e
    using that loads_fuel dispatch_bytes [of R room junk clk mid topic d]
    by (auto simp: decode_payload_def decode_text_def payload_of_def dispatch_def split: sum.splits option.splits if_splits)
  moreover have "parse_payload R room bs = Inr (Some v)" using decode_encoded_payload [OF assms] by (simp add: parse_payload_def)
  ultimately show ?thesis using dispatch_encoded [OF assms] by blast
qed

text \<open>The text of the witness has an escaped quote and a letter beyond ASCII.\<close>

definition spoken :: json where
  "spoken = JObj [(''Light'', JObj [(''power'', JBool True), (''label'', JStr [CHR 0x22, CHR 0xE9]), (''level'', JInt (- 5))])]"

theorem payload_roundtrip_witness:
  "parse_payload sample_rt 1000 (utf8_encode (dump sample_rt spoken)) = Inr (Some spoken) \<and>
    dispatch_message sample_rt 1000 (\<lambda>i. 0) 1 (node_topic ''n1'' ''params/local'') (utf8_encode (dump sample_rt spoken)) bulb_db =
      (Inr (), snd (dispatch sample_rt (\<lambda>i. 0) 1 (node_topic ''n1'' ''params/local'') (Some spoken) bulb_db)) \<and>
    snd (dispatch_message sample_rt 1000 (\<lambda>i. 0) 1 (node_topic ''n1'' ''params/local'') [123, 255] bulb_db) = bulb_db"
proof -
  have "nested 1000 spoken" "ints_short spoken" "clean sample_rt spoken"
    by (simp_all add: spoken_def too_many_digits_def int_str_def nat_str.simps)
  then have "clean sample_rt spoken" "encode_payload sample_rt 1000 spoken = Inr (utf8_encode (dump sample_rt spoken))"
    by (simp_all add: encode_payload_def dumps_def)
  note round = payload_roundtrip [OF this, of "\<lambda>i. 0" 1 "node_topic ''n1'' ''params/local''" bulb_db]
  have "decode_payload sample_rt 1000 [123, 255] = Inl UnicodeDecodeError"
    by (simp add: decode_payload_def decode_text_def point_def)
  with round show ?thesis by fastforce
qed

section \<open>What a device can send\<close>

definition sendable :: "pyrt \<Rightarrow> nat \<Rightarrow> json \<Rightarrow> bool" where
  "sendable R room v \<longleftrightarrow> clean R v \<and> nested room v \<and> ints_short v"

lemma encode_sendable: "sendable R room v \<Longrightarrow> encode_payload R room v = Inr (utf8_encode (dump R v))"
  by (simp add: encode_payload_def dumps_def sendable_def)

lemma sendable_clean: "sendable R room v \<Longrightarrow> clean R v"
  by (simp add: sendable_def)

lemma sendable_JObj:
  "sendable R room (JObj d) \<longleftrightarrow> distinct (map fst d) \<and> 0 < room \<and> (\<forall>p \<in> set d. sendable R (room - 1) (snd p))"
  by (auto simp: sendable_def list_all_iff)

lemma sendable_update:
  "sendable R room (JObj d) \<Longrightarrow> sendable R (room - 1) v \<Longrightarrow> sendable R room (JObj (AList.update k v d))"
  by (auto simp: sendable_JObj distinct_update dest!: update_in_set)

lemma sendable_dict_update:
  "sendable R room (JObj d) \<Longrightarrow> \<forall>p \<in> set e. sendable R (room - 1) (snd p) \<Longrightarrow> sendable R room (JObj (dict_update d e))"
  by (induction e arbitrary: d) (simp_all add: sendable_update)

lemma set_device_sendable:
  assumes "sendable R room (JObj (state_dict st))" "sendable R (room - 1) (snd q)"
  shows "sendable R room (JObj (state_dict (set_device st q)))"
proof (cases "snd q")
  case (JObj ps)
  let ?old = "case map_of st (fst q) of None \<Rightarrow> [] | Some old \<Rightarrow> old"
  have "sendable R (room - 1) (JObj ?old)"
  proof (cases "map_of st (fst q)")
    case None
    then show ?thesis using assms(2) JObj by (simp add: sendable_JObj)
  next
    case (Some old)
    from map_of_SomeD [OF this] assms(1) Some show ?thesis by (auto simp: sendable_JObj state_dict_def)
  qed
  moreover have "\<forall>p \<in> set ps. sendable R (room - 1 - 1) (snd p)" using assms(2) JObj by (simp add: sendable_JObj)
  ultimately have "sendable R (room - 1) (JObj (dict_update ?old ps))" by (rule sendable_dict_update)
  from sendable_update [OF assms(1) this, of "fst q"] show ?thesis by (simp add: set_device_def JObj state_dict_update)
qed (use assms in \<open>auto simp: set_device_def\<close>)

lemma apply_remote_sendable:
  assumes "sendable R room (JObj (state_dict st))" "\<forall>p \<in> set ps. sendable R (room - 1) (snd p)"
  shows "sendable R room (JObj (state_dict (apply_remote st ps)))"
  using assms unfolding apply_remote_def by (induction ps arbitrary: st) (auto simp: set_device_sendable)

section \<open>A parameter write as bytes\<close>

text \<open>
  C8: a parameter write reaches the device and comes back, as bytes.  When a user with access to a node PUTs
  parameters, the bytes that the API publishes are decoded by the device, which sets exactly these
  parameters; the bytes of its echo are decoded and ingested, and a GET by any user with access then returns the
  new values of the parameters that were written and the device's old ones of all others: exactly these values when
  the write changes anything of the shadow, and otherwise values that Python takes for equal (\<open>==\<close>) to them.
\<close>

theorem params_over_wire:
  assumes nid: "CHR ''/'' \<notin> set nid" "nid \<noteq> []" and I: "in_step nid (st, d)" and s0: "shadow_of nid d = Some sh0"
    and put: "get_current_user (w_libs W) (w_settings W) (w_clk W 0) (rq_authorization rq) d = Inr u"
      "query rq ''node_id'' = Some nid" "json_object rq = Some payload" "may_access (usr_id u) nid d"
    and read: "get_current_user (w_libs W') (w_settings W') (w_clk W' 0) (rq_authorization rq') d = Inr u'"
      "query rq' ''node_id'' = Some nid" "may_access (usr_id u') nid d"
    and pl: "params_ok payload" "storables payload"
    and wire: "sendable R room (JObj payload)" "sendable R room (JObj (state_dict st))"
  shows "\<exists>resp v topic bs echo st' d' sh.
    put_user_node_params W rq d = (Inr (resp, publish_node_topic nid ''params/remote'' v), d) \<and>
    publish_bytes R room nid ''params/remote'' v = Inr (topic, bs) \<and>
    on_bytes R room dl now nid topic bs st = Inr (Inr echo, st') \<and>
    fold (ingest_bytes R room clk mid) echo d = d' \<and>
    get_user_node_params W' rq' d' = (Inr sh, d') \<and>
    (\<forall>dev p. rel_option py_eq
       (case param_of payload dev p of Some x \<Rightarrow> Some x | None \<Rightarrow> param_of (state_dict st) dev p) (param_of sh dev p)) \<and>
    (changes payload sh0 \<longrightarrow> (\<forall>dev p. param_of sh dev p =
       (case param_of payload dev p of Some x \<Rightarrow> Some x | None \<Rightarrow> param_of (state_dict st) dev p)))"
proof -
  obtain resp topic v out st' d' sh where run: "put_user_node_params W rq d = (Inr (resp, topic, v), d)"
      "on_message dl now nid topic (Some v) st = Inr (out, st')" "fold (ingest R clk mid) out d = d'"
      "get_user_node_params W' rq' d' = (Inr sh, d')"
    and sh: "\<forall>dev p. rel_option py_eq
       (case param_of payload dev p of Some x \<Rightarrow> Some x | None \<Rightarrow> param_of (state_dict st) dev p) (param_of sh dev p)"
      "changes payload sh0 \<longrightarrow> (\<forall>dev p. param_of sh dev p =
       (case param_of payload dev p of Some x \<Rightarrow> Some x | None \<Rightarrow> param_of (state_dict st) dev p))"
    using params_write_roundtrip [where R = R and clk = clk and mid = mid and dl = dl and now = now, OF nid I s0 put read pl] by blast
  have ok: "db_ok d" using I by (simp add: in_step_def)
  have v: "v = JObj payload" "topic = node_topic nid ''params/remote''"
    using run(1) put ok by (auto simp: put_user_node_params_def with_user_def node_access.guarded publish_node_topic_def)
  let ?st = "apply_remote st payload"
  have out: "st' = ?st" "out = [(node_topic nid ''params/local'', JObj (state_dict ?st))]"
    using run(2) by (auto simp: on_message_def v endswith_remote Let_def)
  let ?bs = "utf8_encode (dump R v)" and ?es = "utf8_encode (dump R (JObj (state_dict ?st)))"
  have ok2: "sendable R room v" "sendable R room (JObj (state_dict ?st))"
    using wire apply_remote_sendable [OF wire(2), of payload] by (auto simp: v sendable_JObj [of R room payload])
  note sent = this [THEN encode_sendable] and clean = this [THEN sendable_clean]
  have "on_bytes R room dl now nid topic ?bs st = Inr (Inr [(node_topic nid ''params/local'', ?es)], st')"
    using run(2) out sent decode_encoded_payload [OF clean(1) sent(1)] by (simp add: on_bytes_def payload_of_def)
  moreover have "fold (ingest_bytes R room clk mid) [(node_topic nid ''params/local'', ?es)] d = d'"
    using run(3) out(2) dispatch_encoded [OF clean(2) sent(2)] by (simp add: ingest_bytes_def ingest_def)
  moreover have "publish_bytes R room nid ''params/remote'' v = Inr (topic, ?bs)"
    using sent(1) v by (simp add: publish_bytes_def publish_node_topic_def)
  moreover have "put_user_node_params W rq d = (Inr (resp, publish_node_topic nid ''params/remote'' v), d)"
    using run(1) v by (simp add: publish_node_topic_def)
  ultimately show ?thesis using run(4) sh by blast
qed

theorem params_over_wire_witness:
  "\<exists>resp v topic bs echo st' d' sh.
    put_user_node_params sample_world (app_request [(''node_id'', ''n1'')] light_on) bulb_db =
      (Inr (resp, publish_node_topic ''n1'' ''params/remote'' v), bulb_db) \<and>
    publish_bytes sample_rt 1000 ''n1'' ''params/remote'' v = Inr (topic, bs) \<and>
    on_bytes sample_rt 1000 (\<lambda>_. True) 0 ''n1'' topic bs initial_state = Inr (Inr echo, st') \<and>
    fold (ingest_bytes sample_rt 1000 (\<lambda>i. 0) 1) echo bulb_db = d' \<and>
    get_user_node_params sample_world (app_request [(''node_id'', ''n1'')] []) d' = (Inr sh, d') \<and>
    (\<forall>dev p. param_of sh dev p =
       (case param_of light_on dev p of Some x \<Rightarrow> Some x | None \<Rightarrow> param_of (state_dict initial_state) dev p))"
proof -
  have changed: "changes light_on (state_dict initial_state)"
    unfolding changes_def
    by (intro exI [of _ "''Light''"] exI [of _ "''power''"])
      (simp add: light_on_def initial_state_def state_dict_def param_of_def)
  have base: "CHR ''/'' \<notin> set ''n1''" "''n1'' \<noteq> []" "in_step ''n1'' (initial_state, bulb_db)"
    "shadow_of ''n1'' bulb_db = Some (state_dict initial_state)"
    using bulb_in_step by (simp_all add: bulb_db_def shadow_of_def select_def)
  have "query (app_request [(''node_id'', ''n1'')] body) ''node_id'' = Some ''n1''" "json_object (app_request q body) = Some body"
    "may_access (usr_id member) ''n1'' bulb_db" for q body
    by (simp_all add: query_def app_request_def json_object_def may_access_def is_mapped_def bulb_db_def member_def User_def)
  note req = bulb_login this
  have pl: "params_ok light_on" "storables light_on" by (simp_all add: light_on_def params_ok_def dict_ok_def)
  have "sendable sample_rt 1000 (JObj light_on)" "sendable sample_rt 1000 (JObj (state_dict initial_state))"
    by (simp_all add: sendable_def light_on_def initial_state_def state_dict_def too_many_digits_def int_str_def
        nat_str.simps digit_char_def)
  from params_over_wire [where rq' = "app_request [(''node_id'', ''n1'')] []", OF base req(1,2,3,4) req(1,2,4) pl this,
      of "\<lambda>_. True" 0 "\<lambda>i. 0" 1] changed show ?thesis by blast
qed

end
