(* ===== verification/Spec2Isabelle.thy ===== *)
theory Spec2Isabelle
  imports Policy WellTyped GenPki Constraints Races AccountFlow Wire
begin

text \<open>
  A verification development for esp-rainmaker-server, a self-hosted backend for ESP RainMaker devices.

  \<^bold>\<open>The program.\<close>  Phones talk to a FastAPI application (\<open>src/app/main.py\<close>, the routes under
  \<open>src/app/api\<close>), devices to the same application with a client certificate and to an MQTT broker.  The
  broker asks a webhook application (\<open>entrypoints/vmq_authz.py\<close>) before it lets a client connect, publish or
  subscribe; the messages of the devices reach the ingestor (\<open>entrypoints/mqtt_ingestor.py\<close>), which hands them to
  \<open>mqtt/router.py\<close>.  Routes and message handlers call the services under \<open>src/app/services\<close>, which work on one
  PostgreSQL database (\<open>src/app/models\<close>, \<open>src/alembic\<close>).  \<open>scripts/gen_pki.py\<close> makes the certificate authority and
  \<open>scripts/fake_node.py\<close> is a device.

  \<^bold>\<open>The model.\<close>  A state is a \<open>db\<close> record: one list of rows for each table, in the order of their insertion.  A
  service is a function of what it draws from outside (the readings of the clock \<open>clk i\<close> in their order, random
  tokens, new UUIDs), of its arguments and of the \<open>db\<close>; it returns a \<open>result\<close>, which is \<open>Inl\<close> of the
  \<open>RainmakerError\<close>, of FastAPI's validation error or of the Python exception that leaves it, or \<open>Inr\<close> of its value, and the
  database that is committed.  A route is a \<open>handler\<close>: a function of the \<open>world\<close> (settings, draws, libraries), the request
  and the \<open>db\<close>.  The theories, in the order of the code:

  \<^item> \<open>Prelude\<close>, \<open>Json\<close>, \<open>PyJson\<close>, \<open>PyUuid\<close>, \<open>PyBase64\<close>, \<open>PyNum\<close>: what is used of Python (strings, dictionaries,
    \<open>json.dumps\<close>, \<open>json.loads\<close>, UTF-8, \<open>uuid\<close>, \<open>base64\<close>, \<open>int\<close>, \<open>datetime.fromtimestamp\<close>), with the
    generic lemmas and the collections of rewrite rules.
  \<^item> \<open>Errors\<close>, \<open>Config\<close>, \<open>Security\<close>: \<open>app/core\<close>.
  \<^item> \<open>Models\<close>, \<open>Tables\<close>, \<open>Schema\<close>: the rows, SQLAlchemy's queries on tables, the unique constraints, column bounds,
    foreign keys and cascades, and the invariant \<open>db_ok\<close>.  The locale \<open>unique_index\<close> gives the lemmas on looking rows up by a
    key, and is interpreted for every key that a service uses.
  \<^item> \<open>Migrations\<close>, \<open>Constraints\<close>: the migrations and the declarative classes as data, running the former, comparing
    both, and comparing the migrated schema with \<open>db_ok\<close>.
  \<^item> \<open>Auth\<close>, \<open>Access\<close>, \<open>NodeMapping\<close>, \<open>Sharing\<close>, \<open>NodeGroups\<close>, \<open>Claim\<close>, \<open>NodeSvc\<close>, \<open>Tsdata\<close>, \<open>VmqAuthz\<close>, \<open>Ota\<close>,
    \<open>Automations\<close>, \<open>Email\<close>: one theory for each service (\<open>Ota\<close> with \<open>storage.py\<close>); \<open>Pki\<close> is \<open>app/pki/ca.py\<close> and \<open>GenPki\<close> the
    script that prepares it; \<open>MqttRouter\<close> is \<open>app/mqtt\<close>.
  \<^item> \<open>Deps\<close>, \<open>Http\<close>, \<open>RoutesAccount\<close>, \<open>RoutesNode\<close>, \<open>RoutesDevice\<close>, \<open>RouteTable\<close>: the dependencies, the schemas of bodies and
    answers, every route, and the table that \<open>serve\<close> looks a method and a path up in.
  \<^item> \<open>FakeNode\<close>, \<open>Entrypoints\<close>: the device and the processes around the services, run against the routes and the
    router; \<open>Wire\<close>: the payloads between them as bytes.
  \<^item> \<open>System\<close>: \<open>step\<close>, one HTTP request, one message that the broker lets through, or one provisioning of a key,
    and \<open>steps\<close>, a run.  \<open>Frames\<close> says which handlers leave rights alone; \<open>Policy\<close> is the abstract
    specification of who may use which node and the proof that every step implements it; \<open>WellTyped\<close> is what the
    rows hold beyond the schema; \<open>Races\<close> is about requests that overlap; \<open>AccountFlow\<close> follows accounts over HTTP and mail.

  \<^bold>\<open>What is shown.\<close>
  \<^item> Of every run: keys, foreign keys, the forest of groups and that nobody becomes an administrator (\<open>run_invariant\<close>), the states of
    rows (\<open>run_typed\<close>), that a mapping or a share stems from requests of the users concerned (\<open>mapping_traced\<close>,
    \<open>share_traced\<close>), that each step is an act that the policy allows
    (\<open>step_implements_policy\<close>), and that the ingestor's loop makes such runs (\<open>ingestor_runs\<close>).
  \<^item> Of the boundary: which routes need credentials (\<open>credentials_required\<close>), that the data of a node is for its
    users (\<open>node_data_guarded\<close>), what a message of a device can change (\<open>device_confined\<close>, \<open>device_grants\<close>) and
    what a subscription is given (\<open>subscription_confined\<close>), all three for client names without a slash or wildcard, and what becomes of
    them with one (\<open>slash_impersonates\<close>, \<open>wildcard_eavesdrops\<close>); where the code does not keep what one would expect, what it
    does instead (\<open>node_obtainable\<close>, \<open>backend_by_name\<close>).
  \<^item> Of whole flows: signup to login and password reset with the mailed codes, self-claim over HTTP, mapping by secret,
    sharing and revocation, a parameter write to the device and back, byte for byte, ingestion and query, updates
    over the air until none is left, issuing certificates that chain to the generated root.
  \<^item> Of single services: exact effects and refusals, the route table, the bounds of a page.
  \<^item> Of the schema: the migrations run, can be undone, agree with the classes, and demand what \<open>db_ok\<close> says.
  \<^item> Of overlapping requests: reports of different nodes do not disturb each other; for one node, one mapping
    request or one claim challenge, what is lost, refused or given twice, each for a stated order of reads and commits.

  \<^bold>\<open>Contracts.\<close>  What one component relies on in another is a locale, interpreted on the definitions of the model:
  \<open>unique_index\<close> (tables and their keys), \<open>access_policy\<close> (the guard that the routes call), \<open>node_scoped\<close> (what the router relies
  on in each handler), \<open>two_phase\<close> and \<open>keyed_phases\<close> (services that read before they write), \<open>codec\<close> and
  \<open>layered\<close> (what sender and receiver of a payload rely on).

  \<^bold>\<open>Loops.\<close>  The source's loops run over lists and are structural recursion here.  Four are not: the descendants of a group
  are collected with the number of groups as fuel, which bounds the depth of a tree (\<open>Schema\<close>); a device that
  keeps fetching updates is run with the number of its open assignments as fuel, and \<open>updates_end\<close> shows that this is
  enough; the chain of migrations is followed with the number of scripts as fuel; and the JSON
  scanner has twice the length of its text, which \<open>loads_fuel\<close> shows to be enough.  Splitting a string is bounded by its
  length.

  \<^bold>\<open>Parameters and assumptions.\<close>  Code that is not in the repository is a parameter: passlib and PyJWT (\<open>libs\<close>), the
  \<open>cryptography\<close> package and the file system of the authority (\<open>x509_lib\<close>), HMAC (\<open>claim_libs\<close>), what CPython prints and parses of
  floats and unusual values (\<open>pyrt\<close>), the MinIO client, the \<open>time_bucket\<close> query of TimescaleDB (\<open>bucket_query\<close>), the extensions of the
  database server (\<open>installed\<close>), and the broker's matching of topics (\<open>delivers\<close>, with \<open>mqtt_matching\<close> as the standard
  documents it).  Theorems that need their documented behaviour name it as a hypothesis and have a witness.  A string has one
  \<open>char\<close> for a code point, so only Latin-1 text is covered (\<open>NotLatin1\<close> marks the rest); a \<open>datetime\<close> is an unbounded number of microseconds,
  except where \<open>fromtimestamp\<close> checks its range.  An assignment to a JSON column is written when the new value is not
  \<open>==\<close> the loaded one, as SQLAlchemy does (\<open>assigned\<close>, \<open>dict_eq\<close>): a report that turns \<open>True\<close> into \<open>1\<close> and nothing else leaves the
  row; what \<open>jsonb\<close> does to the order of keys and to the spelling of numbers is left out.  Text holds no NUL, which
  PostgreSQL refuses in every parameter.  The bodies of HTTP are JSON values, read and written by the framework; the payloads of
  MQTT are JSON values too, and \<open>Wire\<close> relates them to bytes.  A request, or a message, is one step on the database, except in \<open>Races\<close>.

  \<^bold>\<open>Not modelled.\<close>  Logging and the SQLAlchemy session, which have no effect on the state of the model; the start of
  uvicorn and the worker, which only sleeps; what the CORS middleware and the documentation pages answer, and Starlette's
  redirect of a trailing slash; whether a message that the API publishes gets to the broker, whose failures the code swallows; TLS, of which the common name of the verified certificate is an input; the SMTP
  exchange after a message is built, whose failures the code swallows; Alembic's offline mode; the tests, the
  deployment files and the command lines of the scripts.
\<close>

section \<open>Runs of the whole system\<close>

text \<open>
  C2: what every run keeps.  From a consistent store whose groups form a forest, no sequence of HTTP
  requests, device messages and provisionings, with whatever clocks, random draws and library
  results, breaks a key or a foreign key, closes a cycle of groups, or makes anybody an
  administrator who was not one before.
\<close>

theorem run_invariant:
  assumes "steps d0 es d" "db_ok d0" "rooted (node_groups d0)"
  shows "db_ok d \<and> rooted (node_groups d) \<and> (\<forall>u. holds (IsAdmin u) d \<longrightarrow> holds (IsAdmin u) d0)"
proof -
  have "db_ok d \<and> rooted (node_groups d)"
    using assms
  proof (induction rule: steps.induct)
    case (more d es d1 e d2)
    then show ?case using step_ok step_gain [of e d1 d2] by (auto simp: gains_def)
  qed simp
  then show ?thesis using steps_created [OF assms(1)] justified_IsAdmin by blast
qed

theorem run_invariant_witness:
  "db_ok owned_db \<and> rooted (node_groups owned_db) \<and> \<not> holds (IsAdmin 1) owned_db"
  using run_invariant [OF mapping_run n1_dbs_ok(1)]
  by (simp add: n1_db_def member_db_def member_def User_def empty_db_def)

text \<open>
  C3: nobody owns a node without having asked for it.  If a user is mapped to a node at the end of
  a run and was neither mapped nor asking at its start, then the run has a request, at one of
  the two routes that start a mapping, that was authenticated as this very user and named the node.
\<close>

theorem mapping_traced:
  assumes run: "steps d0 es d" and "is_mapped u n d" "\<not> is_mapped u n d0" "\<not> holds (Asked u n) d0"
  shows "\<exists>es1 W m ps rq es2 d1 v payload. es = es1 @ Request W m ps rq # es2 \<and> steps d0 es1 d1 \<and>
    (m = ''PUT'' \<and> ps = user_nodes_path [''mapping''] \<or> m = ''POST'' \<and> ps = user_nodes_path [''mapping'', ''initiate'']) \<and>
    caller W rq d1 = Inr v \<and> usr_id v = u \<and> json_object rq = Some payload \<and> get payload ''node_id'' = JStr n"
proof -
  obtain es1 e es2 d1 where es: "es = es1 @ e # es2" and s1: "steps d0 es1 d1" and "Mapped u n \<in> justified e d1"
    using steps_created [OF run, of "Mapped u n"] assms(2,3) by auto
  then have "holds (Asked u n) d1" using justified_Mapped by blast
  then obtain fs1 f fs2 d2 where "es1 = fs1 @ f # fs2" "steps d0 fs1 d2" "Asked u n \<in> justified f d2"
    using steps_created [OF s1] assms(4) by blast
  with justified_Asked [OF this(3)] es show ?thesis by fastforce
qed

theorem mapping_traced_witness:
  "\<exists>es1 W m ps rq es2 d1 v payload. [ask_event, proof_event] = es1 @ Request W m ps rq # es2 \<and> steps n1_db es1 d1 \<and>
    (m = ''PUT'' \<and> ps = user_nodes_path [''mapping''] \<or> m = ''POST'' \<and> ps = user_nodes_path [''mapping'', ''initiate'']) \<and>
    caller W rq d1 = Inr v \<and> usr_id v = 1 \<and> json_object rq = Some payload \<and> get payload ''node_id'' = JStr ''n1''"
  by (rule mapping_traced [OF mapping_run])
    (simp_all add: owned_db_def n1_db_def member_db_def empty_db_def is_mapped_def)

text \<open>
  C4: nobody has a share but by an owner's invitation and his own consent.  If a user has a share
  of a node at the end of a run, had none at its start and nobody was invited to the node
  then, the run has a sharing request by a user who was mapped to the node at that moment, and
  after it one that was authenticated as the user with the share.
\<close>

theorem share_traced:
  assumes run: "steps d0 es d" and "is_shared u n d" "\<not> is_shared u n d0" "\<And>name. \<not> holds (Invited name n) d0"
  shows "\<exists>es1 W rq es2 W' rq' es3 d1 d2 v v'.
    es = es1 @ Request W ''PUT'' (user_nodes_path [''sharing'', ''requests'']) rq # es2 @
      Request W' ''PUT'' (user_nodes_path [''sharing'', ''requests'']) rq' # es3 \<and>
    steps d0 es1 d1 \<and> caller W rq d1 = Inr v \<and> is_mapped (usr_id v) n d1 \<and>
    steps d0 (es1 @ Request W ''PUT'' (user_nodes_path [''sharing'', ''requests'']) rq # es2) d2 \<and>
    caller W' rq' d2 = Inr v' \<and> usr_id v' = u"
proof -
  obtain es1 e es2 d1 where es: "es = es1 @ e # es2" and s1: "steps d0 es1 d1" and "Shared u n \<in> justified e d1"
    using steps_created [OF run, of "Shared u n"] assms(2,3) by auto
  then obtain W' rq' v' where e: "e = Request W' ''PUT'' (user_nodes_path [''sharing'', ''requests'']) rq'"
    and v': "caller W' rq' d1 = Inr v'" "usr_id v' = u" and inv: "holds (Invited (usr_user_name v') n) d1"
    using justified_Shared by blast
  obtain fs1 f fs2 d2 where f: "es1 = fs1 @ f # fs2" "steps d0 fs1 d2" and "Invited (usr_user_name v') n \<in> justified f d2"
    using steps_created [OF s1 inv assms(4)] by blast
  then obtain W rq v where "f = Request W ''PUT'' (user_nodes_path [''sharing'', ''requests'']) rq"
    "caller W rq d2 = Inr v" "is_mapped (usr_id v) n d2"
    using justified_Invited by fastforce
  with es e f v' s1 show ?thesis by fastforce
qed

theorem share_traced_witness:
  "\<exists>es1 W rq es2 W' rq' es3 d1 d2 v v'.
    [invite_event, accept_event] = es1 @ Request W ''PUT'' (user_nodes_path [''sharing'', ''requests'']) rq # es2 @
      Request W' ''PUT'' (user_nodes_path [''sharing'', ''requests'']) rq' # es3 \<and>
    steps owned_db es1 d1 \<and> caller W rq d1 = Inr v \<and> is_mapped (usr_id v) ''n1'' d1 \<and>
    steps owned_db (es1 @ Request W ''PUT'' (user_nodes_path [''sharing'', ''requests'']) rq # es2) d2 \<and>
    caller W' rq' d2 = Inr v' \<and> usr_id v' = 1"
  by (rule share_traced [OF sharing_run])
    (simp_all add: shared_db_def owned_db_def n1_db_def member_db_def empty_db_def is_shared_def)

text \<open>
  C15: what a device can give away.  A message that a client other than the backend, with no slash in
  its name, gets past the broker creates no right but mappings of the client's own node to users
  who have a pending request for it.
\<close>

theorem device_grants:
  assumes "step (Publish W client topic payload) d d'" "client \<noteq> mqtt_internal_user (w_settings W)"
    and "CHR ''/'' \<notin> set client" and "holds r d'" "\<not> holds r d"
  shows "\<exists>u. r = Mapped u client \<and> holds (Asked u client) d"
proof -
  from assms(1) have pub: "authorise_publish (w_rt W) (w_settings W) (JStr client) (JStr topic) = Inr allow" by simp
  obtain suff where "topic = node_topic client suff"
    using publish_allowed [OF pub assms(2)] allowed_topic_node by blast
  then have "split_topic topic = Some (n, s) \<Longrightarrow> n = client" for n s
    using split_node_topic [OF assms(3)] publish_allowed [OF pub assms(2)] by (auto split: if_splits)
  moreover have "r \<in> by_message topic d"
    using step_gain [OF assms(1)] assms(4,5) by (auto simp: gains_def)
  ultimately show ?thesis by (auto simp: by_message_def simp del: holds.simps)
qed

theorem device_grants_witness:
  "\<exists>u. Mapped 1 ''n1'' = Mapped u ''n1'' \<and> holds (Asked u ''n1'') secret_db"
  by (rule device_grants [OF secret_step])
    (simp_all add: sample_world_def default_settings_def secret_db_def secret_mapped_db_def n1_db_def member_db_def
      empty_db_def is_mapped_def)

section \<open>The ingestor as part of a run\<close>

definition publications :: "(nat \<Rightarrow> world) \<Rightarrow> (nat \<Rightarrow> string) \<Rightarrow> (string \<times> json option) list \<Rightarrow> event list" where
  "publications W client ms = map (\<lambda>i. Publish (W i) (client i) (fst (ms ! i)) (snd (ms ! i))) [0..<length ms]"

lemma publications_snoc:
  "publications W client (ms @ [m]) = publications W client ms @ [Publish (W (length ms)) (client (length ms)) (fst m) (snd m)]"
  by (simp add: publications_def nth_append)

lemma ingestor_steps:
  assumes "\<And>i. i < length ms \<Longrightarrow> authorise_publish (w_rt (W i)) (w_settings (W i)) (JStr (client i)) (JStr (fst (ms ! i))) = Inr allow"
    and "\<And>i. w_rt (W i) = R \<and> w_clk (W i) = clk i \<and> w_uuid (W i) 0 = ids i"
  shows "steps d (publications W client ms) (ingestor R clk ids 0 ms d)"
  using assms(1)
proof (induction ms rule: rev_induct)
  case Nil
  then show ?case by (simp add: publications_def steps.start)
next
  case (snoc m ms)
  have "steps d (publications W client ms) (ingestor R clk ids 0 ms d)"
    using snoc.prems by (intro snoc.IH) (metis length_append_singleton less_SucI nth_append)
  moreover have "step (Publish (W (length ms)) (client (length ms)) (fst m) (snd m)) (ingestor R clk ids 0 ms d)
      (ingestor R clk ids 0 (ms @ [m]) d)"
    using snoc.prems [of "length ms"] assms(2) by (simp add: ingestor_snoc prod_eq_iff)
  ultimately show ?case unfolding publications_snoc by (rule steps.more)
qed

text \<open>
  C17: the ingestor implements the messages of a run.  However often the broker refuses or loses its connection, the process
  goes on, with a request for a connection as its last act or a subscription on the open one, and the store is one that
  the publications it received, each let through by the webhook, give as a run of the system; so what holds of
  runs holds of it.
\<close>

theorem ingestor_runs:
  fixes evs :: "broker_event list"
  defines "ms \<equiv> received False evs"
  assumes allowed: "\<forall>i < length ms. authorise_publish (w_rt (W i)) (w_settings (W i)) (JStr (client i)) (JStr (fst (ms ! i))) = Inr allow"
    and draws: "\<forall>i. w_rt (W i) = R \<and> w_clk (W i) = clk i \<and> w_uuid (W i) 0 = ids i"
    and s: "run_ingestor R S E hostname clk ids evs d = s"
  shows "steps d (publications W client ms) (in_db s) \<and>
    last (in_done s) = (if in_open s then Subscribe (ingestor_topic E) 1 else Connect (ingestor_client S hostname))"
  using ingestor_steps [of ms W client R clk ids d] run_ingestor_db [of R S E hostname clk ids evs d] allowed draws
    run_ingestor_last [of R S E hostname clk ids evs d]
  unfolding s ms_def by simp

theorem ingestor_runs_witness:
  "steps n1_db [Publish sample_world ''n1'' (node_topic ''n1'' ''params/local'') (Some (JObj light_on))]
    (in_db (run_ingestor sample_rt default_settings Map.empty ''pod'' (\<lambda>i. w_clk sample_world) (\<lambda>i. 100)
      [MqttError, Opened, Incoming (node_topic ''n1'' ''params/local'') (Some (JObj light_on)), MqttError] n1_db))"
proof -
  have one: "publications (\<lambda>i. sample_world) (\<lambda>i. ''n1'') [m] = [Publish sample_world ''n1'' (fst m) (snd m)]" for m
    by (simp add: publications_def)
  have pub: "authorise_publish (w_rt sample_world) (w_settings sample_world) (JStr ''n1'')
      (JStr (node_topic ''n1'' ''params/local'')) = Inr allow"
    by (intro publish_own) (auto simp: allowed_topic_node, simp add: node_topic_def)
  have w: "w_rt sample_world = sample_rt" "w_uuid sample_world 0 = 100" by (simp_all add: sample_world_def)
  let ?evs = "[MqttError, Opened, Incoming (node_topic ''n1'' ''params/local'') (Some (JObj light_on)), MqttError]"
  show ?thesis
    using ingestor_runs [of ?evs "\<lambda>i. sample_world" "\<lambda>i. ''n1''" sample_rt "\<lambda>i. w_clk sample_world" "\<lambda>i. 100"
        default_settings Map.empty "''pod''" n1_db, OF _ _ refl] pub
    by (simp add: one w)
qed

section \<open>Authentication and authorisation over HTTP\<close>

text \<open>The routes of the versioned API, discovery aside, that need no credentials.\<close>

definition open_account_routes :: "(string \<times> seg list) list" where
  "open_account_routes = [(''POST'', [Lit ''v1'', Lit ''login2'']), (''POST'', [Lit ''v1'', Lit ''user2'']),
     (''PUT'', [Lit ''v1'', Lit ''user2'']), (''PUT'', [Lit ''v1'', Lit ''forgotpassword2''])]"

text \<open>
  C13: the API needs credentials.  A request whose \<open>Authorization\<close> header authenticates nobody and
  that carries no certificate of a registered node is refused, with the error of the failed
  authentication, by every route of the versioned API but the two of discovery and those of login,
  signup, confirmation and password reset, and changes nothing.
\<close>

theorem credentials_required:
  assumes "caller W rq d = Inl e" "get_node_from_mtls (rq_client_cn rq) d = Inl e'"
  shows "list_all (\<lambda>(m, t, h). (m, t) \<in> set open_account_routes \<or>
      h W rq d = (Inl e, d) \<or> h W rq d = (Inl e', d))
    (include_router ''v1'' (auth_router @ user_router @ sharing_router @ groups_router @ automations_router @
       tsdata_router @ user_nodes_router @ node_router @ ota_admin_router @ ota_user_router))"
proof -
  have u: "with_user W rq d k = (Inl e, d)" for k :: "user \<Rightarrow> 'a result \<times> db"
    using assms(1) by (simp add: with_user_def caller_def)
  have up: "put_user_node_params W rq d = (Inl e, d)"
    using assms(1) by (simp add: put_user_node_params_def with_user_def caller_def)
  have a: "with_admin W rq d k = (Inl e, d)" for k :: "user \<Rightarrow> dict result \<times> db"
    using assms(1) by (simp add: with_admin_def require_admin_def caller_def)
  have n: "with_node rq d k = (Inl e', d)" for k :: "node \<Rightarrow> dict result \<times> db"
    using assms(2) by (simp add: with_node_def)
  show ?thesis
    by (simp add: include_router_def router_defs open_account_routes_def change_password_route_def logout_route_def
        get_current_user_profile_def delete_current_user_def put_sharing_request_def list_sharing_def revoke_sharing_def
        create_group_route_def list_user_node_groups_def delete_user_node_group_def create_automation_route_def
        list_automations_route_def update_automation_route_def delete_automation_route_def get_tsdata_def
        get_simple_tsdata_def list_user_nodes_def delete_user_node_def get_user_node_config_def get_user_node_status_def
        get_user_node_params_def put_user_node_params_route_def put_user_node_mapping_def get_user_node_mapping_def
        initiate_mapping_def verify_mapping_def get_custom_data_def put_custom_data_def user_ota_status_def
        with_accessible_def put_node_config_def post_node_params_local_def get_node_otafetch_def post_node_otastatus_def
        admin_upload_request_def admin_upload_confirm_def admin_create_otajob_def u up a n)
qed

theorem credentials_required_witness:
  "list_all (\<lambda>(m, t, h). (m, t) \<in> set open_account_routes \<or>
      h sample_world ((app_request [] [])\<lparr>rq_authorization := None\<rparr>) n1_db =
        (Inl (unauthorized ''Authorization header missing''), n1_db) \<or>
      h sample_world ((app_request [] [])\<lparr>rq_authorization := None\<rparr>) n1_db =
        (Inl (unauthorized ''Client certificate required''), n1_db))
    (include_router ''v1'' (auth_router @ user_router @ sharing_router @ groups_router @ automations_router @
       tsdata_router @ user_nodes_router @ node_router @ ota_admin_router @ ota_user_router))"
  by (rule credentials_required)
    (simp_all add: caller_def get_current_user_def extract_token_def str_truthy_def get_node_from_mtls_def app_request_def)

lemma with_accessible_refused:
  assumes "db_ok d" "caller W rq d = Inr u" "query rq ''node_id'' = Some n" "\<not> may_access (usr_id u) n d"
  shows "with_accessible W rq d k = (Inl (forbidden ''Node not mapped to this user''), d)"
  using assms by (simp add: with_accessible_def with_user_def caller_def node_access.guarded)

lemma serve_refused:
  "find_route app_routes m ps = Some (h, []) \<Longrightarrow> \<exists>e. h W (rq\<lparr>rq_path := []\<rparr>) d = (Inl e, d) \<and> P e \<Longrightarrow>
     \<exists>e. serve W m ps rq d = (Answer (Inl e), d) \<and> P e"
  by (auto simp: serve_def)

definition node_data_routes :: "(string \<times> string) list" where
  "node_data_routes = [(''GET'', ''config''), (''GET'', ''status''), (''GET'', ''params''), (''PUT'', ''params''),
     (''GET'', ''tsdata''), (''GET'', ''simple_tsdata''), (''GET'', ''ota_status'')]"

lemma node_data_handlers:
  "map (\<lambda>(m, x). find_route app_routes m (user_nodes_path [x])) node_data_routes =
     map (\<lambda>h. Some (h, [])) [get_user_node_config, get_user_node_status, get_user_node_params,
       put_user_node_params_route, get_tsdata, get_simple_tsdata, user_ota_status]"
  by (simp add: node_data_routes_def user_nodes_path_def app_routes_def api_router_def v1_router_def include_router_def
      router_defs)

text \<open>
  C7: the data of a node is for its users.  In a consistent store, a request by an authenticated user
  who has neither a mapping to the node it names nor a share of it is refused by every route that
  reads or writes the data of one node, with a 403, or a 422 when its other parameters are invalid;
  nothing changes and no message is published.
\<close>

theorem node_data_guarded:
  assumes ok: "db_ok d" and u: "caller W rq d = Inr u" and n: "query rq ''node_id'' = Some n"
    and no: "\<not> may_access (usr_id u) n d"
  shows "list_all (\<lambda>(m, x). \<exists>e. serve W m (user_nodes_path [x]) rq d = (Answer (Inl e), d) \<and>
    http_status_of e \<in> {403, 422}) node_data_routes"
proof -
  let ?no = "\<lambda>h. \<exists>e. h W (rq\<lparr>rq_path := []\<rparr>) d = (Inl e, d) \<and> http_status_of e \<in> {403, 422}"
  have no_access: "require_access (usr_id u) n d = Inl (forbidden ''Node not mapped to this user'')"
    by (rule node_access.guard_refuse [OF ok no])
  note user = with_user_caller [of W "rq\<lparr>rq_path := []\<rparr>" d u]
  have "?no get_user_node_config" "?no get_user_node_status" "?no get_user_node_params" "?no user_ota_status"
    using assms
    by (simp_all add: get_user_node_config_def get_user_node_status_def get_user_node_params_def user_ota_status_def
        with_accessible_refused [of d W "rq\<lparr>rq_path := []\<rparr>" u n] forbidden_def)
  moreover have "?no put_user_node_params_route"
    by (cases "json_object rq")
      (simp_all add: put_user_node_params_route_def put_user_node_params_def user u n no_access forbidden_def)
  moreover have "?no get_tsdata" "?no get_simple_tsdata"
    by (simp_all add: get_tsdata_def get_simple_tsdata_def user u n valid_def read_tsdata_def no_access forbidden_def
        split: option.splits)
  ultimately have "list_all ?no [get_user_node_config, get_user_node_status, get_user_node_params,
       put_user_node_params_route, get_tsdata, get_simple_tsdata, user_ota_status]" by simp
  then show ?thesis
    using node_data_handlers unfolding node_data_routes_def list.map prod.case list.inject list.pred_inject
    by (elim conjE) (intro conjI; (rule serve_refused, assumption, assumption | simp))
qed

theorem node_data_guarded_witness:
  "list_all (\<lambda>(m, x). \<exists>e. serve sample_world m (user_nodes_path [x]) (app_request [(''node_id'', ''n1'')] []) n1_db =
      (Answer (Inl e), n1_db) \<and> http_status_of e \<in> {403, 422}) node_data_routes"
  by (rule node_data_guarded [OF n1_dbs_ok(1) member_login [OF n1_dbs_ok(1)], where n = "''n1''"])
    (simp_all add: n1_db_def member_db_def empty_db_def query_def app_request_def may_access_def is_mapped_def is_shared_def)

text \<open>
  C18: the backend is known by its name.  Whoever presents the user name of the backend to the broker, with
  whatever password and client identifier, is let in by the webhooks and may publish on every topic and
  subscribe to every filter; the ingestor then handles his messages, also those on the topics of any node.
\<close>

theorem backend_by_name:
  assumes body: "json_object rq = Some p" "get p ''username'' = JStr (mqtt_internal_user (w_settings W))"
    and name: "mqtt_internal_user (w_settings W) \<noteq> []"
  shows "serve_from authz_app W ''POST'' [''auth'', ''on_register''] rq d = (Answer (Inr allow), d) \<and>
    serve_from authz_app W ''POST'' [''auth'', ''on_subscribe''] rq d = (Answer (Inr allow), d) \<and>
    (\<forall>topic. get p ''topic'' = JStr topic \<and> topic \<noteq> [] \<longrightarrow>
       serve_from authz_app W ''POST'' [''auth'', ''on_publish''] rq d = (Answer (Inr allow), d) \<and>
       (\<forall>payload. step (Publish W (mqtt_internal_user (w_settings W)) topic payload) d
          (snd (dispatch (w_rt W) (w_clk W) (w_uuid W 0) topic payload d))))"
proof -
  have topic: "get_or (JStr []) p ''topic'' = JStr t" if "get p ''topic'' = JStr t" for t
    using that by (auto simp: get_or_def split: option.split_asm)
  have backend: "is_backend (w_settings W) (JStr (mqtt_internal_user (w_settings W)))" using name by (simp add: is_backend_def)
  show ?thesis
    using body name backend
    by (auto simp: serve_from_def authz_app_def vmq_authz_router_def on_register_def on_subscribe_def on_publish_def
        valid_def authorise_register_def authorise_subscribe_def authorise_publish_def topic prod_eq_iff)
qed

theorem backend_by_name_witness:
  "serve_from authz_app sample_world ''POST'' [''auth'', ''on_register'']
     (app_request [] [(''username'', JStr ''rainmaker-backend''), (''password'', JStr ''guess'')]) empty_db =
       (Answer (Inr allow), empty_db)"
  by (rule backend_by_name [where p = "[(''username'', JStr ''rainmaker-backend''), (''password'', JStr ''guess'')]", THEN conjunct1])
    (simp_all add: app_request_def json_object_def get_or_def sample_world_def default_settings_def)

lemma simple_tsdata_route: "find_route app_routes ''GET'' (user_nodes_path [''simple_tsdata'']) = Some (get_simple_tsdata, [])"
  by (simp add: user_nodes_path_def app_routes_def api_router_def v1_router_def include_router_def router_defs)

text \<open>
  C37: a page of time series data is bounded.  When \<open>GET /user/nodes/simple_tsdata\<close> answers, the user
  may access the node, the answer has at most as many records as were asked for and never more than 200,
  each has a time in the range that was asked for, oldest first, and nothing is changed.
\<close>

theorem tsdata_page:
  assumes ok: "db_ok d" and out: "serve W ''GET'' (user_nodes_path [''simple_tsdata'']) rq d = (Answer (Inr out), d')"
  shows "\<exists>u n since till m records. caller W rq d = Inr u \<and> query rq ''node_id'' = Some n \<and> may_access (usr_id u) n d \<and>
    query_req rq ''start_time'' (w_query_int W) = Some since \<and> query_req rq ''end_time'' (w_query_int W) = Some till \<and>
    num_records W rq = Some m \<and> get out ''records'' = JArr (map JObj records) \<and> int (length records) \<le> m \<and> m \<le> 200 \<and>
    (\<forall>r \<in> set records. since \<le> record_seconds r \<and> record_seconds r \<le> till) \<and> sorted (map record_seconds records) \<and> d' = d"
proof -
  have "get_simple_tsdata W (rq\<lparr>rq_path := []\<rparr>) d = (Inr out, d')"
    using out by (simp add: serve_def simple_tsdata_route split: prod.split_asm)
  then obtain u n param since till m where u: "caller W rq d = Inr u" and n: "query rq ''node_id'' = Some n"
    and q: "query_req rq ''start_time'' (w_query_int W) = Some since" "query_req rq ''end_time'' (w_query_int W) = Some till"
      "num_records W rq = Some m"
    and read: "read_tsdata W u n param since till None None m d = (Inr out, d')"
    by (auto simp: get_simple_tsdata_def with_user_def caller_def valid_def query_req_def num_records_def query_opt_def
        elim!: attempt_InrE split: option.split_asm)
  from read obtain records where acc: "require_access (usr_id u) n d = Inr ()" and d': "d' = d"
    and t: "ts_of (w_rt W) since = Inr (seconds since)" "ts_of (w_rt W) till = Inr (seconds till)"
    and rec: "query_tsdata (w_rt W) (w_buckets W) n param (seconds since) (seconds till) None None m d = Inr records"
    and out: "get out ''records'' = JArr (map JObj records)"
    by (auto simp: read_tsdata_def ts_of_def fromtimestamp_def get_or_def elim!: attempt_InrE split: sum.split_asm raised.split_asm if_split_asm)
  obtain f rows where page: "0 \<le> m" "records = map (\<lambda>r. record_view (ts_ts r) (f r)) rows" "length rows \<le> nat m"
    "\<forall>r \<in> set rows. r \<in> set (tsdata d) \<and> ts_node_id r = n \<and> seconds since \<le> ts_ts r \<and> ts_ts r \<le> seconds till" "sorted (map ts_ts rows)"
    by (rule query_page [OF rec])
  have "since \<le> t div 1000000 \<and> t div 1000000 \<le> till" if "seconds since \<le> t" "t \<le> seconds till" for t
    using zdiv_mono1 [OF that(1), of 1000000] zdiv_mono1 [OF that(2), of 1000000] by simp
  then have "\<forall>r \<in> set records. since \<le> record_seconds r \<and> record_seconds r \<le> till" using page(2,4) by auto
  moreover have "sorted (map record_seconds records)"
    using page(5) by (auto simp: page(2) comp_def sorted_map intro: sorted_wrt_mono_rel [rotated] zdiv_mono1)
  moreover have "may_access (usr_id u) n d" using acc node_access.guard_refuse [OF ok, of "usr_id u" n] by fastforce
  moreover have "m \<le> 200" using q(3) by (auto simp: num_records_def bind_eq_Some_conv split: if_split_asm)
  moreover have "int (length records) \<le> m" using page(1,3) by (simp add: page(2) le_nat_iff)
  ultimately show ?thesis using u n q out d' by blast
qed

text \<open>The owner of \<open>n1\<close> asks for the last of two reports.\<close>

definition metered_db :: db where
  "metered_db = owned_db\<lparr>tsdata := [tsdata_of ''n1'' ''Temp'' ''c'' ''int'' (seconds 20, Some 7, None, None, None),
     tsdata_of ''n1'' ''Temp'' ''c'' ''int'' (seconds 10, Some 5, None, None, None)]\<rparr>"

definition metering_world :: world where
  "metering_world = sample_world\<lparr>w_query_int := (\<lambda>s. if s = ''15'' then Some 15 else if s = ''60'' then Some 60 else None)\<rparr>"

definition metered_query :: request where
  "metered_query = app_request [(''node_id'', ''n1''), (''param'', ''Temp.c''), (''start_time'', ''15''), (''end_time'', ''60'')] []"

lemma metered_answer:
  "serve metering_world ''GET'' (user_nodes_path [''simple_tsdata'']) metered_query metered_db =
     (Answer (Inr [(''node_id'', JStr ''n1''), (''param'', JStr ''Temp.c''), (''records'', JArr [JObj (record_view (seconds 20) (JInt 7))])]), metered_db)"
proof -
  have ok: "db_ok metered_db" using n1_dbs_ok(3) by (simp add: metered_db_def)
  have member: "caller metering_world metered_query metered_db = Inr member"
    using member_login [OF ok, of "[(''node_id'', ''n1''), (''param'', ''Temp.c''), (''start_time'', ''15''), (''end_time'', ''60'')]" "[]"]
    by (simp add: caller_def metering_world_def metered_query_def metered_db_def owned_db_def n1_db_def member_db_def)
  have "may_access (usr_id member) ''n1'' metered_db"
    by (simp add: metered_db_def owned_db_def n1_db_def member_db_def member_def User_def empty_db_def may_access_def is_mapped_def)
  then have acc: "require_access (usr_id member) ''n1'' metered_db = Inr ()"
    by (rule node_access.guard_pass [OF ok])
  have split: "py_split (CHR ''.'') (Suc 0) ''Temp.c'' = [''Temp'', ''c'']" using split_param [of "''Temp''" "''c''"] by simp
  have data: "tsdata metered_db = [tsdata_of ''n1'' ''Temp'' ''c'' ''int'' (seconds 20, Some 7, None, None, None),
     tsdata_of ''n1'' ''Temp'' ''c'' ''int'' (seconds 10, Some 5, None, None, None)]" by (simp add: metered_db_def)
  show ?thesis
    by (simp add: serve_def simple_tsdata_route get_simple_tsdata_def with_user_caller member)
      (simp add: metered_query_def app_request_def valid_def query_def query_req_def num_records_def query_opt_def
        metering_world_def read_tsdata_def acc ts_of_def fromtimestamp_def query_tsdata_def Let_def str_truthy_def
        series_def select_def split data tsdata_of_def value_column_def order_by_asc_def order_by_desc_def column_value_def)
qed

theorem tsdata_page_witness:
  "\<exists>u n since till m records. caller metering_world metered_query metered_db = Inr u \<and> query metered_query ''node_id'' = Some n \<and>
    may_access (usr_id u) n metered_db \<and>
    query_req metered_query ''start_time'' (w_query_int metering_world) = Some since \<and>
    query_req metered_query ''end_time'' (w_query_int metering_world) = Some till \<and>
    num_records metering_world metered_query = Some m \<and>
    get [(''node_id'', JStr ''n1''), (''param'', JStr ''Temp.c''), (''records'', JArr [JObj (record_view (seconds 20) (JInt 7))])] ''records'' =
      JArr (map JObj records) \<and> int (length records) \<le> m \<and> m \<le> 200 \<and>
    (\<forall>r \<in> set records. since \<le> record_seconds r \<and> record_seconds r \<le> till) \<and> sorted (map record_seconds records) \<and>
    metered_db = metered_db"
  using tsdata_page [OF _ metered_answer] n1_dbs_ok(3) by (simp only: metered_db_def db_ok_tsdata)

section \<open>Flows across components\<close>

text \<open>
  C24: any registered node is two requests away.  A logged-in user who starts a mapping of a
  registered node and, within ten minutes, sends the returned challenge back as it came, is
  answered 200 both times and has the node among those he may access, whoever else it is mapped
  to.  The device takes no part in it.
\<close>

theorem node_obtainable:
  assumes ok: "db_ok d" and n: "present nd_node_id (nodes d) n" "fits 64 n" "n \<noteq> []"
    and r1: "caller W1 rq1 d = Inr u" "json_object rq1 = Some pa" "get pa ''node_id'' = JStr n"
    and r2: "caller W2 rq2 d = Inr u" "json_object rq2 = Some pb" "get pb ''request_id'' = JStr (w_token W1 0)"
      "get pb ''challenge_response'' = JStr (w_token W1 1)"
    and tok: "w_token W1 0 \<noteq> []" "w_token W1 1 \<noteq> []" "fits 64 (w_token W1 0)" "fits 256 (w_token W1 1)" "is_ascii (w_token W1 1)"
    and fresh: "\<forall>c \<in> set (mapping_challenges d). mc_id c \<noteq> w_uuid W1 0 \<and> mc_request_id c \<noteq> w_token W1 0"
      "\<forall>m \<in> set (user_node_mappings d). unm_id m \<noteq> w_uuid W2 0"
    and time: "w_clk W2 1 \<le> w_clk W1 1 + minutes 10"
  shows "\<exists>o1 d1 o2 d2.
    serve W1 ''POST'' (user_nodes_path [''mapping'', ''initiate'']) rq1 d = (Answer (Inr o1), d1) \<and>
    serve W2 ''POST'' (user_nodes_path [''mapping'', ''verify'']) rq2 d1 = (Answer (Inr o2), d2) \<and>
    n \<in> set (accessible_node_ids (usr_id u) d2)"
proof -
  have usr: "present usr_id (users d) (usr_id u)"
    using r1(1) get_current_user_in by (fastforce simp: caller_def present_def)
  obtain d1 d2 where i: "initiate_challenge (later W1) (w_uuid W1 0) (w_token W1 0) (w_token W1 1) (usr_id u) n d =
      (Inr [(''request_id'', JStr (w_token W1 0)), (''challenge'', JStr (w_token W1 1))], d1)"
    and v: "verify_challenge (later W2) (w_uuid W2 0) (usr_id u) (w_token W1 0) (JStr (w_token W1 1)) d1 =
      (Inr [(''request_id'', JStr (w_token W1 0)), (''request_status'', JStr ''completed'')], d2)"
    and acc: "db_ok d2" "has_access (usr_id u) n d2 = Inr True"
    using challenge_flow [OF ok usr n(1) fresh tok(3) n(2) tok(4,5), of "later W2" "later W1"] time
    by (auto simp: later_def)
  have "users d1 = users d" using i by (auto simp: initiate_challenge_def insert_challenge_Inr elim!: attempt_InrE)
  from get_current_user_users [OF this] have u2: "caller W2 rq2 d1 = Inr u" using r2(1) by (simp add: caller_def)
  have "initiate_mapping W1 (rq1\<lparr>rq_path := []\<rparr>) d =
      (Inr [(''request_id'', JStr (w_token W1 0)), (''challenge'', JStr (w_token W1 1))], d1)"
    unfolding initiate_mapping_def with_user_caller [of W1 "rq1\<lparr>rq_path := []\<rparr>" d u, unfolded path_irrelevant, OF r1(1)]
    using r1(2,3) n(3) i by simp
  moreover have "verify_mapping W2 (rq2\<lparr>rq_path := []\<rparr>) d1 =
      (Inr [(''request_id'', JStr (w_token W1 0)), (''request_status'', JStr ''completed'')], d2)"
    unfolding verify_mapping_def with_user_caller [of W2 "rq2\<lparr>rq_path := []\<rparr>" d1 u, unfolded path_irrelevant, OF u2]
    using r2(2-4) tok(1,2) v by simp
  ultimately have "serve W1 ''POST'' (user_nodes_path [''mapping'', ''initiate'']) rq1 d =
      (Answer (Inr [(''request_id'', JStr (w_token W1 0)), (''challenge'', JStr (w_token W1 1))]), d1)"
    "serve W2 ''POST'' (user_nodes_path [''mapping'', ''verify'']) rq2 d1 =
      (Answer (Inr [(''request_id'', JStr (w_token W1 0)), (''request_status'', JStr ''completed'')]), d2)"
    by (simp_all add: serve_def mapping_routes)
  moreover have "n \<in> set (accessible_node_ids (usr_id u) d2)"
    using acc by (simp add: has_access_decides accessible_may_access)
  ultimately show ?thesis by blast
qed

theorem node_obtainable_witness:
  "\<exists>o1 d1 o2 d2.
    serve sample_world ''POST'' (user_nodes_path [''mapping'', ''initiate'']) ask_request n1_db = (Answer (Inr o1), d1) \<and>
    serve sample_world ''POST'' (user_nodes_path [''mapping'', ''verify'']) proof_request d1 = (Answer (Inr o2), d2) \<and>
    ''n1'' \<in> set (accessible_node_ids (usr_id member) d2)"
proof (rule node_obtainable [where pa = "[(''node_id'', JStr ''n1'')]" and
    pb = "[(''request_id'', JStr ''t0''), (''challenge_response'', JStr ''t1'')]", OF n1_dbs_ok(1)])
  show "caller sample_world ask_request n1_db = Inr member" "caller sample_world proof_request n1_db = Inr member"
    unfolding ask_request_def proof_request_def
    by (rule member_login [OF n1_dbs_ok(1)], simp add: n1_db_def member_db_def)+
qed (simp_all add: n1_db_def member_db_def empty_db_def present_def Node_def fits_def ask_request_def proof_request_def
    app_request_def json_object_def get_or_def sample_tokens is_ascii_def code_point_def)

lemma secret_mapping_routes:
  "find_route app_routes ''PUT'' (user_nodes_path [''mapping'']) = Some (put_user_node_mapping, [])"
  "find_route app_routes ''GET'' (user_nodes_path [''mapping'']) = Some (get_user_node_mapping, [])"
  by (simp_all add: user_nodes_path_def app_routes_def api_router_def v1_router_def include_router_def router_defs)

text \<open>
  C12: a node is mapped with a secret.  A logged-in user who asks for a node with a secret, and a claimed device of that name
  that publishes the same secret with its own certificate within the hour, get past every check on the way:
  the request is answered, the broker lets the device register and publish, the ingestor completes
  the request, polling it reports so, and the node is among those the user may access.
\<close>

theorem mapping_by_secret:
  assumes ok: "db_ok d" and n: "present nd_node_id (nodes d) n" "CHR ''/'' \<notin> set n" "n \<noteq> []" "fits 64 n"
    and dev: "load_device dir = Inr n" "build_ssl_context dir = Inr (pem, key)"
    and cert: "cert \<in> set (node_certificates d)" "cert_pem cert = pem" "cert_cn cert = n" "\<not> cert_revoked cert"
    and ask: "caller W1 rq1 d = Inr u" "json_object rq1 = Some p" "get p ''node_id'' = JStr n" "get p ''secret_key'' = JStr sk"
      "get_or (JStr ''add'') p ''operation'' = JStr oper" "fits 16 oper"
    and sk: "sk \<noteq> []" "fits 128 sk" "pending_secret sk n d = []"
    and tok: "fits 64 (w_token W1 0)"
    and fresh: "\<forall>c \<in> set (mapping_challenges d). mc_id c \<noteq> w_uuid W1 0 \<and> mc_request_id c \<noteq> w_token W1 0"
      "\<forall>m \<in> set (user_node_mappings d). unm_id m \<noteq> w_uuid W2 0"
    and time: "w_clk W2 0 \<le> w_clk W1 1 + hours 1"
    and poll: "caller W3 rq3 d = Inr u" "query rq3 ''request_id'' = Some (w_token W1 0)"
  shows "\<exists>d1 topic message d2.
    serve W1 ''PUT'' (user_nodes_path [''mapping'']) rq1 d =
      (Answer (Inr [(''status'', JStr ''success''), (''request_id'', JStr (w_token W1 0))]), d1) \<and>
    cmd_publish_mapping dir (str_uuid (usr_id u)) sk = Inr ((pem, key), topic, message) \<and>
    authorise_register (w_settings W2) (JStr (cert_cn cert)) d1 = Inr allow \<and>
    step (Publish W2 (cert_cn cert) topic (Some message)) d1 d2 \<and>
    serve W3 ''GET'' (user_nodes_path [''mapping'']) rq3 d2 =
      (Answer (Inr [(''request_id'', JStr (w_token W1 0)), (''request_status'', JStr ''completed'')]), d2) \<and>
    n \<in> set (accessible_node_ids (usr_id u) d2)"
proof -
  have usr: "present usr_id (users d) (usr_id u)"
    using ask(1) get_current_user_in by (fastforce simp: caller_def present_def)
  let ?c = "(MappingChallenge (w_uuid W1 0) (w_token W1 0) (usr_id u) n oper (w_clk W1 1 + hours 1))\<lparr>mc_secret_key := Some sk\<rparr>"
  let ?d1 = "d\<lparr>mapping_challenges := mapping_challenges d @ [?c]\<rparr>"
  have req: "request_legacy_mapping (later W1) (w_uuid W1 0) (w_token W1 0) (usr_id u) n sk oper d = (Inr (w_token W1 0), ?d1)"
    using usr fresh(1) tok n(4) sk(2) ask(6)
    by (simp add: request_legacy_mapping_def attempt_def insert_challenge_def insert_row_def challenge_cols_def
        challenge_refs_def challenge_clash_def MappingChallenge_def later_def)
  let ?d2 = "snd (dispatch (w_rt W2) (w_clk W2) (w_uuid W2 0) (node_topic n ''user/mapping'') (Some (mapping_message n sk)) ?d1)"
  have two: "has_access (usr_id u) n ?d2 = Inr True" "get_mapping_status (usr_id u) (w_token W1 0) ?d2 =
      Inr [(''request_id'', JStr (w_token W1 0)), (''request_status'', JStr ''completed'')]"
    using legacy_handshake [OF ok n(1-3) sk(1,3) req, of "w_clk W2" "w_uuid W2 0" "w_rt W2"] time fresh(2)
    by (auto simp: later_def)
  have frame: "users ?d2 = users d"
    unfolding dispatch_user_mapping [OF n(2,3) sk(1)]
    by (auto simp: expire_challenge_def complete_challenge_def dest!: ensure_mapping_users split: attempt_splits option.splits)
  have put: "serve W1 ''PUT'' (user_nodes_path [''mapping'']) rq1 d =
      (Answer (Inr [(''status'', JStr ''success''), (''request_id'', JStr (w_token W1 0))]), ?d1)"
    using ask sk(1) n(3) req
    by (simp add: serve_def secret_mapping_routes put_user_node_mapping_def with_user_caller valid_def)
  have reg: "authorise_register (w_settings W2) (JStr (cert_cn cert)) ?d1 = Inr allow"
    using cert n(3) by (intro register_certified) simp_all
  have pub: "authorise_publish (w_rt W2) (w_settings W2) (JStr n) (JStr (node_topic n ''user/mapping'')) = Inr allow"
    using n(3) by (intro publish_own) (auto simp: allowed_topic_node, simp add: node_topic_def)
  have msg: "cmd_publish_mapping dir (str_uuid (usr_id u)) sk = Inr ((pem, key), mapping_body n (str_uuid (usr_id u)) sk)"
    using dev by (simp add: cmd_publish_mapping_def)
  have st: "step (Publish W2 (cert_cn cert) (fst (mapping_body n (str_uuid (usr_id u)) sk))
      (Some (snd (mapping_body n (str_uuid (usr_id u)) sk)))) ?d1 ?d2"
    using pub dispatch_mapping_body [OF n(2,3), of "w_rt W2" "w_clk W2" "w_uuid W2 0" "str_uuid (usr_id u)" sk ?d1]
    by (simp add: cert(3) mapping_body_def prod_eq_iff)
  have get: "serve W3 ''GET'' (user_nodes_path [''mapping'']) rq3 ?d2 =
      (Answer (Inr [(''request_id'', JStr (w_token W1 0)), (''request_status'', JStr ''completed'')]), ?d2)"
    using poll get_current_user_users [OF frame] two(2)
    by (simp add: serve_def secret_mapping_routes get_user_node_mapping_def with_user_def caller_def valid_def)
  have "db_ok ?d1" using request_legacy_mapping_ok [OF ok] req by (metis snd_conv)
  then have "n \<in> set (accessible_node_ids (usr_id u) ?d2)"
    using two(1) has_access_decides [OF dispatch_ok] by (simp add: accessible_may_access)
  then show ?thesis using put msg reg st get
    by (intro exI [of _ ?d1] exI [of _ "fst (mapping_body n (str_uuid (usr_id u)) sk)"]
        exI [of _ "snd (mapping_body n (str_uuid (usr_id u)) sk)"] exI [of _ ?d2]) simp
qed

text \<open>The directory that the device has after a claim.\<close>

definition n1_dir :: device_dir where
  "n1_dir = \<lparr>dd_hmac_key = None, dd_node_pem = Some ''PEM'', dd_node_key = Some ''KEY'',
     dd_metadata = Some (device_metadata ''n1'' ''N1'' ''esp32'' [])\<rparr>"

definition n1_certificate :: node_certificate where
  "n1_certificate = \<lparr>cert_serial = ''5'', cert_node_id = ''n1'', cert_pem = ''PEM'', cert_cn = ''n1'', cert_not_before = 0,
     cert_not_after = 100, cert_revoked = False\<rparr>"

theorem mapping_by_secret_witness:
  "\<exists>d1 topic message d2.
    serve sample_world ''PUT'' (user_nodes_path [''mapping''])
        (app_request [] [(''node_id'', JStr ''n1''), (''secret_key'', JStr ''s3'')]) (n1_db\<lparr>node_certificates := [n1_certificate]\<rparr>) =
      (Answer (Inr [(''status'', JStr ''success''), (''request_id'', JStr (w_token sample_world 0))]), d1) \<and>
    cmd_publish_mapping n1_dir (str_uuid (usr_id member)) ''s3'' = Inr ((''PEM'', ''KEY''), topic, message) \<and>
    authorise_register (w_settings sample_world) (JStr (cert_cn n1_certificate)) d1 = Inr allow \<and>
    step (Publish sample_world (cert_cn n1_certificate) topic (Some message)) d1 d2 \<and>
    serve sample_world ''GET'' (user_nodes_path [''mapping'']) (app_request [(''request_id'', w_token sample_world 0)] []) d2 =
      (Answer (Inr [(''request_id'', JStr (w_token sample_world 0)), (''request_status'', JStr ''completed'')]), d2) \<and>
    ''n1'' \<in> set (accessible_node_ids (usr_id member) d2)"
proof (rule mapping_by_secret [where p = "[(''node_id'', JStr ''n1''), (''secret_key'', JStr ''s3'')]" and oper = "''add''"])
  let ?d = "n1_db\<lparr>node_certificates := [n1_certificate]\<rparr>"
  show ok: "db_ok ?d"
    using n1_dbs_ok(1) by (auto simp: db_ok_def keys_ok_def foreign_ok_def clash_free_def refs_defs)
  show "caller sample_world (app_request [] [(''node_id'', JStr ''n1''), (''secret_key'', JStr ''s3'')]) ?d = Inr member"
    "caller sample_world (app_request [(''request_id'', w_token sample_world 0)] []) ?d = Inr member"
    by (rule member_login [OF ok], simp add: n1_db_def member_db_def)+
qed (simp_all add: n1_db_def member_db_def empty_db_def present_def Node_def fits_def app_request_def json_object_def get_or_def
    sample_tokens pending_secret_def select_def n1_dir_def load_device_def build_ssl_context_def item_def device_metadata_def
    n1_certificate_def query_def sample_world_def nat_str.simps)

text \<open>
  C19: a device may report over HTTPS or over MQTT.  For a node that a client certificate identifies,
  the parameter route (with either method) and the configuration route leave the store exactly as
  the ingestor does with the same object on the node's topic.
\<close>

theorem https_mqtt_agree:
  assumes ok: "db_ok d" and node: "get_node_from_mtls (rq_client_cn rq) d = Inr node" "nd_node_id node = n"
    and n: "CHR ''/'' \<notin> set n" "n \<noteq> []" and body: "json_object rq = Some p"
  shows "snd (serve W ''PUT'' [''v1'', ''node'', ''params'', ''local''] rq d) =
      snd (dispatch R clk mid (node_topic n ''params/local'') (Some (JObj p)) d) \<and>
    snd (serve W ''POST'' [''v1'', ''node'', ''params'', ''local''] rq d) =
      snd (dispatch R clk mid (node_topic n ''params/local'') (Some (JObj p)) d) \<and>
    snd (serve W ''PUT'' [''v1'', ''node'', ''config''] rq d) =
      snd (dispatch R clk mid (node_topic n ''config'') (Some (JObj p)) d)"
proof -
  have "present nd_node_id (nodes d) n" using node by (auto elim!: get_node_from_mtls_Inr simp: present_def)
  then have mqtt: "snd (dispatch R clk mid (node_topic n ''params/local'') (Some (JObj p)) d) = snd (upsert_params_shadow n p d)"
    "snd (dispatch R clk mid (node_topic n ''config'') (Some (JObj p)) d) = snd (upsert_node_config n p d)"
    using dispatch_params [OF n ok] dispatch_config [OF n ok] by simp_all
  have routes: "find_route app_routes ''PUT'' [''v1'', ''node'', ''params'', ''local''] = Some (post_node_params_local, [])"
    "find_route app_routes ''POST'' [''v1'', ''node'', ''params'', ''local''] = Some (post_node_params_local, [])"
    "find_route app_routes ''PUT'' [''v1'', ''node'', ''config''] = Some (put_node_config, [])"
    by (simp_all add: app_routes_def api_router_def v1_router_def include_router_def router_defs)
  show ?thesis
    unfolding mqtt using node body
    by (simp add: serve_def routes split_beta post_node_params_local_def put_node_config_def with_node_def)
qed

definition device_request :: "dict \<Rightarrow> request" where
  "device_request body = \<lparr>rq_authorization = None, rq_client_cn = Some ''n1'', rq_path = [], rq_query = [],
     rq_body = Some (JObj body)\<rparr>"

theorem https_mqtt_agree_witness:
  "snd (serve sample_world ''PUT'' [''v1'', ''node'', ''params'', ''local''] (device_request light_on) certified_db) =
     snd (dispatch sample_rt (\<lambda>i. 0) 1 (node_topic ''n1'' ''params/local'') (Some (JObj light_on)) certified_db)"
  by (rule https_mqtt_agree [where node = "Node ''n1'' 0", THEN conjunct1])
    (simp_all add: device_request_def json_object_def get_node_from_mtls_def str_truthy_def certified_db_def empty_db_def
      select_def Node_def db_ok_def keys_ok_def foreign_ok_def clash_free_def clash_defs refs_defs)

end
